(* ===== verification/Prelude.thy ===== *)
theory Prelude
  imports Main "HOL-Library.Word" "HOL-Library.Sublist"
begin

text \<open>
  The shared base of the development: the theorem collections the components feed, and generic
  lemmas on lists and maps.

  Conventions. A Go \<open>map\<close> that is only looked up and updated is a partial function
  \<open>'k \<rightharpoonup> 'v\<close>. A Go \<open>map\<close> that the code ranges over is an association list with
  distinct keys: its order is the (unspecified) iteration order of that range, so a theorem that holds for every
  list holds for every iteration order. Errors are values of a datatype, returned as
  \<open>error + 'a\<close> or \<open>error option\<close>.
\<close>

named_theorems inv_intros "introduction rules for the invariants of the components"

section \<open>Association lists standing for Go maps\<close>

abbreviation keys :: "('k \<times> 'v) list \<Rightarrow> 'k list" where
  "keys xs \<equiv> map fst xs"

definition al_wf :: "('k \<times> 'v) list \<Rightarrow> bool" where
  "al_wf xs \<longleftrightarrow> distinct (keys xs)"

fun al_update :: "'k \<Rightarrow> 'v \<Rightarrow> ('k \<times> 'v) list \<Rightarrow> ('k \<times> 'v) list" where
  "al_update k v [] = [(k, v)]"
| "al_update k v (p # ps) = (if fst p = k then (k, v) # ps else p # al_update k v ps)"

definition al_delete :: "'k \<Rightarrow> ('k \<times> 'v) list \<Rightarrow> ('k \<times> 'v) list" where
  "al_delete k xs = filter (\<lambda>p. fst p \<noteq> k) xs"

lemma map_of_al_update [simp]: "map_of (al_update k v xs) = (map_of xs)(k \<mapsto> v)"
  by (induction xs) (auto simp: fun_eq_iff)

lemma map_of_al_delete [simp]: "map_of (al_delete k xs) = (map_of xs)(k := None)"
  by (induction xs) (auto simp: al_delete_def fun_eq_iff)

lemma set_keys_al_update [simp]: "set (keys (al_update k v xs)) = insert k (set (keys xs))"
  by (induction xs) auto

lemma set_keys_al_delete [simp]: "set (keys (al_delete k xs)) = set (keys xs) - {k}"
  by (auto simp: al_delete_def)

lemma al_update_member: "(k', v') \<in> set (al_update k v xs) \<Longrightarrow> (k', v') = (k, v) \<or> (k', v') \<in> set xs"
  by (induction xs) (auto split: if_splits)

lemma al_wf_Nil [simp, inv_intros]: "al_wf []"
  by (simp add: al_wf_def)

lemma al_wf_update [simp, inv_intros]: "al_wf xs \<Longrightarrow> al_wf (al_update k v xs)"
proof (induction xs)
  case Nil
  then show ?case by (simp add: al_wf_def)
next
  case (Cons p ps)
  have "fst p \<notin> set (keys (al_update k v ps))" if "fst p \<noteq> k"
    using that Cons.prems by (simp only: set_keys_al_update) (simp add: al_wf_def)
  with Cons show ?case by (auto simp: al_wf_def)
qed

lemma al_wf_delete [simp, inv_intros]: "al_wf xs \<Longrightarrow> al_wf (al_delete k xs)"
  by (induction xs) (auto simp: al_wf_def al_delete_def)

lemma al_wf_filter [simp, inv_intros]: "al_wf xs \<Longrightarrow> al_wf (filter P xs)"
  by (auto simp: al_wf_def distinct_map_filter)

lemma map_of_filter_key: "map_of (filter (\<lambda>p. P (fst p)) xs) k = (if P k then map_of xs k else None)"
  by (induction xs) auto

lemma map_of_map_key:
  "map_of (map (\<lambda>p. (fst p, f (fst p) (snd p))) xs) k = map_option (f k) (map_of xs k)"
  by (induction xs) auto

lemma map_of_Some_keys: "map_of xs k = Some v \<Longrightarrow> k \<in> set (keys xs)"
  by (force dest: map_of_SomeD)

lemma map_of_None_keys: "map_of xs k = None \<longleftrightarrow> k \<notin> set (keys xs)"
  by (auto simp: map_of_eq_None_iff)

section \<open>Folds that collect\<close>

lemma foldl_append_filter_map:
  "foldl (\<lambda>acc x. if P x then acc @ [f x] else acc) ys xs = ys @ map f (filter P xs)"
  by (induction xs arbitrary: ys) auto

lemma fold_insert_set: "fold insert xs A = set xs \<union> A"
  by (induction xs arbitrary: A) auto

lemma sum_list_filter_le:
  fixes f :: "'a \<Rightarrow> nat"
  shows "sum_list (map f (filter P xs)) \<le> sum_list (map f xs)"
  by (induction xs) auto

end
