(* ===== verification/GoLib.thy ===== *)
theory GoLib
  imports Prelude
begin

text \<open>
  The part of the Go language and standard library the components use: 64-bit integers with
  their wrap-around, the byte-string functions of \<open>strings\<close>, the integer conversions of
  \<open>strconv\<close>, and \<open>time.Time\<close>/\<open>time.Duration\<close>.

  Strings are lists of bytes. Case conversion and white space are those of ASCII: bytes from
  128 on are never white space and never change case.
\<close>

section \<open>Integers\<close>

text \<open>Go's \<open>int\<close> is 64 bits wide: an \<open>int\<close> value, with \<open>wrap64\<close> around each operation
  that can overflow. \<open>uint64\<close> is \<open>64 word\<close>.\<close>

type_synonym u64 = "64 word"

definition wrap64 :: "int \<Rightarrow> int" where
  "wrap64 x = signed_take_bit 63 x"

definition in_int64 :: "int \<Rightarrow> bool" where
  "in_int64 x \<longleftrightarrow> - (2 ^ 63) \<le> x \<and> x < 2 ^ 63"

lemma wrap64_id [simp]: "in_int64 x \<Longrightarrow> wrap64 x = x"
  by (simp add: in_int64_def wrap64_def signed_take_bit_int_eq_self)

lemma wrap64_in_int64 [simp]: "in_int64 (wrap64 x)"
  unfolding in_int64_def wrap64_def
  using signed_take_bit_int_greater_eq_minus_exp [of 63 x] signed_take_bit_int_less_exp [of 63 x] by simp

text \<open>Go's \<open>/\<close> on signed integers truncates towards zero.\<close>

definition go_div :: "int \<Rightarrow> int \<Rightarrow> int" where
  "go_div a b = sgn a * sgn b * (\<bar>a\<bar> div \<bar>b\<bar>)"

lemma go_div_nonneg: "0 \<le> a \<Longrightarrow> 0 < b \<Longrightarrow> go_div a b = a div b"
  by (cases "a = 0") (auto simp: go_div_def)

section \<open>Time\<close>

text \<open>
  A \<open>time.Time\<close> is the number of nanoseconds since Go's zero time (1 January of year 1), so the zero
  value is 0. A \<open>time.Duration\<close> is a signed 64-bit number of nanoseconds; \<open>Time.Sub\<close>
  saturates at its bounds (about 292 years), which matters when the zero time is subtracted from the present.
\<close>

type_synonym time = int
type_synonym duration = int

definition zero_time :: time where
  "zero_time = 0"

definition IsZero :: "time \<Rightarrow> bool" where
  "IsZero t \<longleftrightarrow> t = 0"

definition max_duration :: duration where
  "max_duration = 2 ^ 63 - 1"

definition time_Sub :: "time \<Rightarrow> time \<Rightarrow> duration" where
  "time_Sub t u = max (- (2 ^ 63)) (min max_duration (t - u))"

definition second :: duration where "second = 1000000000"
definition hour :: duration where "hour = 3600000000000"

text \<open>\<open>time.Duration(n) * time.Second\<close>: a 64-bit product.\<close>

definition seconds :: "int \<Rightarrow> duration" where
  "seconds n = wrap64 (n * second)"

definition hours :: "int \<Rightarrow> duration" where
  "hours n = wrap64 (n * hour)"

lemma time_Sub_self [simp]: "time_Sub t t = 0"
  by (simp add: time_Sub_def max_duration_def)

lemma time_Sub_eq: "\<bar>t - u\<bar> < 2 ^ 63 \<Longrightarrow> time_Sub t u = t - u"
  by (simp add: time_Sub_def max_duration_def)

lemma time_Sub_mono: "t \<le> t' \<Longrightarrow> time_Sub t u \<le> time_Sub t' u"
  by (simp add: time_Sub_def)

lemma time_Sub_ge_iff:
  "0 \<le> d \<Longrightarrow> d \<le> max_duration \<Longrightarrow> d \<le> time_Sub t u \<longleftrightarrow> d \<le> t - u"
  by (auto simp: time_Sub_def max_duration_def)

lemma seconds_eq: "0 \<le> n \<Longrightarrow> n \<le> 9000000000 \<Longrightarrow> seconds n = n * second"
  by (simp add: seconds_def second_def in_int64_def)

lemma seconds_pos: "1 \<le> n \<Longrightarrow> n \<le> 9000000000 \<Longrightarrow> 0 < seconds n"
  by (simp add: seconds_eq second_def)

section \<open>Package \<open>strings\<close>\<close>

definition is_space :: "char \<Rightarrow> bool" where
  "is_space c \<longleftrightarrow> c \<in> {CHR 0x09, CHR 0x0A, CHR 0x0B, CHR 0x0C, CHR 0x0D, CHR 0x20}"

definition trim_by :: "(char \<Rightarrow> bool) \<Rightarrow> string \<Rightarrow> string" where
  "trim_by P s = rev (dropWhile P (rev (dropWhile P s)))"

definition TrimSpace :: "string \<Rightarrow> string" where
  "TrimSpace s = trim_by is_space s"

definition Trim :: "string \<Rightarrow> string \<Rightarrow> string" where
  "Trim s cutset = trim_by (\<lambda>c. c \<in> set cutset) s"

fun split_by :: "(char \<Rightarrow> bool) \<Rightarrow> string \<Rightarrow> string list" where
  "split_by P [] = [[]]"
| "split_by P (x # xs) =
     (if P x then [] # split_by P xs
      else (case split_by P xs of [] \<Rightarrow> [[x]] | y # ys \<Rightarrow> (x # y) # ys))"

text \<open>\<open>strings.Split\<close> with a one-byte separator, \<open>strings.SplitN(s, sep, 2)\<close>, \<open>strings.Fields\<close>.\<close>

definition Split :: "string \<Rightarrow> char \<Rightarrow> string list" where
  "Split s c = split_by (\<lambda>x. x = c) s"

definition SplitN2 :: "string \<Rightarrow> char \<Rightarrow> string list" where
  "SplitN2 s c =
     (if c \<in> set s then [takeWhile (\<lambda>x. x \<noteq> c) s, tl (dropWhile (\<lambda>x. x \<noteq> c) s)] else [s])"

definition Fields :: "string \<Rightarrow> string list" where
  "Fields s = filter (\<lambda>f. f \<noteq> []) (split_by is_space s)"

fun Join :: "string list \<Rightarrow> string \<Rightarrow> string" where
  "Join [] sep = []"
| "Join [x] sep = x"
| "Join (x # y # ys) sep = x @ sep @ Join (y # ys) sep"

definition HasPrefix :: "string \<Rightarrow> string \<Rightarrow> bool" where
  "HasPrefix s p \<longleftrightarrow> take (length p) s = p"

definition HasSuffix :: "string \<Rightarrow> string \<Rightarrow> bool" where
  "HasSuffix s p \<longleftrightarrow> length p \<le> length s \<and> drop (length s - length p) s = p"

definition TrimPrefix :: "string \<Rightarrow> string \<Rightarrow> string" where
  "TrimPrefix s p = (if HasPrefix s p then drop (length p) s else s)"

definition TrimSuffix :: "string \<Rightarrow> string \<Rightarrow> string" where
  "TrimSuffix s p = (if HasSuffix s p then take (length s - length p) s else s)"

fun Contains :: "string \<Rightarrow> string \<Rightarrow> bool" where
  "Contains [] sub = (sub = [])"
| "Contains (x # xs) sub = (HasPrefix (x # xs) sub \<or> Contains xs sub)"

definition to_lower :: "char \<Rightarrow> char" where
  "to_lower c = (let n = of_char c :: nat in if 65 \<le> n \<and> n \<le> 90 then char_of (n + 32) else c)"

definition to_upper :: "char \<Rightarrow> char" where
  "to_upper c = (let n = of_char c :: nat in if 97 \<le> n \<and> n \<le> 122 then char_of (n - 32) else c)"

definition ToLower :: "string \<Rightarrow> string" where "ToLower s = map to_lower s"
definition ToUpper :: "string \<Rightarrow> string" where "ToUpper s = map to_upper s"

section \<open>Package \<open>strconv\<close>: integers\<close>

definition digit_char :: "int \<Rightarrow> char" where
  "digit_char n = char_of (48 + n)"

definition digit_val :: "char \<Rightarrow> int" where
  "digit_val c = of_char c - 48"

definition is_digit :: "char \<Rightarrow> bool" where
  "is_digit c \<longleftrightarrow> 0 \<le> digit_val c \<and> digit_val c \<le> 9"

text \<open>The decimal digits of a number that is not negative.\<close>

function show_digits :: "int \<Rightarrow> string" where
  "show_digits n = (if n < 10 then [digit_char n] else show_digits (n div 10) @ [digit_char (n mod 10)])"
  by pat_completeness auto
termination
  by (relation "measure nat") auto

declare show_digits.simps [simp del]

definition Itoa :: "int \<Rightarrow> string" where
  "Itoa i = (if i < 0 then CHR ''-'' # show_digits (- i) else show_digits i)"

definition FormatUint :: "u64 \<Rightarrow> string" where
  "FormatUint w = show_digits (uint w)"

definition digits_val :: "string \<Rightarrow> int" where
  "digits_val s = foldl (\<lambda>a c. a * 10 + digit_val c) 0 s"

definition parse_digits :: "string \<Rightarrow> int option" where
  "parse_digits s = (if s \<noteq> [] \<and> list_all is_digit s then Some (digits_val s) else None)"

text \<open>\<open>Atoi\<close> accepts an optional sign; the value has to fit 64 bits. \<open>ParseUint(s, 10, 64)\<close> takes no sign.\<close>

definition signed_digits :: "string \<Rightarrow> int option" where
  "signed_digits s =
     (case s of
        c # cs \<Rightarrow> if c = CHR ''-'' then map_option uminus (parse_digits cs)
                  else if c = CHR ''+'' then parse_digits cs
                  else parse_digits s
      | [] \<Rightarrow> None)"

definition Atoi :: "string \<Rightarrow> int option" where
  "Atoi s =
     (case signed_digits s of None \<Rightarrow> None | Some i \<Rightarrow> if in_int64 i then Some i else None)"

definition ParseUint :: "string \<Rightarrow> u64 option" where
  "ParseUint s =
     (case parse_digits s of
        None \<Rightarrow> None
      | Some n \<Rightarrow> if n < 2 ^ 64 then Some (word_of_int n) else None)"

section \<open>Digits: printing and reading back\<close>

lemma digit_char_props:
  assumes "0 \<le> n" "n < 10"
  shows "is_digit (digit_char n)" and "digit_val (digit_char n) = n"
proof -
  have "n = 0 \<or> n = 1 \<or> n = 2 \<or> n = 3 \<or> n = 4 \<or> n = 5 \<or> n = 6 \<or> n = 7 \<or> n = 8 \<or> n = 9"
    using assms by presburger
  then have n: "n \<in> {0,1,2,3,4,5,6,7,8,9}" by simp
  then show "is_digit (digit_char n)"
    by (auto simp: is_digit_def digit_char_def digit_val_def)
  from n show "digit_val (digit_char n) = n"
    by (auto simp: digit_val_def digit_char_def)
qed

lemma is_digit_not_space: "is_digit c \<Longrightarrow> \<not> is_space c"
  by (auto simp: is_digit_def is_space_def digit_val_def)

lemma digits_val_snoc: "digits_val (s @ [c]) = digits_val s * 10 + digit_val c"
  by (simp add: digits_val_def)

lemma digits_val_nonneg: "list_all is_digit s \<Longrightarrow> 0 \<le> digits_val s"
proof (induction s rule: rev_induct)
  case Nil
  then show ?case by (simp add: digits_val_def)
next
  case (snoc c s)
  then show ?case by (simp add: digits_val_snoc is_digit_def)
qed

lemma show_digits_nonempty [simp]: "show_digits n \<noteq> []"
  by (subst show_digits.simps) simp

lemma show_digits_correct:
  "0 \<le> n \<Longrightarrow> list_all is_digit (show_digits n) \<and> digits_val (show_digits n) = n"
proof (induction n rule: show_digits.induct)
  case (1 n)
  show ?case
  proof (cases "n < 10")
    case True
    with 1 show ?thesis
      by (subst (1 2) show_digits.simps) (simp add: digits_val_def digit_char_props)
  next
    case False
    with 1 show ?thesis
      by (subst (1 2) show_digits.simps) (simp add: digits_val_snoc digit_char_props)
  qed
qed

lemma parse_show_digits [simp]: "0 \<le> n \<Longrightarrow> parse_digits (show_digits n) = Some n"
  by (simp add: parse_digits_def show_digits_correct)

lemma show_digits_Cons:
  assumes "0 \<le> n"
  obtains c cs where "show_digits n = c # cs" "is_digit c"
  using show_digits_nonempty [of n] show_digits_correct [OF assms] by (cases "show_digits n") auto

lemma is_digit_not_sign: "is_digit c \<Longrightarrow> c \<noteq> CHR ''-'' \<and> c \<noteq> CHR ''+''"
  by (auto simp: is_digit_def digit_val_def)

lemma signed_digits_Itoa [simp]: "signed_digits (Itoa i) = Some i"
proof (cases "i < 0")
  case True
  then show ?thesis by (simp add: signed_digits_def Itoa_def)
next
  case False
  then have i: "0 \<le> i" by simp
  obtain c cs where c: "show_digits i = c # cs" "is_digit c" using i by (rule show_digits_Cons)
  with False parse_show_digits [OF i] is_digit_not_sign [OF c(2)] show ?thesis
    by (simp add: signed_digits_def Itoa_def)
qed

lemma Atoi_Itoa [simp]: "in_int64 i \<Longrightarrow> Atoi (Itoa i) = Some i"
  by (simp add: Atoi_def)

lemma Itoa_inj: "Itoa i = Itoa j \<longleftrightarrow> i = j"
  by (metis signed_digits_Itoa option.inject)

lemma Atoi_in_int64: "Atoi s = Some i \<Longrightarrow> in_int64 i"
  by (auto simp: Atoi_def split: option.splits if_splits)

lemma ParseUint_FormatUint [simp]: "ParseUint (FormatUint w) = Some w"
  using uint_lt2p [of w] by (simp add: ParseUint_def FormatUint_def)

lemma ParseUint_Some:
  assumes "ParseUint s = Some w"
  shows "list_all is_digit s" and "s \<noteq> []" and "uint w = digits_val s"
proof -
  from assms have d: "list_all is_digit s" "s \<noteq> []" "digits_val s < 2 ^ 64" "w = word_of_int (digits_val s)"
    by (auto simp: ParseUint_def parse_digits_def split: option.splits if_splits)
  then show "list_all is_digit s" "s \<noteq> []" by auto
  from d digits_val_nonneg [OF d(1)] show "uint w = digits_val s"
    by (simp add: uint_word_of_int)
qed

lemma Itoa_chars: "c \<in> set (Itoa i) \<Longrightarrow> is_digit c \<or> c = CHR ''-''"
proof -
  assume "c \<in> set (Itoa i)"
  moreover have "is_digit x" if "x \<in> set (show_digits n)" "0 \<le> n" for n x
    using show_digits_correct [OF that(2)] that(1) by (auto simp: list_all_iff)
  ultimately show ?thesis by (cases "i < 0") (auto simp: Itoa_def)
qed

lemma Itoa_no_slash: "CHR ''/'' \<notin> set (Itoa n)"
  using Itoa_chars [of "CHR ''/''" n] by (auto simp: is_digit_def digit_val_def)

section \<open>Splitting, joining, trimming\<close>

lemma split_by_nonempty [simp]: "split_by P s \<noteq> []"
  by (induction s) (auto split: list.splits)

lemma Split_nonempty [simp]: "Split s c \<noteq> []"
  by (simp add: Split_def)

lemma split_by_no_sep: "\<forall>x\<in>set s. \<not> P x \<Longrightarrow> split_by P s = [s]"
  by (induction s) auto

lemma split_by_append_sep:
  "\<forall>x\<in>set s. \<not> P x \<Longrightarrow> P c \<Longrightarrow> split_by P (s @ c # t) = s # split_by P t"
  by (induction s) auto

lemma split_by_parts: "f \<in> set (split_by P s) \<Longrightarrow> x \<in> set f \<Longrightarrow> \<not> P x \<and> x \<in> set s"
  proof (induction s arbitrary: f)
  case (Cons a s)
  show ?case
  proof (cases "P a")
    case True
    with Cons show ?thesis by auto
  next
    case False
    obtain y ys where y: "split_by P s = y # ys"
      by (metis list.exhaust split_by_nonempty)
    with False Cons.prems have "f = a # y \<or> f \<in> set ys" by auto
    with y False Cons.prems(2) Cons.IH [of y] Cons.IH [of f] show ?thesis by auto
  qed
qed simp

lemma Join_Cons: "xs \<noteq> [] \<Longrightarrow> Join (x # xs) sep = x @ sep @ Join xs sep"
  by (cases xs) auto

lemma Join_Split [simp]: "Join (Split s c) [c] = s"
proof (induction s)
  case Nil
  then show ?case by (simp add: Split_def)
next
  case (Cons x xs)
  obtain y ys where y: "split_by (\<lambda>x. x = c) xs = y # ys"
    by (metis list.exhaust split_by_nonempty)
  with Cons show ?case by (cases ys) (auto simp: Split_def)
qed

lemma Split_Join:
  "xs \<noteq> [] \<Longrightarrow> \<forall>x\<in>set xs. c \<notin> set x \<Longrightarrow> Split (Join xs [c]) c = xs"
proof (induction xs)
  case Nil
  then show ?case by simp
next
  case (Cons x xs)
  show ?case
  proof (cases "xs = []")
    case True
    with Cons.prems show ?thesis by (auto simp: Split_def intro!: split_by_no_sep)
  next
    case False
    with Cons show ?thesis
      by (auto simp: Split_def Join_Cons intro!: split_by_append_sep [THEN trans])
  qed
qed

lemma trim_by_id: "s = [] \<or> (\<not> P (hd s) \<and> \<not> P (last s)) \<Longrightarrow> trim_by P s = s"
proof (cases s)
  case Nil
  then show ?thesis by (simp add: trim_by_def)
next
  case (Cons x xs)
  assume "s = [] \<or> (\<not> P (hd s) \<and> \<not> P (last s))"
  with Cons have h: "\<not> P (hd s)" "\<not> P (hd (rev s))" "s \<noteq> []"
    by (simp_all only: hd_rev) auto
  have d: "dropWhile P t = t" if "t \<noteq> []" "\<not> P (hd t)" for t
    using that by (cases t) auto
  from h d [of s] d [of "rev s"] show ?thesis by (simp add: trim_by_def)
qed

lemma trim_by_ends: "trim_by P s = [] \<or> (\<not> P (hd (trim_by P s)) \<and> \<not> P (last (trim_by P s)))"
proof (cases "trim_by P s = []")
  case False
  let ?d = "dropWhile P s" let ?e = "dropWhile P (rev ?d)"
  from False have e: "?e \<noteq> []" by (simp add: trim_by_def)
  have l: "\<not> P (last (rev ?e))" using e hd_dropWhile [of P "rev ?d"] by (simp add: last_rev)
  obtain zs where z: "rev ?d = zs @ ?e" by (metis takeWhile_dropWhile_id)
  then have d: "?d = rev ?e @ rev zs" by (metis rev_append rev_rev_ident)
  from e have "?d \<noteq> []" by (metis dropWhile.simps(1) rev.simps(1))
  then have "\<not> P (hd ?d)" by (rule hd_dropWhile)
  with d e have "\<not> P (hd (rev ?e))" by (metis hd_append rev_is_Nil_conv)
  with l show ?thesis by (simp add: trim_by_def)
qed simp

lemma trim_by_idem [simp]: "trim_by P (trim_by P s) = trim_by P s"
  by (rule trim_by_id) (rule trim_by_ends)

lemma TrimSpace_idem [simp]: "TrimSpace (TrimSpace s) = TrimSpace s"
  by (simp add: TrimSpace_def)

lemma set_trim_by: "set (trim_by P s) \<subseteq> set s"
  by (auto simp: trim_by_def dest!: set_dropWhileD)

lemma trim_by_no: "\<forall>x\<in>set s. \<not> P x \<Longrightarrow> trim_by P s = s"
  by (rule trim_by_id) (cases s, auto)

lemma Fields_parts: "f \<in> set (Fields s) \<Longrightarrow> f \<noteq> [] \<and> (\<forall>c\<in>set f. \<not> is_space c)"
  by (auto simp: Fields_def dest: split_by_parts)

lemma SplitN2_app: "c \<notin> set k \<Longrightarrow> SplitN2 (k @ c # v) c = [k, v]"
  proof -
  assume "c \<notin> set k"
  then have "\<And>x. x \<in> set k \<Longrightarrow> x \<noteq> c" by blast
  then show ?thesis by (simp add: SplitN2_def)
qed

lemma SplitN2_length: "length (SplitN2 s c) = (if c \<in> set s then 2 else 1)"
  by (simp add: SplitN2_def)

lemma HasPrefix_append [simp]: "HasPrefix (p @ s) p"
  by (simp add: HasPrefix_def)

lemma HasSuffix_append [simp]: "HasSuffix (s @ p) p"
  by (simp add: HasSuffix_def)

lemma TrimSuffix_append [simp]: "TrimSuffix (s @ p) p = s"
  by (simp add: TrimSuffix_def)

lemma TrimPrefix_append [simp]: "TrimPrefix (p @ s) p = s"
  by (simp add: TrimPrefix_def)

lemma HasSuffix_iff: "HasSuffix s p \<longleftrightarrow> (\<exists>q. s = q @ p)"
proof
  assume "HasSuffix s p"
  then have "s = take (length s - length p) s @ p"
    by (metis HasSuffix_def append_take_drop_id)
  then show "\<exists>q. s = q @ p" ..
qed auto

lemma HasPrefix_iff: "HasPrefix s p \<longleftrightarrow> (\<exists>q. s = p @ q)"
  by (metis HasPrefix_append HasPrefix_def append_take_drop_id)

lemma Contains_iff: "Contains s sub \<longleftrightarrow> (\<exists>p q. s = p @ sub @ q)"
proof (induction s)
  case Nil
  then show ?case by auto
next
  case (Cons x xs)
  show ?case
  proof
    assume "Contains (x # xs) sub"
    then consider "HasPrefix (x # xs) sub" | "Contains xs sub" by auto
    then show "\<exists>p q. x # xs = p @ sub @ q"
    proof cases
      case 1
      then show ?thesis by (metis HasPrefix_iff append_Nil)
    next
      case 2
      with Cons obtain p q where "xs = p @ sub @ q" by auto
      then have "x # xs = (x # p) @ sub @ q" by simp
      then show ?thesis by blast
    qed
  next
    assume "\<exists>p q. x # xs = p @ sub @ q"
    then obtain p q where pq: "x # xs = p @ sub @ q" by blast
    show "Contains (x # xs) sub"
    proof (cases p)
      case Nil
      with pq show ?thesis by (metis Contains.simps(2) HasPrefix_iff append_Nil)
    next
      case (Cons y ys)
      with pq Cons.IH show ?thesis by auto
    qed
  qed
qed

end
