(* ===== verification/Float64.thy ===== *)
theory Float64
  imports Complex_Main GoLib
begin

text \<open>
  Go's \<open>float64\<close>: a finite binary64 value is the rational number it denotes; the two infinities and NaN
  are values of their own. Every arithmetic operation is the exact rational operation followed by rounding to the
  nearest representable number, ties to even, with gradual underflow and overflow to infinity, as IEEE 754 and
  the Go specification say. The one thing not represented is the sign of zero.
\<close>

datatype f64 = NaN | PInf | NInf | Fin rat

section \<open>Rounding\<close>

definition pow2 :: "int \<Rightarrow> rat" where
  "pow2 e = (if 0 \<le> e then 2 ^ nat e else 1 / 2 ^ nat (- e))"

text \<open>The number of binary digits of a positive integer, and the binary exponent of a positive rational.\<close>

function bits :: "int \<Rightarrow> int" where
  "bits n = (if n \<le> 0 then 0 else 1 + bits (n div 2))"
  by pat_completeness auto
termination
  by (relation "measure nat") auto

declare bits.simps [simp del]

definition ilog2 :: "rat \<Rightarrow> int" where
  "ilog2 x =
     (case quotient_of x of (p, q) \<Rightarrow>
        (let k = bits p - bits q
         in if pow2 k \<le> x then k else k - 1))"

definition round_even :: "rat \<Rightarrow> int" where
  "round_even x =
     (let f = \<lfloor>x\<rfloor>; r = x - of_int f
      in if r < 1 / 2 then f else if r > 1 / 2 then f + 1 else if even f then f else f + 1)"

definition ulp_exp :: "rat \<Rightarrow> int" where
  "ulp_exp x = max (ilog2 x) (- 1022) - 52"

definition rnd_pos :: "rat \<Rightarrow> rat" where
  "rnd_pos x = of_int (round_even (x / pow2 (ulp_exp x))) * pow2 (ulp_exp x)"

definition rnd :: "rat \<Rightarrow> rat" where
  "rnd x = (if x = 0 then 0 else if x < 0 then - rnd_pos (- x) else rnd_pos x)"

definition f64_of_rat :: "rat \<Rightarrow> f64" where
  "f64_of_rat x =
     (let y = rnd x in if 2 ^ 1024 \<le> y then PInf else if y \<le> - (2 ^ 1024) then NInf else Fin y)"

text \<open>Powers of two by repeated squaring, for evaluation only.\<close>

function p2 :: "int \<Rightarrow> int" where
  "p2 e = (if e \<le> 0 then 1 else if even e then (let h = p2 (e div 2) in h * h) else 2 * p2 (e - 1))"
  by pat_completeness auto
termination
  by (relation "measure nat") auto

declare p2.simps [simp del]

lemma p2_eq: "p2 e = 2 ^ nat e"
proof (induction e rule: p2.induct)
  case (1 e)
  show ?case
  proof (cases "0 < e \<and> even e")
    case True
    then obtain k where k: "e = 2 * k" "0 < k" by auto
    have n: "nat (2 * k) = nat k + nat k" using k(2) by simp
    from 1 True k have "p2 k = 2 ^ nat k" by simp
    then show ?thesis unfolding k(1) n
      using k(2) by (subst p2.simps) (simp add: power_add Let_def)
  next
    case False
    show ?thesis
    proof (cases "e \<le> 0")
      case True
      then show ?thesis by (subst p2.simps) simp
    next
      case pos: False
      then have "nat e = Suc (nat (e - 1))" by simp
      with False pos 1 show ?thesis by (subst p2.simps) simp
    qed
  qed
qed

lemma pow2_code [code]:
  "pow2 e = (if 0 \<le> e then of_int (p2 e) else 1 / of_int (p2 (- e)))"
  by (simp add: pow2_def p2_eq)

lemma f64_of_rat_code [code]:
  "f64_of_rat x =
     (let y = rnd x; m = of_int (p2 1024) in if m \<le> y then PInf else if y \<le> - m then NInf else Fin y)"
  by (simp only: f64_of_rat_def p2_eq Let_def) simp

section \<open>Arithmetic and comparison\<close>

definition f64_of_int :: "int \<Rightarrow> f64" where
  "f64_of_int n = f64_of_rat (of_int n)"

definition f64_of_u64 :: "u64 \<Rightarrow> f64" where
  "f64_of_u64 w = f64_of_int (uint w)"

fun f64_neg :: "f64 \<Rightarrow> f64" where
  "f64_neg NaN = NaN"
| "f64_neg PInf = NInf"
| "f64_neg NInf = PInf"
| "f64_neg (Fin x) = Fin (- x)"

fun f64_add :: "f64 \<Rightarrow> f64 \<Rightarrow> f64" where
  "f64_add (Fin x) (Fin y) = f64_of_rat (x + y)"
| "f64_add NaN b = NaN"
| "f64_add a NaN = NaN"
| "f64_add PInf NInf = NaN"
| "f64_add NInf PInf = NaN"
| "f64_add PInf b = PInf"
| "f64_add NInf b = NInf"
| "f64_add a PInf = PInf"
| "f64_add a NInf = NInf"

definition f64_sub :: "f64 \<Rightarrow> f64 \<Rightarrow> f64" where
  "f64_sub a b = f64_add a (f64_neg b)"

definition f64_inf :: "bool \<Rightarrow> f64" where
  "f64_inf negative = (if negative then NInf else PInf)"

fun f64_mul :: "f64 \<Rightarrow> f64 \<Rightarrow> f64" where
  "f64_mul (Fin x) (Fin y) = f64_of_rat (x * y)"
| "f64_mul NaN b = NaN"
| "f64_mul a NaN = NaN"
| "f64_mul PInf (Fin y) = (if y = 0 then NaN else f64_inf (y < 0))"
| "f64_mul NInf (Fin y) = (if y = 0 then NaN else f64_inf (0 < y))"
| "f64_mul (Fin x) PInf = (if x = 0 then NaN else f64_inf (x < 0))"
| "f64_mul (Fin x) NInf = (if x = 0 then NaN else f64_inf (0 < x))"
| "f64_mul PInf PInf = PInf"
| "f64_mul NInf NInf = PInf"
| "f64_mul PInf NInf = NInf"
| "f64_mul NInf PInf = NInf"

fun f64_div :: "f64 \<Rightarrow> f64 \<Rightarrow> f64" where
  "f64_div (Fin x) (Fin y) =
     (if y = 0 then (if x = 0 then NaN else f64_inf (x < 0)) else f64_of_rat (x / y))"
| "f64_div NaN b = NaN"
| "f64_div a NaN = NaN"
| "f64_div (Fin x) b = Fin 0"
| "f64_div PInf (Fin y) = f64_inf (y < 0)"
| "f64_div NInf (Fin y) = f64_inf (0 \<le> y)"
| "f64_div a b = NaN"

fun f64_le :: "f64 \<Rightarrow> f64 \<Rightarrow> bool" where
  "f64_le (Fin x) (Fin y) = (x \<le> y)"
| "f64_le NaN b = False"
| "f64_le a NaN = False"
| "f64_le NInf b = True"
| "f64_le a PInf = True"
| "f64_le a b = False"

fun f64_lt :: "f64 \<Rightarrow> f64 \<Rightarrow> bool" where
  "f64_lt (Fin x) (Fin y) = (x < y)"
| "f64_lt NaN b = False"
| "f64_lt a NaN = False"
| "f64_lt NInf b = (b \<noteq> NInf)"
| "f64_lt a PInf = (a \<noteq> PInf)"
| "f64_lt a b = False"

definition f64_ge :: "f64 \<Rightarrow> f64 \<Rightarrow> bool" where "f64_ge a b = f64_le b a"
definition f64_gt :: "f64 \<Rightarrow> f64 \<Rightarrow> bool" where "f64_gt a b = f64_lt b a"

definition f64_eq :: "f64 \<Rightarrow> f64 \<Rightarrow> bool" where
  "f64_eq a b \<longleftrightarrow> a = b \<and> a \<noteq> NaN"

text \<open>\<open>math.Min\<close>.\<close>

definition f64_min :: "f64 \<Rightarrow> f64 \<Rightarrow> f64" where
  "f64_min a b =
     (if a = NInf \<or> b = NInf then NInf else if a = NaN \<or> b = NaN then NaN
      else if f64_lt a b then a else b)"

text \<open>
  Conversions to integers truncate. Outside the range of the target the Go specification leaves the result to the
  implementation; the value here is the one of amd64 (the "integer indefinite" pattern, and two's complement for
  negative values in range of \<open>int64\<close>).
\<close>

definition rat_trunc :: "rat \<Rightarrow> int" where
  "rat_trunc x = (if 0 \<le> x then \<lfloor>x\<rfloor> else - \<lfloor>- x\<rfloor>)"

definition u64_of_f64 :: "f64 \<Rightarrow> u64" where
  "u64_of_f64 a =
     (case a of
        Fin x \<Rightarrow> if - (2 ^ 63) \<le> x \<and> x < 2 ^ 64 then word_of_int (rat_trunc x) else 2 ^ 63
      | _ \<Rightarrow> 2 ^ 63)"

definition int_of_f64 :: "f64 \<Rightarrow> int" where
  "int_of_f64 a =
     (case a of
        Fin x \<Rightarrow> if - (2 ^ 63) \<le> x \<and> x < 2 ^ 63 then rat_trunc x else - (2 ^ 63)
      | _ \<Rightarrow> - (2 ^ 63))"

section \<open>Rounding: exactness and monotonicity\<close>

lemma pow2_pos [simp]: "0 < pow2 e"
  by (simp add: pow2_def)

lemma pow2_nonneg [simp]: "0 \<le> pow2 e" and pow2_nonzero [simp]: "pow2 e \<noteq> 0"
  by (simp_all add: pow2_def)

lemma pow2_0 [simp]: "pow2 0 = 1"
  by (simp add: pow2_def)

lemma pow2_add: "pow2 (a + b) = pow2 a * pow2 b"
proof -
  have inv: "pow2 e = 2 powi e" for e
    by (auto simp: pow2_def power_int_def field_simps)
  show ?thesis by (simp add: inv power_int_add)
qed

lemma pow2_Suc: "pow2 (e + 1) = 2 * pow2 e"
  unfolding pow2_add by (simp add: pow2_def)

lemma pow2_mono: "a \<le> b \<Longrightarrow> pow2 a \<le> pow2 b"
proof -
  assume "a \<le> b"
  then have "pow2 b = pow2 a * pow2 (b - a)" by (simp flip: pow2_add)
  moreover have "1 \<le> pow2 (b - a)" using \<open>a \<le> b\<close> by (simp add: pow2_def)
  ultimately show ?thesis using pow2_pos [of a]
    by (metis less_imp_le mult.right_neutral mult_left_mono)
qed

lemma pow2_less_iff: "pow2 a < pow2 b \<longleftrightarrow> a < b"
proof -
  have d: "pow2 (a + 1) = 2 * pow2 a" for a by (simp add: pow2_add) (simp add: pow2_def)
  have "pow2 a < pow2 b" if "a < b" for a b
  proof -
    from that have "2 * pow2 a \<le> pow2 b" using pow2_mono [of "a + 1" b] d by simp
    with pow2_pos [of a] show ?thesis by linarith
  qed
  then show ?thesis by (metis linorder_neqE_linordered_idom order.asym order.irrefl)
qed

lemma bits_bounds: "0 < n \<Longrightarrow> 2 ^ nat (bits n - 1) \<le> n \<and> n < 2 ^ nat (bits n) \<and> 1 \<le> bits n"
proof (induction n rule: bits.induct)
  case (1 n)
  show ?case
  proof (cases "n = 1")
    case True
    then show ?thesis by (simp add: bits.simps)
  next
    case False
    with 1 have "0 < n div 2" by auto
    with 1 have IH: "2 ^ nat (bits (n div 2) - 1) \<le> n div 2" "n div 2 < 2 ^ nat (bits (n div 2))"
      "1 \<le> bits (n div 2)" by auto
    have b: "bits n = 1 + bits (n div 2)" using 1 by (subst bits.simps) simp
    have "nat (bits n - 1) = Suc (nat (bits (n div 2) - 1))" "nat (bits n) = Suc (nat (bits (n div 2)))"
      using IH(3) b by auto
    with IH b show ?thesis by simp linarith
  qed
qed

lemma bits_pow2:
  assumes "0 < n"
  shows "pow2 (bits n - 1) \<le> of_int n" and "of_int n < pow2 (bits n)"
proof -
  note b = bits_bounds [OF assms]
  then have "(of_int (2 ^ nat (bits n - 1)) :: rat) \<le> of_int n" "(of_int n :: rat) < of_int (2 ^ nat (bits n))"
    by (simp_all only: of_int_le_iff of_int_less_iff)
  with b show "pow2 (bits n - 1) \<le> of_int n" "of_int n < pow2 (bits n)"
    by (simp_all add: pow2_def)
qed

lemma ilog2_bounds:
  assumes "0 < x"
  shows "pow2 (ilog2 x) \<le> x" and "x < pow2 (ilog2 x + 1)"
proof -
  obtain p q where pq: "quotient_of x = (p, q)" by (cases "quotient_of x")
  have q: "0 < q" using quotient_of_denom_pos [OF pq] .
  have x: "x = of_int p / of_int q" using quotient_of_div [OF pq] .
  have p: "0 < p" using assms q x by (simp add: zero_less_divide_iff)
  let ?a = "bits p" and ?b = "bits q"
  have pb: "pow2 (?a - 1) \<le> of_int p" "of_int p < pow2 ?a"
    using bits_pow2 [OF p] .
  have qb: "pow2 (?b - 1) \<le> of_int q" "of_int q < pow2 ?b"
    using bits_pow2 [OF q] .
  have lo: "pow2 (?a - ?b - 1) \<le> x"
  proof -
    have "pow2 (?a - ?b - 1) * of_int q \<le> pow2 (?a - ?b - 1) * pow2 ?b"
      using qb by (intro mult_left_mono) auto
    also have "\<dots> = pow2 (?a - 1)" by (simp flip: pow2_add)
    also have "\<dots> \<le> of_int p" by (rule pb)
    finally show ?thesis using q by (simp add: x field_simps)
  qed
  have hi: "x < pow2 (?a - ?b + 1)"
  proof -
    have "of_int p < pow2 ?a" by (rule pb)
    also have "\<dots> = pow2 (?a - ?b + 1) * pow2 (?b - 1)" by (simp flip: pow2_add)
    also have "\<dots> \<le> pow2 (?a - ?b + 1) * of_int q"
      using qb by (intro mult_left_mono) (auto simp: less_imp_le)
    finally show ?thesis using q by (simp add: x field_simps)
  qed
  show "pow2 (ilog2 x) \<le> x"
    using lo pq by (auto simp: ilog2_def Let_def)
  show "x < pow2 (ilog2 x + 1)"
    using hi pq by (auto simp: ilog2_def Let_def not_le)
qed

lemma ilog2_unique: "0 < x \<Longrightarrow> pow2 e \<le> x \<Longrightarrow> x < pow2 (e + 1) \<Longrightarrow> ilog2 x = e"
proof -
  assume a: "0 < x" "pow2 e \<le> x" "x < pow2 (e + 1)"
  from ilog2_bounds [OF a(1)] a have "pow2 (ilog2 x) < pow2 (e + 1)" "pow2 e < pow2 (ilog2 x + 1)"
    by linarith+
  then show ?thesis by (simp add: pow2_less_iff)
qed

lemma ilog2_mono: "0 < x \<Longrightarrow> x \<le> y \<Longrightarrow> ilog2 x \<le> ilog2 y"
proof -
  assume a: "0 < x" "x \<le> y"
  from ilog2_bounds(1) [of x] ilog2_bounds(2) [of y] a have "pow2 (ilog2 x) < pow2 (ilog2 y + 1)" by linarith
  then show ?thesis by (simp add: pow2_less_iff)
qed

lemma round_even_of_int [simp]: "round_even (of_int n) = n"
  by (simp add: round_even_def)

lemma round_even_mono: "x \<le> y \<Longrightarrow> round_even x \<le> round_even y"
proof -
  assume a: "x \<le> y"
  then have f: "\<lfloor>x\<rfloor> \<le> \<lfloor>y\<rfloor>" by (rule floor_mono)
  show ?thesis
  proof (cases "\<lfloor>x\<rfloor> = \<lfloor>y\<rfloor>")
    case True
    with a show ?thesis by (auto simp: round_even_def Let_def)
  next
    case False
    with f have "\<lfloor>x\<rfloor> + 1 \<le> \<lfloor>y\<rfloor>" by simp
    then show ?thesis by (auto simp: round_even_def Let_def)
  qed
qed

lemma round_even_le_int: "x \<le> of_int n \<Longrightarrow> round_even x \<le> n"
  using round_even_mono [of x "of_int n"] by simp

lemma round_even_ge_int: "of_int n \<le> x \<Longrightarrow> n \<le> round_even x"
  using round_even_mono [of "of_int n" x] by simp

lemma round_even_dist: "\<bar>of_int (round_even x) - x\<bar> \<le> 1 / 2"
proof -
  let ?f = "\<lfloor>x\<rfloor>"
  have "of_int ?f \<le> x" "x < of_int ?f + 1" by linarith+
  then show ?thesis by (auto simp: round_even_def Let_def)
qed

text \<open>Every number with a significand of at most 53 bits and an exponent in range is unchanged by rounding.\<close>

lemma rnd_pos_exact:
  assumes x: "x = of_int m * pow2 e" and m: "0 < m" "m \<le> 2 ^ 53" and e: "- 1074 \<le> e"
  shows "rnd_pos x = x"
proof -
  let ?u = "ulp_exp x"
  have xp: "0 < x" using x m by simp
  have ule: "?u \<le> e \<or> m = 2 ^ 53 \<and> ?u = e + 1"
  proof -
    have p53: "pow2 (e + 53) = 2 ^ 53 * pow2 e" by (simp add: pow2_add) (simp add: pow2_def)
    consider "m < 2 ^ 53" | "m = 2 ^ 53" using m(2) by linarith
    then show ?thesis
    proof cases
      case 1
      then have "(of_int m :: rat) < of_int (2 ^ 53)" by (simp only: of_int_less_iff)
      then have "x < pow2 (e + 53)"
        using p53 x pow2_pos [of e] by simp
      with ilog2_bounds(1) [OF xp] have "pow2 (ilog2 x) < pow2 (e + 53)" by linarith
      then have "ilog2 x < e + 53" by (simp add: pow2_less_iff)
      with e show ?thesis by (auto simp: ulp_exp_def)
    next
      case 2
      with p53 x have "x = pow2 (e + 53)" by simp
      then have "ilog2 x = e + 53"
        by (intro ilog2_unique) (auto simp: pow2_less_iff xp)
      with 2 e show ?thesis by (auto simp: ulp_exp_def)
    qed
  qed
  obtain k :: int where k: "x / pow2 ?u = of_int k"
  proof (cases "?u \<le> e")
    case True
    have "x / pow2 ?u = of_int m * pow2 (e - ?u)"
    proof -
      have "pow2 e = pow2 (e - ?u) * pow2 ?u" by (simp flip: pow2_add)
      then have "x = of_int m * pow2 (e - ?u) * pow2 ?u" using x by simp
      with pow2_pos [of ?u] show ?thesis by (simp add: eq_divide_imp divide_eq_eq)
    qed
    also have "pow2 (e - ?u) = of_int (2 ^ nat (e - ?u))" using True by (simp add: pow2_def)
    finally show thesis using that [of "m * 2 ^ nat (e - ?u)"] by simp
  next
    case False
    with ule have mm: "m = 2 ^ 53" "?u = e + 1" by auto
    have u: "pow2 ?u = 2 * pow2 e" unfolding mm(2) by (rule pow2_Suc)
    have "x = of_int (2 ^ 52) * (2 * pow2 e)" using x mm(1) by simp
    then have "x = of_int (2 ^ 52) * pow2 ?u" unfolding u .
    then have "x / pow2 ?u = of_int (2 ^ 52)" by (simp add: divide_eq_eq)
    then show thesis by (rule that)
  qed
  then have "rnd_pos x = of_int k * pow2 ?u" by (simp add: rnd_pos_def)
  also have "\<dots> = x" using k by (simp add: divide_eq_eq)
  finally show ?thesis .
qed

lemma rnd_exact:
  assumes x: "x = of_int m * pow2 e" and m: "\<bar>m\<bar> \<le> 2 ^ 53" and e: "- 1074 \<le> e"
  shows "rnd x = x"
proof (cases m "0 :: int" rule: linorder_cases)
  case less
  then have "- x = of_int (- m) * pow2 e" "x < 0" using x by (auto simp: mult_less_0_iff)
  with less m e rnd_pos_exact [of "- x" "- m" e] show ?thesis by (simp add: rnd_def)
next
  case equal
  with x show ?thesis by (simp add: rnd_def)
next
  case greater
  then have "0 < x" using x by simp
  then have "rnd x = rnd_pos x" by (simp add: rnd_def)
  with greater x m e rnd_pos_exact [of x m e] show ?thesis by simp
qed


lemma rnd_pos_bounds:
  assumes "0 < x"
  shows "rnd_pos x \<le> pow2 (ulp_exp x + 53)" and "0 \<le> rnd_pos x"
    and "- 1022 \<le> ilog2 x \<Longrightarrow> pow2 (ilog2 x) \<le> rnd_pos x"
proof -
  let ?u = "ulp_exp x"
  have "x < pow2 (ilog2 x + 1)" by (rule ilog2_bounds) fact
  also have "\<dots> \<le> pow2 (?u + 53)" by (rule pow2_mono) (simp add: ulp_exp_def)
  also have "\<dots> = of_int (2 ^ 53) * pow2 ?u" by (simp add: pow2_add) (simp add: pow2_def)
  finally have "x / pow2 ?u \<le> of_int (2 ^ 53)" by (simp add: pos_divide_le_eq)
  then have "round_even (x / pow2 ?u) \<le> 2 ^ 53" by (rule round_even_le_int)
  then have "(of_int (round_even (x / pow2 ?u)) :: rat) \<le> of_int (2 ^ 53)" by (simp only: of_int_le_iff)
  then have "rnd_pos x \<le> of_int (2 ^ 53) * pow2 ?u"
    unfolding rnd_pos_def by (rule mult_right_mono) simp
  then show "rnd_pos x \<le> pow2 (?u + 53)" by (simp add: pow2_add) (simp add: pow2_def)
  have "0 \<le> round_even (x / pow2 ?u)" using assms by (intro round_even_ge_int) simp
  then show "0 \<le> rnd_pos x" by (simp add: rnd_pos_def)
  assume "- 1022 \<le> ilog2 x"
  then have i: "ilog2 x = ?u + 52" by (simp add: ulp_exp_def)
  have p: "pow2 (ilog2 x) = of_int (2 ^ 52) * pow2 ?u" unfolding i by (simp add: pow2_add) (simp add: pow2_def)
  then have "of_int (2 ^ 52) \<le> x / pow2 ?u"
    using ilog2_bounds(1) [OF assms] by (simp add: pos_le_divide_eq)
  then have "2 ^ 52 \<le> round_even (x / pow2 ?u)" by (rule round_even_ge_int)
  then have "(of_int (2 ^ 52) :: rat) \<le> of_int (round_even (x / pow2 ?u))" by (simp only: of_int_le_iff)
  then show "pow2 (ilog2 x) \<le> rnd_pos x"
    unfolding rnd_pos_def p by (rule mult_right_mono) simp
qed

lemma rnd_pos_mono:
  assumes "0 < x" "x \<le> y"
  shows "rnd_pos x \<le> rnd_pos y"
proof (cases "ulp_exp x = ulp_exp y")
  case True
  have "round_even (x / pow2 (ulp_exp y)) \<le> round_even (y / pow2 (ulp_exp y))"
    using assms by (intro round_even_mono divide_right_mono) auto
  then show ?thesis unfolding rnd_pos_def True by (intro mult_right_mono) auto
next
  case False
  with ilog2_mono [OF assms] have lt: "ulp_exp x + 53 \<le> ilog2 y" "- 1022 \<le> ilog2 y"
    by (auto simp: ulp_exp_def)
  have "rnd_pos x \<le> pow2 (ulp_exp x + 53)" by (rule rnd_pos_bounds) fact
  also have "\<dots> \<le> pow2 (ilog2 y)" by (rule pow2_mono) fact
  also have "\<dots> \<le> rnd_pos y" using assms lt by (intro rnd_pos_bounds) auto
  finally show ?thesis .
qed

lemma rnd_mono: "x \<le> y \<Longrightarrow> rnd x \<le> rnd y"
proof -
  assume le: "x \<le> y"
  consider "0 < x" | "x \<le> 0" "0 \<le> y" | "y < 0" by linarith
  then show ?thesis
  proof cases
    case 1
    with le show ?thesis by (simp add: rnd_def rnd_pos_mono)
  next
    case 2
    have "rnd x \<le> 0" using 2 rnd_pos_bounds(2) [of "- x"] by (auto simp: rnd_def)
    moreover have "0 \<le> rnd y" using 2 rnd_pos_bounds(2) [of y] by (auto simp: rnd_def)
    ultimately show ?thesis by linarith
  next
    case 3
    with le rnd_pos_mono [of "- y" "- x"] show ?thesis by (simp add: rnd_def)
  qed
qed

lemma rnd_0 [simp]: "rnd 0 = 0"
  by (simp add: rnd_def)

lemma rnd_of_int: "\<bar>n\<bar> \<le> 2 ^ 53 \<Longrightarrow> rnd (of_int n) = of_int n"
  by (rule rnd_exact [where m = n and e = 0]) auto

section \<open>Consequences for the operations\<close>

text \<open>The integers the program converts (percentages, seconds, counts) are exact.\<close>

lemma two_pow_1024: "(2 :: rat) ^ 53 < 2 ^ 1024"
  by (rule power_strict_increasing) auto

lemma f64_of_int_exact: "\<bar>n\<bar> \<le> 2 ^ 53 \<Longrightarrow> f64_of_int n = Fin (of_int n)"
proof -
  assume a: "\<bar>n\<bar> \<le> 2 ^ 53"
  then have "n \<le> 2 ^ 53" "- (2 ^ 53) \<le> n" by linarith+
  then have "(of_int n :: rat) \<le> of_int (2 ^ 53)" "of_int (- (2 ^ 53)) \<le> (of_int n :: rat)"
    by (simp_all only: of_int_le_iff)
  with two_pow_1024 have "\<not> 2 ^ 1024 \<le> (of_int n :: rat)" "\<not> of_int n \<le> - ((2 :: rat) ^ 1024)"
    unfolding of_int_minus of_int_power of_int_numeral by linarith+
  then show ?thesis by (simp only: f64_of_int_def f64_of_rat_def rnd_of_int [OF a] Let_def if_False)
qed

lemma f64_of_rat_mono: "x \<le> y \<Longrightarrow> f64_le (f64_of_rat x) (f64_of_rat y)"
proof -
  assume "x \<le> y"
  then have le: "rnd x \<le> rnd y" by (rule rnd_mono)
  have "(0 :: rat) < 2 ^ 1024" by (rule zero_less_power) simp
  then have pos: "- ((2 :: rat) ^ 1024) < 2 ^ 1024" by linarith
  define M where "M = (2 :: rat) ^ 1024"
  from pos have "- M < M" by (simp only: M_def)
  with le show ?thesis unfolding f64_of_rat_def Let_def M_def [symmetric] by auto
qed

lemma f64_of_rat_not_NaN [simp]: "f64_of_rat x \<noteq> NaN"
  by (simp only: f64_of_rat_def Let_def) auto

lemma f64_of_int_not_NaN [simp]: "f64_of_int x \<noteq> NaN"
  by (simp add: f64_of_int_def)

lemma f64_le_trans: "f64_le a b \<Longrightarrow> f64_le b c \<Longrightarrow> f64_le a c"
  by (cases a; cases b; cases c) auto

lemma f64_lt_le_trans: "f64_lt a b \<Longrightarrow> f64_le b c \<Longrightarrow> f64_lt a c"
  by (cases a; cases b; cases c) auto

lemma f64_le_lt_trans: "f64_le a b \<Longrightarrow> f64_lt b c \<Longrightarrow> f64_lt a c"
  by (cases a; cases b; cases c) auto

lemma f64_lt_not_le: "f64_lt a b \<Longrightarrow> \<not> f64_le b a"
  by (cases a; cases b) auto

lemma f64_lt_irrefl [simp]: "\<not> f64_lt a a"
  by (cases a) auto

lemma f64_not_le_lt: "a \<noteq> NaN \<Longrightarrow> b \<noteq> NaN \<Longrightarrow> \<not> f64_le a b \<Longrightarrow> f64_lt b a"
  by (cases a; cases b) auto

lemma f64_NaN_cmp [simp]:
  "\<not> f64_le NaN b" "\<not> f64_le a NaN" "\<not> f64_lt NaN b" "\<not> f64_lt a NaN"
  by (cases b; simp) (cases a; simp)+

lemma f64_min_le: "a \<noteq> NaN \<Longrightarrow> b \<noteq> NaN \<Longrightarrow> f64_le (f64_min a b) b"
  by (cases a; cases b) (auto simp: f64_min_def)

lemma f64_of_int_mono: "x \<le> y \<Longrightarrow> f64_le (f64_of_int x) (f64_of_int y)"
  by (simp add: f64_of_int_def f64_of_rat_mono)

lemma f64_of_int_strict:
  "x < y \<Longrightarrow> \<bar>x\<bar> \<le> 2 ^ 53 \<Longrightarrow> \<bar>y\<bar> \<le> 2 ^ 53 \<Longrightarrow> f64_lt (f64_of_int x) (f64_of_int y)"
  by (simp add: f64_of_int_exact)

section \<open>\<open>strconv.ParseFloat\<close>\<close>

text \<open>
  Decimal literals, infinities and NaN. A value that rounds to an infinity is a range error, as in Go. Hexadecimal
  literals (\<open>0x1p-2\<close>) are outside the model: they are rejected here.
\<close>

definition is_exp_char :: "char \<Rightarrow> bool" where
  "is_exp_char c \<longleftrightarrow> c = CHR ''e'' \<or> c = CHR ''E''"

definition pow10 :: "int \<Rightarrow> rat" where
  "pow10 e = (if 0 \<le> e then 10 ^ nat e else 1 / 10 ^ nat (- e))"

definition parse_mantissa :: "string \<Rightarrow> rat option" where
  "parse_mantissa s =
     (case SplitN2 s CHR ''.'' of
        [i] \<Rightarrow> map_option of_int (parse_digits i)
      | [i, f] \<Rightarrow>
          (case parse_digits (i @ f) of
             None \<Rightarrow> None
           | Some n \<Rightarrow> Some (of_int n * pow10 (- int (length f))))
      | _ \<Rightarrow> None)"

definition parse_unsigned_float :: "string \<Rightarrow> rat option" where
  "parse_unsigned_float s =
     (let m = takeWhile (\<lambda>c. \<not> is_exp_char c) s; r = dropWhile (\<lambda>c. \<not> is_exp_char c) s in
      case parse_mantissa m of
        None \<Rightarrow> None
      | Some x \<Rightarrow>
          (case r of
             [] \<Rightarrow> Some x
           | _ # ex \<Rightarrow> (case signed_digits ex of None \<Rightarrow> None | Some e \<Rightarrow> Some (x * pow10 e))))"

definition ParseFloat :: "string \<Rightarrow> f64 option" where
  "ParseFloat s =
     (let neg = HasPrefix s ''-'';
          t = (if neg \<or> HasPrefix s ''+'' then tl s else s) in
      if ToLower t = ''inf'' \<or> ToLower t = ''infinity'' then Some (f64_inf neg)
      else if ToLower s = ''nan'' then Some NaN
      else
        (case parse_unsigned_float t of
           None \<Rightarrow> None
         | Some x \<Rightarrow>
             (let v = f64_of_rat (if neg then - x else x)
              in if v = PInf \<or> v = NInf then None else Some v)))"

end
