(* ===== verification/ConfigTypes.thy ===== *)
theory ConfigTypes
  imports Float64
begin

text \<open>
  The configuration record of \<open>config/config.go\<close>: \<open>Timeframe\<close>, \<open>Config\<close> with every field of the struct (its
  mutex aside), \<open>DefaultConfig\<close>, and the two libraries the parsing relies on.

  \<open>nil\<close> and empty slices behave alike in every place the code looks at them, so a slice is a list. The regex cache
  maps a pattern to the compiled matcher.
\<close>

section \<open>Libraries\<close>

text \<open>
  \<open>regexp.Compile\<close> is a parameter: \<open>None\<close> is the error, \<open>Some f\<close> a compiled regexp whose \<open>MatchString\<close> is
  \<open>f\<close>. \<open>url.Parse\<close> is another: it yields the scheme and the host.
\<close>

type_synonym regex = "string \<Rightarrow> bool"
type_synonym regexp_lib = "string \<Rightarrow> regex option"
type_synonym url_lib = "string \<Rightarrow> (string \<times> string) option"

section \<open>The configuration\<close>

record timeframe =
  DaysOfWeek :: "int list"
  HourStart :: int
  HourEnd :: int

record config =
  regexCache :: "string \<rightharpoonup> (string \<Rightarrow> bool)"
  CgroupRoot :: string
  CgroupBase :: string
  ConfigFile :: string
  LogFile :: string
  CreatedCgroupsFile :: string
  MetricsCacheFile :: string
  PrometheusFile :: string
  PollingInterval :: int
  MinActiveTime :: int
  MetricsCacheTTL :: int
  MetricsRefreshInterval :: int
  ProcessMinAgeSeconds :: int
  CgroupOperationTimeout :: int
  CgroupRetryDelayMs :: int
  MCPShutdownTimeout :: int
  CPUThreshold :: int
  CPUReleaseThreshold :: int
  CPUThresholdDuration :: int
  CPUQuotaNormal :: string
  CPUQuotaLimited :: string
  RAMEnabled :: bool
  RAMThreshold :: int
  RAMReleaseThreshold :: int
  RAMQuotaLimited :: string
  RAMQuotaPerUser :: string
  DisableSwap :: bool
  RAMHighRatio :: f64
  RAMUserIncludeList :: "string list"
  RAMUserExcludeList :: "string list"
  IOEnabled :: bool
  IOThreshold :: int
  IOReleaseThreshold :: int
  IOReadBPS :: string
  IOWriteBPS :: string
  IOReadIOPS :: int
  IOWriteIOPS :: int
  IODeviceFilter :: string
  IOThresholdDuration :: int
  IORemediationEnabled :: bool
  IOStarvationThreshold :: int
  IOStarvationCheckInterval :: int
  IOBoostMultiplier :: f64
  IOBoostDuration :: int
  IOBoostMaxPerHour :: int
  IOPSIThreshold :: f64
  IORevertOnNormal :: bool
  IOUserIncludeList :: "string list"
  IOUserExcludeList :: "string list"
  AutodetectPatterns :: bool
  PatternHistoryHours :: int
  PatternMinSamples :: int
  PatternConfidenceThreshold :: f64
  BatchNightCPUQuota :: int
  BatchNightRAMQuota :: string
  InteractiveCPUQuota :: int
  InteractiveRAMQuota :: string
  LimitHookEnabled :: bool
  LimitHookScript :: string
  LimitHookURL :: string
  LimitHookTimeout :: int
  EnablePrometheus :: bool
  PrometheusMetricsBindHost :: string
  PrometheusMetricsBindPort :: int
  PrometheusTLSEnabled :: bool
  PrometheusTLSCertFile :: string
  PrometheusTLSKeyFile :: string
  PrometheusTLSCAFile :: string
  PrometheusTLSMinVersion :: string
  PrometheusAuthType :: string
  PrometheusAuthUsername :: string
  PrometheusAuthPasswordFile :: string
  PrometheusJWTSecretFile :: string
  PrometheusJWTIssuer :: string
  PrometheusJWTAudience :: string
  PrometheusJWTExpiry :: int
  LogLevel :: string
  LogMaxSize :: int
  UseSyslog :: bool
  MinSystemCores :: int
  SystemUIDMin :: int
  SystemUIDMax :: int
  UserIncludeList :: "string list"
  UserExcludeList :: "string list"
  ProcessExcludeList :: "string list"
  BlackoutTimeframes :: "timeframe list"
  BlackoutSpec :: string
  IgnoreSystemLoad :: bool
  ServerRole :: string
  MCPEnabled :: bool
  MCPTransport :: string
  MCPHTTPPort :: int
  MCPHTTPHost :: string
  MCPLogLevel :: string
  MCPAuthToken :: string
  MCPAllowWriteOps :: bool
  MetricsDBEnabled :: bool
  MetricsDBPath :: string
  MetricsDBRetentionDays :: int
  MetricsDBWriteInterval :: int
  UsernameCacheTTL :: int
  PSIEventDriven :: bool
  PSICPUStallThreshold :: int
  PSIOStallThreshold :: int
  PSIWindowUs :: int
  PSIFallbackInterval :: int
  PSIBoostWeight :: int
  PSIBoostDuration :: int

text \<open>The argument is the default of \<open>SYSTEM_UID_MAX\<close>: the kernel's \<open>pid_max\<close>, see \<open>default_pid_max\<close>.\<close>

definition DefaultConfig :: "int \<Rightarrow> config" where
  "DefaultConfig pidMax =
   \<lparr>regexCache = Map.empty,
     CgroupRoot = ''/sys/fs/cgroup'', CgroupBase = ''resman'', ConfigFile = ''/etc/resman.conf'',
     LogFile = ''/var/log/resman.log'', CreatedCgroupsFile = ''/var/run/resman-cgroups.txt'',
     MetricsCacheFile = ''/var/run/resman-metrics.cache'',
     PrometheusFile = ''/var/run/resman-metrics.prom'', PollingInterval = 30, MinActiveTime = 60,
     MetricsCacheTTL = 15, MetricsRefreshInterval = 30, ProcessMinAgeSeconds = 60,
     CgroupOperationTimeout = 5, CgroupRetryDelayMs = 100, MCPShutdownTimeout = 10, CPUThreshold = 75,
     CPUReleaseThreshold = 40, CPUThresholdDuration = 90, CPUQuotaNormal = ''max 100000'',
     CPUQuotaLimited = ''50000 100000'', RAMEnabled = False, RAMThreshold = 75, RAMReleaseThreshold = 40,
     RAMQuotaLimited = ''2G'', RAMQuotaPerUser = ''512M'', DisableSwap = False,
     RAMHighRatio = f64_of_rat (8 / 10), RAMUserIncludeList = [], RAMUserExcludeList = [],
     IOEnabled = False, IOThreshold = 75, IOReleaseThreshold = 40, IOReadBPS = ''100M'',
     IOWriteBPS = ''50M'', IOReadIOPS = 1000, IOWriteIOPS = 500, IODeviceFilter = ''all'',
     IOThresholdDuration = 0, IORemediationEnabled = False, IOStarvationThreshold = 300,
     IOStarvationCheckInterval = 30, IOBoostMultiplier = f64_of_int 2, IOBoostDuration = 600,
     IOBoostMaxPerHour = 3, IOPSIThreshold = f64_of_int 50, IORevertOnNormal = True,
     IOUserIncludeList = [], IOUserExcludeList = [], AutodetectPatterns = False, PatternHistoryHours = 168,
     PatternMinSamples = 24, PatternConfidenceThreshold = f64_of_rat (7 / 10), BatchNightCPUQuota = 200000,
     BatchNightRAMQuota = ''4G'', InteractiveCPUQuota = 50000, InteractiveRAMQuota = ''1G'',
     LimitHookEnabled = False, LimitHookScript = '''', LimitHookURL = '''', LimitHookTimeout = 10,
     EnablePrometheus = False, PrometheusMetricsBindHost = ''127.0.0.1'', PrometheusMetricsBindPort = 1974,
     PrometheusTLSEnabled = False, PrometheusTLSCertFile = ''/etc/resman/tls/server.crt'',
     PrometheusTLSKeyFile = ''/etc/resman/tls/server.key'', PrometheusTLSCAFile = '''',
     PrometheusTLSMinVersion = ''1.2'', PrometheusAuthType = ''none'', PrometheusAuthUsername = '''',
     PrometheusAuthPasswordFile = '''', PrometheusJWTSecretFile = '''', PrometheusJWTIssuer = ''resman'',
     PrometheusJWTAudience = ''prometheus'', PrometheusJWTExpiry = 3600, LogLevel = ''INFO'',
     LogMaxSize = 10 * 1024 * 1024, UseSyslog = False, MinSystemCores = 1, SystemUIDMin = 1000,
     SystemUIDMax = pidMax, UserIncludeList = [], UserExcludeList = [],
     ProcessExcludeList = [''^systemd$'', ''^dbus-daemon$'', ''^dbus-broker$'', ''^polkitd$''],
     BlackoutTimeframes = [], BlackoutSpec = '''', IgnoreSystemLoad = False, ServerRole = '''',
     MCPEnabled = False, MCPTransport = ''stdio'', MCPHTTPPort = 1969, MCPHTTPHost = '''',
     MCPLogLevel = ''INFO'', MCPAuthToken = '''', MCPAllowWriteOps = False, MetricsDBEnabled = False,
     MetricsDBPath = ''/etc/resman/metrics.db'', MetricsDBRetentionDays = 30, MetricsDBWriteInterval = 30,
     UsernameCacheTTL = 60, PSIEventDriven = False, PSICPUStallThreshold = 50000,
     PSIOStallThreshold = 50000, PSIWindowUs = 1000000, PSIFallbackInterval = 300, PSIBoostWeight = 300,
     PSIBoostDuration = 120\<rparr>"

text \<open>The value read from \<open>/proc/sys/kernel/pid_max\<close>; \<open>None\<close> when the file cannot be read.\<close>

definition default_pid_max :: "string option \<Rightarrow> int" where
  "default_pid_max content =
     (case content of
        None \<Rightarrow> 60000
      | Some data \<Rightarrow> (case Atoi (TrimSpace data) of None \<Rightarrow> 60000 | Some val \<Rightarrow> val))"

end
