(* ===== verification/ConfigLoad.thy ===== *)
theory ConfigLoad
  imports ConfigTypes
begin

text \<open>
  Reading the configuration, \<open>config/config.go\<close>: the quota and time-frame parsers, the table of field handlers,
  the file and environment loaders and \<open>validateConfig\<close>. An error return is \<open>Inl\<close>.
\<close>

datatype config_error =
    InvalidPort string int
  | InvalidCgroupBase
  | InvalidBlackout string config_error
  | InvalidRegex string string
  | InvalidTimeframe string
  | InvalidDays string config_error
  | InvalidHours string config_error
  | NotANumber string
  | DayOutOfRange
  | InvalidDayRange string
  | InvalidHourFormat string
  | HourOutOfRange
  | StartNotBeforeEnd
  | EmptyQuota
  | InvalidQuotaNumber string
  | InvalidQuotaFormat string
  | MalformedLine nat string
  | SettingKey string nat config_error
  | ReadFailed
  | LoadingFile string config_error
  | ValidationFailed "string list"
  | WriteFailed string

section \<open>Quotas\<close>

text \<open>
  The suffix table is a Go map, visited in an unspecified order: a parameter of the loop. Each multiplication is on
  \<open>uint64\<close> and wraps.
\<close>

definition quota_suffixes :: "(string \<times> u64) list" where
  "quota_suffixes =
     [(''K'', 1024), (''M'', 1024 * 1024), (''G'', 1024 * 1024 * 1024),
      (''T'', 1024 * 1024 * 1024 * 1024)]"

fun quota_loop :: "(string \<times> u64) list \<Rightarrow> string \<Rightarrow> config_error + u64" where
  "quota_loop [] quota =
     (case ParseUint quota of None \<Rightarrow> Inl (InvalidQuotaFormat quota) | Some val \<Rightarrow> Inr val)"
| "quota_loop ((sfx, multiplier) # rest) quota =
     (if HasSuffix quota sfx then
        (let numStr = TrimSuffix quota sfx in
         case ParseUint numStr of
           None \<Rightarrow> Inl (InvalidQuotaNumber numStr)
         | Some val \<Rightarrow> Inr (val * multiplier))
      else quota_loop rest quota)"

definition ParseRAMQuota :: "string \<Rightarrow> config_error + u64" where
  "ParseRAMQuota quota = (if quota = [] then Inl EmptyQuota else quota_loop quota_suffixes quota)"

definition isValidByteQuota :: "string \<Rightarrow> bool" where
  "isValidByteQuota quota =
     (if quota = [] then False else (case ParseRAMQuota quota of Inl e \<Rightarrow> False | Inr v \<Rightarrow> True))"

definition isValidCPUQuota :: "string \<Rightarrow> bool" where
  "isValidCPUQuota quota =
     (case Split quota CHR '' '' of
        [q, p] \<Rightarrow> (if q = ''max'' then Atoi p \<noteq> None else Atoi q \<noteq> None \<and> Atoi p \<noteq> None)
      | _ \<Rightarrow> False)"

section \<open>Blackout time frames\<close>

fun parseDays_parts :: "string list \<Rightarrow> config_error + int list" where
  "parseDays_parts [] = Inr []"
| "parseDays_parts (part # parts) =
     (case
        (if Contains part ''-'' then
           (case Split part CHR ''-'' of
              [a, b] \<Rightarrow>
                (case Atoi a of None \<Rightarrow> Inl (NotANumber a)
                 | Some start \<Rightarrow>
                   (case Atoi b of None \<Rightarrow> Inl (NotANumber b)
                    | Some end_ \<Rightarrow>
                        (if start < 0 \<or> start > 6 \<or> end_ < 0 \<or> end_ > 6 then Inl DayOutOfRange
                         else Inr [start..end_])))
            | _ \<Rightarrow> Inl (InvalidDayRange part))
         else
           (case Atoi part of None \<Rightarrow> Inl (NotANumber part)
            | Some day \<Rightarrow> (if day < 0 \<or> day > 6 then Inl DayOutOfRange else Inr [day])))
      of Inl e \<Rightarrow> Inl e
       | Inr ds \<Rightarrow> (case parseDays_parts parts of Inl e \<Rightarrow> Inl e | Inr days \<Rightarrow> Inr (ds @ days)))"

definition parseDays :: "string \<Rightarrow> config_error + int list" where
  "parseDays spec =
     (if spec = ''*'' then Inr [0, 1, 2, 3, 4, 5, 6] else parseDays_parts (Split spec CHR '',''))"

definition parseHours :: "string \<Rightarrow> config_error + int \<times> int" where
  "parseHours spec =
     (case Split spec CHR ''-'' of
        [a, b] \<Rightarrow>
          (case Atoi a of None \<Rightarrow> Inl (NotANumber a)
           | Some start \<Rightarrow>
             (case Atoi b of None \<Rightarrow> Inl (NotANumber b)
              | Some end_ \<Rightarrow>
                  (if start < 0 \<or> start > 23 \<or> end_ < 0 \<or> end_ > 23 then Inl HourOutOfRange
                   else if start \<ge> end_ then Inl StartNotBeforeEnd
                   else Inr (start, end_))))
      | _ \<Rightarrow> Inl (InvalidHourFormat spec))"

fun ParseTimeframe_specs :: "string list \<Rightarrow> config_error + timeframe list" where
  "ParseTimeframe_specs [] = Inr []"
| "ParseTimeframe_specs (s0 # rest) =
     (let s = TrimSpace s0 in
      if s = [] then ParseTimeframe_specs rest
      else
        (case Fields s of
           [ds, hs] \<Rightarrow>
             (case parseDays ds of Inl e \<Rightarrow> Inl (InvalidDays ds e)
              | Inr days \<Rightarrow>
                (case parseHours hs of Inl e \<Rightarrow> Inl (InvalidHours hs e)
                 | Inr (hourStart, hourEnd) \<Rightarrow>
                     (case ParseTimeframe_specs rest of Inl e \<Rightarrow> Inl e
                      | Inr tfs \<Rightarrow>
                          Inr (\<lparr>DaysOfWeek = days, HourStart = hourStart, HourEnd = hourEnd\<rparr> # tfs))))
         | _ \<Rightarrow> Inl (InvalidTimeframe s)))"

definition ParseTimeframe :: "string \<Rightarrow> config_error + timeframe list" where
  "ParseTimeframe spec = ParseTimeframe_specs (Split spec CHR '';'')"

text \<open>The weekday (0 is Sunday) and the hour are those of \<open>time.Now()\<close>.\<close>

definition in_timeframe :: "int \<Rightarrow> int \<Rightarrow> timeframe \<Rightarrow> bool" where
  "in_timeframe currentDay currentHour tf \<longleftrightarrow>
     currentDay \<in> set (DaysOfWeek tf) \<and> currentHour \<ge> HourStart tf \<and> currentHour < HourEnd tf"

definition IsInBlackout :: "config \<Rightarrow> int \<Rightarrow> int \<Rightarrow> bool" where
  "IsInBlackout c currentDay currentHour =
     (if BlackoutTimeframes c = [] then False
      else list_ex (in_timeframe currentDay currentHour) (BlackoutTimeframes c))"

text \<open>The hour of the current date at which the blackout ends.\<close>

definition GetNextBlackoutEnd :: "config \<Rightarrow> int \<Rightarrow> int \<Rightarrow> int option" where
  "GetNextBlackoutEnd c currentDay currentHour =
     (if \<not> IsInBlackout c currentDay currentHour then None
      else map_option HourEnd (find (in_timeframe currentDay currentHour) (BlackoutTimeframes c)))"

section \<open>Field handlers\<close>

type_synonym handler = "config \<Rightarrow> string \<Rightarrow> config_error + config"

definition setString :: "(string \<Rightarrow> config \<Rightarrow> config) \<Rightarrow> handler" where
  "setString assign cfg value = Inr (assign value cfg)"

definition setStringTransform :: "(string \<Rightarrow> string) \<Rightarrow> (string \<Rightarrow> config \<Rightarrow> config) \<Rightarrow> handler" where
  "setStringTransform transform assign cfg value = Inr (assign (transform value) cfg)"

definition setInt :: "(int \<Rightarrow> config \<Rightarrow> config) \<Rightarrow> handler" where
  "setInt assign cfg value =
     (case Atoi value of Some i \<Rightarrow> Inr (assign i cfg) | None \<Rightarrow> Inr cfg)"

definition setPositiveInt :: "(int \<Rightarrow> config \<Rightarrow> config) \<Rightarrow> handler" where
  "setPositiveInt assign cfg value =
     (case Atoi value of Some i \<Rightarrow> if i > 0 then Inr (assign i cfg) else Inr cfg | None \<Rightarrow> Inr cfg)"

definition setFloat :: "(f64 \<Rightarrow> config \<Rightarrow> config) \<Rightarrow> handler" where
  "setFloat assign cfg value =
     (case ParseFloat value of Some f \<Rightarrow> Inr (assign f cfg) | None \<Rightarrow> Inr cfg)"

definition truthy :: "string list" where "truthy = [''true'', ''1'', ''yes'', ''on'']"
definition falsy :: "string list" where "falsy = [''false'', ''0'', ''no'', ''off'']"

definition setBool :: "bool \<Rightarrow> (bool \<Rightarrow> config \<Rightarrow> config) \<Rightarrow> handler" where
  "setBool defaultValue assign cfg value =
     (if ToLower value \<in> set truthy then Inr (assign True cfg)
      else if ToLower value \<in> set falsy then Inr (assign False cfg)
      else Inr (assign defaultValue cfg))"

definition setPort :: "string \<Rightarrow> (int \<Rightarrow> config \<Rightarrow> config) \<Rightarrow> handler" where
  "setPort key assign cfg value =
     (case Atoi value of
        Some i \<Rightarrow> if i < 1 \<or> i > 65535 then Inl (InvalidPort key i) else Inr (assign i cfg)
      | None \<Rightarrow> Inr cfg)"

definition setCgroupBase :: handler where
  "setCgroupBase cfg value =
     (if Contains value ''..'' \<or> HasPrefix value ''/'' then Inl InvalidCgroupBase
      else Inr (cfg\<lparr>CgroupBase := value\<rparr>))"

definition setBlackout :: handler where
  "setBlackout cfg value =
     (let cfg1 = cfg\<lparr>BlackoutSpec := TrimSpace value\<rparr> in
      if BlackoutSpec cfg1 = [] then Inr (cfg1\<lparr>BlackoutTimeframes := []\<rparr>)
      else
        (case ParseTimeframe (BlackoutSpec cfg1) of
           Inl e \<Rightarrow> Inl (InvalidBlackout (BlackoutSpec cfg1) e)
         | Inr timeframes \<Rightarrow> Inr (cfg1\<lparr>BlackoutTimeframes := timeframes\<rparr>)))"

fun compile_all :: "regexp_lib \<Rightarrow> string \<Rightarrow> string list \<Rightarrow> config_error + string list" where
  "compile_all rx ctx [] = Inr []"
| "compile_all rx ctx (p # ps) =
     (let pattern = TrimSpace p in
      if pattern = [] then compile_all rx ctx ps
      else
        (case rx pattern of
           None \<Rightarrow> Inl (InvalidRegex pattern ctx)
         | Some re \<Rightarrow>
             (case compile_all rx ctx ps of Inl e \<Rightarrow> Inl e | Inr qs \<Rightarrow> Inr (pattern # qs))))"

definition parseRegexList :: "regexp_lib \<Rightarrow> string \<Rightarrow> string \<Rightarrow> config_error + string list" where
  "parseRegexList rx value0 errorContext =
     (let value = TrimSpace value0 in
      if value = [] then Inr [] else compile_all rx errorContext (Split value CHR '',''))"

definition setRegexList :: "regexp_lib \<Rightarrow> string \<Rightarrow> (string list \<Rightarrow> config \<Rightarrow> config) \<Rightarrow> handler" where
  "setRegexList rx errorContext assign cfg value =
     (case parseRegexList rx value errorContext of
        Inl e \<Rightarrow> Inl e
      | Inr patterns \<Rightarrow> Inr (assign patterns cfg))"

definition parsePlainList :: "string \<Rightarrow> string list" where
  "parsePlainList value0 =
     (let value = TrimSpace value0 in
      if value = [] then []
      else filter (\<lambda>item. item \<noteq> []) (map TrimSpace (Split value CHR '','')))"

definition setPlainList :: "(string list \<Rightarrow> config \<Rightarrow> config) \<Rightarrow> handler" where
  "setPlainList assign cfg value = Inr (assign (parsePlainList value) cfg)"

definition configFieldHandlers :: "regexp_lib \<Rightarrow> (string \<times> handler) list" where
  "configFieldHandlers rx =
    [(''CGROUP_ROOT'', setString (\<lambda>v. CgroupRoot_update (\<lambda>_. v))),
     (''CGROUP_BASE'', setCgroupBase),
     (''CONFIG_FILE'', setString (\<lambda>v. ConfigFile_update (\<lambda>_. v))),
     (''LOG_FILE'', setString (\<lambda>v. LogFile_update (\<lambda>_. v))),
     (''CREATED_CGROUPS_FILE'', setString (\<lambda>v. CreatedCgroupsFile_update (\<lambda>_. v))),
     (''METRICS_CACHE_FILE'', setString (\<lambda>v. MetricsCacheFile_update (\<lambda>_. v))),
     (''PROMETHEUS_FILE'', setString (\<lambda>v. PrometheusFile_update (\<lambda>_. v))),
     (''POLLING_INTERVAL'', setInt (\<lambda>v. PollingInterval_update (\<lambda>_. v))),
     (''MIN_ACTIVE_TIME'', setInt (\<lambda>v. MinActiveTime_update (\<lambda>_. v))),
     (''METRICS_CACHE_TTL'', setInt (\<lambda>v. MetricsCacheTTL_update (\<lambda>_. v))),
     (''METRICS_REFRESH_INTERVAL'', setPositiveInt (\<lambda>v. MetricsRefreshInterval_update (\<lambda>_. v))),
     (''PROCESS_MIN_AGE_SECONDS'', setInt (\<lambda>v. ProcessMinAgeSeconds_update (\<lambda>_. v))),
     (''CPU_THRESHOLD'', setInt (\<lambda>v. CPUThreshold_update (\<lambda>_. v))),
     (''CPU_RELEASE_THRESHOLD'', setInt (\<lambda>v. CPUReleaseThreshold_update (\<lambda>_. v))),
     (''CPU_THRESHOLD_DURATION'', setInt (\<lambda>v. CPUThresholdDuration_update (\<lambda>_. v))),
     (''CPU_QUOTA_NORMAL'', setString (\<lambda>v. CPUQuotaNormal_update (\<lambda>_. v))),
     (''CPU_QUOTA_LIMITED'', setString (\<lambda>v. CPUQuotaLimited_update (\<lambda>_. v))),
     (''LIMIT_HOOK_ENABLED'', setBool False (\<lambda>v. LimitHookEnabled_update (\<lambda>_. v))),
     (''LIMIT_HOOK_SCRIPT'', setString (\<lambda>v. LimitHookScript_update (\<lambda>_. v))),
     (''LIMIT_HOOK_URL'', setString (\<lambda>v. LimitHookURL_update (\<lambda>_. v))),
     (''LIMIT_HOOK_TIMEOUT'', setInt (\<lambda>v. LimitHookTimeout_update (\<lambda>_. v))),
     (''ENABLE_PROMETHEUS'', setBool False (\<lambda>v. EnablePrometheus_update (\<lambda>_. v))),
     (''PROMETHEUS_METRICS_BIND_HOST'', setString (\<lambda>v. PrometheusMetricsBindHost_update (\<lambda>_. v))),
     (''PROMETHEUS_METRICS_BIND_PORT'', setPort ''PROMETHEUS_METRICS_BIND_PORT'' (\<lambda>v. PrometheusMetricsBindPort_update (\<lambda>_. v))),
     (''PROMETHEUS_HOST'', setString (\<lambda>v. PrometheusMetricsBindHost_update (\<lambda>_. v))),
     (''PROMETHEUS_PORT'', setPort ''PROMETHEUS_PORT'' (\<lambda>v. PrometheusMetricsBindPort_update (\<lambda>_. v))),
     (''PROMETHEUS_TLS_ENABLED'', setBool False (\<lambda>v. PrometheusTLSEnabled_update (\<lambda>_. v))),
     (''PROMETHEUS_TLS_CERT_FILE'', setString (\<lambda>v. PrometheusTLSCertFile_update (\<lambda>_. v))),
     (''PROMETHEUS_TLS_KEY_FILE'', setString (\<lambda>v. PrometheusTLSKeyFile_update (\<lambda>_. v))),
     (''PROMETHEUS_TLS_CA_FILE'', setString (\<lambda>v. PrometheusTLSCAFile_update (\<lambda>_. v))),
     (''PROMETHEUS_TLS_MIN_VERSION'', setStringTransform ToUpper (\<lambda>v. PrometheusTLSMinVersion_update (\<lambda>_. v))),
     (''PROMETHEUS_AUTH_TYPE'', setStringTransform ToLower (\<lambda>v. PrometheusAuthType_update (\<lambda>_. v))),
     (''PROMETHEUS_AUTH_USERNAME'', setString (\<lambda>v. PrometheusAuthUsername_update (\<lambda>_. v))),
     (''PROMETHEUS_AUTH_PASSWORD_FILE'', setString (\<lambda>v. PrometheusAuthPasswordFile_update (\<lambda>_. v))),
     (''PROMETHEUS_JWT_SECRET_FILE'', setString (\<lambda>v. PrometheusJWTSecretFile_update (\<lambda>_. v))),
     (''PROMETHEUS_JWT_ISSUER'', setString (\<lambda>v. PrometheusJWTIssuer_update (\<lambda>_. v))),
     (''PROMETHEUS_JWT_AUDIENCE'', setString (\<lambda>v. PrometheusJWTAudience_update (\<lambda>_. v))),
     (''PROMETHEUS_JWT_EXPIRY'', setInt (\<lambda>v. PrometheusJWTExpiry_update (\<lambda>_. v))),
     (''LOG_LEVEL'', setStringTransform ToUpper (\<lambda>v. LogLevel_update (\<lambda>_. v))),
     (''LOG_MAX_SIZE'', setInt (\<lambda>v. LogMaxSize_update (\<lambda>_. v))),
     (''USE_SYSLOG'', setBool False (\<lambda>v. UseSyslog_update (\<lambda>_. v))),
     (''MIN_SYSTEM_CORES'', setInt (\<lambda>v. MinSystemCores_update (\<lambda>_. v))),
     (''SYSTEM_UID_MIN'', setInt (\<lambda>v. SystemUIDMin_update (\<lambda>_. v))),
     (''SYSTEM_UID_MAX'', setInt (\<lambda>v. SystemUIDMax_update (\<lambda>_. v))),
     (''USER_INCLUDE_LIST'', setRegexList rx '''' (\<lambda>v. UserIncludeList_update (\<lambda>_. v))),
     (''USER_EXCLUDE_LIST'', setRegexList rx '''' (\<lambda>v. UserExcludeList_update (\<lambda>_. v))),
     (''PROCESS_EXCLUDE_LIST'', setRegexList rx '' in PROCESS_EXCLUDE_LIST'' (\<lambda>v. ProcessExcludeList_update (\<lambda>_. v))),
     (''BLACKOUT'', setBlackout),
     (''USER_WHITELIST'', setPlainList (\<lambda>v. UserExcludeList_update (\<lambda>_. v))),
     (''IGNORE_SYSTEM_LOAD'', setBool False (\<lambda>v. IgnoreSystemLoad_update (\<lambda>_. v))),
     (''SERVER_ROLE'', setString (\<lambda>v. ServerRole_update (\<lambda>_. v))),
     (''MCP_ENABLED'', setBool False (\<lambda>v. MCPEnabled_update (\<lambda>_. v))),
     (''MCP_TRANSPORT'', setStringTransform ToLower (\<lambda>v. MCPTransport_update (\<lambda>_. v))),
     (''MCP_HTTP_PORT'', setInt (\<lambda>v. MCPHTTPPort_update (\<lambda>_. v))),
     (''MCP_HTTP_HOST'', setString (\<lambda>v. MCPHTTPHost_update (\<lambda>_. v))),
     (''MCP_LOG_LEVEL'', setStringTransform ToUpper (\<lambda>v. MCPLogLevel_update (\<lambda>_. v))),
     (''MCP_AUTH_TOKEN'', setString (\<lambda>v. MCPAuthToken_update (\<lambda>_. v))),
     (''MCP_ALLOW_WRITE_OPS'', setBool False (\<lambda>v. MCPAllowWriteOps_update (\<lambda>_. v))),
     (''METRICS_DB_ENABLED'', setBool False (\<lambda>v. MetricsDBEnabled_update (\<lambda>_. v))),
     (''METRICS_DB_PATH'', setString (\<lambda>v. MetricsDBPath_update (\<lambda>_. v))),
     (''METRICS_DB_RETENTION_DAYS'', setPositiveInt (\<lambda>v. MetricsDBRetentionDays_update (\<lambda>_. v))),
     (''METRICS_DB_WRITE_INTERVAL'', setPositiveInt (\<lambda>v. MetricsDBWriteInterval_update (\<lambda>_. v))),
     (''USERNAME_CACHE_TTL'', setPositiveInt (\<lambda>v. UsernameCacheTTL_update (\<lambda>_. v))),
     (''CGROUP_OPERATION_TIMEOUT'', setInt (\<lambda>v. CgroupOperationTimeout_update (\<lambda>_. v))),
     (''CGROUP_RETRY_DELAY_MS'', setInt (\<lambda>v. CgroupRetryDelayMs_update (\<lambda>_. v))),
     (''MCP_SHUTDOWN_TIMEOUT'', setInt (\<lambda>v. MCPShutdownTimeout_update (\<lambda>_. v))),
     (''RAM_LIMIT_ENABLED'', setBool False (\<lambda>v. RAMEnabled_update (\<lambda>_. v))),
     (''RAM_THRESHOLD'', setInt (\<lambda>v. RAMThreshold_update (\<lambda>_. v))),
     (''RAM_RELEASE_THRESHOLD'', setInt (\<lambda>v. RAMReleaseThreshold_update (\<lambda>_. v))),
     (''RAM_QUOTA_LIMITED'', setString (\<lambda>v. RAMQuotaLimited_update (\<lambda>_. v))),
     (''RAM_QUOTA_PER_USER'', setString (\<lambda>v. RAMQuotaPerUser_update (\<lambda>_. v))),
     (''DISABLE_SWAP'', setBool False (\<lambda>v. DisableSwap_update (\<lambda>_. v))),
     (''RAM_HIGH_RATIO'', setFloat (\<lambda>v. RAMHighRatio_update (\<lambda>_. v))),
     (''RAM_USER_INCLUDE_LIST'', setRegexList rx '' in RAM_USER_INCLUDE_LIST'' (\<lambda>v. RAMUserIncludeList_update (\<lambda>_. v))),
     (''RAM_USER_EXCLUDE_LIST'', setRegexList rx '' in RAM_USER_EXCLUDE_LIST'' (\<lambda>v. RAMUserExcludeList_update (\<lambda>_. v))),
     (''IO_LIMIT_ENABLED'', setBool False (\<lambda>v. IOEnabled_update (\<lambda>_. v))),
     (''IO_THRESHOLD'', setInt (\<lambda>v. IOThreshold_update (\<lambda>_. v))),
     (''IO_RELEASE_THRESHOLD'', setInt (\<lambda>v. IOReleaseThreshold_update (\<lambda>_. v))),
     (''IO_READ_BPS'', setString (\<lambda>v. IOReadBPS_update (\<lambda>_. v))),
     (''IO_WRITE_BPS'', setString (\<lambda>v. IOWriteBPS_update (\<lambda>_. v))),
     (''IO_READ_IOPS'', setInt (\<lambda>v. IOReadIOPS_update (\<lambda>_. v))),
     (''IO_WRITE_IOPS'', setInt (\<lambda>v. IOWriteIOPS_update (\<lambda>_. v))),
     (''IO_DEVICE_FILTER'', setString (\<lambda>v. IODeviceFilter_update (\<lambda>_. v))),
     (''IO_THRESHOLD_DURATION'', setInt (\<lambda>v. IOThresholdDuration_update (\<lambda>_. v))),
     (''IO_USER_INCLUDE_LIST'', setRegexList rx '' in IO_USER_INCLUDE_LIST'' (\<lambda>v. IOUserIncludeList_update (\<lambda>_. v))),
     (''IO_USER_EXCLUDE_LIST'', setRegexList rx '' in IO_USER_EXCLUDE_LIST'' (\<lambda>v. IOUserExcludeList_update (\<lambda>_. v))),
     (''IO_REMEDIATION_ENABLED'', setBool False (\<lambda>v. IORemediationEnabled_update (\<lambda>_. v))),
     (''IO_STARVATION_THRESHOLD'', setInt (\<lambda>v. IOStarvationThreshold_update (\<lambda>_. v))),
     (''IO_STARVATION_CHECK_INTERVAL'', setInt (\<lambda>v. IOStarvationCheckInterval_update (\<lambda>_. v))),
     (''IO_BOOST_MULTIPLIER'', setFloat (\<lambda>v. IOBoostMultiplier_update (\<lambda>_. v))),
     (''IO_BOOST_DURATION'', setInt (\<lambda>v. IOBoostDuration_update (\<lambda>_. v))),
     (''IO_BOOST_MAX_PER_HOUR'', setInt (\<lambda>v. IOBoostMaxPerHour_update (\<lambda>_. v))),
     (''IO_PSI_THRESHOLD'', setFloat (\<lambda>v. IOPSIThreshold_update (\<lambda>_. v))),
     (''IO_REVERT_ON_NORMAL'', setBool True (\<lambda>v. IORevertOnNormal_update (\<lambda>_. v))),
     (''AUTODETECT_PATTERNS'', setBool False (\<lambda>v. AutodetectPatterns_update (\<lambda>_. v))),
     (''PATTERN_HISTORY_HOURS'', setPositiveInt (\<lambda>v. PatternHistoryHours_update (\<lambda>_. v))),
     (''PATTERN_MIN_SAMPLES'', setPositiveInt (\<lambda>v. PatternMinSamples_update (\<lambda>_. v))),
     (''PATTERN_CONFIDENCE_THRESHOLD'', setFloat (\<lambda>v. PatternConfidenceThreshold_update (\<lambda>_. v))),
     (''BATCH_NIGHT_CPU_QUOTA'', setInt (\<lambda>v. BatchNightCPUQuota_update (\<lambda>_. v))),
     (''BATCH_NIGHT_RAM_QUOTA'', setString (\<lambda>v. BatchNightRAMQuota_update (\<lambda>_. v))),
     (''INTERACTIVE_CPU_QUOTA'', setInt (\<lambda>v. InteractiveCPUQuota_update (\<lambda>_. v))),
     (''INTERACTIVE_RAM_QUOTA'', setString (\<lambda>v. InteractiveRAMQuota_update (\<lambda>_. v))),
     (''PSI_EVENT_DRIVEN'', setBool False (\<lambda>v. PSIEventDriven_update (\<lambda>_. v))),
     (''PSI_CPU_STALL_THRESHOLD'', setPositiveInt (\<lambda>v. PSICPUStallThreshold_update (\<lambda>_. v))),
     (''PSI_IO_STALL_THRESHOLD'', setPositiveInt (\<lambda>v. PSIOStallThreshold_update (\<lambda>_. v))),
     (''PSI_WINDOW_US'', setPositiveInt (\<lambda>v. PSIWindowUs_update (\<lambda>_. v))),
     (''PSI_FALLBACK_INTERVAL'', setPositiveInt (\<lambda>v. PSIFallbackInterval_update (\<lambda>_. v))),
     (''PSI_BOOST_WEIGHT'', setPositiveInt (\<lambda>v. PSIBoostWeight_update (\<lambda>_. v))),
     (''PSI_BOOST_DURATION'', setPositiveInt (\<lambda>v. PSIBoostDuration_update (\<lambda>_. v)))]"

definition setConfigField :: "regexp_lib \<Rightarrow> config \<Rightarrow> string \<Rightarrow> string \<Rightarrow> config_error + config" where
  "setConfigField rx cfg key value =
     (case map_of (configFieldHandlers rx) key of
        None \<Rightarrow> Inr cfg
      | Some h \<Rightarrow> h cfg value)"

section \<open>The configuration file\<close>

definition quote_chars :: string where
  "quote_chars = [CHR 0x22, CHR 0x27]"

text \<open>The value of a line: the inline comment goes first, then quotes, then white space.\<close>

definition clean_value :: "string \<Rightarrow> string" where
  "clean_value raw =
     (let value = takeWhile (\<lambda>c. c \<noteq> CHR ''#'') (TrimSpace raw)
      in TrimSpace (Trim value quote_chars))"

fun loadLines :: "regexp_lib \<Rightarrow> nat \<Rightarrow> string list \<Rightarrow> config \<Rightarrow> config_error + config" where
  "loadLines rx i [] cfg = Inr cfg"
| "loadLines rx i (line0 # rest) cfg =
     (let line = TrimSpace line0 in
      if line = [] \<or> HasPrefix line ''#'' then loadLines rx (Suc i) rest cfg
      else
        (case SplitN2 line CHR ''='' of
           [k, v] \<Rightarrow>
             (let key = TrimSpace k; value = clean_value v in
              case setConfigField rx cfg key value of
                Inl e \<Rightarrow> Inl (SettingKey key (Suc i) e)
              | Inr cfg' \<Rightarrow> loadLines rx (Suc i) rest cfg')
         | _ \<Rightarrow> Inl (MalformedLine (Suc i) line)))"

text \<open>What \<open>os.ReadFile\<close> returned.\<close>

datatype file_read = FileMissing | FileUnreadable | FileData string

definition newline :: char where "newline = CHR 0x0A"

definition loadFromFile :: "regexp_lib \<Rightarrow> file_read \<Rightarrow> config \<Rightarrow> config_error + config" where
  "loadFromFile rx file cfg =
     (case file of
        FileMissing \<Rightarrow> Inr cfg
      | FileUnreadable \<Rightarrow> Inl ReadFailed
      | FileData data \<Rightarrow> loadLines rx 0 (Split data newline) cfg)"

section \<open>The environment\<close>

text \<open>
  \<open>loadFromEnvironment\<close> walks the struct by reflection: \<open>configFields\<close> is that walk, one entry per tagged field in
  the order of the struct, with the kind the code switches on and the field's setter (and getter, where the warning
  prints the current value).
\<close>

datatype field =
    FString "string \<Rightarrow> config \<Rightarrow> config"
  | FInt "config \<Rightarrow> int" "int \<Rightarrow> config \<Rightarrow> config"
  | FBool "config \<Rightarrow> bool" "bool \<Rightarrow> config \<Rightarrow> config"
  | FStrings "string list \<Rightarrow> config \<Rightarrow> config"
  | FFloat "config \<Rightarrow> f64" "f64 \<Rightarrow> config \<Rightarrow> config"
  | FOther

datatype env_warning =
    BadInteger string string int
  | BadBoolean string string bool
  | BadFloat string string f64
  | UnsupportedSlice string string

definition configFields :: "(string \<times> field) list" where
  "configFields =
    [(''CGROUP_ROOT'', FString (\<lambda>v. CgroupRoot_update (\<lambda>_. v))),
     (''CGROUP_BASE'', FString (\<lambda>v. CgroupBase_update (\<lambda>_. v))),
     (''CONFIG_FILE'', FString (\<lambda>v. ConfigFile_update (\<lambda>_. v))),
     (''LOG_FILE'', FString (\<lambda>v. LogFile_update (\<lambda>_. v))),
     (''CREATED_CGROUPS_FILE'', FString (\<lambda>v. CreatedCgroupsFile_update (\<lambda>_. v))),
     (''METRICS_CACHE_FILE'', FString (\<lambda>v. MetricsCacheFile_update (\<lambda>_. v))),
     (''PROMETHEUS_FILE'', FString (\<lambda>v. PrometheusFile_update (\<lambda>_. v))),
     (''POLLING_INTERVAL'', FInt PollingInterval (\<lambda>v. PollingInterval_update (\<lambda>_. v))),
     (''MIN_ACTIVE_TIME'', FInt MinActiveTime (\<lambda>v. MinActiveTime_update (\<lambda>_. v))),
     (''METRICS_CACHE_TTL'', FInt MetricsCacheTTL (\<lambda>v. MetricsCacheTTL_update (\<lambda>_. v))),
     (''METRICS_REFRESH_INTERVAL'', FInt MetricsRefreshInterval (\<lambda>v. MetricsRefreshInterval_update (\<lambda>_. v))),
     (''PROCESS_MIN_AGE_SECONDS'', FInt ProcessMinAgeSeconds (\<lambda>v. ProcessMinAgeSeconds_update (\<lambda>_. v))),
     (''CGROUP_OPERATION_TIMEOUT'', FInt CgroupOperationTimeout (\<lambda>v. CgroupOperationTimeout_update (\<lambda>_. v))),
     (''CGROUP_RETRY_DELAY_MS'', FInt CgroupRetryDelayMs (\<lambda>v. CgroupRetryDelayMs_update (\<lambda>_. v))),
     (''MCP_SHUTDOWN_TIMEOUT'', FInt MCPShutdownTimeout (\<lambda>v. MCPShutdownTimeout_update (\<lambda>_. v))),
     (''CPU_THRESHOLD'', FInt CPUThreshold (\<lambda>v. CPUThreshold_update (\<lambda>_. v))),
     (''CPU_RELEASE_THRESHOLD'', FInt CPUReleaseThreshold (\<lambda>v. CPUReleaseThreshold_update (\<lambda>_. v))),
     (''CPU_THRESHOLD_DURATION'', FInt CPUThresholdDuration (\<lambda>v. CPUThresholdDuration_update (\<lambda>_. v))),
     (''CPU_QUOTA_NORMAL'', FString (\<lambda>v. CPUQuotaNormal_update (\<lambda>_. v))),
     (''CPU_QUOTA_LIMITED'', FString (\<lambda>v. CPUQuotaLimited_update (\<lambda>_. v))),
     (''RAM_LIMIT_ENABLED'', FBool RAMEnabled (\<lambda>v. RAMEnabled_update (\<lambda>_. v))),
     (''RAM_THRESHOLD'', FInt RAMThreshold (\<lambda>v. RAMThreshold_update (\<lambda>_. v))),
     (''RAM_RELEASE_THRESHOLD'', FInt RAMReleaseThreshold (\<lambda>v. RAMReleaseThreshold_update (\<lambda>_. v))),
     (''RAM_QUOTA_LIMITED'', FString (\<lambda>v. RAMQuotaLimited_update (\<lambda>_. v))),
     (''RAM_QUOTA_PER_USER'', FString (\<lambda>v. RAMQuotaPerUser_update (\<lambda>_. v))),
     (''DISABLE_SWAP'', FBool DisableSwap (\<lambda>v. DisableSwap_update (\<lambda>_. v))),
     (''RAM_HIGH_RATIO'', FFloat RAMHighRatio (\<lambda>v. RAMHighRatio_update (\<lambda>_. v))),
     (''RAM_USER_INCLUDE_LIST'', FStrings (\<lambda>v. RAMUserIncludeList_update (\<lambda>_. v))),
     (''RAM_USER_EXCLUDE_LIST'', FStrings (\<lambda>v. RAMUserExcludeList_update (\<lambda>_. v))),
     (''IO_LIMIT_ENABLED'', FBool IOEnabled (\<lambda>v. IOEnabled_update (\<lambda>_. v))),
     (''IO_THRESHOLD'', FInt IOThreshold (\<lambda>v. IOThreshold_update (\<lambda>_. v))),
     (''IO_RELEASE_THRESHOLD'', FInt IOReleaseThreshold (\<lambda>v. IOReleaseThreshold_update (\<lambda>_. v))),
     (''IO_READ_BPS'', FString (\<lambda>v. IOReadBPS_update (\<lambda>_. v))),
     (''IO_WRITE_BPS'', FString (\<lambda>v. IOWriteBPS_update (\<lambda>_. v))),
     (''IO_READ_IOPS'', FInt IOReadIOPS (\<lambda>v. IOReadIOPS_update (\<lambda>_. v))),
     (''IO_WRITE_IOPS'', FInt IOWriteIOPS (\<lambda>v. IOWriteIOPS_update (\<lambda>_. v))),
     (''IO_DEVICE_FILTER'', FString (\<lambda>v. IODeviceFilter_update (\<lambda>_. v))),
     (''IO_THRESHOLD_DURATION'', FInt IOThresholdDuration (\<lambda>v. IOThresholdDuration_update (\<lambda>_. v))),
     (''IO_REMEDIATION_ENABLED'', FBool IORemediationEnabled (\<lambda>v. IORemediationEnabled_update (\<lambda>_. v))),
     (''IO_STARVATION_THRESHOLD'', FInt IOStarvationThreshold (\<lambda>v. IOStarvationThreshold_update (\<lambda>_. v))),
     (''IO_STARVATION_CHECK_INTERVAL'', FInt IOStarvationCheckInterval (\<lambda>v. IOStarvationCheckInterval_update (\<lambda>_. v))),
     (''IO_BOOST_MULTIPLIER'', FFloat IOBoostMultiplier (\<lambda>v. IOBoostMultiplier_update (\<lambda>_. v))),
     (''IO_BOOST_DURATION'', FInt IOBoostDuration (\<lambda>v. IOBoostDuration_update (\<lambda>_. v))),
     (''IO_BOOST_MAX_PER_HOUR'', FInt IOBoostMaxPerHour (\<lambda>v. IOBoostMaxPerHour_update (\<lambda>_. v))),
     (''IO_PSI_THRESHOLD'', FFloat IOPSIThreshold (\<lambda>v. IOPSIThreshold_update (\<lambda>_. v))),
     (''IO_REVERT_ON_NORMAL'', FBool IORevertOnNormal (\<lambda>v. IORevertOnNormal_update (\<lambda>_. v))),
     (''IO_USER_INCLUDE_LIST'', FStrings (\<lambda>v. IOUserIncludeList_update (\<lambda>_. v))),
     (''IO_USER_EXCLUDE_LIST'', FStrings (\<lambda>v. IOUserExcludeList_update (\<lambda>_. v))),
     (''AUTODETECT_PATTERNS'', FBool AutodetectPatterns (\<lambda>v. AutodetectPatterns_update (\<lambda>_. v))),
     (''PATTERN_HISTORY_HOURS'', FInt PatternHistoryHours (\<lambda>v. PatternHistoryHours_update (\<lambda>_. v))),
     (''PATTERN_MIN_SAMPLES'', FInt PatternMinSamples (\<lambda>v. PatternMinSamples_update (\<lambda>_. v))),
     (''PATTERN_CONFIDENCE_THRESHOLD'', FFloat PatternConfidenceThreshold (\<lambda>v. PatternConfidenceThreshold_update (\<lambda>_. v))),
     (''BATCH_NIGHT_CPU_QUOTA'', FInt BatchNightCPUQuota (\<lambda>v. BatchNightCPUQuota_update (\<lambda>_. v))),
     (''BATCH_NIGHT_RAM_QUOTA'', FString (\<lambda>v. BatchNightRAMQuota_update (\<lambda>_. v))),
     (''INTERACTIVE_CPU_QUOTA'', FInt InteractiveCPUQuota (\<lambda>v. InteractiveCPUQuota_update (\<lambda>_. v))),
     (''INTERACTIVE_RAM_QUOTA'', FString (\<lambda>v. InteractiveRAMQuota_update (\<lambda>_. v))),
     (''LIMIT_HOOK_ENABLED'', FBool LimitHookEnabled (\<lambda>v. LimitHookEnabled_update (\<lambda>_. v))),
     (''LIMIT_HOOK_SCRIPT'', FString (\<lambda>v. LimitHookScript_update (\<lambda>_. v))),
     (''LIMIT_HOOK_URL'', FString (\<lambda>v. LimitHookURL_update (\<lambda>_. v))),
     (''LIMIT_HOOK_TIMEOUT'', FInt LimitHookTimeout (\<lambda>v. LimitHookTimeout_update (\<lambda>_. v))),
     (''ENABLE_PROMETHEUS'', FBool EnablePrometheus (\<lambda>v. EnablePrometheus_update (\<lambda>_. v))),
     (''PROMETHEUS_METRICS_BIND_HOST'', FString (\<lambda>v. PrometheusMetricsBindHost_update (\<lambda>_. v))),
     (''PROMETHEUS_METRICS_BIND_PORT'', FInt PrometheusMetricsBindPort (\<lambda>v. PrometheusMetricsBindPort_update (\<lambda>_. v))),
     (''PROMETHEUS_TLS_ENABLED'', FBool PrometheusTLSEnabled (\<lambda>v. PrometheusTLSEnabled_update (\<lambda>_. v))),
     (''PROMETHEUS_TLS_CERT_FILE'', FString (\<lambda>v. PrometheusTLSCertFile_update (\<lambda>_. v))),
     (''PROMETHEUS_TLS_KEY_FILE'', FString (\<lambda>v. PrometheusTLSKeyFile_update (\<lambda>_. v))),
     (''PROMETHEUS_TLS_CA_FILE'', FString (\<lambda>v. PrometheusTLSCAFile_update (\<lambda>_. v))),
     (''PROMETHEUS_TLS_MIN_VERSION'', FString (\<lambda>v. PrometheusTLSMinVersion_update (\<lambda>_. v))),
     (''PROMETHEUS_AUTH_TYPE'', FString (\<lambda>v. PrometheusAuthType_update (\<lambda>_. v))),
     (''PROMETHEUS_AUTH_USERNAME'', FString (\<lambda>v. PrometheusAuthUsername_update (\<lambda>_. v))),
     (''PROMETHEUS_AUTH_PASSWORD_FILE'', FString (\<lambda>v. PrometheusAuthPasswordFile_update (\<lambda>_. v))),
     (''PROMETHEUS_JWT_SECRET_FILE'', FString (\<lambda>v. PrometheusJWTSecretFile_update (\<lambda>_. v))),
     (''PROMETHEUS_JWT_ISSUER'', FString (\<lambda>v. PrometheusJWTIssuer_update (\<lambda>_. v))),
     (''PROMETHEUS_JWT_AUDIENCE'', FString (\<lambda>v. PrometheusJWTAudience_update (\<lambda>_. v))),
     (''PROMETHEUS_JWT_EXPIRY'', FInt PrometheusJWTExpiry (\<lambda>v. PrometheusJWTExpiry_update (\<lambda>_. v))),
     (''LOG_LEVEL'', FString (\<lambda>v. LogLevel_update (\<lambda>_. v))),
     (''LOG_MAX_SIZE'', FInt LogMaxSize (\<lambda>v. LogMaxSize_update (\<lambda>_. v))),
     (''USE_SYSLOG'', FBool UseSyslog (\<lambda>v. UseSyslog_update (\<lambda>_. v))),
     (''MIN_SYSTEM_CORES'', FInt MinSystemCores (\<lambda>v. MinSystemCores_update (\<lambda>_. v))),
     (''SYSTEM_UID_MIN'', FInt SystemUIDMin (\<lambda>v. SystemUIDMin_update (\<lambda>_. v))),
     (''SYSTEM_UID_MAX'', FInt SystemUIDMax (\<lambda>v. SystemUIDMax_update (\<lambda>_. v))),
     (''USER_INCLUDE_LIST'', FStrings (\<lambda>v. UserIncludeList_update (\<lambda>_. v))),
     (''USER_EXCLUDE_LIST'', FStrings (\<lambda>v. UserExcludeList_update (\<lambda>_. v))),
     (''PROCESS_EXCLUDE_LIST'', FStrings (\<lambda>v. ProcessExcludeList_update (\<lambda>_. v))),
     (''-'', FOther),
     (''BLACKOUT'', FString (\<lambda>v. BlackoutSpec_update (\<lambda>_. v))),
     (''IGNORE_SYSTEM_LOAD'', FBool IgnoreSystemLoad (\<lambda>v. IgnoreSystemLoad_update (\<lambda>_. v))),
     (''SERVER_ROLE'', FString (\<lambda>v. ServerRole_update (\<lambda>_. v))),
     (''MCP_ENABLED'', FBool MCPEnabled (\<lambda>v. MCPEnabled_update (\<lambda>_. v))),
     (''MCP_TRANSPORT'', FString (\<lambda>v. MCPTransport_update (\<lambda>_. v))),
     (''MCP_HTTP_PORT'', FInt MCPHTTPPort (\<lambda>v. MCPHTTPPort_update (\<lambda>_. v))),
     (''MCP_HTTP_HOST'', FString (\<lambda>v. MCPHTTPHost_update (\<lambda>_. v))),
     (''MCP_LOG_LEVEL'', FString (\<lambda>v. MCPLogLevel_update (\<lambda>_. v))),
     (''MCP_AUTH_TOKEN'', FString (\<lambda>v. MCPAuthToken_update (\<lambda>_. v))),
     (''MCP_ALLOW_WRITE_OPS'', FBool MCPAllowWriteOps (\<lambda>v. MCPAllowWriteOps_update (\<lambda>_. v))),
     (''METRICS_DB_ENABLED'', FBool MetricsDBEnabled (\<lambda>v. MetricsDBEnabled_update (\<lambda>_. v))),
     (''METRICS_DB_PATH'', FString (\<lambda>v. MetricsDBPath_update (\<lambda>_. v))),
     (''METRICS_DB_RETENTION_DAYS'', FInt MetricsDBRetentionDays (\<lambda>v. MetricsDBRetentionDays_update (\<lambda>_. v))),
     (''METRICS_DB_WRITE_INTERVAL'', FInt MetricsDBWriteInterval (\<lambda>v. MetricsDBWriteInterval_update (\<lambda>_. v))),
     (''USERNAME_CACHE_TTL'', FInt UsernameCacheTTL (\<lambda>v. UsernameCacheTTL_update (\<lambda>_. v))),
     (''PSI_EVENT_DRIVEN'', FBool PSIEventDriven (\<lambda>v. PSIEventDriven_update (\<lambda>_. v))),
     (''PSI_CPU_STALL_THRESHOLD'', FInt PSICPUStallThreshold (\<lambda>v. PSICPUStallThreshold_update (\<lambda>_. v))),
     (''PSI_IO_STALL_THRESHOLD'', FInt PSIOStallThreshold (\<lambda>v. PSIOStallThreshold_update (\<lambda>_. v))),
     (''PSI_WINDOW_US'', FInt PSIWindowUs (\<lambda>v. PSIWindowUs_update (\<lambda>_. v))),
     (''PSI_FALLBACK_INTERVAL'', FInt PSIFallbackInterval (\<lambda>v. PSIFallbackInterval_update (\<lambda>_. v))),
     (''PSI_BOOST_WEIGHT'', FInt PSIBoostWeight (\<lambda>v. PSIBoostWeight_update (\<lambda>_. v))),
     (''PSI_BOOST_DURATION'', FInt PSIBoostDuration (\<lambda>v. PSIBoostDuration_update (\<lambda>_. v)))]"

definition env_field :: "string \<Rightarrow> string \<Rightarrow> field \<Rightarrow> config \<Rightarrow> config \<times> env_warning list" where
  "env_field envKey envValue f cfg =
     (case f of
        FString put \<Rightarrow> (put envValue cfg, [])
      | FInt get put \<Rightarrow>
          (case Atoi envValue of
             Some intVal \<Rightarrow> (put intVal cfg, [])
           | None \<Rightarrow> (cfg, [BadInteger envKey envValue (get cfg)]))
      | FBool get put \<Rightarrow>
          (if ToLower envValue \<in> set truthy then (put True cfg, [])
           else if ToLower envValue \<in> set falsy then (put False cfg, [])
           else (put False cfg, [BadBoolean envKey envValue (get cfg)]))
      | FStrings put \<Rightarrow>
          (put (filter (\<lambda>p. p \<noteq> []) (map TrimSpace (Split envValue CHR '',''))) cfg, [])
      | FFloat get put \<Rightarrow>
          (case ParseFloat envValue of
             Some fVal \<Rightarrow> (put fVal cfg, [])
           | None \<Rightarrow> (cfg, [BadFloat envKey envValue (get cfg)]))
      | FOther \<Rightarrow> (cfg, [UnsupportedSlice envKey envValue]))"

fun env_loop :: "(string \<Rightarrow> string) \<Rightarrow> (string \<times> field) list \<Rightarrow> config \<Rightarrow> config \<times> env_warning list" where
  "env_loop getenv [] cfg = (cfg, [])"
| "env_loop getenv ((envKey, f) # rest) cfg =
     (if getenv envKey = [] then env_loop getenv rest cfg
      else
        (let (cfg1, ws1) = env_field envKey (getenv envKey) f cfg;
             (cfg2, ws2) = env_loop getenv rest cfg1
         in (cfg2, ws1 @ ws2)))"

definition loadFromEnvironment :: "(string \<Rightarrow> string) \<Rightarrow> config \<Rightarrow> config \<times> env_warning list" where
  "loadFromEnvironment getenv cfg = env_loop getenv configFields cfg"

section \<open>Validation\<close>

definition err_if :: "bool \<Rightarrow> string \<Rightarrow> string list" where
  "err_if b msg = (if b then [msg] else [])"

definition validLogLevels :: "string list" where
  "validLogLevels = [''DEBUG'', ''INFO'', ''WARN'', ''ERROR'']"

text \<open>The messages \<open>validateConfig\<close> collects, block by block in the order of the code.\<close>

definition cpu_errors :: "config \<Rightarrow> string list" where
  "cpu_errors cfg =
     err_if (CPUThreshold cfg < 1 \<or> CPUThreshold cfg > 100) ''CPU_THRESHOLD must be between 1 and 100'' @
     err_if (CPUReleaseThreshold cfg < 1 \<or> CPUReleaseThreshold cfg > 100)
       ''CPU_RELEASE_THRESHOLD must be between 1 and 100'' @
     err_if (CPUThreshold cfg \<le> CPUReleaseThreshold cfg)
       ''CPU_THRESHOLD must be greater than CPU_RELEASE_THRESHOLD'' @
     err_if (CPUThresholdDuration cfg < 0) ''CPU_THRESHOLD_DURATION cannot be negative''"

definition timing_errors :: "config \<Rightarrow> string list" where
  "timing_errors cfg =
     err_if (MetricsDBRetentionDays cfg < 1) ''METRICS_DB_RETENTION_DAYS must be at least 1'' @
     err_if (MetricsDBWriteInterval cfg < 5) ''METRICS_DB_WRITE_INTERVAL must be at least 5 seconds'' @
     err_if (UsernameCacheTTL cfg < 1) ''USERNAME_CACHE_TTL must be at least 1 minute'' @
     err_if (PollingInterval cfg < 5) ''POLLING_INTERVAL must be at least 5 seconds'' @
     err_if (MetricsRefreshInterval cfg < 5) ''METRICS_REFRESH_INTERVAL must be at least 5 seconds'' @
     err_if (ProcessMinAgeSeconds cfg < 0) ''PROCESS_MIN_AGE_SECONDS cannot be negative''"

definition psi_errors :: "config \<Rightarrow> string list" where
  "psi_errors cfg =
     err_if (PSICPUStallThreshold cfg < 0 \<or> (PSIEventDriven cfg \<and> PSICPUStallThreshold cfg = 0))
       ''PSI_CPU_STALL_THRESHOLD must be greater than 0'' @
     err_if (PSIOStallThreshold cfg < 0 \<or> (PSIEventDriven cfg \<and> PSIOStallThreshold cfg = 0))
       ''PSI_IO_STALL_THRESHOLD must be greater than 0'' @
     err_if (PSIWindowUs cfg < 0 \<or> (PSIEventDriven cfg \<and> PSIWindowUs cfg = 0))
       ''PSI_WINDOW_US must be greater than 0'' @
     err_if (PSIFallbackInterval cfg < 0 \<or> (PSIEventDriven cfg \<and> PSIFallbackInterval cfg = 0))
       ''PSI_FALLBACK_INTERVAL must be greater than 0'' @
     err_if (PSIBoostWeight cfg < 0 \<or> PSIBoostWeight cfg > 10000 \<or>
             (PSIEventDriven cfg \<and> PSIBoostWeight cfg = 0))
       ''PSI_BOOST_WEIGHT must be between 1 and 10000'' @
     err_if (PSIBoostDuration cfg < 0 \<or> (PSIEventDriven cfg \<and> PSIBoostDuration cfg = 0))
       ''PSI_BOOST_DURATION must be greater than 0''"

definition bad_hook_url :: "url_lib \<Rightarrow> string \<Rightarrow> bool" where
  "bad_hook_url url_parse u =
     (case url_parse u of
        None \<Rightarrow> True
      | Some (scheme, host) \<Rightarrow> (scheme \<noteq> ''http'' \<and> scheme \<noteq> ''https'') \<or> host = [])"

definition hook_errors :: "url_lib \<Rightarrow> config \<Rightarrow> string list" where
  "hook_errors url_parse cfg =
     (if LimitHookEnabled cfg then
        err_if (LimitHookTimeout cfg < 1) ''LIMIT_HOOK_TIMEOUT must be at least 1 second'' @
        err_if (LimitHookScript cfg = [] \<and> LimitHookURL cfg = [])
          ''LIMIT_HOOK_SCRIPT or LIMIT_HOOK_URL must be set when LIMIT_HOOK_ENABLED=true'' @
        err_if (LimitHookURL cfg \<noteq> [] \<and> bad_hook_url url_parse (LimitHookURL cfg))
          ''LIMIT_HOOK_URL must be a valid http or https URL''
      else [])"

definition ram_errors :: "config \<Rightarrow> string list" where
  "ram_errors cfg =
     (if RAMEnabled cfg then
        err_if (RAMThreshold cfg < 1 \<or> RAMThreshold cfg > 100) ''RAM_THRESHOLD must be between 1 and 100'' @
        err_if (RAMReleaseThreshold cfg < 1 \<or> RAMReleaseThreshold cfg > 100)
          ''RAM_RELEASE_THRESHOLD must be between 1 and 100'' @
        err_if (RAMThreshold cfg \<le> RAMReleaseThreshold cfg)
          ''RAM_THRESHOLD must be greater than RAM_RELEASE_THRESHOLD'' @
        err_if (\<not> isValidByteQuota (RAMQuotaLimited cfg)) ''RAM_QUOTA_LIMITED must be a valid byte value (e.g., '1073741824', '512M', '1G')'' @
        err_if (\<not> isValidByteQuota (RAMQuotaPerUser cfg)) ''RAM_QUOTA_PER_USER must be a valid byte value (e.g., '536870912', '512M', '1G')'' @
        err_if (f64_lt (RAMHighRatio cfg) (Fin 0) \<or> f64_gt (RAMHighRatio cfg) (Fin 1))
          ''RAM_HIGH_RATIO must be between 0.0 and 1.0 (e.g., 0.8 for 80%, 0 to disable)''
      else [])"

definition io_errors :: "config \<Rightarrow> string list" where
  "io_errors cfg =
     (if IOEnabled cfg then
        err_if (IOThreshold cfg < 1 \<or> IOThreshold cfg > 100) ''IO_THRESHOLD must be between 1 and 100'' @
        err_if (IOReleaseThreshold cfg < 1 \<or> IOReleaseThreshold cfg > 100)
          ''IO_RELEASE_THRESHOLD must be between 1 and 100'' @
        err_if (IOThreshold cfg \<le> IOReleaseThreshold cfg)
          ''IO_THRESHOLD must be greater than IO_RELEASE_THRESHOLD'' @
        err_if (IOReadBPS cfg \<noteq> [] \<and> IOReadBPS cfg \<noteq> ''max'' \<and> \<not> isValidByteQuota (IOReadBPS cfg))
          ''IO_READ_BPS must be a valid byte value (e.g., '104857600', '100M', '1G')'' @
        err_if (IOWriteBPS cfg \<noteq> [] \<and> IOWriteBPS cfg \<noteq> ''max'' \<and> \<not> isValidByteQuota (IOWriteBPS cfg))
          ''IO_WRITE_BPS must be a valid byte value (e.g., '52428800', '50M', '500M')'' @
        err_if (IOReadIOPS cfg < 0) ''IO_READ_IOPS must be >= 0 (0 = unlimited)'' @
        err_if (IOWriteIOPS cfg < 0) ''IO_WRITE_IOPS must be >= 0 (0 = unlimited)''
      else [])"

definition system_errors :: "config \<Rightarrow> string list" where
  "system_errors cfg =
     err_if (LogLevel cfg \<notin> set validLogLevels) ''LOG_LEVEL must be one of: DEBUG, INFO, WARN, ERROR'' @
     err_if (SystemUIDMin cfg < 0) ''SYSTEM_UID_MIN cannot be negative'' @
     err_if (SystemUIDMax cfg < SystemUIDMin cfg) ''SYSTEM_UID_MAX must be greater than SYSTEM_UID_MIN''"

definition config_errors :: "url_lib \<Rightarrow> config \<Rightarrow> string list" where
  "config_errors url_parse cfg =
     cpu_errors cfg @ timing_errors cfg @ psi_errors cfg @ hook_errors url_parse cfg @
     err_if (\<not> isValidCPUQuota (CPUQuotaLimited cfg))
       (''CPU_QUOTA_LIMITED must be in format 'quota period' or 'max period'' @ [CHR 0x27]) @
     ram_errors cfg @ io_errors cfg @ system_errors cfg"

definition validateConfig :: "url_lib \<Rightarrow> config \<Rightarrow> config_error option" where
  "validateConfig url_parse cfg =
     (let errors = config_errors url_parse cfg
      in if errors \<noteq> [] then Some (ValidationFailed errors) else None)"

text \<open>
  \<open>LoadAndValidate\<close>: defaults, then the file, then the environment, then validation. The second component holds the
  warnings of the environment; the last warning of the code (an empty include list) is in \<open>includeListWarning\<close>.
\<close>

definition LoadAndValidate ::
  "regexp_lib \<Rightarrow> url_lib \<Rightarrow> int \<Rightarrow> (string \<Rightarrow> string) \<Rightarrow> string \<Rightarrow> file_read \<Rightarrow>
   config_error + config \<times> env_warning list" where
  "LoadAndValidate rx url_parse pidMax getenv configPath file =
     (case loadFromFile rx file (DefaultConfig pidMax) of
        Inl e \<Rightarrow> Inl (LoadingFile configPath e)
      | Inr cfg \<Rightarrow>
          (let (cfg', warnings) = loadFromEnvironment getenv cfg in
           case validateConfig url_parse cfg' of
             Some e \<Rightarrow> Inl e
           | None \<Rightarrow> Inr (cfg', warnings)))"

definition includeListWarning :: "config \<Rightarrow> bool" where
  "includeListWarning cfg \<longleftrightarrow> UserIncludeList cfg = []"

end
