(* ===== verification/OS.thy ===== *)
theory OS
  imports GoLib
begin

text \<open>
  The operating system as the code sees it through packages \<open>os\<close> and \<open>path/filepath\<close>.

  What a read or a write of a path does is the kernel's business (a control file of cgroupfs is no ordinary
  file), so the operations are a parameter: a record over an abstract world. The locale \<open>regular_files\<close> states
  what the code relies on for ordinary files, and is interpreted on an in-memory file system. \<open>filepath.Clean\<close> and
  \<open>filepath.Join\<close> are lexical and are defined here.
\<close>

section \<open>File operations\<close>

datatype os_error = NotExist | Permission | OtherError

record 'w os =
  ReadFile :: "string \<Rightarrow> 'w \<Rightarrow> os_error + string"
  WriteFile :: "string \<Rightarrow> string \<Rightarrow> 'w \<Rightarrow> os_error option \<times> 'w"
  AppendFile :: "string \<Rightarrow> string \<Rightarrow> 'w \<Rightarrow> os_error option \<times> 'w"
  Stat :: "string \<Rightarrow> 'w \<Rightarrow> os_error option"
  Chmod :: "string \<Rightarrow> 'w \<Rightarrow> os_error option \<times> 'w"
  Mkdir :: "string \<Rightarrow> 'w \<Rightarrow> os_error option \<times> 'w"
  MkdirAll :: "string \<Rightarrow> 'w \<Rightarrow> os_error option \<times> 'w"
  Remove :: "string \<Rightarrow> 'w \<Rightarrow> os_error option \<times> 'w"
  RemoveAll :: "string \<Rightarrow> 'w \<Rightarrow> os_error option \<times> 'w"
  Rename :: "string \<Rightarrow> string \<Rightarrow> 'w \<Rightarrow> os_error option \<times> 'w"
  ReadDir :: "string \<Rightarrow> 'w \<Rightarrow> os_error + (string \<times> bool) list"

definition IsNotExist :: "os_error option \<Rightarrow> bool" where
  "IsNotExist e \<longleftrightarrow> e = Some NotExist"

definition IsPermission :: "os_error option \<Rightarrow> bool" where
  "IsPermission e \<longleftrightarrow> e = Some Permission"

section \<open>Ordinary files\<close>

text \<open>What the code relies on where it keeps ordinary files: its configuration and its tracking file.\<close>

locale regular_files =
  fixes os :: "'w os" and regular :: "string \<Rightarrow> bool"
  assumes read_written:
      "regular p \<Longrightarrow> WriteFile os p c w = (None, w') \<Longrightarrow> ReadFile os p w' = Inr c"
    and read_other:
      "regular p \<Longrightarrow> WriteFile os p c w = (e, w') \<Longrightarrow> q \<noteq> p \<Longrightarrow> ReadFile os q w' = ReadFile os q w"
    and read_renamed:
      "regular p \<Longrightarrow> regular q \<Longrightarrow> Rename os p q w = (None, w') \<Longrightarrow> ReadFile os q w' = ReadFile os p w"
    and read_appended:
      "regular p \<Longrightarrow> AppendFile os p c w = (None, w') \<Longrightarrow>
       ReadFile os p w' = (case ReadFile os p w of Inl _ \<Rightarrow> Inr c | Inr old \<Rightarrow> Inr (old @ c))"

section \<open>An in-memory file system\<close>

record mem_fs =
  files :: "string \<rightharpoonup> string"
  dirs :: "string list"

definition below :: "string \<Rightarrow> string \<Rightarrow> bool" where
  "below dir p \<longleftrightarrow> p = dir \<or> HasPrefix p (dir @ ''/'')"

definition mem_os :: "mem_fs os" where
  "mem_os =
     \<lparr>ReadFile = (\<lambda>p w. case files w p of None \<Rightarrow> Inl NotExist | Some c \<Rightarrow> Inr c),
      WriteFile = (\<lambda>p c w. (None, w\<lparr>files := (files w)(p \<mapsto> c)\<rparr>)),
      AppendFile = (\<lambda>p c w. (None, w\<lparr>files := (files w)
         (p \<mapsto> (case files w p of None \<Rightarrow> c | Some old \<Rightarrow> old @ c))\<rparr>)),
      Stat = (\<lambda>p w. if files w p \<noteq> None \<or> p \<in> set (dirs w) then None else Some NotExist),
      Chmod = (\<lambda>p w. (None, w)),
      Mkdir = (\<lambda>p w. (None, w\<lparr>dirs := p # dirs w\<rparr>)),
      MkdirAll = (\<lambda>p w. (None, w\<lparr>dirs := p # dirs w\<rparr>)),
      Remove = (\<lambda>p w. if files w p \<noteq> None \<or> p \<in> set (dirs w)
         then (None, w\<lparr>files := (files w)(p := None), dirs := filter (\<lambda>d. d \<noteq> p) (dirs w)\<rparr>)
         else (Some NotExist, w)),
      RemoveAll = (\<lambda>p w. (None, w\<lparr>files := (\<lambda>q. if below p q then None else files w q),
         dirs := filter (\<lambda>d. \<not> below p d) (dirs w)\<rparr>)),
      Rename = (\<lambda>p q w. case files w p of None \<Rightarrow> (Some NotExist, w)
         | Some c \<Rightarrow> (None, w\<lparr>files := (files w)(p := None, q \<mapsto> c)\<rparr>)),
      ReadDir = (\<lambda>p w. Inr (map (\<lambda>d. (drop (length p + 1) d, True))
         (filter (\<lambda>d. HasPrefix d (p @ ''/'') \<and> CHR ''/'' \<notin> set (drop (length p + 1) d))
           (remdups (dirs w)))))\<rparr>"

interpretation mem: regular_files mem_os "\<lambda>_. True"
  by unfold_locales (auto simp: mem_os_def split: option.splits if_splits)

section \<open>Paths\<close>

text \<open>
  \<open>filepath.Clean\<close>: the components of a path, without empty ones and \<open>.\<close>, each \<open>..\<close> taking the component before
  it away (or vanishing at the root).
\<close>

fun clean_step :: "bool \<Rightarrow> string list \<Rightarrow> string \<Rightarrow> string list" where
  "clean_step rooted out part =
     (if part = [] \<or> part = ''.'' then out
      else if part = ''..'' then
        (if out \<noteq> [] \<and> last out \<noteq> ''..'' then butlast out
         else if rooted then out else out @ [part])
      else out @ [part])"

definition Clean :: "string \<Rightarrow> string" where
  "Clean p =
     (let rooted = HasPrefix p ''/'';
          out = foldl (clean_step rooted) [] (Split p CHR ''/'')
      in if rooted then CHR ''/'' # Join out ''/'' else if out = [] then ''.'' else Join out ''/'')"

text \<open>\<open>filepath.Join\<close> of two elements: empty ones are ignored.\<close>

definition path_join :: "string \<Rightarrow> string \<Rightarrow> string" where
  "path_join a b =
     (if a = [] \<and> b = [] then [] else if a = [] then Clean b else if b = [] then Clean a
      else Clean (a @ ''/'' @ b))"

text \<open>\<open>filepath.Base\<close> of a path that is not empty.\<close>

definition path_base :: "string \<Rightarrow> string" where
  "path_base p =
     (if p = [] then ''.''
      else
        (let q = rev (dropWhile (\<lambda>c. c = CHR ''/'') (rev p))
         in if q = [] then ''/'' else last (Split q CHR ''/'')))"

text \<open>A clean absolute path other than the root, and a name that may be a component.\<close>

definition clean_abs :: "string \<Rightarrow> bool" where
  "clean_abs p \<longleftrightarrow>
     (\<exists>cs. cs \<noteq> [] \<and> p = CHR ''/'' # Join cs ''/'' \<and>
       (\<forall>c\<in>set cs. c \<noteq> [] \<and> c \<noteq> ''.'' \<and> c \<noteq> ''..'' \<and> CHR ''/'' \<notin> set c))"

definition plain_name :: "string \<Rightarrow> bool" where
  "plain_name c \<longleftrightarrow> c \<noteq> [] \<and> c \<noteq> ''.'' \<and> c \<noteq> ''..'' \<and> CHR ''/'' \<notin> set c"

lemma clean_fold_plain:
  "\<forall>c\<in>set cs. plain_name c \<Longrightarrow> foldl (clean_step r) out cs = out @ cs"
  by (induction cs arbitrary: out) (auto simp: plain_name_def)

lemma Join_snoc: "cs \<noteq> [] \<Longrightarrow> Join cs sep @ sep @ c = Join (cs @ [c]) sep"
  by (induction cs sep rule: Join.induct) auto

lemma Clean_components:
  assumes "\<forall>c\<in>set cs. plain_name c" and "cs \<noteq> []"
  shows "Clean (CHR ''/'' # Join cs ''/'') = CHR ''/'' # Join cs ''/''"
proof -
  have s: "Split (CHR ''/'' # Join cs ''/'') CHR ''/'' = [] # cs"
    using assms Split_Join [of cs "CHR ''/''"] by (auto simp: Split_def plain_name_def)
  show ?thesis
    using clean_fold_plain [OF assms(1), of True "[]"]
    by (simp add: Clean_def s HasPrefix_def)
qed

lemma path_join_plain:
  assumes p: "clean_abs p" and c: "plain_name c"
  shows "path_join p c = p @ ''/'' @ c" and "clean_abs (path_join p c)"
proof -
  obtain cs where cs: "cs \<noteq> []" "p = CHR ''/'' # Join cs ''/''" "\<forall>c\<in>set cs. plain_name c"
    using p by (auto simp: clean_abs_def plain_name_def)
  have j: "p @ ''/'' @ c = CHR ''/'' # Join (cs @ [c]) ''/''"
    using cs Join_snoc [of cs "''/''" c] by simp
  have pl: "\<forall>d\<in>set (cs @ [c]). plain_name d" using cs c by auto
  from c have "c \<noteq> []" by (auto simp: plain_name_def)
  with cs(2) have pj: "path_join p c = Clean (p @ ''/'' @ c)" by (simp add: path_join_def)
  also have "\<dots> = p @ ''/'' @ c"
    unfolding j by (rule Clean_components) (use pl in auto)
  finally show e: "path_join p c = p @ ''/'' @ c" .
  show "clean_abs (path_join p c)"
    unfolding e j clean_abs_def using pl by (intro exI [of _ "cs @ [c]"]) (auto simp: plain_name_def)
qed

lemma clean_step_cases:
  "clean_step r out c = out \<or> clean_step r out c = butlast out \<or> c \<noteq> [] \<and> clean_step r out c = out @ [c]"
  by simp

lemma clean_step_nonempty: "[] \<notin> set out \<Longrightarrow> [] \<notin> set (clean_step r out c)"
  using clean_step_cases [of r out c] by (auto simp del: clean_step.simps dest: in_set_butlastD)

lemma clean_fold_nonempty: "[] \<notin> set out \<Longrightarrow> [] \<notin> set (foldl (clean_step r) out cs)"
  by (induction cs arbitrary: out) (simp_all del: clean_step.simps add: clean_step_nonempty)

lemma Join_nonempty: "cs \<noteq> [] \<Longrightarrow> [] \<notin> set cs \<Longrightarrow> Join cs sep \<noteq> []"
  by (cases cs; cases "tl cs") (auto simp: Join_Cons)

lemma Clean_nonempty [simp]: "Clean p \<noteq> []"
  using clean_fold_nonempty [of "[]" "HasPrefix p ''/''" "Split p CHR ''/''"]
  by (auto simp: Clean_def Let_def dest: Join_nonempty)

lemma path_join_nonempty: "b \<noteq> [] \<Longrightarrow> path_join a b \<noteq> []"
  by (simp add: path_join_def)

lemma split_by_snoc: "P sep \<Longrightarrow> \<forall>x\<in>set c. \<not> P x \<Longrightarrow> split_by P (x @ sep # c) = split_by P x @ [c]"
proof (induction x)
  case Nil
  then show ?case by (simp add: split_by_no_sep)
next
  case (Cons a x)
  then show ?case using split_by_nonempty [of P x] by (auto split: list.split)
qed

lemma path_base_join:
  assumes "plain_name c" shows "path_base (path_join a c) = c"
proof -
  have c: "c \<noteq> []" "\<forall>x\<in>set c. x \<noteq> CHR ''/''" using assms by (auto simp: plain_name_def)
  then have "last c \<noteq> CHR ''/''" by (metis last_in_set)
  note c = c this
  have base: "path_base (x @ CHR ''/'' # c) = c" "path_base c = c" for x
    using c split_by_snoc [of "\<lambda>y. y = CHR ''/''" "CHR ''/''" c x] split_by_no_sep [of c "\<lambda>y. y = CHR ''/''"]
    by (cases c rule: rev_cases; simp add: path_base_def Let_def Split_def)+
  have j: "Join (out @ [c]) ''/'' = c \<or> (\<exists>x. Join (out @ [c]) ''/'' = x @ CHR ''/'' # c)" for out
  proof (cases "out = []")
    case False
    from Join_snoc [OF this, of "''/''" c] have "Join (out @ [c]) ''/'' = Join out ''/'' @ CHR ''/'' # c" by simp
    then show ?thesis by blast
  qed simp
  then have j2: "\<exists>x. CHR ''/'' # Join (out @ [c]) ''/'' = x @ CHR ''/'' # c" for out
    by (metis append_Cons append_Nil)
  have "\<exists>out. foldl (clean_step r) [] (Split (a @ ''/'' @ c) CHR ''/'') = out @ [c]" for r
    using split_by_snoc [of "\<lambda>y. y = CHR ''/''" "CHR ''/''" c a] c(2) assms by (simp add: Split_def plain_name_def)
  moreover have "\<exists>out. foldl (clean_step r) [] (Split c CHR ''/'') = out @ [c]" for r
    using split_by_no_sep [of c "\<lambda>y. y = CHR ''/''"] c(2) assms by (simp add: Split_def plain_name_def)
  moreover have "path_join a c = Clean c \<or> path_join a c = Clean (a @ ''/'' @ c)"
    using c(1) by (simp add: path_join_def)
  ultimately obtain q where q: "path_join a c = Clean q"
    "\<And>r. \<exists>out. foldl (clean_step r) [] (Split q CHR ''/'') = out @ [c]" by (metis (no_types))
  then obtain out where out: "foldl (clean_step (HasPrefix q ''/'')) [] (Split q CHR ''/'') = out @ [c]" by blast
  have "path_join a c = (if HasPrefix q ''/'' then CHR ''/'' # Join (out @ [c]) ''/'' else Join (out @ [c]) ''/'')"
    unfolding q(1) Clean_def Let_def out by simp
  with base j [of out] j2 [of out] show ?thesis by (metis (full_types))
qed

end
