(* ===== verification/ConfigUse.thy ===== *)
theory ConfigUse
  imports ConfigLoad OS
begin

text \<open>
  The configuration in use, \<open>config/config.go\<close>: pattern matching with the regex cache, the user and process
  filters, the getters that compute, and writing the user lists back to the file.
\<close>

section \<open>Pattern matching and filters\<close>

text \<open>
  \<open>matchPattern\<close> returns the match and the cache after it. The cache only saves compilations: while it holds what
  \<open>Compile\<close> returned, the result is that of the compiled pattern.
\<close>

definition matchPattern ::
  "regexp_lib \<Rightarrow> (string \<rightharpoonup> regex) \<Rightarrow> string \<Rightarrow> string \<Rightarrow> bool \<times> (string \<rightharpoonup> regex)" where
  "matchPattern rx cache pattern s =
     (case cache pattern of
        Some re \<Rightarrow> (re s, cache)
      | None \<Rightarrow>
          (case rx pattern of
             None \<Rightarrow> (False, cache)
           | Some re \<Rightarrow> (re s, cache(pattern \<mapsto> re))))"

text \<open>The loop over a list of patterns, with its early return.\<close>

fun match_any ::
  "regexp_lib \<Rightarrow> (string \<rightharpoonup> regex) \<Rightarrow> string list \<Rightarrow> string \<Rightarrow> bool \<times> (string \<rightharpoonup> regex)" where
  "match_any rx cache [] s = (False, cache)"
| "match_any rx cache (p # ps) s =
     (let (hit, cache') = matchPattern rx cache p s
      in if hit then (True, cache') else match_any rx cache' ps s)"

text \<open>
  The filters return their verdict. What they add to the cache is left out of the result: by \<open>match_any_spec\<close> below it
  never changes a later verdict.
\<close>

definition IsUserIncluded :: "regexp_lib \<Rightarrow> config \<Rightarrow> string \<Rightarrow> bool" where
  "IsUserIncluded rx c username =
     (if UserIncludeList c = [] then True
      else fst (match_any rx (regexCache c) (UserIncludeList c) username))"

definition IsUserExcluded :: "regexp_lib \<Rightarrow> config \<Rightarrow> string \<Rightarrow> bool" where
  "IsUserExcluded rx c username =
     (if UserExcludeList c = [] then False
      else fst (match_any rx (regexCache c) (UserExcludeList c) username))"

definition IsUserWhitelisted :: "regexp_lib \<Rightarrow> config \<Rightarrow> string \<Rightarrow> bool" where
  "IsUserWhitelisted rx c username =
     (IsUserIncluded rx c username \<and> \<not> IsUserExcluded rx c username)"

definition IsProcessExcluded :: "regexp_lib \<Rightarrow> config \<Rightarrow> string \<Rightarrow> bool" where
  "IsProcessExcluded rx c processName =
     (if ProcessExcludeList c = [] then False
      else fst (match_any rx (regexCache c) (ProcessExcludeList c) processName))"

definition IsUserIncludedForRAM :: "regexp_lib \<Rightarrow> config \<Rightarrow> string \<Rightarrow> bool" where
  "IsUserIncludedForRAM rx c username =
     (if RAMUserIncludeList c = [] then True
      else fst (match_any rx (regexCache c) (RAMUserIncludeList c) username))"

definition IsUserExcludedForRAM :: "regexp_lib \<Rightarrow> config \<Rightarrow> string \<Rightarrow> bool" where
  "IsUserExcludedForRAM rx c username =
     (if RAMUserExcludeList c = [] then False
      else fst (match_any rx (regexCache c) (RAMUserExcludeList c) username))"

definition IsUserWhitelistedForRAM :: "regexp_lib \<Rightarrow> config \<Rightarrow> string \<Rightarrow> bool" where
  "IsUserWhitelistedForRAM rx c username =
     (IsUserIncludedForRAM rx c username \<and> \<not> IsUserExcludedForRAM rx c username)"

definition IsUserIncludedForIO :: "regexp_lib \<Rightarrow> config \<Rightarrow> string \<Rightarrow> bool" where
  "IsUserIncludedForIO rx c username =
     (if IOUserIncludeList c = [] then True
      else fst (match_any rx (regexCache c) (IOUserIncludeList c) username))"

definition IsUserExcludedForIO :: "regexp_lib \<Rightarrow> config \<Rightarrow> string \<Rightarrow> bool" where
  "IsUserExcludedForIO rx c username =
     (if IOUserExcludeList c = [] then False
      else fst (match_any rx (regexCache c) (IOUserExcludeList c) username))"

definition IsUserWhitelistedForIO :: "regexp_lib \<Rightarrow> config \<Rightarrow> string \<Rightarrow> bool" where
  "IsUserWhitelistedForIO rx c username =
     (IsUserIncludedForIO rx c username \<and> \<not> IsUserExcludedForIO rx c username)"

definition GetRAMHighRatio :: "config \<Rightarrow> f64" where
  "GetRAMHighRatio c =
     (if f64_le (RAMHighRatio c) (Fin 0) \<or> f64_gt (RAMHighRatio c) (Fin 1)
      then f64_of_rat (8 / 10) else RAMHighRatio c)"

section \<open>Saving the user lists\<close>

definition include_line :: "config \<Rightarrow> string" where
  "include_line c = ''USER_INCLUDE_LIST='' @ Join (UserIncludeList c) '',''"

definition exclude_line :: "config \<Rightarrow> string" where
  "exclude_line c = ''USER_EXCLUDE_LIST='' @ Join (UserExcludeList c) '',''"

definition generateConfigLines :: "config \<Rightarrow> string list" where
  "generateConfigLines c = [''# CPU Manager Configuration'', include_line c, exclude_line c, []]"

text \<open>The loop over the existing lines; the flags say whether each list has been written.\<close>

fun update_lines :: "config \<Rightarrow> bool \<Rightarrow> bool \<Rightarrow> string list \<Rightarrow> string list" where
  "update_lines c inc exc [] =
     (if inc then [] else [include_line c]) @ (if exc then [] else [exclude_line c])"
| "update_lines c inc exc (line # rest) =
     (let trimmed = TrimSpace line in
      if trimmed = [] \<or> HasPrefix trimmed ''#'' then line # update_lines c inc exc rest
      else if HasPrefix trimmed ''USER_INCLUDE_LIST='' then include_line c # update_lines c True exc rest
      else if HasPrefix trimmed ''USER_EXCLUDE_LIST='' then exclude_line c # update_lines c inc True rest
      else line # update_lines c inc exc rest)"

definition updateConfigLines :: "'w os \<Rightarrow> config \<Rightarrow> string \<Rightarrow> 'w \<Rightarrow> config_error + string list" where
  "updateConfigLines os c path w =
     (case ReadFile os path w of
        Inl e \<Rightarrow> (if e = NotExist then Inr (generateConfigLines c) else Inl ReadFailed)
      | Inr content \<Rightarrow> Inr (update_lines c False False (Split content newline)))"

definition save_backup :: "'w os \<Rightarrow> string \<Rightarrow> string \<Rightarrow> 'w \<Rightarrow> config_error option \<times> 'w" where
  "save_backup os path timestamp w =
     (if Stat os path w = None then
        (case ReadFile os path w of
           Inl e \<Rightarrow> (Some ReadFailed, w)
         | Inr content \<Rightarrow>
             (case WriteFile os (path @ ''.backup_'' @ timestamp) content w of
                (Some e, w') \<Rightarrow> (Some (WriteFailed ''backup''), w')
              | (None, w') \<Rightarrow> (None, w')))
      else (None, w))"

definition SaveToFile :: "'w os \<Rightarrow> config \<Rightarrow> string \<Rightarrow> string \<Rightarrow> 'w \<Rightarrow> config_error option \<times> 'w" where
  "SaveToFile os c path timestamp w =
     (case save_backup os path timestamp w of
        (Some e, w1) \<Rightarrow> (Some e, w1)
      | (None, w1) \<Rightarrow>
          (case updateConfigLines os c path w1 of
             Inl e \<Rightarrow> (Some e, w1)
           | Inr lines \<Rightarrow>
               (let tmpPath = path @ ''.tmp''; content = Join lines [newline] in
                case WriteFile os tmpPath content w1 of
                  (Some e, w2) \<Rightarrow> (Some (WriteFailed ''temp''), w2)
                | (None, w2) \<Rightarrow>
                    (case Rename os tmpPath path w2 of
                       (Some e, w3) \<Rightarrow> (Some (WriteFailed ''rename''), snd (Remove os tmpPath w3))
                     | (None, w3) \<Rightarrow> (None, w3)))))"

text \<open>The result is the previous list, the configuration and the world afterwards.\<close>

definition SetUserExcludeList ::
  "regexp_lib \<Rightarrow> 'w os \<Rightarrow> config \<Rightarrow> string list \<Rightarrow> string \<Rightarrow> string \<Rightarrow> 'w \<Rightarrow>
   (config_error + string list) \<times> config \<times> 'w" where
  "SetUserExcludeList rx os c patterns configPath timestamp w =
     (case find (\<lambda>p. rx p = None) patterns of
        Some p \<Rightarrow> (Inl (InvalidRegex p []), c, w)
      | None \<Rightarrow>
          (let previousValue = UserExcludeList c; c1 = c\<lparr>UserExcludeList := patterns\<rparr> in
           case SaveToFile os c1 configPath timestamp w of
             (Some e, w1) \<Rightarrow> (Inl e, c1\<lparr>UserExcludeList := previousValue\<rparr>, w1)
           | (None, w1) \<Rightarrow> (Inr previousValue, c1, w1)))"

definition SetUserIncludeList ::
  "regexp_lib \<Rightarrow> 'w os \<Rightarrow> config \<Rightarrow> string list \<Rightarrow> string \<Rightarrow> string \<Rightarrow> 'w \<Rightarrow>
   (config_error + string list) \<times> config \<times> 'w" where
  "SetUserIncludeList rx os c patterns configPath timestamp w =
     (case find (\<lambda>p. rx p = None) patterns of
        Some p \<Rightarrow> (Inl (InvalidRegex p []), c, w)
      | None \<Rightarrow>
          (let previousValue = UserIncludeList c; c1 = c\<lparr>UserIncludeList := patterns\<rparr> in
           case SaveToFile os c1 configPath timestamp w of
             (Some e, w1) \<Rightarrow> (Inl e, c1\<lparr>UserIncludeList := previousValue\<rparr>, w1)
           | (None, w1) \<Rightarrow> (Inr previousValue, c1, w1)))"

end
