(* ===== verification/MetricsTypes.thy ===== *)
theory MetricsTypes
  imports Float64
begin

text \<open>
  The metrics the components exchange: the per-user figures of \<open>metrics/collector.go\<close>, the snapshot of one control
  cycle of \<open>state/control_cycle.go\<close>, and the collector as the state manager sees it.
\<close>

text \<open>\<open>Duration.Seconds()\<close>.\<close>

definition duration_seconds :: "duration \<Rightarrow> f64" where
  "duration_seconds d =
     (let s = go_div d second; ns = d - s * second
      in f64_add (f64_of_int s) (f64_div (f64_of_int ns) (f64_of_int 1000000000)))"

record user_metrics =
  UID :: int
  Username :: string
  CPUUsage :: f64
  CPUUsageAverage :: f64
  CPUUsageEMA :: f64
  MemoryUsage :: u64
  ProcessCount :: int
  IsLimited :: bool
  IOReadBytes :: u64
  IOWriteBytes :: u64
  IOReadOps :: u64
  IOWriteOps :: u64

text \<open>\<open>UserCPUUsage\<close> and \<open>UserMetrics\<close> are Go maps: association lists with distinct keys.\<close>

record system_metrics =
  Timestamp :: time
  TotalCores :: int
  TotalCPUUsage :: f64
  AllUsersCPUUsage :: f64
  AllUsersMemoryUsage :: u64
  AllUsersCount :: int
  LimitedUsersCPUUsage :: f64
  LimitedUsersMemoryUsage :: u64
  LimitedUsersCount :: int
  LimitedUsersRAMUsageBytes :: u64
  LimitedUsersIOWriteBytes :: u64
  SysMemoryUsage :: f64
  TotalMemoryMB :: f64
  CachedMemoryMB :: f64
  SystemUnderLoad :: bool
  UserCPUUsage :: "(int \<times> f64) list"
  UserMetrics :: "(int \<times> user_metrics) list"
  EligibleUsers :: "int list"

text \<open>
  The interface \<open>MetricsCollector\<close> of \<open>state/manager.go\<close>, as the answers it gives while one operation of the manager
  runs. The range over the map \<open>GetAllUserMetrics\<close> returns is in the order of the list.
\<close>

record metrics_collector =
  GetTotalCores :: int
  GetTotalCPUUsage :: f64
  GetMemoryUsage :: f64
  GetTotalMemoryMB :: f64
  GetCachedMemoryMB :: f64
  IsSystemUnderLoad :: bool
  GetAllUserMetrics :: "(int \<times> user_metrics) list"
  GetLimitedUsers :: "int list"
  GetUsernameFromUID :: "int \<Rightarrow> string"
  DBWriterDue :: bool

text \<open>\<open>DBWriterDue\<close>: a database writer is configured and its \<open>ShouldWrite\<close> holds.\<close>

end
