(* ===== verification/Decision.thy ===== *)
theory Decision
  imports ConfigUse MetricsTypes
begin

text \<open>
  The decision engine, \<open>state/decision_engine.go\<close>: the two threshold trackers, the stability tracker and
  \<open>makeDecision\<close>. The fields of \<open>Manager\<close> it reads and writes form the record \<open>decision_state\<close>, which the record of the
  manager extends. The clock is read once per call (\<open>now\<close>).
\<close>

section \<open>Threshold trackers\<close>

record threshold_tracker =
  firstOverThresholdTime :: time
  overThresholdCycles :: int
  totalCycles :: int

definition new_tracker :: threshold_tracker where
  "new_tracker = \<lparr>firstOverThresholdTime = zero_time, overThresholdCycles = 0, totalCycles = 0\<rparr>"

definition tracker_Reset :: "threshold_tracker \<Rightarrow> threshold_tracker" where
  "tracker_Reset t = t\<lparr>firstOverThresholdTime := zero_time, overThresholdCycles := 0, totalCycles := 0\<rparr>"

definition ShouldActivateLimits ::
  "time \<Rightarrow> f64 \<Rightarrow> f64 \<Rightarrow> duration \<Rightarrow> threshold_tracker \<Rightarrow> bool \<times> threshold_tracker" where
  "ShouldActivateLimits now currentCPU threshold requiredDuration t =
     (if f64_ge currentCPU threshold then
        (let t1 = t\<lparr>overThresholdCycles := overThresholdCycles t + 1\<rparr>;
             t2 = (if IsZero (firstOverThresholdTime t1) then t1\<lparr>firstOverThresholdTime := now\<rparr> else t1);
             elapsed = time_Sub now (firstOverThresholdTime t2);
             t3 = t2\<lparr>totalCycles := totalCycles t2 + 1\<rparr>
         in (elapsed \<ge> requiredDuration, t3))
      else (False, t\<lparr>firstOverThresholdTime := zero_time, overThresholdCycles := 0\<rparr>))"

definition GetElapsed :: "time \<Rightarrow> threshold_tracker \<Rightarrow> duration" where
  "GetElapsed now t =
     (if IsZero (firstOverThresholdTime t) then 0 else time_Sub now (firstOverThresholdTime t))"

section \<open>Decisions\<close>

datatype decision = ACTIVATE_LIMITS | MAINTAIN_CURRENT_STATE | DEACTIVATE_LIMITS

text \<open>The reason is the message of the code with its arguments unformatted.\<close>

datatype reason =
    WaitingMinActive
  | BelowRelease f64 int
  | WaitingStability
  | SystemStillLoaded
  | StillAboveRelease
  | InsufficientCores int int
  | AlreadyUnderLoad
  | WaitingCPUDuration duration f64 int
  | ThresholdExceeded "(f64 \<times> int) option" "int option" "int option"
  | WithinNormalRange

text \<open>\<open>underThreshold\<close> is the map of the stability tracker: a missing user counts as 0.\<close>

record decision_state =
  limitsActive :: bool
  limitsAppliedTime :: time
  thresholdTracker :: threshold_tracker
  ioThresholdTracker :: threshold_tracker
  underThreshold :: "int \<rightharpoonup> int"

definition stable_count :: "(int \<rightharpoonup> int) \<Rightarrow> int \<Rightarrow> int" where
  "stable_count m uid = (case m uid of None \<Rightarrow> 0 | Some n \<Rightarrow> n)"

text \<open>The share of memory the limited users hold, in percent.\<close>

definition ram_percent :: "system_metrics \<Rightarrow> f64" where
  "ram_percent m =
     f64_mul (f64_div (f64_div (f64_of_u64 (LimitedUsersRAMUsageBytes m)) (f64_of_int (1024 * 1024)))
        (TotalMemoryMB m)) (f64_of_int 100)"

definition ram_exceeded :: "config \<Rightarrow> system_metrics \<Rightarrow> bool" where
  "ram_exceeded cfg m =
     (if RAMEnabled cfg \<and> RAMThreshold cfg > 0 \<and> f64_gt (TotalMemoryMB m) (Fin 0)
      then f64_ge (ram_percent m) (f64_of_int (RAMThreshold cfg)) else False)"

definition ram_below :: "config \<Rightarrow> system_metrics \<Rightarrow> bool" where
  "ram_below cfg m =
     (if RAMEnabled cfg \<and> RAMReleaseThreshold cfg > 0 \<and> f64_gt (TotalMemoryMB m) (Fin 0)
      then f64_lt (ram_percent m) (f64_of_int (RAMReleaseThreshold cfg)) else True)"

text \<open>
  The write rate of the limited users in percent of what they may write together. None: the configuration sets no
  limit, or the product of limit and user count is 0 (it wraps at 64 bits).
\<close>

definition io_percent :: "config \<Rightarrow> system_metrics \<Rightarrow> f64 option" where
  "io_percent cfg m =
     (if IOWriteBPS cfg \<noteq> [] \<and> IOWriteBPS cfg \<noteq> ''max'' then
        (case ParseRAMQuota (IOWriteBPS cfg) of
           Inl e \<Rightarrow> None
         | Inr writeLimit \<Rightarrow>
             (if writeLimit > 0 then
                (let totalWriteLimit = writeLimit * word_of_int (LimitedUsersCount m) in
                 if totalWriteLimit > 0 then
                   Some (f64_mul (f64_div (f64_of_u64 (LimitedUsersIOWriteBytes m)) (f64_of_u64 totalWriteLimit))
                      (f64_of_int 100))
                 else None)
              else None))
      else None)"

definition io_percent_or_zero :: "config \<Rightarrow> system_metrics \<Rightarrow> f64" where
  "io_percent_or_zero cfg m =
     (if IOEnabled cfg \<and> IOThreshold cfg > 0 then (case io_percent cfg m of None \<Rightarrow> Fin 0 | Some p \<Rightarrow> p) else Fin 0)"

definition io_exceeded :: "config \<Rightarrow> system_metrics \<Rightarrow> bool" where
  "io_exceeded cfg m =
     (if IOEnabled cfg \<and> IOThreshold cfg > 0
      then (case io_percent cfg m of None \<Rightarrow> False | Some p \<Rightarrow> f64_ge p (f64_of_int (IOThreshold cfg)))
      else False)"

definition io_below :: "config \<Rightarrow> system_metrics \<Rightarrow> bool" where
  "io_below cfg m =
     (if IOEnabled cfg \<and> IOReleaseThreshold cfg > 0
      then (case io_percent cfg m of None \<Rightarrow> True | Some p \<Rightarrow> f64_lt p (f64_of_int (IOReleaseThreshold cfg)))
      else True)"

definition cpu_exceeded :: "config \<Rightarrow> system_metrics \<Rightarrow> bool" where
  "cpu_exceeded cfg m = f64_ge (LimitedUsersCPUUsage m) (f64_of_int (CPUThreshold cfg))"

definition cpu_below :: "config \<Rightarrow> system_metrics \<Rightarrow> bool" where
  "cpu_below cfg m = f64_lt (LimitedUsersCPUUsage m) (f64_of_int (CPUReleaseThreshold cfg))"

definition all_below :: "config \<Rightarrow> system_metrics \<Rightarrow> bool" where
  "all_below cfg m \<longleftrightarrow> cpu_below cfg m \<and> ram_below cfg m \<and> io_below cfg m"

text \<open>The IO verdict after the duration window of IO, with the IO tracker afterwards.\<close>

definition io_window ::
  "config \<Rightarrow> time \<Rightarrow> system_metrics \<Rightarrow> threshold_tracker \<Rightarrow> bool \<times> threshold_tracker" where
  "io_window cfg now m t =
     (if IOThresholdDuration cfg > 0 \<and> io_exceeded cfg m then
        (let (ioTrackerReady, t') =
               ShouldActivateLimits now (io_percent_or_zero cfg m) (f64_of_int (IOThreshold cfg))
                 (seconds (IOThresholdDuration cfg)) t
         in (ioTrackerReady, t'))
      else (io_exceeded cfg m, tracker_Reset t))"

text \<open>One pass over the limited users: a sample below the release threshold counts, any other starts again.\<close>

definition count_sample ::
  "config \<Rightarrow> (int \<times> user_metrics) list \<Rightarrow> int \<Rightarrow> (int \<rightharpoonup> int) \<Rightarrow> (int \<rightharpoonup> int)" where
  "count_sample cfg allUserMetrics uid m =
     (case map_of allUserMetrics uid of
        None \<Rightarrow> m
      | Some um \<Rightarrow>
          (if f64_lt (CPUUsageEMA um) (f64_of_int (CPUReleaseThreshold cfg))
           then m(uid \<mapsto> stable_count m uid + 1)
           else m(uid \<mapsto> 0)))"

definition count_samples ::
  "config \<Rightarrow> metrics_collector \<Rightarrow> (int \<rightharpoonup> int) \<Rightarrow> (int \<rightharpoonup> int)" where
  "count_samples cfg mc m = fold (count_sample cfg (GetAllUserMetrics mc)) (GetLimitedUsers mc) m"

definition buildActivateReason ::
  "config \<Rightarrow> bool \<Rightarrow> bool \<Rightarrow> bool \<Rightarrow> system_metrics \<Rightarrow> int \<Rightarrow> reason" where
  "buildActivateReason cfg cpuExceeded ramExceeded ioExceeded m cpuThreshold =
     ThresholdExceeded
       (if cpuExceeded then Some (LimitedUsersCPUUsage m, cpuThreshold) else None)
       (if ramExceeded then Some (RAMThreshold cfg) else None)
       (if ioExceeded then Some (IOThreshold cfg) else None)"

definition reset_trackers :: "'m decision_state_scheme \<Rightarrow> 'm decision_state_scheme" where
  "reset_trackers s =
     s\<lparr>thresholdTracker := tracker_Reset (thresholdTracker s),
       ioThresholdTracker := tracker_Reset (ioThresholdTracker s)\<rparr>"

text \<open>The branch for active limits, after the IO window.\<close>

definition decide_active ::
  "config \<Rightarrow> time \<Rightarrow> metrics_collector \<Rightarrow> system_metrics \<Rightarrow> 'm decision_state_scheme \<Rightarrow>
   (decision \<times> reason) \<times> 'm decision_state_scheme" where
  "decide_active cfg now mc m s =
     (if time_Sub now (limitsAppliedTime s) < seconds (MinActiveTime cfg)
      then ((MAINTAIN_CURRENT_STATE, WaitingMinActive), s)
      else if all_below cfg m then
        (let s1 = s\<lparr>underThreshold := count_samples cfg mc (underThreshold s)\<rparr>;
             stable = list_all (\<lambda>uid. stable_count (underThreshold s1) uid \<ge> 3) (GetLimitedUsers mc)
         in
         if \<not> SystemUnderLoad m \<and> stable
         then ((DEACTIVATE_LIMITS, BelowRelease (LimitedUsersCPUUsage m) (CPUReleaseThreshold cfg)), reset_trackers s1)
         else if \<not> stable then ((MAINTAIN_CURRENT_STATE, WaitingStability), s1)
         else ((MAINTAIN_CURRENT_STATE, SystemStillLoaded), s1))
      else ((MAINTAIN_CURRENT_STATE, StillAboveRelease), s))"

text \<open>The branch for inactive limits; \<open>ioExceeded\<close> is the verdict of the IO window.\<close>

definition decide_inactive ::
  "config \<Rightarrow> time \<Rightarrow> bool \<Rightarrow> system_metrics \<Rightarrow> 'm decision_state_scheme \<Rightarrow>
   (decision \<times> reason) \<times> 'm decision_state_scheme" where
  "decide_inactive cfg now ioExceeded m s =
     (let cpuExceeded = cpu_exceeded cfg m;
          ramExceeded = ram_exceeded cfg m;
          activate = (ACTIVATE_LIMITS, buildActivateReason cfg cpuExceeded ramExceeded ioExceeded m (CPUThreshold cfg))
      in
      if cpuExceeded \<or> ramExceeded \<or> ioExceeded then
        (if TotalCores m \<le> MinSystemCores cfg
         then ((MAINTAIN_CURRENT_STATE, InsufficientCores (TotalCores m) (MinSystemCores cfg)), reset_trackers s)
         else if \<not> IgnoreSystemLoad cfg \<and> SystemUnderLoad m
         then ((MAINTAIN_CURRENT_STATE, AlreadyUnderLoad), reset_trackers s)
         else if cpuExceeded \<and> CPUThresholdDuration cfg > 0 then
           (let (shouldActivate, t') =
                  ShouldActivateLimits now (LimitedUsersCPUUsage m) (f64_of_int (CPUThreshold cfg))
                    (seconds (CPUThresholdDuration cfg)) (thresholdTracker s);
                s1 = s\<lparr>thresholdTracker := t'\<rparr>
            in
            if \<not> shouldActivate \<and> \<not> ramExceeded \<and> \<not> ioExceeded
            then ((MAINTAIN_CURRENT_STATE,
                   WaitingCPUDuration (wrap64 (seconds (CPUThresholdDuration cfg) - GetElapsed now t'))
                     (LimitedUsersCPUUsage m) (CPUThreshold cfg)), s1)
            else (activate, s1))
         else (activate, s))
      else ((MAINTAIN_CURRENT_STATE, WithinNormalRange), reset_trackers s))"

definition makeDecision ::
  "config \<Rightarrow> time \<Rightarrow> metrics_collector \<Rightarrow> system_metrics \<Rightarrow> 'm decision_state_scheme \<Rightarrow>
   (decision \<times> reason) \<times> 'm decision_state_scheme" where
  "makeDecision cfg now mc m s =
     (let (ioExceeded, t') = io_window cfg now m (ioThresholdTracker s);
          s1 = s\<lparr>ioThresholdTracker := t'\<rparr>
      in if limitsActive s then decide_active cfg now mc m s1 else decide_inactive cfg now ioExceeded m s1)"

end
