(* ===== verification/Cgroup.thy ===== *)
theory Cgroup
  imports ConfigUse
begin

text \<open>
  The cgroup manager, package \<open>cgroup\<close>: \<open>manager.go\<close>, \<open>storage.go\<close>, \<open>cpu.go\<close>, \<open>memory.go\<close>, \<open>io.go\<close>,
  \<open>psi.go\<close>, \<open>metrics.go\<close>, \<open>process.go\<close>. The record \<open>cgroup\<close> is the \<open>Manager\<close> of that package together with the
  world its file operations act on; every operation maps it to a result and the record afterwards. Sleeps and log
  lines are left out. The kernel's answers are those of the parameter \<open>os\<close>.
\<close>

section \<open>State and errors\<close>

datatype cg_error =
    CgroupNotFound int
  | CgroupMissing int
  | RootRefused
  | OSFailed string os_error
  | InvalidCPUQuota string
  | ParseFailed string
  | Because string cg_error
  | MoveFailures nat
  | MoveTimeout int
  | BadPSI string
  | NoCPUController
  | CleanupFailures "cg_error list"

record 'w cgroup =
  cg_cfg :: config
  createdCgroups :: "(int \<times> string) list"
  createdCgroupsFile :: string
  controllersAvailable :: bool
  cgroupRootWritable :: bool
  world :: 'w

text \<open>
  What the code takes from package \<open>gopsutil\<close> (the processes with their user ids; None is an error) and from
  \<open>os/user\<close>, and whether \<open>MoveAllUserProcesses\<close> ends within the timeout of \<open>ApplyCPULimit\<close>.
\<close>

record 'w proc_lib =
  Processes :: "'w \<Rightarrow> (int \<times> int list) list option"
  LookupId :: "string \<Rightarrow> string option"
  in_time :: "int \<Rightarrow> 'w \<Rightarrow> bool"

definition cg_write :: "'w os \<Rightarrow> string \<Rightarrow> string \<Rightarrow> 'w cgroup \<Rightarrow> os_error option \<times> 'w cgroup" where
  "cg_write os p c s = (case WriteFile os p c (world s) of (e, w) \<Rightarrow> (e, s\<lparr>world := w\<rparr>))"

definition cg_read :: "'w os \<Rightarrow> string \<Rightarrow> 'w cgroup \<Rightarrow> os_error + string" where
  "cg_read os p s = ReadFile os p (world s)"

definition cg_stat :: "'w os \<Rightarrow> string \<Rightarrow> 'w cgroup \<Rightarrow> os_error option" where
  "cg_stat os p s = Stat os p (world s)"

definition cg_do :: "('w \<Rightarrow> os_error option \<times> 'w) \<Rightarrow> 'w cgroup \<Rightarrow> os_error option \<times> 'w cgroup" where
  "cg_do op s = (case op (world s) of (e, w) \<Rightarrow> (e, s\<lparr>world := w\<rparr>))"

definition getBaseCgroupPath :: "'w cgroup \<Rightarrow> string" where
  "getBaseCgroupPath s = path_join (CgroupRoot (cg_cfg s)) (CgroupBase (cg_cfg s))"

definition user_dir :: "int \<Rightarrow> string" where
  "user_dir uid = ''user_'' @ Itoa uid"

definition getUserCgroupPath :: "int \<Rightarrow> 'w cgroup \<Rightarrow> string" where
  "getUserCgroupPath uid s = path_join (getBaseCgroupPath s) (user_dir uid)"

definition getCgroupPath :: "int \<Rightarrow> 'w cgroup \<Rightarrow> string option" where
  "getCgroupPath uid s = map_of (createdCgroups s) uid"

section \<open>The tracking file\<close>

text \<open>\<open>bufio.Scanner\<close> by lines: no empty last line, no carriage return at the end of a line.\<close>

definition strip_cr :: "string \<Rightarrow> string" where
  "strip_cr l = TrimSuffix l [CHR 0x0D]"

definition scan_lines :: "string \<Rightarrow> string list" where
  "scan_lines s = map strip_cr (let ls = Split s newline in if last ls = [] then butlast ls else ls)"

definition saveCgroupToFile :: "'w os \<Rightarrow> int \<Rightarrow> string \<Rightarrow> 'w cgroup \<Rightarrow> os_error option \<times> 'w cgroup" where
  "saveCgroupToFile os uid cgroupPath s =
     cg_do (AppendFile os (createdCgroupsFile s) (Itoa uid @ '':'' @ cgroupPath @ [newline])) s"

definition keep_line :: "int \<Rightarrow> string \<Rightarrow> bool" where
  "keep_line uid line \<longleftrightarrow> line \<noteq> [] \<and> Atoi (hd (SplitN2 line CHR '':'')) \<noteq> Some uid"

definition removeCgroupFromFile :: "'w os \<Rightarrow> int \<Rightarrow> 'w cgroup \<Rightarrow> os_error option \<times> 'w cgroup" where
  "removeCgroupFromFile os uid s =
     (if IsNotExist (cg_stat os (createdCgroupsFile s) s) then (None, s)
      else
        (case cg_read os (createdCgroupsFile s) s of
           Inl e \<Rightarrow> (Some e, s)
         | Inr content \<Rightarrow>
             cg_write os (createdCgroupsFile s)
               (Join (filter (keep_line uid) (scan_lines content)) [newline] @ [newline]) s))"

fun load_lines :: "(string \<Rightarrow> bool) \<Rightarrow> string list \<Rightarrow> (int \<times> string) list \<Rightarrow> (int \<times> string) list" where
  "load_lines exists [] m = m"
| "load_lines exists (line # rest) m =
     (if line = [] then load_lines exists rest m
      else
        (case SplitN2 line CHR '':'' of
           [u, cgroupPath] \<Rightarrow>
             (case Atoi u of
                None \<Rightarrow> load_lines exists rest m
              | Some uid \<Rightarrow>
                  load_lines exists rest (if exists cgroupPath then al_update uid cgroupPath m else m))
         | _ \<Rightarrow> load_lines exists rest m))"

definition loadExistingCgroups :: "'w os \<Rightarrow> 'w cgroup \<Rightarrow> os_error option \<times> 'w cgroup" where
  "loadExistingCgroups os s =
     (if IsNotExist (cg_stat os (createdCgroupsFile s) s) then (None, s)
      else
        (case cg_read os (createdCgroupsFile s) s of
           Inl e \<Rightarrow> (Some e, s)
         | Inr content \<Rightarrow>
             (None, s\<lparr>createdCgroups :=
                load_lines (\<lambda>p. cg_stat os p s = None) (scan_lines content) (createdCgroups s)\<rparr>)))"

definition GetCreatedCgroups :: "'w cgroup \<Rightarrow> int list" where
  "GetCreatedCgroups s = keys (createdCgroups s)"

section \<open>Process ids\<close>

definition parse_pids :: "string \<Rightarrow> int list" where
  "parse_pids content =
     List.map_filter (\<lambda>l. let p = TrimSpace l in if p = [] then None else Atoi p) (scan_lines content)"

definition readPidsFromFile :: "'w os \<Rightarrow> string \<Rightarrow> 'w cgroup \<Rightarrow> os_error + int list" where
  "readPidsFromFile os filePath s =
     (case cg_read os filePath s of Inl e \<Rightarrow> Inl e | Inr content \<Rightarrow> Inr (parse_pids content))"

definition writePidsBatch :: "'w os \<Rightarrow> string \<Rightarrow> int list \<Rightarrow> 'w cgroup \<Rightarrow> os_error option \<times> 'w cgroup" where
  "writePidsBatch os filePath pids s =
     (if pids = [] then (None, s) else cg_write os filePath (Join (map Itoa pids) [newline]) s)"

section \<open>Controllers and setup\<close>

definition writeControllerIfMissing ::
  "'w os \<Rightarrow> string \<Rightarrow> string \<Rightarrow> 'w cgroup \<Rightarrow> os_error option \<times> 'w cgroup" where
  "writeControllerIfMissing os filePath controller s =
     (case cg_read os filePath s of
        Inl e \<Rightarrow> (Some e, s)
      | Inr content \<Rightarrow> if Contains content (tl controller) then (None, s) else cg_write os filePath controller s)"

definition enableCPUControllers :: "'w os \<Rightarrow> 'w cgroup \<Rightarrow> cg_error option \<times> 'w cgroup" where
  "enableCPUControllers os s =
     (let f = path_join (CgroupRoot (cg_cfg s)) ''cgroup.subtree_control'' in
      case cg_write os f ''+cpu'' s of
        (Some e, s1) \<Rightarrow> (Some (OSFailed ''failed to enable cpu controller'' e), s1)
      | (None, s1) \<Rightarrow>
          (let (_, s2) = cg_write os f ''+cpuset'' s1;
               (_, s3) = cg_write os f ''+io'' s2;
               (_, s4) = cg_write os f ''+memory'' s3
           in (None, s4)))"

text \<open>Step 5 of \<open>verifyCgroupSetup\<close>: the base cgroup, made again when it is a plain directory.\<close>

definition make_base :: "'w os \<Rightarrow> 'w cgroup \<Rightarrow> cg_error option \<times> 'w cgroup" where
  "make_base os s =
     (let base = getBaseCgroupPath s in
      case cg_do (MkdirAll os base) s of
        (Some e, s1) \<Rightarrow> (Some (OSFailed ''failed to create base cgroup directory'' e), s1)
      | (None, s1) \<Rightarrow>
          (if IsNotExist (cg_stat os (path_join base ''cgroup.subtree_control'') s1) then
             (case cg_do (Remove os base) s1 of
                (Some e, s2) \<Rightarrow> (Some (OSFailed ''failed to remove stale cgroup directory'' e), s2)
              | (None, s2) \<Rightarrow>
                  (case cg_do (Mkdir os base) s2 of
                     (Some e, s3) \<Rightarrow> (Some (OSFailed ''failed to recreate base cgroup'' e), s3)
                   | (None, s3) \<Rightarrow> (None, s3)))
           else (None, s1)))"

definition enable_in_base :: "'w os \<Rightarrow> string \<Rightarrow> 'w cgroup \<Rightarrow> cg_error option \<times> 'w cgroup" where
  "enable_in_base os controllers s =
     (let f = path_join (getBaseCgroupPath s) ''cgroup.subtree_control'' in
      case writeControllerIfMissing os f ''+cpu'' s of
        (Some e, s1) \<Rightarrow> (Some (OSFailed ''failed to enable cpu controller in base cgroup'' e), s1)
      | (None, s1) \<Rightarrow>
          (case writeControllerIfMissing os f ''+cpuset'' s1 of
             (Some e, s2) \<Rightarrow> (Some (OSFailed ''failed to enable cpuset controller in base cgroup'' e), s2)
           | (None, s2) \<Rightarrow>
               (let s3 = (if Contains controllers ''io'' then snd (writeControllerIfMissing os f ''+io'' s2) else s2);
                    s4 = (if Contains controllers ''memory'' then snd (writeControllerIfMissing os f ''+memory'' s3)
                          else s3)
                in (None, s4))))"

definition verifyCgroupSetup :: "'w os \<Rightarrow> 'w cgroup \<Rightarrow> cg_error option \<times> 'w cgroup" where
  "verifyCgroupSetup os s =
     (let root = CgroupRoot (cg_cfg s) in
      if IsNotExist (cg_stat os root s) then (Some (OSFailed ''cgroup root does not exist'' NotExist), s)
      else
        (case cg_read os (path_join root ''cgroup.controllers'') s of
           Inl e \<Rightarrow> (Some (OSFailed ''cannot read cgroup.controllers'' e), s)
         | Inr controllers \<Rightarrow>
             (if \<not> Contains controllers ''cpu'' then (Some NoCPUController, s)
              else
                (case cg_read os (path_join root ''cgroup.subtree_control'') s of
                   Inl e \<Rightarrow> (Some (OSFailed ''failed to read cgroup.subtree_control'' e), s)
                 | Inr sub \<Rightarrow>
                     (let s1 = s\<lparr>controllersAvailable := Contains sub ''cpu'' \<and> Contains sub ''cpuset''\<rparr> in
                      case (if controllersAvailable s1 then (None, s1) else enableCPUControllers os s1) of
                        (Some e, s2) \<Rightarrow> (Some (Because ''failed to enable CPU controllers'' e), s2)
                      | (None, s2) \<Rightarrow>
                          (let s3 = s2\<lparr>controllersAvailable := True\<rparr> in
                           case cg_write os (path_join root ''cgroup.procs'') ''0'' s3 of
                             (e, s4) \<Rightarrow>
                               (if IsPermission e
                                then (Some (OSFailed ''no write permission to cgroup root'' Permission), s4)
                                else
                                  (case make_base os (s4\<lparr>cgroupRootWritable := True\<rparr>) of
                                     (Some e, s5) \<Rightarrow> (Some e, s5)
                                   | (None, s5) \<Rightarrow> enable_in_base os controllers s5))))))))"

definition NewCgroupManager :: "'w os \<Rightarrow> config \<Rightarrow> 'w \<Rightarrow> (cg_error option) \<times> 'w cgroup" where
  "NewCgroupManager os cfg w =
     (let s = \<lparr>cg_cfg = cfg, createdCgroups = [], createdCgroupsFile = CreatedCgroupsFile cfg,
               controllersAvailable = False, cgroupRootWritable = False, world = w\<rparr> in
      case verifyCgroupSetup os s of
        (Some e, s1) \<Rightarrow> (Some (Because ''cgroup setup verification failed'' e), s1)
      | (None, s1) \<Rightarrow> (None, snd (loadExistingCgroups os s1)))"

section \<open>Processes\<close>

definition proc_file :: "int \<Rightarrow> string \<Rightarrow> string" where
  "proc_file pid f = ''/proc/'' @ Itoa pid @ ''/'' @ f"

record process_info =
  pi_name :: string
  pi_cmdline :: "string option"
  pi_username :: "string option"
  pi_state :: "string option"

definition uid_field :: "string \<Rightarrow> string option" where
  "uid_field content =
     (case filter (\<lambda>l. HasPrefix l ''Uid:'') (Split content newline) of
        [] \<Rightarrow> None
      | l # _ \<Rightarrow> (case Fields l of _ # u # _ \<Rightarrow> Some u | _ \<Rightarrow> None))"

definition getProcessInfo :: "'w os \<Rightarrow> 'w proc_lib \<Rightarrow> int \<Rightarrow> 'w cgroup \<Rightarrow> process_info" where
  "getProcessInfo os pl pid s =
     \<lparr>pi_name = (case cg_read os (proc_file pid ''comm'') s of Inr d \<Rightarrow> TrimSpace d | Inl _ \<Rightarrow> ''unknown''),
      pi_cmdline = (case cg_read os (proc_file pid ''cmdline'') s of
         Inl _ \<Rightarrow> None
       | Inr d \<Rightarrow>
           (let cmdline = TrimSpace (map (\<lambda>c. if c = CHR 0x00 then CHR '' '' else c) d)
            in if cmdline = [] then None else Some cmdline)),
      pi_username = (case cg_read os (proc_file pid ''status'') s of
         Inl _ \<Rightarrow> None
       | Inr d \<Rightarrow> map_option (\<lambda>u. case LookupId pl u of Some n \<Rightarrow> n | None \<Rightarrow> u) (uid_field d)),
      pi_state = (case cg_read os (proc_file pid ''stat'') s of
         Inl _ \<Rightarrow> None
       | Inr d \<Rightarrow> (if length (Fields d) > 13 then Some (Fields d ! 2) else None))\<rparr>"

definition with_pid :: "string \<Rightarrow> int \<Rightarrow> string" where
  "with_pid name pid = name @ ''['' @ Itoa pid @ '']''"

definition process_label :: "process_info \<Rightarrow> int \<Rightarrow> string" where
  "process_label info pid =
     (let from_comm = (if pi_name info \<noteq> [] then with_pid (pi_name info) pid else ''PID-'' @ Itoa pid) in
      case pi_cmdline info of
        None \<Rightarrow> from_comm
      | Some cmdline \<Rightarrow>
          (if cmdline \<noteq> [] \<and> length cmdline < 100
           then (case Fields cmdline of [] \<Rightarrow> from_comm | p # _ \<Rightarrow> with_pid (path_base p) pid)
           else from_comm))"

definition getProcessName :: "'w os \<Rightarrow> 'w proc_lib \<Rightarrow> int \<Rightarrow> 'w cgroup \<Rightarrow> string" where
  "getProcessName os pl pid s = process_label (getProcessInfo os pl pid s) pid"

text \<open>The real user id of a status file: the first line \<open>Uid:\<close> with a value decides.\<close>

fun status_uid :: "string list \<Rightarrow> cg_error + int" where
  "status_uid [] = Inl (ParseFailed ''UID not found in status file'')"
| "status_uid (line # rest) =
     (if HasPrefix line ''Uid:'' then
        (case Fields line of
           _ # u # _ \<Rightarrow> (case Atoi u of None \<Rightarrow> Inl (ParseFailed u) | Some uid \<Rightarrow> Inr uid)
         | _ \<Rightarrow> status_uid rest)
      else status_uid rest)"

definition getUIDFromStatusFile :: "'w os \<Rightarrow> string \<Rightarrow> 'w cgroup \<Rightarrow> cg_error + int" where
  "getUIDFromStatusFile os statusFile s =
     (case cg_read os statusFile s of
        Inl e \<Rightarrow> Inl (OSFailed statusFile e)
      | Inr content \<Rightarrow> status_uid (scan_lines content))"

text \<open>
  The processes of a user: from \<open>gopsutil\<close>, or from a scan of /proc when that fails. None: /proc is unreadable. The
  owners are read before the moves: no write to a \<open>cgroup.procs\<close> changes a process owner.
\<close>

definition scan_proc :: "'w os \<Rightarrow> int \<Rightarrow> 'w cgroup \<Rightarrow> int list option" where
  "scan_proc os uid s =
     (case ReadDir os ''/proc'' (world s) of
        Inl _ \<Rightarrow> None
      | Inr entries \<Rightarrow>
          Some (List.map_filter (\<lambda>(name, dir).
            if \<not> dir then None
            else (case Atoi name of
                None \<Rightarrow> None
              | Some pid \<Rightarrow>
                  (if getUIDFromStatusFile os (path_join (path_join ''/proc'' name) ''status'') s = Inr uid
                   then Some pid else None))) entries))"

definition user_pids :: "'w os \<Rightarrow> 'w proc_lib \<Rightarrow> int \<Rightarrow> 'w cgroup \<Rightarrow> int list option" where
  "user_pids os pl uid s =
     (case Processes pl (world s) of
        None \<Rightarrow> scan_proc os uid s
      | Some procs \<Rightarrow>
          Some (List.map_filter (\<lambda>(pid, uids). case uids of [] \<Rightarrow> None | u # _ \<Rightarrow> if u = uid then Some pid else None)
            procs))"

definition MoveProcessToCgroup :: "'w os \<Rightarrow> int \<Rightarrow> int \<Rightarrow> 'w cgroup \<Rightarrow> cg_error option \<times> 'w cgroup" where
  "MoveProcessToCgroup os pid uid s =
     (if uid = 0 then (Some RootRefused, s)
      else
        (case getCgroupPath uid s of
           None \<Rightarrow> (Some (CgroupMissing uid), s)
         | Some cgroupPath \<Rightarrow>
             (case cg_write os (path_join cgroupPath ''cgroup.procs'') (Itoa pid) s of
                (Some e, s1) \<Rightarrow> (Some (OSFailed ''failed to move PID'' e), s1)
              | (None, s1) \<Rightarrow> (None, s1))))"

text \<open>The loop over the processes, for a given move; the number counts the failures.\<close>

fun move_each ::
  "regexp_lib \<Rightarrow> 'w os \<Rightarrow> 'w proc_lib \<Rightarrow> (int \<Rightarrow> 'w cgroup \<Rightarrow> cg_error option \<times> 'w cgroup) \<Rightarrow>
   int list \<Rightarrow> 'w cgroup \<Rightarrow> nat \<times> 'w cgroup" where
  "move_each rx os pl move [] s = (0, s)"
| "move_each rx os pl move (pid # pids) s =
     (if IsProcessExcluded rx (cg_cfg s) (getProcessName os pl pid s) then move_each rx os pl move pids s
      else
        (let (e, s1) = move pid s;
             (n, s2) = move_each rx os pl move pids s1
         in (if e = None then n else Suc n, s2)))"

definition move_all ::
  "regexp_lib \<Rightarrow> 'w os \<Rightarrow> 'w proc_lib \<Rightarrow> (int \<Rightarrow> 'w cgroup \<Rightarrow> cg_error option \<times> 'w cgroup) \<Rightarrow>
   int \<Rightarrow> 'w cgroup \<Rightarrow> cg_error option \<times> 'w cgroup" where
  "move_all rx os pl move uid s =
     (case user_pids os pl uid s of
        None \<Rightarrow> (Some (OSFailed ''failed to read /proc'' OtherError), s)
      | Some pids \<Rightarrow>
          (case move_each rx os pl move pids s of
             (n, s1) \<Rightarrow> (if n > 0 then Some (MoveFailures n) else None, s1)))"

definition MoveAllUserProcesses ::
  "regexp_lib \<Rightarrow> 'w os \<Rightarrow> 'w proc_lib \<Rightarrow> int \<Rightarrow> 'w cgroup \<Rightarrow> cg_error option \<times> 'w cgroup" where
  "MoveAllUserProcesses rx os pl uid s =
     (if uid = 0 then (Some RootRefused, s)
      else move_all rx os pl (\<lambda>pid. MoveProcessToCgroup os pid uid) uid s)"

definition ListProcessesInCgroup :: "'w os \<Rightarrow> 'w proc_lib \<Rightarrow> int \<Rightarrow> 'w cgroup \<Rightarrow> cg_error + string list" where
  "ListProcessesInCgroup os pl uid s =
     (case getCgroupPath uid s of
        None \<Rightarrow> Inl (CgroupNotFound uid)
      | Some p \<Rightarrow>
          (case readPidsFromFile os (path_join p ''cgroup.procs'') s of
             Inl e \<Rightarrow> Inl (OSFailed p e)
           | Inr pids \<Rightarrow> Inr (map (\<lambda>pid. with_pid (getProcessName os pl pid s) pid) pids)))"

end
