(* ===== verification/CgroupLimits.thy ===== *)
theory CgroupLimits
  imports Cgroup
begin

text \<open>
  The limits and the life cycle of the cgroups: \<open>cpu.go\<close>, \<open>memory.go\<close>, \<open>io.go\<close>, \<open>psi.go\<close>, \<open>metrics.go\<close>,
  \<open>shared.go\<close> and \<open>cleanup.go\<close> of package \<open>cgroup\<close>.
\<close>

section \<open>CPU\<close>

definition CreateUserCgroup :: "'w os \<Rightarrow> int \<Rightarrow> 'w cgroup \<Rightarrow> cg_error option \<times> 'w cgroup" where
  "CreateUserCgroup os uid s =
     (if map_of (createdCgroups s) uid \<noteq> None then (None, s)
      else
        (let cgroupPath = getUserCgroupPath uid s in
         case cg_do (MkdirAll os cgroupPath) s of
           (Some e, s1) \<Rightarrow> (Some (OSFailed ''failed to create cgroup directory'' e), s1)
         | (None, s1) \<Rightarrow>
             (let s2 = s1\<lparr>createdCgroups := al_update uid cgroupPath (createdCgroups s1)\<rparr>
              in (None, snd (saveCgroupToFile os uid cgroupPath s2)))))"

definition isValidCPUQuotaFormat :: "string \<Rightarrow> bool" where
  "isValidCPUQuotaFormat quota =
     (case Fields quota of
        [q, p] \<Rightarrow> (if q = ''max'' then Atoi p \<noteq> None else Atoi q \<noteq> None \<and> Atoi p \<noteq> None)
      | _ \<Rightarrow> False)"

text \<open>The write of a quota: on a permission error the mode is changed and the write is tried once more.\<close>

definition write_quota :: "'w os \<Rightarrow> string \<Rightarrow> string \<Rightarrow> 'w cgroup \<Rightarrow> os_error option \<times> 'w cgroup" where
  "write_quota os f quota s =
     (case cg_write os f quota s of
        (None, s1) \<Rightarrow> (None, s1)
      | (Some e, s1) \<Rightarrow>
          (if IsPermission (Some e) then cg_write os f quota (snd (cg_do (Chmod os f) s1)) else (Some e, s1)))"

text \<open>The check of the write: a different value in the file is written over once.\<close>

definition verify_quota :: "'w os \<Rightarrow> string \<Rightarrow> string \<Rightarrow> 'w cgroup \<Rightarrow> 'w cgroup" where
  "verify_quota os f quota s =
     (case cg_read os f s of
        Inl _ \<Rightarrow> s
      | Inr applied \<Rightarrow> (if TrimSpace applied \<noteq> quota then snd (cg_write os f quota s) else s))"

text \<open>When the time runs out the moves still happen: the goroutine goes on.\<close>

definition ApplyCPULimit ::
  "regexp_lib \<Rightarrow> 'w os \<Rightarrow> 'w proc_lib \<Rightarrow> int \<Rightarrow> string \<Rightarrow> 'w cgroup \<Rightarrow> cg_error option \<times> 'w cgroup" where
  "ApplyCPULimit rx os pl uid quota s =
     (let cgroupPath = getUserCgroupPath uid s in
      case (if IsNotExist (cg_stat os cgroupPath s) then CreateUserCgroup os uid s else (None, s)) of
        (Some e, s1) \<Rightarrow> (Some (Because ''failed to create cgroup before applying limit'' e), s1)
      | (None, s1) \<Rightarrow>
          (if \<not> isValidCPUQuotaFormat quota then (Some (InvalidCPUQuota quota), s1)
           else
             (let cpuMaxFile = path_join cgroupPath ''cpu.max'' in
              case write_quota os cpuMaxFile quota s1 of
                (Some e, s2) \<Rightarrow> (Some (OSFailed ''failed to apply CPU limit'' e), s2)
              | (None, s2) \<Rightarrow>
                  (let s3 = verify_quota os cpuMaxFile quota s2;
                       (e, s4) = MoveAllUserProcesses rx os pl uid s3
                   in (if in_time pl uid (world s3) then (e, s4) else (Some (MoveTimeout uid), s4))))))"

definition clamp_weight :: "int \<Rightarrow> int" where
  "clamp_weight weight0 = (let weight = (if weight0 < 1 then 1 else weight0) in if weight > 10000 then 10000 else weight)"

definition ApplyCPUWeight :: "'w os \<Rightarrow> int \<Rightarrow> int \<Rightarrow> 'w cgroup \<Rightarrow> cg_error option \<times> 'w cgroup" where
  "ApplyCPUWeight os uid weight s =
     (let cgroupPath = getUserCgroupPath uid s in
      case (if IsNotExist (cg_stat os cgroupPath s) then CreateUserCgroup os uid s else (None, s)) of
        (Some e, s1) \<Rightarrow> (Some (Because ''failed to create cgroup before applying weight'' e), s1)
      | (None, s1) \<Rightarrow>
          (case cg_write os (path_join cgroupPath ''cpu.weight'') (Itoa (clamp_weight weight)) s1 of
             (Some e, s2) \<Rightarrow> (Some (OSFailed ''failed to apply CPU weight'' e), s2)
           | (None, s2) \<Rightarrow> (None, s2)))"

definition RemoveCPULimit ::
  "regexp_lib \<Rightarrow> 'w os \<Rightarrow> 'w proc_lib \<Rightarrow> int \<Rightarrow> 'w cgroup \<Rightarrow> cg_error option \<times> 'w cgroup" where
  "RemoveCPULimit rx os pl uid s = ApplyCPULimit rx os pl uid ''max 100000'' s"

section \<open>Memory\<close>

text \<open>The tracked path of the user, creating the cgroup when it is not tracked.\<close>

definition tracked_path :: "'w os \<Rightarrow> int \<Rightarrow> 'w cgroup \<Rightarrow> (cg_error + string) \<times> 'w cgroup" where
  "tracked_path os uid s =
     (case getCgroupPath uid s of
        Some p \<Rightarrow> (Inr p, s)
      | None \<Rightarrow>
          (case CreateUserCgroup os uid s of
             (Some e, s1) \<Rightarrow> (Inl (Because ''failed to create cgroup'' e), s1)
           | (None, s1) \<Rightarrow> (Inr (case getCgroupPath uid s1 of Some p \<Rightarrow> p | None \<Rightarrow> ''''), s1)))"

definition limit_value :: "string \<Rightarrow> string" where
  "limit_value limit = (if limit = [] \<or> limit = ''0'' then ''max'' else limit)"

definition write_limit ::
  "'w os \<Rightarrow> string \<Rightarrow> string \<Rightarrow> int \<Rightarrow> string \<Rightarrow> 'w cgroup \<Rightarrow> cg_error option \<times> 'w cgroup" where
  "write_limit os f msg uid value s =
     (case tracked_path os uid s of
        (Inl e, s1) \<Rightarrow> (Some e, s1)
      | (Inr p, s1) \<Rightarrow>
          (case cg_write os (path_join p f) value s1 of
             (Some e, s2) \<Rightarrow> (Some (OSFailed msg e), s2)
           | (None, s2) \<Rightarrow> (None, s2)))"

definition ApplyRAMLimit :: "'w os \<Rightarrow> int \<Rightarrow> string \<Rightarrow> 'w cgroup \<Rightarrow> cg_error option \<times> 'w cgroup" where
  "ApplyRAMLimit os uid limit s = write_limit os ''memory.max'' ''failed to apply RAM limit'' uid (limit_value limit) s"

definition ApplyRAMHigh :: "'w os \<Rightarrow> int \<Rightarrow> string \<Rightarrow> 'w cgroup \<Rightarrow> cg_error option \<times> 'w cgroup" where
  "ApplyRAMHigh os uid limit s =
     write_limit os ''memory.high'' ''failed to apply RAM high limit'' uid (limit_value limit) s"

definition disable_swap :: "'w os \<Rightarrow> int \<Rightarrow> 'w cgroup \<Rightarrow> cg_error option \<times> 'w cgroup" where
  "disable_swap os uid s =
     (let cgroupPath = (case getCgroupPath uid s of Some p \<Rightarrow> p | None \<Rightarrow> '''') in
      case cg_write os (path_join cgroupPath ''memory.swap.max'') ''0'' s of
        (Some e, s1) \<Rightarrow> (Some (OSFailed ''failed to disable swap'' e), s1)
      | (None, s1) \<Rightarrow> (None, s1))"

definition ApplyRAMLimitWithSwapDisabled ::
  "'w os \<Rightarrow> int \<Rightarrow> string \<Rightarrow> 'w cgroup \<Rightarrow> cg_error option \<times> 'w cgroup" where
  "ApplyRAMLimitWithSwapDisabled os uid limit s =
     (case ApplyRAMLimit os uid limit s of
        (Some e, s1) \<Rightarrow> (Some e, s1)
      | (None, s1) \<Rightarrow> disable_swap os uid s1)"

definition RemoveRAMLimit :: "'w os \<Rightarrow> int \<Rightarrow> 'w cgroup \<Rightarrow> cg_error option \<times> 'w cgroup" where
  "RemoveRAMLimit os uid s = ApplyRAMLimit os uid ''max'' s"

definition ApplyRAMLimitWithHigh ::
  "'w os \<Rightarrow> int \<Rightarrow> string \<Rightarrow> string \<Rightarrow> 'w cgroup \<Rightarrow> cg_error option \<times> 'w cgroup" where
  "ApplyRAMLimitWithHigh os uid maxLimit highLimit s =
     (case ApplyRAMHigh os uid highLimit s of
        (Some e, s1) \<Rightarrow> (Some (Because ''failed to apply RAM high'' e), s1)
      | (None, s1) \<Rightarrow>
          (case ApplyRAMLimit os uid maxLimit s1 of
             (Some e, s2) \<Rightarrow> (Some (Because ''failed to apply RAM max'' e), s2)
           | (None, s2) \<Rightarrow> (None, s2)))"

definition ApplyRAMLimitWithHighAndSwapDisabled ::
  "'w os \<Rightarrow> int \<Rightarrow> string \<Rightarrow> string \<Rightarrow> 'w cgroup \<Rightarrow> cg_error option \<times> 'w cgroup" where
  "ApplyRAMLimitWithHighAndSwapDisabled os uid maxLimit highLimit s =
     (case ApplyRAMLimitWithHigh os uid maxLimit highLimit s of
        (Some e, s1) \<Rightarrow> (Some e, s1)
      | (None, s1) \<Rightarrow> disable_swap os uid s1)"

definition RemoveRAMHigh :: "'w os \<Rightarrow> int \<Rightarrow> 'w cgroup \<Rightarrow> cg_error option \<times> 'w cgroup" where
  "RemoveRAMHigh os uid s =
     (case getCgroupPath uid s of
        None \<Rightarrow> (Some (CgroupNotFound uid), s)
      | Some p \<Rightarrow>
          (case cg_write os (path_join p ''memory.high'') ''max'' s of
             (e, s1) \<Rightarrow> (map_option (OSFailed ''memory.high'') e, s1)))"

definition GetCgroupRAMUsage :: "'w os \<Rightarrow> int \<Rightarrow> 'w cgroup \<Rightarrow> cg_error + u64" where
  "GetCgroupRAMUsage os uid s =
     (case getCgroupPath uid s of
        None \<Rightarrow> Inl (CgroupNotFound uid)
      | Some p \<Rightarrow>
          (case cg_read os (path_join p ''memory.current'') s of
             Inl e \<Rightarrow> Inl (OSFailed ''failed to read RAM usage'' e)
           | Inr content \<Rightarrow>
               (case ParseUint (TrimSpace content) of
                  None \<Rightarrow> Inl (ParseFailed content)
                | Some v \<Rightarrow> Inr v)))"

fun high_events :: "string list \<Rightarrow> cg_error + u64" where
  "high_events [] = Inr 0"
| "high_events (line0 # rest) =
     (let line = TrimSpace line0 in
      if HasPrefix line ''high '' then
        (case Fields line of
           [_, v] \<Rightarrow> (case ParseUint v of None \<Rightarrow> Inl (ParseFailed v) | Some n \<Rightarrow> Inr n)
         | _ \<Rightarrow> high_events rest)
      else high_events rest)"

definition GetMemoryHighEvents :: "'w os \<Rightarrow> int \<Rightarrow> 'w cgroup \<Rightarrow> cg_error + u64" where
  "GetMemoryHighEvents os uid s =
     (case getCgroupPath uid s of
        None \<Rightarrow> Inl (CgroupNotFound uid)
      | Some p \<Rightarrow>
          (case cg_read os (path_join p ''memory.events'') s of
             Inl e \<Rightarrow> Inl (OSFailed ''failed to read memory.events'' e)
           | Inr content \<Rightarrow> high_events (Split content newline)))"

section \<open>IO\<close>

definition iops_value :: "int \<Rightarrow> string" where
  "iops_value n = (if n > 0 then Itoa n else ''max'')"

definition io_max_line :: "string \<Rightarrow> string \<Rightarrow> int \<Rightarrow> int \<Rightarrow> string \<Rightarrow> string" where
  "io_max_line readBPS writeBPS readIOPS writeIOPS deviceFilter =
     (let device = (if deviceFilter \<noteq> [] \<and> deviceFilter \<noteq> ''all'' then deviceFilter else ''default'')
      in device @ '' rbps='' @ limit_value readBPS @ '' wbps='' @ limit_value writeBPS @
         '' riops='' @ iops_value readIOPS @ '' wiops='' @ iops_value writeIOPS)"

definition ApplyIOLimit ::
  "'w os \<Rightarrow> int \<Rightarrow> string \<Rightarrow> string \<Rightarrow> int \<Rightarrow> int \<Rightarrow> string \<Rightarrow> 'w cgroup \<Rightarrow> cg_error option \<times> 'w cgroup" where
  "ApplyIOLimit os uid readBPS writeBPS readIOPS writeIOPS deviceFilter s =
     write_limit os ''io.max'' ''failed to apply IO limit'' uid
       (io_max_line readBPS writeBPS readIOPS writeIOPS deviceFilter) s"

definition RemoveIOLimit :: "'w os \<Rightarrow> int \<Rightarrow> 'w cgroup \<Rightarrow> cg_error option \<times> 'w cgroup" where
  "RemoveIOLimit os uid s =
     (case getCgroupPath uid s of
        None \<Rightarrow> (Some (CgroupNotFound uid), s)
      | Some p \<Rightarrow>
          (case cg_write os (path_join p ''io.max'') ''default rbps=max wbps=max riops=max wiops=max'' s of
             (e, s1) \<Rightarrow> (map_option (OSFailed ''io.max'') e, s1)))"

record io_stats =
  io_rbytes :: u64
  io_wbytes :: u64
  io_rios :: u64
  io_wios :: u64

definition no_io :: io_stats where
  "no_io = \<lparr>io_rbytes = 0, io_wbytes = 0, io_rios = 0, io_wios = 0\<rparr>"

definition add_io_part :: "string \<Rightarrow> io_stats \<Rightarrow> io_stats" where
  "add_io_part part st =
     (case SplitN2 part CHR ''='' of
        [k, v] \<Rightarrow>
          (case ParseUint v of
             None \<Rightarrow> st
           | Some val \<Rightarrow>
               (if k = ''rios'' then st\<lparr>io_rios := io_rios st + val\<rparr>
                else if k = ''wios'' then st\<lparr>io_wios := io_wios st + val\<rparr>
                else if k = ''rbytes'' then st\<lparr>io_rbytes := io_rbytes st + val\<rparr>
                else if k = ''wbytes'' then st\<lparr>io_wbytes := io_wbytes st + val\<rparr>
                else st))
      | _ \<Rightarrow> st)"

definition parse_io_stat :: "string \<Rightarrow> io_stats" where
  "parse_io_stat content =
     fold (\<lambda>line st. fold add_io_part (Fields (TrimSpace line)) st) (Split content newline) no_io"

definition GetIOStats :: "'w os \<Rightarrow> int \<Rightarrow> 'w cgroup \<Rightarrow> cg_error + io_stats" where
  "GetIOStats os uid s =
     (case getCgroupPath uid s of
        None \<Rightarrow> Inl (CgroupNotFound uid)
      | Some p \<Rightarrow>
          (case cg_read os (path_join p ''io.stat'') s of
             Inl e \<Rightarrow> (if e = NotExist then Inr no_io else Inl (OSFailed ''failed to read io.stat'' e))
           | Inr content \<Rightarrow> Inr (parse_io_stat content)))"

definition suffix_multiplier :: "char \<Rightarrow> u64 option" where
  "suffix_multiplier c =
     (let u = ToUpper [c] in
      if u = ''K'' then Some 1024 else if u = ''M'' then Some (1024 * 1024)
      else if u = ''G'' then Some (1024 * 1024 * 1024)
      else if u = ''T'' then Some (1024 * 1024 * 1024 * 1024) else None)"

definition parseBPSValue :: "string \<Rightarrow> u64" where
  "parseBPSValue s0 =
     (let s = TrimSpace s0 in
      if s = [] then 0
      else
        (let (numStr, multiplier) =
               (case suffix_multiplier (last s) of None \<Rightarrow> (s, 1) | Some m \<Rightarrow> (butlast s, m))
         in case ParseUint numStr of None \<Rightarrow> 0 | Some val \<Rightarrow> val * multiplier))"

definition applyMultiplierToBPS :: "string \<Rightarrow> f64 \<Rightarrow> string" where
  "applyMultiplierToBPS bps multiplier =
     (if bps = [] \<or> bps = ''max'' \<or> bps = ''0'' then ''max''
      else
        (let val = parseBPSValue bps in
         if val = 0 then ''max'' else FormatUint (u64_of_f64 (f64_mul (f64_of_u64 val) multiplier))))"

definition ApplyTemporaryIOLimit ::
  "'w os \<Rightarrow> int \<Rightarrow> string \<Rightarrow> string \<Rightarrow> int \<Rightarrow> int \<Rightarrow> string \<Rightarrow> f64 \<Rightarrow> 'w cgroup \<Rightarrow>
   cg_error option \<times> 'w cgroup" where
  "ApplyTemporaryIOLimit os uid readBPS writeBPS readIOPS writeIOPS deviceFilter multiplier s =
     (if getCgroupPath uid s = None then (Some (CgroupNotFound uid), s)
      else
        ApplyIOLimit os uid (applyMultiplierToBPS readBPS multiplier) (applyMultiplierToBPS writeBPS multiplier)
          (int_of_f64 (f64_mul (f64_of_int readIOPS) multiplier))
          (int_of_f64 (f64_mul (f64_of_int writeIOPS) multiplier)) deviceFilter s)"

section \<open>Pressure stall information\<close>

record psi_line =
  avg10 :: f64
  avg60 :: f64
  avg300 :: f64
  total_us :: u64

record psi_stats =
  SomeAvg10 :: f64
  SomeAvg60 :: f64
  SomeAvg300 :: f64
  SomeTotal :: u64
  FullAvg10 :: f64
  FullAvg60 :: f64
  FullAvg300 :: f64
  FullTotal :: u64

definition psi_field :: "string \<Rightarrow> psi_line \<Rightarrow> psi_line" where
  "psi_field part r =
     (case SplitN2 part CHR ''='' of
        [k, v] \<Rightarrow>
          (case ParseFloat v of
             None \<Rightarrow> r
           | Some val \<Rightarrow>
               (if k = ''avg10'' then r\<lparr>avg10 := val\<rparr>
                else if k = ''avg60'' then r\<lparr>avg60 := val\<rparr>
                else if k = ''avg300'' then r\<lparr>avg300 := val\<rparr>
                else if k = ''total'' then r\<lparr>total_us := u64_of_f64 val\<rparr>
                else r))
      | _ \<Rightarrow> r)"

definition parsePSILine :: "string \<Rightarrow> cg_error + psi_line" where
  "parsePSILine line =
     (let fields = Fields line in
      if length fields < 5 then Inl (BadPSI line)
      else Inr (fold psi_field (tl fields) \<lparr>avg10 = Fin 0, avg60 = Fin 0, avg300 = Fin 0, total_us = 0\<rparr>))"

definition parsePSI :: "string \<Rightarrow> cg_error + psi_stats" where
  "parsePSI content =
     (case Split (TrimSpace content) newline of
        l0 # l1 # _ \<Rightarrow>
          (case parsePSILine l0 of
             Inl e \<Rightarrow> Inl (Because ''some'' e)
           | Inr some \<Rightarrow>
               (case parsePSILine l1 of
                  Inl e \<Rightarrow> Inl (Because ''full'' e)
                | Inr full \<Rightarrow>
                    Inr \<lparr>SomeAvg10 = avg10 some, SomeAvg60 = avg60 some, SomeAvg300 = avg300 some,
                         SomeTotal = total_us some, FullAvg10 = avg10 full, FullAvg60 = avg60 full,
                         FullAvg300 = avg300 full, FullTotal = total_us full\<rparr>))
      | _ \<Rightarrow> Inl (BadPSI content))"

definition GetPSIStats :: "'w os \<Rightarrow> int \<Rightarrow> 'w cgroup \<Rightarrow> cg_error + psi_stats" where
  "GetPSIStats os uid s =
     (case getCgroupPath uid s of
        None \<Rightarrow> Inl (CgroupNotFound uid)
      | Some p \<Rightarrow>
          (case cg_read os (path_join p ''io.pressure'') s of
             Inl e \<Rightarrow> Inl (OSFailed ''failed to read io.pressure'' e)
           | Inr content \<Rightarrow> parsePSI content))"

section \<open>Metrics of one cgroup\<close>

record cgroup_metrics =
  cm_path :: string
  cm_cpuQuota :: string
  cm_memoryHighEvents :: u64
  cm_io :: io_stats

definition GetUserCgroupMetrics :: "'w os \<Rightarrow> int \<Rightarrow> 'w cgroup \<Rightarrow> cg_error + cgroup_metrics" where
  "GetUserCgroupMetrics os uid s =
     (case getCgroupPath uid s of
        None \<Rightarrow> Inl (CgroupNotFound uid)
      | Some p \<Rightarrow>
          Inr \<lparr>cm_path = p,
               cm_cpuQuota = (case cg_read os (path_join p ''cpu.max'') s of Inr d \<Rightarrow> TrimSpace d | Inl _ \<Rightarrow> ''''),
               cm_memoryHighEvents = (case GetMemoryHighEvents os uid s of Inr n \<Rightarrow> n | Inl _ \<Rightarrow> 0),
               cm_io = (case GetIOStats os uid s of Inr st \<Rightarrow> st | Inl _ \<Rightarrow> no_io)\<rparr>)"

definition GetCgroupInfo :: "'w os \<Rightarrow> int \<Rightarrow> 'w cgroup \<Rightarrow> cg_error + (string \<rightharpoonup> string)" where
  "GetCgroupInfo os uid s =
     (case getCgroupPath uid s of
        None \<Rightarrow> Inl (CgroupNotFound uid)
      | Some p \<Rightarrow>
          (let info0 = [''path'' \<mapsto> p];
               info1 = (case cg_read os (path_join p ''cpu.max'') s of
                          Inr d \<Rightarrow> info0(''cpu.max'' \<mapsto> TrimSpace d) | Inl _ \<Rightarrow> info0)
           in Inr (case cg_read os (path_join p ''cpu.weight'') s of
                     Inr d \<Rightarrow> info1(''cpu.weight'' \<mapsto> TrimSpace d) | Inl _ \<Rightarrow> info1)))"

end
