(* ===== verification/CgroupShared.thy ===== *)
theory CgroupShared
  imports CgroupLimits
begin

text \<open>
  The shared cgroup \<open>limited\<close> and the cleanup: \<open>shared.go\<close> and \<open>cleanup.go\<close> of package \<open>cgroup\<close>.
\<close>

section \<open>The shared cgroup\<close>

definition root_procs :: "'w cgroup \<Rightarrow> string" where
  "root_procs s = path_join (CgroupRoot (cg_cfg s)) ''cgroup.procs''"

definition evict_one :: "'w os \<Rightarrow> int \<Rightarrow> 'w cgroup \<Rightarrow> 'w cgroup" where
  "evict_one os pid s = snd (cg_write os (root_procs s) (Itoa pid) s)"

definition shared_path :: "'w cgroup \<Rightarrow> string" where
  "shared_path s = path_join (getBaseCgroupPath s) ''limited''"

text \<open>An existing shared cgroup: its own processes go to the root, one write each, then it is removed.\<close>

definition clear_shared :: "'w os \<Rightarrow> string \<Rightarrow> 'w cgroup \<Rightarrow> 'w cgroup" where
  "clear_shared os sharedPath s =
     (if cg_stat os sharedPath s = None then
        (let s1 = (case readPidsFromFile os (path_join sharedPath ''cgroup.procs'') s of
                     Inl _ \<Rightarrow> s
                   | Inr pids \<Rightarrow> fold (evict_one os) pids s)
         in snd (cg_do (RemoveAll os sharedPath) s1))
      else s)"

definition CreateSharedCgroup :: "'w os \<Rightarrow> 'w cgroup \<Rightarrow> (cg_error + string) \<times> 'w cgroup" where
  "CreateSharedCgroup os s =
     (let sharedPath = shared_path s;
          s1 = clear_shared os sharedPath s
      in case cg_do (MkdirAll os sharedPath) s1 of
           (Some e, s2) \<Rightarrow> (Inl (OSFailed ''failed to create shared cgroup directory'' e), s2)
         | (None, s2) \<Rightarrow>
             (let subtreeControl = path_join sharedPath ''cgroup.subtree_control'';
                  has = (\<lambda>c. case cg_read os (path_join sharedPath ''cgroup.controllers'') s2 of
                            Inl _ \<Rightarrow> False | Inr d \<Rightarrow> Contains d c);
                  s3 = snd (writeControllerIfMissing os subtreeControl ''+cpu'' s2);
                  s4 = snd (writeControllerIfMissing os subtreeControl ''+cpuset'' s3);
                  s5 = (if has ''io'' then snd (writeControllerIfMissing os subtreeControl ''+io'' s4) else s4);
                  s6 = (if has ''memory'' then snd (writeControllerIfMissing os subtreeControl ''+memory'' s5) else s5)
              in (Inr sharedPath, s6)))"

definition ApplySharedCPULimit :: "'w os \<Rightarrow> string \<Rightarrow> string \<Rightarrow> 'w cgroup \<Rightarrow> cg_error option \<times> 'w cgroup" where
  "ApplySharedCPULimit os sharedPath quota s =
     (if \<not> isValidCPUQuotaFormat quota then (Some (InvalidCPUQuota quota), s)
      else
        (case cg_write os (path_join sharedPath ''cpu.max'') quota s of
           (Some e, s1) \<Rightarrow> (Some (OSFailed ''failed to apply shared CPU limit'' e), s1)
         | (None, s1) \<Rightarrow> (None, s1)))"

definition CreateUserSubCgroup :: "'w os \<Rightarrow> int \<Rightarrow> string \<Rightarrow> 'w cgroup \<Rightarrow> (cg_error + string) \<times> 'w cgroup" where
  "CreateUserSubCgroup os uid sharedPath s =
     (let userPath = path_join sharedPath (user_dir uid) in
      case cg_do (MkdirAll os userPath) s of
        (Some e, s1) \<Rightarrow> (Inl (OSFailed ''failed to create user sub-cgroup directory'' e), s1)
      | (None, s1) \<Rightarrow> (Inr userPath, snd (cg_write os (path_join userPath ''cpu.weight'') ''100'' s1)))"

definition MoveProcessToSharedCgroup ::
  "'w os \<Rightarrow> int \<Rightarrow> string \<Rightarrow> int \<Rightarrow> 'w cgroup \<Rightarrow> cg_error option \<times> 'w cgroup" where
  "MoveProcessToSharedCgroup os pid sharedPath uid s =
     (let userPath = path_join sharedPath (user_dir uid) in
      case (if IsNotExist (cg_stat os userPath s) then CreateUserSubCgroup os uid sharedPath s else (Inr userPath, s)) of
        (Inl e, s1) \<Rightarrow> (Some (Because ''failed to create user sub-cgroup'' e), s1)
      | (Inr _, s1) \<Rightarrow>
          (case cg_write os (path_join userPath ''cgroup.procs'') (Itoa pid) s1 of
             (Some e, s2) \<Rightarrow> (Some (OSFailed ''failed to move PID to shared cgroup'' e), s2)
           | (None, s2) \<Rightarrow> (None, s2)))"

definition MoveAllUserProcessesToSharedCgroup ::
  "regexp_lib \<Rightarrow> 'w os \<Rightarrow> 'w proc_lib \<Rightarrow> int \<Rightarrow> string \<Rightarrow> 'w cgroup \<Rightarrow> cg_error option \<times> 'w cgroup" where
  "MoveAllUserProcessesToSharedCgroup rx os pl uid sharedPath s =
     move_all rx os pl (\<lambda>pid. MoveProcessToSharedCgroup os pid sharedPath uid) uid s"

definition ReleaseUserFromSharedCgroup ::
  "'w os \<Rightarrow> int \<Rightarrow> string \<Rightarrow> 'w cgroup \<Rightarrow> cg_error option \<times> 'w cgroup" where
  "ReleaseUserFromSharedCgroup os uid sharedPath s =
     (let userPath = path_join sharedPath (user_dir uid) in
      if IsNotExist (cg_stat os userPath s) then (None, s)
      else
        (case readPidsFromFile os (path_join userPath ''cgroup.procs'') s of
           Inl e \<Rightarrow> (Some (OSFailed ''failed to read user shared cgroup processes'' e), s)
         | Inr pids \<Rightarrow>
             (case writePidsBatch os (root_procs s) pids s of
                (Some e, s1) \<Rightarrow> (Some (OSFailed ''failed to move processes out of shared cgroup'' e), s1)
              | (None, s1) \<Rightarrow>
                  (case cg_do (Remove os userPath) s1 of
                     (Some e, s2) \<Rightarrow> (Some (OSFailed ''failed to remove user shared cgroup'' e), s2)
                   | (None, s2) \<Rightarrow> (None, s2)))))"

section \<open>Cleanup\<close>

text \<open>A failing removal of the directory is tried once more. The processes are read for the log only.\<close>

definition CleanupUserCgroup :: "'w os \<Rightarrow> int \<Rightarrow> 'w cgroup \<Rightarrow> cg_error option \<times> 'w cgroup" where
  "CleanupUserCgroup os uid s =
     (let cgroupPath = (case getCgroupPath uid s of Some p \<Rightarrow> p | None \<Rightarrow> getUserCgroupPath uid s) in
      if getCgroupPath uid s = None \<and> IsNotExist (cg_stat os cgroupPath s) then (None, s)
      else
        (case (case cg_do (Remove os cgroupPath) s of
                 (None, s1) \<Rightarrow> (None, s1)
               | (Some _, s1) \<Rightarrow> cg_do (Remove os cgroupPath) s1) of
           (Some e, s2) \<Rightarrow> (Some (OSFailed ''failed to remove cgroup'' e), s2)
         | (None, s2) \<Rightarrow>
             (None, snd (removeCgroupFromFile os uid (s2\<lparr>createdCgroups := al_delete uid (createdCgroups s2)\<rparr>)))))"

fun cleanup_users :: "'w os \<Rightarrow> int list \<Rightarrow> 'w cgroup \<Rightarrow> cg_error list \<times> 'w cgroup" where
  "cleanup_users os [] s = ([], s)"
| "cleanup_users os (uid # uids) s =
     (let (e, s1) = CleanupUserCgroup os uid s;
          (es, s2) = cleanup_users os uids s1
      in ((case e of None \<Rightarrow> [] | Some x \<Rightarrow> [x]) @ es, s2))"

text \<open>Move what a \<open>cgroup.procs\<close> lists to the root; a failing write is ignored.\<close>

definition evict_batch :: "'w os \<Rightarrow> string \<Rightarrow> 'w cgroup \<Rightarrow> 'w cgroup" where
  "evict_batch os procsFile s =
     (case readPidsFromFile os procsFile s of
        Inl _ \<Rightarrow> s
      | Inr pids \<Rightarrow> snd (writePidsBatch os (root_procs s) pids s))"

fun remove_subgroups :: "'w os \<Rightarrow> string \<Rightarrow> (string \<times> bool) list \<Rightarrow> 'w cgroup \<Rightarrow> cg_error list \<times> 'w cgroup" where
  "remove_subgroups os sharedPath [] s = ([], s)"
| "remove_subgroups os sharedPath ((name, dir) # rest) s =
     (if dir \<and> HasPrefix name ''user_'' then
        (let userPath = path_join sharedPath name;
             s1 = evict_batch os (path_join userPath ''cgroup.procs'') s;
             (e, s2) = cg_do (RemoveAll os userPath) s1;
             (es, s3) = remove_subgroups os sharedPath rest s2
         in ((case e of None \<Rightarrow> [] | Some x \<Rightarrow> [OSFailed ''user cgroup'' x]) @ es, s3))
      else remove_subgroups os sharedPath rest s)"

definition cleanup_shared :: "'w os \<Rightarrow> 'w cgroup \<Rightarrow> cg_error list \<times> 'w cgroup" where
  "cleanup_shared os s =
     (let sharedPath = shared_path s; procsFile = path_join sharedPath ''cgroup.procs'' in
      if cg_stat os sharedPath s = None then
        (let (es1, s1) = (case ReadDir os sharedPath (world s) of
                            Inl _ \<Rightarrow> ([], s)
                          | Inr entries \<Rightarrow> remove_subgroups os sharedPath entries s);
             s2 = evict_batch os procsFile s1;
             es2 = (case readPidsFromFile os procsFile s2 of
                      Inl _ \<Rightarrow> []
                    | Inr pids \<Rightarrow> if pids = [] then [] else [MoveFailures (length pids)]);
             (e3, s3) = cg_do (RemoveAll os sharedPath) s2
         in (es1 @ es2 @ (case e3 of None \<Rightarrow> [] | Some x \<Rightarrow> [OSFailed ''shared cgroup'' x]), s3))
      else ([], s))"

definition CleanupAll :: "'w os \<Rightarrow> 'w cgroup \<Rightarrow> cg_error option \<times> 'w cgroup" where
  "CleanupAll os s =
     (let (es1, s1) = cleanup_users os (GetCreatedCgroups s) s;
          (es2, s2) = cleanup_shared os s1;
          base = getBaseCgroupPath s2;
          s3 = (if cg_stat os base s2 = None then snd (cg_do (Remove os base) s2) else s2);
          (e4, s4) = cg_do (Remove os (createdCgroupsFile s3)) s3;
          es = es1 @ es2 @ (if e4 \<noteq> None \<and> \<not> IsNotExist e4 then [OSFailed ''tracking file'' (the e4)] else [])
      in (if es \<noteq> [] then Some (CleanupFailures es) else None, s4))"

end
