(* ===== verification/CgroupOps.thy ===== *)
theory CgroupOps
  imports CgroupShared
begin

text \<open>
  The interface \<open>CgroupManager\<close> of \<open>state/manager.go\<close>, as a record of the operations the state manager calls, over an
  abstract state \<open>'c\<close> of the provider; \<open>real_ops\<close> is the provider the program links, package \<open>cgroup\<close>. The locale
  \<open>cgroup_provider\<close> is the contract the state manager needs: an invariant every operation keeps, and a shared cgroup
  with a path.
\<close>

record 'c cgroup_ops =
  op_ApplyCPULimit :: "int \<Rightarrow> string \<Rightarrow> 'c \<Rightarrow> cg_error option \<times> 'c"
  op_ApplyCPUWeight :: "int \<Rightarrow> int \<Rightarrow> 'c \<Rightarrow> cg_error option \<times> 'c"
  op_ApplyRAMLimit :: "int \<Rightarrow> string \<Rightarrow> 'c \<Rightarrow> cg_error option \<times> 'c"
  op_ApplyRAMLimitWithHigh :: "int \<Rightarrow> string \<Rightarrow> string \<Rightarrow> 'c \<Rightarrow> cg_error option \<times> 'c"
  op_ApplyRAMLimitWithHighAndSwapDisabled :: "int \<Rightarrow> string \<Rightarrow> string \<Rightarrow> 'c \<Rightarrow> cg_error option \<times> 'c"
  op_RemoveRAMLimit :: "int \<Rightarrow> 'c \<Rightarrow> cg_error option \<times> 'c"
  op_RemoveRAMHigh :: "int \<Rightarrow> 'c \<Rightarrow> cg_error option \<times> 'c"
  op_ApplyIOLimit :: "int \<Rightarrow> string \<Rightarrow> string \<Rightarrow> int \<Rightarrow> int \<Rightarrow> string \<Rightarrow> 'c \<Rightarrow> cg_error option \<times> 'c"
  op_RemoveIOLimit :: "int \<Rightarrow> 'c \<Rightarrow> cg_error option \<times> 'c"
  op_GetUserCgroupMetrics :: "int \<Rightarrow> 'c \<Rightarrow> cg_error + cgroup_metrics"
  op_GetPSIStats :: "int \<Rightarrow> 'c \<Rightarrow> cg_error + psi_stats"
  op_MoveAllUserProcessesToSharedCgroup :: "int \<Rightarrow> string \<Rightarrow> 'c \<Rightarrow> cg_error option \<times> 'c"
  op_ReleaseUserFromSharedCgroup :: "int \<Rightarrow> string \<Rightarrow> 'c \<Rightarrow> cg_error option \<times> 'c"
  op_CreateSharedCgroup :: "'c \<Rightarrow> (cg_error + string) \<times> 'c"
  op_ApplySharedCPULimit :: "string \<Rightarrow> string \<Rightarrow> 'c \<Rightarrow> cg_error option \<times> 'c"
  op_CreateUserSubCgroup :: "int \<Rightarrow> string \<Rightarrow> 'c \<Rightarrow> (cg_error + string) \<times> 'c"
  op_CleanupAll :: "'c \<Rightarrow> cg_error option \<times> 'c"
  op_RemovePath :: "string \<Rightarrow> 'c \<Rightarrow> os_error option \<times> 'c"
  op_OpenPressure :: "string \<Rightarrow> string \<Rightarrow> 'c \<Rightarrow> os_error option \<times> 'c"
  op_ReadFile :: "string \<Rightarrow> 'c \<Rightarrow> os_error + string"
  op_ReadDir :: "string \<Rightarrow> 'c \<Rightarrow> os_error + (string \<times> bool) list"

text \<open>
  The last four are not methods of the interface: \<open>os.RemoveAll\<close> as \<open>deactivateLimits\<close> calls it, the opening of a
  pressure file with the write of its threshold by the PSI watcher, and \<open>os.ReadFile\<close>
  and \<open>os.ReadDir\<close>.
\<close>

definition real_ops :: "regexp_lib \<Rightarrow> 'w os \<Rightarrow> 'w proc_lib \<Rightarrow> 'w cgroup cgroup_ops" where
  "real_ops rx os pl =
     \<lparr>op_ApplyCPULimit = ApplyCPULimit rx os pl,
      op_ApplyCPUWeight = ApplyCPUWeight os,
      op_ApplyRAMLimit = ApplyRAMLimit os,
      op_ApplyRAMLimitWithHigh = ApplyRAMLimitWithHigh os,
      op_ApplyRAMLimitWithHighAndSwapDisabled = ApplyRAMLimitWithHighAndSwapDisabled os,
      op_RemoveRAMLimit = RemoveRAMLimit os,
      op_RemoveRAMHigh = RemoveRAMHigh os,
      op_ApplyIOLimit = ApplyIOLimit os,
      op_RemoveIOLimit = RemoveIOLimit os,
      op_GetUserCgroupMetrics = GetUserCgroupMetrics os,
      op_GetPSIStats = GetPSIStats os,
      op_MoveAllUserProcessesToSharedCgroup = MoveAllUserProcessesToSharedCgroup rx os pl,
      op_ReleaseUserFromSharedCgroup = ReleaseUserFromSharedCgroup os,
      op_CreateSharedCgroup = CreateSharedCgroup os,
      op_ApplySharedCPULimit = ApplySharedCPULimit os,
      op_CreateUserSubCgroup = CreateUserSubCgroup os,
      op_CleanupAll = CleanupAll os,
      op_RemovePath = (\<lambda>p. cg_do (RemoveAll os p)),
      op_OpenPressure = (\<lambda>p line. cg_write os p line),
      op_ReadFile = cg_read os,
      op_ReadDir = (\<lambda>p c. ReadDir os p (world c))\<rparr>"

text \<open>The pressure files of a cgroup; the manager opens no others.\<close>

definition pressure_path :: "string \<Rightarrow> bool" where
  "pressure_path p \<longleftrightarrow> path_base p \<in> {''cpu.pressure'', ''io.pressure''}"

lemma pressure_path_join [simp]:
  "pressure_path (path_join p ''cpu.pressure'')" "pressure_path (path_join p ''io.pressure'')"
  by (simp_all add: pressure_path_def path_base_join plain_name_def)

locale cgroup_provider =
  fixes ops :: "'c cgroup_ops" and I :: "'c \<Rightarrow> bool"
  assumes keep_ApplyCPULimit: "I c \<Longrightarrow> I (snd (op_ApplyCPULimit ops uid q c))"
    and keep_ApplyCPUWeight: "I c \<Longrightarrow> I (snd (op_ApplyCPUWeight ops uid w c))"
    and keep_ApplyRAMLimit: "I c \<Longrightarrow> I (snd (op_ApplyRAMLimit ops uid l c))"
    and keep_ApplyRAMLimitWithHigh: "I c \<Longrightarrow> I (snd (op_ApplyRAMLimitWithHigh ops uid l h c))"
    and keep_ApplyRAMLimitWithHighAndSwapDisabled:
      "I c \<Longrightarrow> I (snd (op_ApplyRAMLimitWithHighAndSwapDisabled ops uid l h c))"
    and keep_RemoveRAMLimit: "I c \<Longrightarrow> I (snd (op_RemoveRAMLimit ops uid c))"
    and keep_RemoveRAMHigh: "I c \<Longrightarrow> I (snd (op_RemoveRAMHigh ops uid c))"
    and keep_ApplyIOLimit: "I c \<Longrightarrow> I (snd (op_ApplyIOLimit ops uid r wr ri wi d c))"
    and keep_RemoveIOLimit: "I c \<Longrightarrow> I (snd (op_RemoveIOLimit ops uid c))"
    and keep_MoveAll: "I c \<Longrightarrow> I (snd (op_MoveAllUserProcessesToSharedCgroup ops uid p c))"
    and keep_Release: "I c \<Longrightarrow> I (snd (op_ReleaseUserFromSharedCgroup ops uid p c))"
    and keep_CreateShared: "I c \<Longrightarrow> I (snd (op_CreateSharedCgroup ops c))"
    and keep_ApplyShared: "I c \<Longrightarrow> I (snd (op_ApplySharedCPULimit ops p q c))"
    and keep_CreateUserSub: "I c \<Longrightarrow> I (snd (op_CreateUserSubCgroup ops uid p c))"
    and keep_CleanupAll: "I c \<Longrightarrow> I (snd (op_CleanupAll ops c))"
    and keep_RemovePath: "I c \<Longrightarrow> I (snd (op_RemovePath ops p c))"
    and keep_OpenPressure: "pressure_path p \<Longrightarrow> I c \<Longrightarrow> I (snd (op_OpenPressure ops p line c))"
    and shared_nonempty: "op_CreateSharedCgroup ops c = (Inr p, c') \<Longrightarrow> p \<noteq> []"

section \<open>The provider of the program meets the contract\<close>

text \<open>Every tracked cgroup is the user's own directory below the base cgroup, and is tracked once.\<close>

definition tracked_ok :: "'w cgroup \<Rightarrow> bool" where
  "tracked_ok s \<longleftrightarrow> al_wf (createdCgroups s) \<and> (\<forall>(uid, p) \<in> set (createdCgroups s). p = getUserCgroupPath uid s)"

definition same_tracking :: "'w cgroup \<Rightarrow> 'w cgroup \<Rightarrow> bool" where
  "same_tracking s t \<longleftrightarrow> createdCgroups t = createdCgroups s \<and> cg_cfg t = cg_cfg s"

lemma same_tracking_ok: "same_tracking s t \<Longrightarrow> tracked_ok s \<Longrightarrow> tracked_ok t"
  by (simp add: same_tracking_def tracked_ok_def getUserCgroupPath_def getBaseCgroupPath_def)

lemma same_tracking_refl [simp]: "same_tracking s s"
  by (simp add: same_tracking_def)

lemma same_tracking_trans: "same_tracking s t \<Longrightarrow> same_tracking t u \<Longrightarrow> same_tracking s u"
  by (simp add: same_tracking_def)

lemma same_tracking_write [simp]: "same_tracking s (snd (cg_write os p v s))"
  by (simp add: cg_write_def same_tracking_def split: prod.splits)

lemma same_tracking_do [simp]: "same_tracking s (snd (cg_do f s))"
  by (simp add: cg_do_def same_tracking_def split: prod.splits)

lemmas ok_write = same_tracking_ok [OF same_tracking_write]
lemmas ok_do = same_tracking_ok [OF same_tracking_do]

lemma ok_write_eq: "cg_write os p v s = (e, t) \<Longrightarrow> tracked_ok s \<Longrightarrow> tracked_ok t"
  using ok_write [of s os p v] by simp

lemma ok_do_eq: "cg_do f s = (e, t) \<Longrightarrow> tracked_ok s \<Longrightarrow> tracked_ok t"
  using ok_do [of s f] by simp

lemma ok_save: "tracked_ok s \<Longrightarrow> tracked_ok (snd (saveCgroupToFile os uid p s))"
  by (simp add: saveCgroupToFile_def ok_do)

lemma ok_CreateUserCgroup: "tracked_ok s \<Longrightarrow> tracked_ok (snd (CreateUserCgroup os uid s))"
proof -
  assume ok: "tracked_ok s"
  have step: "tracked_ok (s1\<lparr>createdCgroups := al_update uid (getUserCgroupPath uid s) (createdCgroups s1)\<rparr>)"
    if "cg_do f s = (e, s1)" "map_of (createdCgroups s) uid = None" for f e s1
  proof -
    from that(1) have same: "createdCgroups s1 = createdCgroups s" "cg_cfg s1 = cg_cfg s"
      by (auto simp: cg_do_def split: prod.splits)
    have "p = getUserCgroupPath u s" if "(u, p) \<in> set (al_update uid (getUserCgroupPath uid s) (createdCgroups s))" for u p
      using al_update_member [OF that] ok by (auto simp: tracked_ok_def)
    with ok same show ?thesis by (auto simp: tracked_ok_def getUserCgroupPath_def getBaseCgroupPath_def)
  qed
  show ?thesis
    using ok by (auto simp: CreateUserCgroup_def Let_def dest: ok_do_eq intro!: ok_save step split: prod.splits option.splits)
qed


lemmas ok_basic = ok_write ok_do ok_CreateUserCgroup

lemma ok_tracked_path: "tracked_ok s \<Longrightarrow> tracked_ok (snd (tracked_path os uid s))"
  by (simp add: tracked_path_def split_beta ok_basic split: option.split)

lemma ok_write_limit: "tracked_ok s \<Longrightarrow> tracked_ok (snd (write_limit os f m uid v s))"
  by (simp add: write_limit_def split_beta ok_basic ok_tracked_path split: option.split sum.split)

lemma ok_disable_swap: "tracked_ok s \<Longrightarrow> tracked_ok (snd (disable_swap os uid s))"
  by (simp add: disable_swap_def Let_def split_beta ok_basic split: option.split)

lemma ok_ApplyRAMLimit: "tracked_ok s \<Longrightarrow> tracked_ok (snd (ApplyRAMLimit os uid l s))"
  by (simp add: ApplyRAMLimit_def ok_write_limit)

lemma ok_ApplyRAMHigh: "tracked_ok s \<Longrightarrow> tracked_ok (snd (ApplyRAMHigh os uid l s))"
  by (simp add: ApplyRAMHigh_def ok_write_limit)

lemma ok_ApplyRAMLimitWithHigh: "tracked_ok s \<Longrightarrow> tracked_ok (snd (ApplyRAMLimitWithHigh os uid l h s))"
  by (simp add: ApplyRAMLimitWithHigh_def split_beta ok_ApplyRAMHigh ok_ApplyRAMLimit split: option.split)

lemma ok_ApplyRAMLimitWithHighAndSwapDisabled:
  "tracked_ok s \<Longrightarrow> tracked_ok (snd (ApplyRAMLimitWithHighAndSwapDisabled os uid l h s))"
  by (simp add: ApplyRAMLimitWithHighAndSwapDisabled_def split_beta ok_ApplyRAMLimitWithHigh ok_disable_swap split: option.split)

lemma ok_RemoveRAMHigh: "tracked_ok s \<Longrightarrow> tracked_ok (snd (RemoveRAMHigh os uid s))"
  by (simp add: RemoveRAMHigh_def split_beta ok_basic split: option.split)

lemma ok_RemoveIOLimit: "tracked_ok s \<Longrightarrow> tracked_ok (snd (RemoveIOLimit os uid s))"
  by (simp add: RemoveIOLimit_def split_beta ok_basic split: option.split)

lemma ok_ApplyIOLimit: "tracked_ok s \<Longrightarrow> tracked_ok (snd (ApplyIOLimit os uid r wr ri wi d s))"
  by (simp add: ApplyIOLimit_def ok_write_limit)

lemma ok_ApplyCPUWeight: "tracked_ok s \<Longrightarrow> tracked_ok (snd (ApplyCPUWeight os uid w s))"
  by (simp add: ApplyCPUWeight_def Let_def split_beta ok_basic split: option.split)

lemma ok_move_each:
  assumes "\<And>pid s. tracked_ok s \<Longrightarrow> tracked_ok (snd (move pid s))"
  shows "tracked_ok s \<Longrightarrow> tracked_ok (snd (move_each rx os pl move pids s))"
  by (induction pids arbitrary: s) (simp_all add: split_beta Let_def assms)

lemma ok_move_all:
  assumes "\<And>pid s. tracked_ok s \<Longrightarrow> tracked_ok (snd (move pid s))" "tracked_ok s"
  shows "tracked_ok (snd (move_all rx os pl move uid s))"
  using assms(2) by (simp add: move_all_def split_beta ok_move_each [of move, OF assms(1)] split: option.split)

lemma ok_MoveProcessToCgroup: "tracked_ok s \<Longrightarrow> tracked_ok (snd (MoveProcessToCgroup os pid uid s))"
  by (simp add: MoveProcessToCgroup_def split_beta ok_basic split: option.split)

lemma ok_CreateUserSubCgroup: "tracked_ok s \<Longrightarrow> tracked_ok (snd (CreateUserSubCgroup os uid p s))"
  by (simp add: CreateUserSubCgroup_def Let_def split_beta ok_basic split: option.split)

lemma ok_MoveProcessToSharedCgroup: "tracked_ok s \<Longrightarrow> tracked_ok (snd (MoveProcessToSharedCgroup os pid p uid s))"
  by (simp add: MoveProcessToSharedCgroup_def Let_def split_beta ok_basic ok_CreateUserSubCgroup split: option.split sum.split)

lemma ok_MoveAllShared: "tracked_ok s \<Longrightarrow> tracked_ok (snd (MoveAllUserProcessesToSharedCgroup rx os pl uid p s))"
  unfolding MoveAllUserProcessesToSharedCgroup_def by (rule ok_move_all) (auto intro: ok_MoveProcessToSharedCgroup)

lemma ok_MoveAllUserProcesses: "tracked_ok s \<Longrightarrow> tracked_ok (snd (MoveAllUserProcesses rx os pl uid s))"
  unfolding MoveAllUserProcesses_def by (auto intro: ok_move_all ok_MoveProcessToCgroup)

lemma ok_write_quota: "tracked_ok s \<Longrightarrow> tracked_ok (snd (write_quota os f q s))"
  by (simp add: write_quota_def split_beta ok_basic split: option.split)

lemma ok_verify_quota: "tracked_ok s \<Longrightarrow> tracked_ok (verify_quota os f q s)"
  by (simp add: verify_quota_def ok_write split: sum.split)

lemma ok_ApplyCPULimit: "tracked_ok s \<Longrightarrow> tracked_ok (snd (ApplyCPULimit rx os pl uid q s))"
  by (simp add: ApplyCPULimit_def Let_def split_beta ok_basic ok_write_quota ok_verify_quota ok_MoveAllUserProcesses
      split: option.split)

lemma ok_ApplyShared: "tracked_ok s \<Longrightarrow> tracked_ok (snd (ApplySharedCPULimit os p q s))"
  by (simp add: ApplySharedCPULimit_def split_beta ok_basic split: option.split)

lemma ok_writeControllerIfMissing: "tracked_ok s \<Longrightarrow> tracked_ok (snd (writeControllerIfMissing os f c s))"
  by (simp add: writeControllerIfMissing_def ok_write split: sum.split)

lemma ok_fold_evict: "tracked_ok s \<Longrightarrow> tracked_ok (fold (evict_one os) pids s)"
  by (induction pids arbitrary: s) (simp_all add: evict_one_def ok_write)

lemma ok_clear_shared: "tracked_ok s \<Longrightarrow> tracked_ok (clear_shared os p s)"
  by (simp add: clear_shared_def Let_def ok_do ok_fold_evict split: sum.split)

lemma ok_CreateShared: "tracked_ok s \<Longrightarrow> tracked_ok (snd (CreateSharedCgroup os s))"
  by (simp add: CreateSharedCgroup_def Let_def split_beta ok_basic ok_clear_shared ok_writeControllerIfMissing
      split: option.split)

lemma ok_writePids: "tracked_ok s \<Longrightarrow> tracked_ok (snd (writePidsBatch os f pids s))"
  by (simp add: writePidsBatch_def ok_write)

lemma ok_Release: "tracked_ok s \<Longrightarrow> tracked_ok (snd (ReleaseUserFromSharedCgroup os uid p s))"
  by (simp add: ReleaseUserFromSharedCgroup_def Let_def split_beta ok_basic ok_writePids split: option.split sum.split)

lemma ok_removeCgroupFromFile: "tracked_ok s \<Longrightarrow> tracked_ok (snd (removeCgroupFromFile os uid s))"
  by (simp add: removeCgroupFromFile_def ok_write split: sum.split)

lemma ok_delete: "tracked_ok s \<Longrightarrow> tracked_ok (s\<lparr>createdCgroups := al_delete uid (createdCgroups s)\<rparr>)"
  by (auto simp: tracked_ok_def al_delete_def getUserCgroupPath_def getBaseCgroupPath_def al_wf_def distinct_map_filter)

lemma ok_CleanupUserCgroup: "tracked_ok s \<Longrightarrow> tracked_ok (snd (CleanupUserCgroup os uid s))"
  by (simp add: CleanupUserCgroup_def Let_def split_beta ok_basic ok_removeCgroupFromFile ok_delete split: option.split)

lemma ok_cleanup_users: "tracked_ok s \<Longrightarrow> tracked_ok (snd (cleanup_users os uids s))"
  by (induction uids arbitrary: s) (simp_all add: split_beta Let_def ok_CleanupUserCgroup)

lemma ok_evict_batch: "tracked_ok s \<Longrightarrow> tracked_ok (evict_batch os f s)"
  by (simp add: evict_batch_def ok_writePids split: sum.split)

lemma ok_remove_subgroups: "tracked_ok s \<Longrightarrow> tracked_ok (snd (remove_subgroups os p es s))"
  by (induction es arbitrary: s) (simp_all add: split_paired_all split_beta Let_def ok_do ok_evict_batch)

lemma ok_cleanup_shared: "tracked_ok s \<Longrightarrow> tracked_ok (snd (cleanup_shared os s))"
  by (simp add: cleanup_shared_def Let_def split_beta ok_do ok_evict_batch ok_remove_subgroups split: sum.split)

lemma ok_CleanupAll: "tracked_ok s \<Longrightarrow> tracked_ok (snd (CleanupAll os s))"
  by (simp add: CleanupAll_def Let_def split_beta ok_do ok_cleanup_users ok_cleanup_shared)

lemma CreateSharedCgroup_path: "fst (CreateSharedCgroup os s) = Inr p \<Longrightarrow> p = shared_path s"
proof -
  obtain e s2 where m: "cg_do (MkdirAll os (shared_path s)) (clear_shared os (shared_path s) s) = (e, s2)"
    by (metis surj_pair)
  show "fst (CreateSharedCgroup os s) = Inr p \<Longrightarrow> p = shared_path s"
    by (cases e) (simp_all add: CreateSharedCgroup_def Let_def m)
qed

lemma shared_path_nonempty: "CreateSharedCgroup os s = (Inr p, t) \<Longrightarrow> p \<noteq> []"
  using CreateSharedCgroup_path [of os s p] path_join_nonempty [of "''limited''" "getBaseCgroupPath s"]
  by (simp add: shared_path_def)

interpretation real: cgroup_provider "real_ops rx os pl" tracked_ok
  by unfold_locales
     (simp_all add: real_ops_def RemoveRAMLimit_def ok_ApplyCPULimit ok_ApplyCPUWeight ok_ApplyRAMLimit ok_ApplyRAMLimitWithHigh
       ok_ApplyRAMLimitWithHighAndSwapDisabled ok_RemoveRAMHigh ok_ApplyIOLimit ok_RemoveIOLimit ok_MoveAllShared ok_Release
       ok_CreateShared ok_ApplyShared ok_CreateUserSubCgroup ok_CleanupAll ok_do ok_write shared_path_nonempty)

end
