(* ===== verification/PsiWatcher.thy ===== *)
theory PsiWatcher
  imports CgroupOps
begin

text \<open>
  The PSI watcher, \<open>cgroup/psi_watcher.go\<close>: the list of monitored pressure files and the events of the poll loop. The
  file descriptors, the wake pipe and \<open>poll\<close> itself are the kernel's; one turn of the loop is given which descriptors are
  ready and what they read.
\<close>

record psi_monitor =
  mon_uid :: int
  mon_typ :: string
  mon_path :: string
  mon_active :: bool

record psi_event =
  ev_UID :: int
  ev_Type :: string
  ev_SomeAvg10 :: f64
  ev_Timestamp :: time

record psi_watcher =
  monitors :: "psi_monitor list"
  events :: "psi_event list"
  thresholds :: "string \<rightharpoonup> u64"
  windowUs :: u64

definition NewPSIWatcher :: "u64 \<Rightarrow> psi_watcher" where
  "NewPSIWatcher w = \<lparr>monitors = [], events = [], thresholds = Map.empty, windowUs = w\<rparr>"

definition SetThreshold :: "string \<Rightarrow> u64 \<Rightarrow> psi_watcher \<Rightarrow> psi_watcher" where
  "SetThreshold typ stallUs w = w\<lparr>thresholds := (thresholds w)(typ \<mapsto> stallUs)\<rparr>"

definition watches :: "int \<Rightarrow> string \<Rightarrow> psi_monitor \<Rightarrow> bool" where
  "watches uid typ m \<longleftrightarrow> mon_uid m = uid \<and> mon_typ m = typ \<and> mon_active m"

datatype psi_error = NoThreshold string | PressureFailed string os_error

definition threshold_line :: "u64 \<Rightarrow> u64 \<Rightarrow> string" where
  "threshold_line threshold window = ''some '' @ FormatUint threshold @ '' '' @ FormatUint window"

text \<open>\<open>open\<close> is the opening of the pressure file with the write of the threshold line.\<close>

definition AddMonitor ::
  "(string \<Rightarrow> string \<Rightarrow> 'c \<Rightarrow> os_error option \<times> 'c) \<Rightarrow> int \<Rightarrow> string \<Rightarrow> string \<Rightarrow> psi_watcher \<Rightarrow> 'c \<Rightarrow>
   psi_error option \<times> psi_watcher \<times> 'c" where
  "AddMonitor opener uid typ pressurePath w c =
     (if list_ex (watches uid typ) (monitors w) then (None, w, c)
      else
        (case thresholds w typ of
           None \<Rightarrow> (Some (NoThreshold typ), w, c)
         | Some threshold \<Rightarrow>
             (case opener pressurePath (threshold_line threshold (windowUs w)) c of
                (Some e, c1) \<Rightarrow> (Some (PressureFailed pressurePath e), w, c1)
              | (None, c1) \<Rightarrow>
                  (None, w\<lparr>monitors := monitors w @
                     [\<lparr>mon_uid = uid, mon_typ = typ, mon_path = pressurePath, mon_active = True\<rparr>]\<rparr>, c1))))"

definition RemoveMonitor :: "int \<Rightarrow> string \<Rightarrow> psi_watcher \<Rightarrow> psi_watcher" where
  "RemoveMonitor uid typ w =
     w\<lparr>monitors := map (\<lambda>m. if watches uid typ m then m\<lparr>mon_active := False\<rparr> else m) (monitors w)\<rparr>"

definition StopWatcher :: "psi_watcher \<Rightarrow> psi_watcher" where
  "StopWatcher w = w\<lparr>monitors := []\<rparr>"

text \<open>
  The events of one turn: a ready descriptor is given with the index of its monitor and the text it read; a full channel
  (64 events) drops the event.
\<close>

definition post_event :: "time \<Rightarrow> int \<times> (os_error + string) \<Rightarrow> psi_watcher \<Rightarrow> psi_watcher" where
  "post_event now r w =
     (case r of (idx, content) \<Rightarrow>
        (if idx < 0 \<or> idx \<ge> int (length (monitors w)) \<or> \<not> mon_active (monitors w ! nat idx) then w
         else
           (case content of
              Inl _ \<Rightarrow> w
            | Inr text \<Rightarrow>
                (case parsePSI text of
                   Inl _ \<Rightarrow> w
                 | Inr stats \<Rightarrow>
                     (if length (events w) < 64 then
                        w\<lparr>events := events w @
                          [\<lparr>ev_UID = mon_uid (monitors w ! nat idx), ev_Type = mon_typ (monitors w ! nat idx),
                            ev_SomeAvg10 = SomeAvg10 stats, ev_Timestamp = now\<rparr>]\<rparr>
                      else w)))))"

definition poll_turn :: "time \<Rightarrow> (int \<times> (os_error + string)) list \<Rightarrow> psi_watcher \<Rightarrow> psi_watcher" where
  "poll_turn now ready w = fold (post_event now) ready w"

section \<open>At most one active monitor per user and kind\<close>

definition watcher_ok :: "psi_watcher \<Rightarrow> bool" where
  "watcher_ok w \<longleftrightarrow>
     (\<forall>uid typ. length (filter (watches uid typ) (monitors w)) \<le> 1) \<and> length (events w) \<le> 64"

lemma watcher_ok_new [inv_intros]: "watcher_ok (NewPSIWatcher n)"
  by (simp add: watcher_ok_def NewPSIWatcher_def)

lemma watcher_ok_SetThreshold [inv_intros]: "watcher_ok w \<Longrightarrow> watcher_ok (SetThreshold t n w)"
  by (simp add: watcher_ok_def SetThreshold_def)

lemma watcher_ok_AddMonitor [inv_intros]:
  assumes "watcher_ok w" shows "watcher_ok (fst (snd (AddMonitor op uid typ p w c)))"
proof -
  have "filter (watches uid typ) (monitors w) = []" if "\<not> list_ex (watches uid typ) (monitors w)"
    using that by (simp add: list_ex_iff filter_empty_conv)
  moreover have "watches u t \<lparr>mon_uid = uid, mon_typ = typ, mon_path = p, mon_active = True\<rparr> \<longleftrightarrow> u = uid \<and> t = typ" for u t
    by (auto simp: watches_def)
  ultimately show ?thesis using assms
    by (auto simp: AddMonitor_def watcher_ok_def split_beta split: option.split)
qed

lemma filter_deactivated:
  "filter (watches u t) (map (\<lambda>m. if watches uid typ m then m\<lparr>mon_active := False\<rparr> else m) ms) =
     (if u = uid \<and> t = typ then [] else filter (watches u t) ms)"
proof (induction ms)
  case (Cons m ms)
  have 1: "\<not> watches u t (m\<lparr>mon_active := False\<rparr>)" by (simp add: watches_def)
  have 2: "watches uid typ m \<Longrightarrow> watches u t m \<Longrightarrow> u = uid \<and> t = typ" by (simp add: watches_def)
  from Cons show ?case using 1 2 by auto
qed simp

lemma watcher_ok_RemoveMonitor [inv_intros]: "watcher_ok w \<Longrightarrow> watcher_ok (RemoveMonitor uid typ w)"
  by (simp add: watcher_ok_def RemoveMonitor_def filter_deactivated)

lemma watcher_ok_post [inv_intros]: "watcher_ok w \<Longrightarrow> watcher_ok (post_event now r w)"
  by (auto simp: post_event_def watcher_ok_def split: prod.split sum.split)

lemma watcher_ok_poll [inv_intros]: "watcher_ok w \<Longrightarrow> watcher_ok (poll_turn now rs w)"
  unfolding poll_turn_def by (induction rs arbitrary: w) (simp_all add: watcher_ok_post)

lemma removed_is_unwatched: "\<not> list_ex (watches uid typ) (monitors (RemoveMonitor uid typ w))"
  using filter_deactivated [of uid "typ" uid "typ" "monitors w"]
  by (simp add: RemoveMonitor_def list_ex_iff filter_empty_conv del: set_map)

end
