(* ===== verification/IORemediation.thy ===== *)
theory IORemediation
  imports CgroupOps
begin

text \<open>
  IO starvation remediation, \<open>state/io_remediation.go\<close>. The state of a user is found by uid in \<open>boostStates\<close>; the map is
  ranged over only by \<open>Cleanup\<close>, whose loop treats each entry on its own. The four \<open>Original...\<close> fields of
  \<open>IOBoostState\<close> are never set: a boost removes the limits and a revert only forgets the boost.
\<close>

record io_boost =
  bs_IsActive :: bool
  bs_StartTime :: time
  bs_OriginalReadBPS :: string
  bs_OriginalWriteBPS :: string
  bs_OriginalReadIOPS :: int
  bs_OriginalWriteIOPS :: int
  bs_BoostCount :: int
  bs_LastBoostTime :: time
  bs_StarvationStart :: time

record io_remediation =
  boostStates :: "int \<rightharpoonup> io_boost"
  lastCheck :: time

definition new_boost :: io_boost where
  "new_boost = \<lparr>bs_IsActive = False, bs_StartTime = zero_time, bs_OriginalReadBPS = '''', bs_OriginalWriteBPS = '''',
     bs_OriginalReadIOPS = 0, bs_OriginalWriteIOPS = 0, bs_BoostCount = 0, bs_LastBoostTime = zero_time,
     bs_StarvationStart = zero_time\<rparr>"

definition NewIORemediation :: io_remediation where
  "NewIORemediation = \<lparr>boostStates = Map.empty, lastCheck = zero_time\<rparr>"

definition applyBoost :: "'c cgroup_ops \<Rightarrow> time \<Rightarrow> int \<Rightarrow> io_boost \<Rightarrow> 'c \<Rightarrow> io_boost \<times> 'c" where
  "applyBoost ops now uid st c =
     (case op_RemoveIOLimit ops uid c of
        (Some _, c1) \<Rightarrow> (st, c1)
      | (None, c1) \<Rightarrow>
          (st\<lparr>bs_IsActive := True, bs_StartTime := now, bs_BoostCount := bs_BoostCount st + 1, bs_LastBoostTime := now\<rparr>, c1))"

definition revertBoost :: "io_boost \<Rightarrow> io_boost" where
  "revertBoost st = st\<lparr>bs_IsActive := False, bs_StarvationStart := zero_time\<rparr>"

text \<open>One user of the loop, once the pressure is known.\<close>

definition check_user :: "'c cgroup_ops \<Rightarrow> config \<Rightarrow> time \<Rightarrow> int \<Rightarrow> psi_stats \<Rightarrow> io_boost \<Rightarrow> 'c \<Rightarrow> io_boost \<times> 'c" where
  "check_user ops cfg now uid psi st c =
     (if f64_ge (SomeAvg10 psi) (IOPSIThreshold cfg) then
        (let st1 = (if IsZero (bs_StarvationStart st) then st\<lparr>bs_StarvationStart := now\<rparr> else st);
             starvationDuration = time_Sub now (bs_StarvationStart st1)
         in
         if starvationDuration \<ge> seconds (IOStarvationThreshold cfg) \<and> \<not> bs_IsActive st1 then
           (if bs_BoostCount st1 \<ge> IOBoostMaxPerHour cfg then (st1, c) else applyBoost ops now uid st1 c)
         else if bs_IsActive st1 then
           (if time_Sub now (bs_StartTime st1) \<ge> seconds (IOBoostDuration cfg) then (revertBoost st1, c) else (st1, c))
         else (st1, c))
      else
        (let st1 = st\<lparr>bs_StarvationStart := zero_time\<rparr>
         in if bs_IsActive st1 \<and> IORevertOnNormal cfg then (revertBoost st1, c) else (st1, c)))"

fun check_users ::
  "'c cgroup_ops \<Rightarrow> config \<Rightarrow> time \<Rightarrow> int list \<Rightarrow> (int \<rightharpoonup> io_boost) \<Rightarrow> 'c \<Rightarrow> (int \<rightharpoonup> io_boost) \<times> 'c" where
  "check_users ops cfg now [] m c = (m, c)"
| "check_users ops cfg now (uid # uids) m c =
     (let st = (case m uid of Some b \<Rightarrow> b | None \<Rightarrow> new_boost);
          m1 = m(uid \<mapsto> st)
      in case op_GetPSIStats ops uid c of
           Inl _ \<Rightarrow> check_users ops cfg now uids m1 c
         | Inr psi \<Rightarrow>
             (case check_user ops cfg now uid psi st c of
                (st', c') \<Rightarrow> check_users ops cfg now uids (m1(uid \<mapsto> st')) c'))"

definition CheckAndRemediate ::
  "'c cgroup_ops \<Rightarrow> config \<Rightarrow> time \<Rightarrow> int list \<Rightarrow> io_remediation \<Rightarrow> 'c \<Rightarrow> io_remediation \<times> 'c" where
  "CheckAndRemediate ops cfg now limitedUsers r c =
     (if \<not> IORemediationEnabled cfg then (r, c)
      else if time_Sub now (lastCheck r) < seconds (IOStarvationCheckInterval cfg) then (r, c)
      else
        (case check_users ops cfg now limitedUsers (boostStates r) c of
           (m, c') \<Rightarrow> (r\<lparr>boostStates := m, lastCheck := now\<rparr>, c')))"

text \<open>One entry of \<open>Cleanup\<close>: dropped when idle for longer than \<open>maxAge\<close>, its count cleared after an hour.\<close>

definition cleanup_boost :: "time \<Rightarrow> duration \<Rightarrow> io_boost \<Rightarrow> io_boost option" where
  "cleanup_boost now maxAge st =
     (if \<not> bs_IsActive st \<and> time_Sub now (bs_LastBoostTime st) > maxAge then None
      else Some (if time_Sub now (bs_LastBoostTime st) > hour then st\<lparr>bs_BoostCount := 0\<rparr> else st))"

definition IORemediation_Cleanup :: "time \<Rightarrow> duration \<Rightarrow> io_remediation \<Rightarrow> io_remediation" where
  "IORemediation_Cleanup now maxAge r =
     r\<lparr>boostStates := (\<lambda>uid. case boostStates r uid of None \<Rightarrow> None | Some st \<Rightarrow> cleanup_boost now maxAge st)\<rparr>"

end
