(* ===== verification/Policy.thy ===== *)
theory Policy
  imports ConfigUse
begin

text \<open>
  Workload patterns, \<open>state/pattern_detector.go\<close>, and the policies attached to them, \<open>state/policy_engine.go\<close>. The arrays
  of 24 hours are lists of length 24.
\<close>

section \<open>Patterns\<close>

datatype pattern =
  PatternUnknown | PatternBatchNight | PatternInteractiveDay | PatternMixed | PatternAlwaysOn | PatternSporadic

record hourly_stats =
  HourlyCPU :: "f64 list"
  HourlyCount :: "int list"
  TotalSamples :: int
  FirstSample :: time
  LastSample :: time

type_synonym pattern_result = "pattern \<times> f64"

record pattern_detector =
  userStats :: "(int \<times> hourly_stats) list"

definition NewPatternDetector :: pattern_detector where
  "NewPatternDetector = \<lparr>userStats = []\<rparr>"

definition new_stats :: "time \<Rightarrow> hourly_stats" where
  "new_stats now = \<lparr>HourlyCPU = replicate 24 (Fin 0), HourlyCount = replicate 24 0, TotalSamples = 0, FirstSample = now,
     LastSample = zero_time\<rparr>"

definition add_sample :: "time \<Rightarrow> nat \<Rightarrow> f64 \<Rightarrow> hourly_stats \<Rightarrow> hourly_stats" where
  "add_sample now h cpuUsage st =
     (let n = HourlyCount st ! h in
      st\<lparr>HourlyCPU := (HourlyCPU st)[h :=
           f64_div (f64_add (f64_mul (HourlyCPU st ! h) (f64_of_int n)) cpuUsage) (f64_of_int (n + 1))],
         HourlyCount := (HourlyCount st)[h := n + 1],
         TotalSamples := TotalSamples st + 1,
         LastSample := now\<rparr>)"

text \<open>\<open>Update\<close>: \<open>h\<close> is the hour of the clock, below 24.\<close>

definition PatternDetector_Update :: "time \<Rightarrow> nat \<Rightarrow> int \<Rightarrow> f64 \<Rightarrow> pattern_detector \<Rightarrow> pattern_detector" where
  "PatternDetector_Update now h uid cpuUsage pd =
     (let st = (case map_of (userStats pd) uid of Some st \<Rightarrow> st | None \<Rightarrow> new_stats now)
      in pd\<lparr>userStats := al_update uid (add_sample now h cpuUsage st) (userStats pd)\<rparr>)"

definition average :: "f64 list \<Rightarrow> nat list \<Rightarrow> f64" where
  "average values hs0 =
     (let hs = filter (\<lambda>h. h < length values) hs0;
          total = foldl (\<lambda>acc h. f64_add acc (values ! h)) (Fin 0) hs
      in if hs = [] then Fin 0 else f64_div total (f64_of_int (int (length hs))))"

definition overallAverage :: "f64 list \<Rightarrow> int list \<Rightarrow> f64" where
  "overallAverage values counts =
     (let ps = zip values counts;
          totalSum = foldl (\<lambda>acc (v, n). f64_add acc (f64_mul v (f64_of_int n))) (Fin 0) ps;
          totalCount = foldl (\<lambda>acc (v, n). acc + n) 0 ps
      in if totalCount = 0 then Fin 0 else f64_div totalSum (f64_of_int totalCount))"

definition calculateVariance :: "f64 list \<Rightarrow> int list \<Rightarrow> f64" where
  "calculateVariance values counts =
     (let mean = overallAverage values counts in
      if f64_eq mean (Fin 0) then Fin 0
      else
        (let ps = filter (\<lambda>(v, n). n > 0) (zip values counts);
             totalWeight = foldl (\<lambda>acc (v, n). acc + n) 0 ps;
             sumSquaredDiff = foldl (\<lambda>acc (v, n).
               (let diff = f64_sub v mean in f64_add acc (f64_mul (f64_mul diff diff) (f64_of_int n)))) (Fin 0) ps
         in if totalWeight = 0 then Fin 0 else f64_div sumSquaredDiff (f64_of_int totalWeight)))"

abbreviation lit :: "rat \<Rightarrow> f64" where
  "lit x \<equiv> f64_of_rat x"

text \<open>The switch of \<open>classifyPattern\<close> on the three figures it is made of.\<close>

definition classify_figures :: "f64 \<Rightarrow> f64 \<Rightarrow> f64 \<Rightarrow> pattern_result" where
  "classify_figures nightDayRatio normalizedVariance overallAvg =
     (let r = nightDayRatio; v = normalizedVariance; a = overallAvg in
      if f64_gt r (lit (15 / 10)) \<and> f64_gt v (lit (4 / 10)) then
        (PatternBatchNight,
         f64_min (f64_add (f64_mul (f64_div r (lit 3)) (lit (6 / 10))) (f64_mul v (lit (4 / 10)))) (lit 1))
      else if f64_lt r (lit (5 / 10)) \<and> f64_lt v (lit (3 / 10)) \<and> f64_gt a (lit 5) then
        (PatternInteractiveDay,
         f64_min (f64_add (f64_mul (f64_sub (lit 1) r) (lit (5 / 10))) (f64_mul (f64_sub (lit 1) v) (lit (5 / 10)))) (lit 1))
      else if f64_gt v (lit (5 / 10)) \<and> f64_gt r (lit (8 / 10)) \<and> f64_lt r (lit (12 / 10)) then
        (PatternMixed, f64_min v (lit 1))
      else if f64_lt v (lit (2 / 10)) \<and> f64_gt a (lit 10) then
        (PatternAlwaysOn, f64_min (f64_sub (lit 1) v) (lit 1))
      else if f64_lt a (lit 5) \<and> f64_gt v (lit (6 / 10)) then
        (PatternSporadic,
         f64_min (f64_add (f64_mul v (lit (7 / 10)))
           (f64_mul (f64_sub (lit 1) (f64_div a (lit 5))) (lit (3 / 10)))) (lit 1))
      else (PatternUnknown, lit 0))"

definition night_hours :: "nat list" where "night_hours = [22, 23, 0, 1, 2, 3, 4, 5, 6]"
definition day_hours :: "nat list" where "day_hours = [8, 9, 10, 11, 12, 13, 14, 15, 16, 17]"

definition classifyPattern :: "hourly_stats \<Rightarrow> f64 \<Rightarrow> pattern_result" where
  "classifyPattern st confidenceThreshold =
     (let nightAvg = average (HourlyCPU st) night_hours;
          dayAvg = average (HourlyCPU st) day_hours;
          overallAvg = overallAverage (HourlyCPU st) (HourlyCount st);
          variance = calculateVariance (HourlyCPU st) (HourlyCount st);
          normalizedVariance = f64_min (f64_div variance (lit 50)) (lit 1);
          nightDayRatio = (if f64_gt dayAvg (Fin 0) then f64_div nightAvg dayAvg else Fin 0);
          (pattern, confidence) = classify_figures nightDayRatio normalizedVariance overallAvg
      in if f64_lt confidence confidenceThreshold then (PatternUnknown, lit 0) else (pattern, confidence))"

definition Analyze :: "config \<Rightarrow> pattern_detector \<Rightarrow> (int \<times> pattern_result) list" where
  "Analyze cfg pd =
     map (\<lambda>(uid, st).
       (uid, if TotalSamples st < PatternMinSamples cfg then (PatternUnknown, Fin 0)
             else classifyPattern st (PatternConfidenceThreshold cfg))) (userStats pd)"

definition PatternDetector_Cleanup :: "time \<Rightarrow> duration \<Rightarrow> pattern_detector \<Rightarrow> pattern_detector" where
  "PatternDetector_Cleanup now maxAge pd =
     pd\<lparr>userStats := filter (\<lambda>(uid, st). \<not> time_Sub now (LastSample st) > maxAge) (userStats pd)\<rparr>"

section \<open>Policies\<close>

record user_policy =
  CPUQuota :: int
  RAMQuota :: string
  AppliedAt :: time
  LastChanged :: time
  PreviousCPUQuota :: int
  PreviousRAMQuota :: string

type_synonym policy_engine = "int \<rightharpoonup> user_policy"

definition getQuotasForPattern :: "pattern \<Rightarrow> config \<Rightarrow> int \<times> string" where
  "getQuotasForPattern p cfg =
     (case p of
        PatternBatchNight \<Rightarrow> (BatchNightCPUQuota cfg, BatchNightRAMQuota cfg)
      | PatternInteractiveDay \<Rightarrow> (InteractiveCPUQuota cfg, InteractiveRAMQuota cfg)
      | PatternMixed \<Rightarrow> (go_div (wrap64 (BatchNightCPUQuota cfg + InteractiveCPUQuota cfg)) 2, InteractiveRAMQuota cfg)
      | PatternAlwaysOn \<Rightarrow> (InteractiveCPUQuota cfg, InteractiveRAMQuota cfg)
      | PatternSporadic \<Rightarrow> (go_div (InteractiveCPUQuota cfg) 2, InteractiveRAMQuota cfg)
      | PatternUnknown \<Rightarrow> (0, ''''))"

definition ApplyPolicy :: "time \<Rightarrow> int \<Rightarrow> pattern \<Rightarrow> config \<Rightarrow> policy_engine \<Rightarrow> bool \<times> policy_engine" where
  "ApplyPolicy now uid p cfg pe =
     (let (targetCPUQuota, targetRAMQuota) = getQuotasForPattern p cfg in
      if p = PatternUnknown then (False, pe)
      else
        (case pe uid of
           Some ex \<Rightarrow>
             (if CPUQuota ex = targetCPUQuota \<and> RAMQuota ex = targetRAMQuota then (False, pe)
              else (True, pe(uid \<mapsto> ex\<lparr>PreviousCPUQuota := CPUQuota ex, PreviousRAMQuota := RAMQuota ex,
                     CPUQuota := targetCPUQuota, RAMQuota := targetRAMQuota, LastChanged := now\<rparr>)))
         | None \<Rightarrow>
             (True, pe(uid \<mapsto> \<lparr>CPUQuota = targetCPUQuota, RAMQuota = targetRAMQuota, AppliedAt = now, LastChanged = now,
                PreviousCPUQuota = 0, PreviousRAMQuota = ''''\<rparr>))))"

definition GetPolicy :: "int \<Rightarrow> policy_engine \<Rightarrow> user_policy option" where
  "GetPolicy uid pe = pe uid"

definition PolicyEngine_Cleanup :: "time \<Rightarrow> duration \<Rightarrow> policy_engine \<Rightarrow> policy_engine" where
  "PolicyEngine_Cleanup now maxAge pe =
     (\<lambda>uid. case pe uid of
        None \<Rightarrow> None
      | Some p \<Rightarrow> if time_Sub now (LastChanged p) > maxAge then None else Some p)"

end
