(* ===== verification/StateManager.thy ===== *)
theory StateManager
  imports Decision PsiWatcher IORemediation Policy
begin

text \<open>
  The state manager, \<open>state/manager.go\<close> and \<open>state/limits_applier.go\<close>: the record \<open>Manager\<close>, the activation and
  deactivation of the limits, the release of idle users and the PSI boosts. The cgroup provider is reached through
  \<open>cgroup_ops\<close> and its state is the field \<open>cgroups\<close>; the collector's answers are the argument \<open>mc\<close>, the clock is \<open>now\<close>.
  A goroutine counted by \<open>wg\<close> is an entry of \<open>pending\<close>: it runs later, at any time, and at the latest in
  \<open>wg.Wait\<close>. Calls of the Prometheus exporter, of the database and of the limit hook are collected in
  \<open>emitted\<close>. Locks are left out: an operation runs under \<open>opMu\<close>.
\<close>

section \<open>State\<close>

text \<open>The goroutines, with the values they capture.\<close>

datatype task =
    ReleaseTask int string
  | ReAddTask int string
  | LimitTask config int string

datatype emitted_call =
    RecordControlCycleTrigger string
  | IncrementLimitsActivated
  | IncrementLimitsDeactivated
  | UpdateMetrics "(string \<times> f64) list"
  | UpdateUserMetrics int string user_metrics bool string string u64 u64 u64 u64 u64
  | CleanupUserMetrics "int list"
  | UpdateSystemMetrics int int f64
  | UpdateUserWorkloadPattern int string pattern f64
  | WriteMetricsToDatabase "(int \<times> user_metrics) list" f64 int bool int
  | LimitHook int string f64 int string string
  | StopExporter

record history_entry =
  h_Timestamp :: time
  h_Decision :: decision
  h_Reason :: reason
  h_TotalCPUUsage :: f64
  h_UserCPUUsage :: f64
  h_ActiveUsers :: int
  h_LimitsActive :: bool
  h_DurationMs :: int

text \<open>
  \<open>activeUsers\<close> is a Go map whose values are all true: the list of its keys. \<open>psiBoostedAt\<close> is ranged over and is an
  association list, \<open>prevIOBytes\<close> is only looked up and pruned.
\<close>

record 'c manager = decision_state +
  m_cfg :: config
  activeUsers :: "int list"
  sharedCgroupPath :: string
  lastPatternAnalysis :: time
  ioRemediation :: io_remediation
  patternDetector :: pattern_detector
  policyEngine :: policy_engine
  controlHist :: "history_entry list"
  prevIOBytes :: "int \<rightharpoonup> u64"
  prevIOTime :: time
  psiWatcher :: "psi_watcher option"
  psiBoostedAt :: "(int \<times> time) list"
  pending :: "task list"
  has_exporter :: bool
  emitted :: "emitted_call list"
  cgroups :: 'c

definition NewManager :: "config \<Rightarrow> bool \<Rightarrow> 'c \<Rightarrow> 'c manager" where
  "NewManager cfg exporter c =
     \<lparr>limitsActive = False, limitsAppliedTime = zero_time, thresholdTracker = new_tracker,
      ioThresholdTracker = new_tracker, underThreshold = Map.empty,
      m_cfg = cfg, activeUsers = [], sharedCgroupPath = '''', lastPatternAnalysis = zero_time,
      ioRemediation = NewIORemediation, patternDetector = NewPatternDetector, policyEngine = Map.empty,
      controlHist = [], prevIOBytes = Map.empty, prevIOTime = zero_time, psiWatcher = None, psiBoostedAt = [],
      pending = [], has_exporter = exporter, emitted = [], cgroups = c\<rparr>"

text \<open>A call on the provider, its error dropped or kept.\<close>

definition call :: "('c \<Rightarrow> 'e \<times> 'c) \<Rightarrow> 'c manager \<Rightarrow> 'e \<times> 'c manager" where
  "call f m = (case f (cgroups m) of (e, c) \<Rightarrow> (e, m\<lparr>cgroups := c\<rparr>))"

definition perform :: "('c \<Rightarrow> 'e \<times> 'c) \<Rightarrow> 'c manager \<Rightarrow> 'c manager" where
  "perform f m = snd (call f m)"

definition emit :: "emitted_call \<Rightarrow> 'c manager \<Rightarrow> 'c manager" where
  "emit e m = m\<lparr>emitted := emitted m @ [e]\<rparr>"

definition emit_prom :: "emitted_call \<Rightarrow> 'c manager \<Rightarrow> 'c manager" where
  "emit_prom e m = (if has_exporter m then emit e m else m)"

definition activate_user :: "int \<Rightarrow> int list \<Rightarrow> int list" where
  "activate_user uid us = (if uid \<in> set us then us else us @ [uid])"

definition drop_users :: "int list \<Rightarrow> int list \<Rightarrow> int list" where
  "drop_users gone us = filter (\<lambda>u. u \<notin> set gone) us"

definition drop_boosts :: "int list \<Rightarrow> (int \<times> time) list \<Rightarrow> (int \<times> time) list" where
  "drop_boosts gone bs = filter (\<lambda>b. fst b \<notin> set gone) bs"

definition shouldApplyRAMLimits :: "regexp_lib \<Rightarrow> metrics_collector \<Rightarrow> int \<Rightarrow> 'c manager \<Rightarrow> bool" where
  "shouldApplyRAMLimits rx mc uid m =
     (if \<not> RAMEnabled (m_cfg m) then False
      else IsUserWhitelistedForRAM rx (m_cfg m) (GetUsernameFromUID mc uid))"

definition shouldApplyIOLimits :: "regexp_lib \<Rightarrow> metrics_collector \<Rightarrow> int \<Rightarrow> 'c manager \<Rightarrow> bool" where
  "shouldApplyIOLimits rx mc uid m =
     (if \<not> IOEnabled (m_cfg m) then False
      else IsUserWhitelistedForIO rx (m_cfg m) (GetUsernameFromUID mc uid))"

section \<open>PSI monitors of a user\<close>

definition add_monitor :: "'c cgroup_ops \<Rightarrow> int \<Rightarrow> string \<Rightarrow> string \<Rightarrow> 'c manager \<Rightarrow> 'c manager" where
  "add_monitor ops uid typ p m =
     (case psiWatcher m of
        None \<Rightarrow> m
      | Some w \<Rightarrow>
          (case AddMonitor (op_OpenPressure ops) uid typ p w (cgroups m) of
             (_, w', c') \<Rightarrow> m\<lparr>psiWatcher := Some w', cgroups := c'\<rparr>))"

definition watch_user :: "'c cgroup_ops \<Rightarrow> int \<Rightarrow> string \<Rightarrow> 'c manager \<Rightarrow> 'c manager" where
  "watch_user ops uid userCgroupPath m =
     add_monitor ops uid ''io'' (path_join userCgroupPath ''io.pressure'')
       (add_monitor ops uid ''cpu'' (path_join userCgroupPath ''cpu.pressure'') m)"

definition unwatch :: "int \<Rightarrow> psi_watcher \<Rightarrow> psi_watcher" where
  "unwatch uid w = RemoveMonitor uid ''io'' (RemoveMonitor uid ''cpu'' w)"

definition unwatch_users :: "int list \<Rightarrow> 'c manager \<Rightarrow> 'c manager" where
  "unwatch_users uids m = m\<lparr>psiWatcher := map_option (fold unwatch uids) (psiWatcher m)\<rparr>"

section \<open>Goroutines\<close>

definition apply_ram :: "'c cgroup_ops \<Rightarrow> config \<Rightarrow> int \<Rightarrow> 'c manager \<Rightarrow> 'c manager" where
  "apply_ram ops cfg uid m =
     (case ParseRAMQuota (RAMQuotaPerUser cfg) of
        Inl _ \<Rightarrow> m
      | Inr quotaBytes \<Rightarrow>
          (if quotaBytes = 0 then m
           else
             (let highStr = FormatUint (u64_of_f64 (f64_mul (f64_of_u64 quotaBytes) (GetRAMHighRatio cfg)));
                  maxStr = RAMQuotaPerUser cfg
              in if DisableSwap cfg
                 then perform (op_ApplyRAMLimitWithHighAndSwapDisabled ops uid maxStr highStr) m
                 else perform (op_ApplyRAMLimitWithHigh ops uid maxStr highStr) m)))"

definition apply_io :: "'c cgroup_ops \<Rightarrow> config \<Rightarrow> int \<Rightarrow> 'c manager \<Rightarrow> 'c manager" where
  "apply_io ops cfg uid m =
     perform (op_ApplyIOLimit ops uid (IOReadBPS cfg) (IOWriteBPS cfg) (IOReadIOPS cfg) (IOWriteIOPS cfg)
       (IODeviceFilter cfg)) m"

definition run_task ::
  "'c cgroup_ops \<Rightarrow> regexp_lib \<Rightarrow> metrics_collector \<Rightarrow> task \<Rightarrow> 'c manager \<Rightarrow> 'c manager" where
  "run_task ops rx mc t m =
     (case t of
        ReleaseTask uid sharedPath \<Rightarrow>
          (if sharedPath = [] then m else perform (op_ReleaseUserFromSharedCgroup ops uid sharedPath) m)
      | ReAddTask uid sharedPath \<Rightarrow>
          perform (op_ApplyCPUWeight ops uid 100)
            (perform (op_MoveAllUserProcessesToSharedCgroup ops uid sharedPath) m)
      | LimitTask cfg uid sharedPath \<Rightarrow>
          (let m1 = perform (op_MoveAllUserProcessesToSharedCgroup ops uid sharedPath) m;
               m2 = perform (op_ApplyCPUWeight ops uid 100) m1;
               m3 = (if shouldApplyRAMLimits rx mc uid m2 then apply_ram ops cfg uid m2 else m2)
           in if shouldApplyIOLimits rx mc uid m3 then apply_io ops cfg uid m3 else m3))"

text \<open>\<open>wg.Wait()\<close>: the goroutines still pending end, here in the order they were started.\<close>

definition wait_tasks :: "'c cgroup_ops \<Rightarrow> regexp_lib \<Rightarrow> metrics_collector \<Rightarrow> 'c manager \<Rightarrow> 'c manager" where
  "wait_tasks ops rx mc m = fold (run_task ops rx mc) (pending m) (m\<lparr>pending := []\<rparr>)"

definition spawn :: "task list \<Rightarrow> 'c manager \<Rightarrow> 'c manager" where
  "spawn ts m = m\<lparr>pending := pending m @ ts\<rparr>"

section \<open>Releasing idle users\<close>

definition idleThreshold :: f64 where
  "idleThreshold = f64_of_rat (1 / 10)"

definition users_to_release :: "system_metrics \<Rightarrow> 'c manager \<Rightarrow> int list" where
  "users_to_release metrics m =
     filter (\<lambda>uid. case map_of (UserCPUUsage metrics) uid of
                     None \<Rightarrow> True
                   | Some cpuUsage \<Rightarrow> f64_lt cpuUsage idleThreshold) (activeUsers m)"

definition users_to_add :: "system_metrics \<Rightarrow> 'c manager \<Rightarrow> int list" where
  "users_to_add metrics m =
     filter (\<lambda>uid. uid \<notin> set (activeUsers m) \<and>
                   (case map_of (UserCPUUsage metrics) uid of
                      None \<Rightarrow> False
                    | Some cpuUsage \<Rightarrow> f64_ge cpuUsage idleThreshold)) (EligibleUsers metrics)"

text \<open>The loop over the users to add; the list holds those whose sub-cgroup could be created.\<close>

fun readd_users :: "'c cgroup_ops \<Rightarrow> string \<Rightarrow> int list \<Rightarrow> 'c manager \<Rightarrow> int list \<times> 'c manager" where
  "readd_users ops sharedPath [] m = ([], m)"
| "readd_users ops sharedPath (uid # uids) m =
     (case call (op_CreateUserSubCgroup ops uid sharedPath) m of
        (Inl _, m1) \<Rightarrow> readd_users ops sharedPath uids m1
      | (Inr userCgroupPath, m1) \<Rightarrow>
          (let m2 = watch_user ops uid userCgroupPath (spawn [ReAddTask uid sharedPath] m1);
               (added, m3) = readd_users ops sharedPath uids m2
           in (uid # added, m3)))"

definition releaseIdleUsers ::
  "'c cgroup_ops \<Rightarrow> time \<Rightarrow> system_metrics \<Rightarrow> 'c manager \<Rightarrow> 'c manager" where
  "releaseIdleUsers ops now metrics m =
     (if \<not> limitsActive m then m
      else
        (let sharedPath = sharedCgroupPath m;
             usersToRelease = users_to_release metrics m;
             usersToAdd = users_to_add metrics m;
             m1 = unwatch_users usersToRelease
                    (m\<lparr>activeUsers := drop_users usersToRelease (activeUsers m),
                       psiBoostedAt := drop_boosts usersToRelease (psiBoostedAt m)\<rparr>);
             m2 = spawn (map (\<lambda>uid. ReleaseTask uid sharedPath) usersToRelease) m1
         in if usersToAdd \<noteq> [] \<and> sharedPath \<noteq> [] then
              (let (added, m3) = readd_users ops sharedPath usersToAdd m2 in
               if added \<noteq> []
               then m3\<lparr>activeUsers := fold activate_user added (activeUsers m3), limitsAppliedTime := now\<rparr>
               else m3)
            else m2))"

section \<open>Activating and deactivating the limits\<close>

definition available_cores :: "config \<Rightarrow> system_metrics \<Rightarrow> int" where
  "available_cores cfg metrics = (let n = TotalCores metrics - MinSystemCores cfg in if n < 1 then 1 else n)"

definition shared_quota :: "config \<Rightarrow> system_metrics \<Rightarrow> string" where
  "shared_quota cfg metrics = Itoa (wrap64 (available_cores cfg metrics * 100000)) @ '' 100000''"

text \<open>Phase 2 of \<open>activateLimits\<close>: the shared cgroup with its quota, unless its path is already known.\<close>

definition ensure_shared ::
  "'c cgroup_ops \<Rightarrow> config \<Rightarrow> system_metrics \<Rightarrow> 'c manager \<Rightarrow> cg_error option \<times> 'c manager" where
  "ensure_shared ops cfg metrics m =
     (if sharedCgroupPath m \<noteq> [] then (None, m)
      else
        (case call (op_CreateSharedCgroup ops) m of
           (Inl e, m1) \<Rightarrow> (Some (Because ''failed to create shared cgroup'' e), m1)
         | (Inr sharedPath, m1) \<Rightarrow>
             (let m2 = m1\<lparr>sharedCgroupPath := sharedPath\<rparr> in
              case call (op_ApplySharedCPULimit ops sharedPath (shared_quota cfg metrics)) m2 of
                (Some e, m3) \<Rightarrow> (Some (Because ''failed to apply shared CPU limit'' e), m3)
              | (None, m3) \<Rightarrow> (None, m3))))"

definition notifyUserLimited :: "config \<Rightarrow> int \<Rightarrow> string \<Rightarrow> system_metrics \<Rightarrow> 'c manager \<Rightarrow> 'c manager" where
  "notifyUserLimited cfg uid username metrics m =
     (if \<not> LimitHookEnabled cfg then m
      else emit (LimitHook uid username
             (case map_of (UserCPUUsage metrics) uid of Some u \<Rightarrow> u | None \<Rightarrow> Fin 0)
             (LimitedUsersCount metrics) (sharedCgroupPath m) (ServerRole cfg)) m)"

text \<open>
  Phase 3: the loop over the eligible users. The first component is the first error, the second counts the users
  newly limited.
\<close>

fun limit_users ::
  "'c cgroup_ops \<Rightarrow> config \<Rightarrow> metrics_collector \<Rightarrow> system_metrics \<Rightarrow> int list \<Rightarrow> 'c manager \<Rightarrow>
   cg_error option \<times> nat \<times> 'c manager" where
  "limit_users ops cfg mc metrics [] m = (None, 0, m)"
| "limit_users ops cfg mc metrics (uid # uids) m =
     (if uid \<in> set (activeUsers m) then limit_users ops cfg mc metrics uids m
      else
        (case call (op_CreateUserSubCgroup ops uid (sharedCgroupPath m)) m of
           (Inl e, m1) \<Rightarrow>
             (case limit_users ops cfg mc metrics uids m1 of (_, n, m2) \<Rightarrow> (Some e, n, m2))
         | (Inr userCgroupPath, m1) \<Rightarrow>
             (let m2 = watch_user ops uid userCgroupPath m1;
                  m3 = spawn [LimitTask cfg uid (sharedCgroupPath m2)] m2;
                  m4 = m3\<lparr>activeUsers := activate_user uid (activeUsers m3)\<rparr>;
                  m5 = notifyUserLimited cfg uid (GetUsernameFromUID mc uid) metrics m4
              in case limit_users ops cfg mc metrics uids m5 of (e, n, m6) \<Rightarrow> (e, Suc n, m6))))"

definition activateLimits ::
  "'c cgroup_ops \<Rightarrow> time \<Rightarrow> metrics_collector \<Rightarrow> system_metrics \<Rightarrow> 'c manager \<Rightarrow> cg_error option \<times> 'c manager" where
  "activateLimits ops now mc metrics m =
     (let cfg = m_cfg m;
          m1 = emit_prom IncrementLimitsActivated m;
          removed = filter (\<lambda>uid. uid \<notin> set (keys (UserCPUUsage metrics))) (activeUsers m1);
          m2 = m1\<lparr>activeUsers := drop_users removed (activeUsers m1)\<rparr>
      in case ensure_shared ops cfg metrics m2 of
           (Some e, m3) \<Rightarrow> (Some e, m3)
         | (None, m3) \<Rightarrow>
             (case limit_users ops cfg mc metrics (EligibleUsers metrics) m3 of
                (firstError, limitedCount, m4) \<Rightarrow>
                  (firstError,
                   if limitedCount > 0 \<or> removed \<noteq> []
                   then m4\<lparr>limitsActive := True, limitsAppliedTime := now\<rparr> else m4)))"

text \<open>The loop over the users of \<open>deactivateLimits\<close>; its result is the first error.\<close>

fun restore_users ::
  "'c cgroup_ops \<Rightarrow> regexp_lib \<Rightarrow> metrics_collector \<Rightarrow> config \<Rightarrow> int list \<Rightarrow> 'c manager \<Rightarrow>
   cg_error option \<times> 'c manager" where
  "restore_users ops rx mc cfg [] m = (None, m)"
| "restore_users ops rx mc cfg (uid # uids) m =
     (case call (op_ApplyCPULimit ops uid (CPUQuotaNormal cfg)) m of
        (Some e, m1) \<Rightarrow>
          (case restore_users ops rx mc cfg uids m1 of (_, m2) \<Rightarrow> (Some e, m2))
      | (None, m1) \<Rightarrow>
          (let m2 = (if shouldApplyRAMLimits rx mc uid m1
                     then perform (op_RemoveRAMLimit ops uid) (perform (op_RemoveRAMHigh ops uid) m1) else m1);
               m3 = (if shouldApplyIOLimits rx mc uid m2 then perform (op_RemoveIOLimit ops uid) m2 else m2)
           in restore_users ops rx mc cfg uids m3))"

definition forget_users :: "int list \<Rightarrow> (int \<rightharpoonup> int) \<Rightarrow> (int \<rightharpoonup> int)" where
  "forget_users uids u = fold (\<lambda>uid u. u(uid := None)) uids u"

definition deactivateLimits ::
  "'c cgroup_ops \<Rightarrow> regexp_lib \<Rightarrow> metrics_collector \<Rightarrow> 'c manager \<Rightarrow> cg_error option \<times> 'c manager" where
  "deactivateLimits ops rx mc m =
     (let cfg = m_cfg m;
          m1 = emit_prom IncrementLimitsDeactivated (wait_tasks ops rx mc m);
          usersToCleanup = activeUsers m1;
          sharedPath = sharedCgroupPath m1;
          m2 = unwatch_users usersToCleanup
                 (m1\<lparr>activeUsers := [], limitsActive := False, limitsAppliedTime := zero_time, sharedCgroupPath := ''''\<rparr>);
          m3 = m2\<lparr>underThreshold := forget_users usersToCleanup (underThreshold m2),
                  psiBoostedAt := drop_boosts usersToCleanup (psiBoostedAt m2)\<rparr>;
          (firstError, m4) = restore_users ops rx mc cfg usersToCleanup m3;
          m5 = (if sharedPath \<noteq> [] then perform (op_RemovePath ops sharedPath) m4 else m4)
      in (firstError, m5))"

section \<open>PSI boosts\<close>

definition OnUserPSIEvent :: "'c cgroup_ops \<Rightarrow> time \<Rightarrow> psi_event \<Rightarrow> 'c manager \<Rightarrow> 'c manager" where
  "OnUserPSIEvent ops now ev m =
     (if ev_UID ev \<le> 0 then m
      else if ev_UID ev \<notin> set (activeUsers m) then m
      else
        (case call (op_ApplyCPUWeight ops (ev_UID ev) (PSIBoostWeight (m_cfg m))) m of
           (Some _, m1) \<Rightarrow> m1
         | (None, m1) \<Rightarrow> m1\<lparr>psiBoostedAt := al_update (ev_UID ev) now (psiBoostedAt m1)\<rparr>))"

definition revertPSIBoosts :: "'c cgroup_ops \<Rightarrow> time \<Rightarrow> 'c manager \<Rightarrow> 'c manager" where
  "revertPSIBoosts ops now m =
     (let expired = map fst (filter (\<lambda>(uid, boostedAt). time_Sub now boostedAt \<ge> seconds (PSIBoostDuration (m_cfg m)))
                               (psiBoostedAt m));
          m1 = fold (\<lambda>uid. perform (op_ApplyCPUWeight ops uid 100)) expired m
      in if expired = [] then m else m1\<lparr>psiBoostedAt := drop_boosts expired (psiBoostedAt m1)\<rparr>)"

definition UpdateConfig :: "config option \<Rightarrow> 'c manager \<Rightarrow> 'c manager" where
  "UpdateConfig newConfig m = (case newConfig of None \<Rightarrow> m | Some cfg \<Rightarrow> m\<lparr>m_cfg := cfg\<rparr>)"

definition RegisterPSIWatcher :: "psi_watcher \<Rightarrow> 'c manager \<Rightarrow> 'c manager" where
  "RegisterPSIWatcher w m = m\<lparr>psiWatcher := Some w\<rparr>"

section \<open>Queries and shutdown\<close>

definition GetUIDFromUsername :: "metrics_collector \<Rightarrow> string \<Rightarrow> int" where
  "GetUIDFromUsername mc username =
     (if username = [] then 0
      else (case find (\<lambda>(uid, um). Username um = username) (GetAllUserMetrics mc) of
              None \<Rightarrow> 0 | Some (uid, _) \<Rightarrow> uid))"

record manager_status =
  st_limits_active :: bool
  st_limits_applied_time :: time
  st_active_users_count :: int
  st_active_users :: "int list"
  st_shared_cgroup_path :: string
  st_shared_cgroup_active :: bool
  st_shared_cgroup_quota :: "string option"
  st_shared_cgroup_user_count :: "int option"

definition GetStatus :: "'c cgroup_ops \<Rightarrow> 'c manager \<Rightarrow> manager_status" where
  "GetStatus ops m =
     (let p = sharedCgroupPath m in
      \<lparr>st_limits_active = limitsActive m, st_limits_applied_time = limitsAppliedTime m,
       st_active_users_count = int (length (activeUsers m)), st_active_users = activeUsers m,
       st_shared_cgroup_path = p, st_shared_cgroup_active = (p \<noteq> []),
       st_shared_cgroup_quota =
         (if p = [] then None
          else (case op_ReadFile ops (path_join p ''cpu.max'') (cgroups m) of
                  Inl _ \<Rightarrow> None | Inr d \<Rightarrow> Some (TrimSpace d))),
       st_shared_cgroup_user_count =
         (if p = [] then None
          else (case op_ReadDir ops p (cgroups m) of
                  Inl _ \<Rightarrow> None
                | Inr es \<Rightarrow> Some (int (length (filter (\<lambda>(name, dir). dir \<and> HasPrefix name ''user_'') es)))))\<rparr>)"

definition ManagerCleanup ::
  "'c cgroup_ops \<Rightarrow> regexp_lib \<Rightarrow> metrics_collector \<Rightarrow> 'c manager \<Rightarrow> cg_error option \<times> 'c manager" where
  "ManagerCleanup ops rx mc m =
     (let m1 = wait_tasks ops rx mc m in
      case (if limitsActive m1 then deactivateLimits ops rx mc m1 else (None, m1)) of
        (Some e, m2) \<Rightarrow> (Some e, m2)
      | (None, m2) \<Rightarrow>
          (case call (op_CleanupAll ops) m2 of
             (Some e, m3) \<Rightarrow> (Some e, m3)
           | (None, m3) \<Rightarrow> (None, emit_prom StopExporter m3)))"

end
