(* ===== verification/ControlCycle.thy ===== *)
theory ControlCycle
  imports StateManager
begin

text \<open>
  The control cycle, \<open>state/control_cycle.go\<close>: the collection of the metrics, the stages of the pipeline and the
  history. A stage returns an error, or asks to stop, or lets the next one run.
\<close>

section \<open>Collecting the metrics\<close>

definition new_metrics :: "time \<Rightarrow> metrics_collector \<Rightarrow> system_metrics" where
  "new_metrics now mc =
     \<lparr>Timestamp = now, TotalCores = GetTotalCores mc, TotalCPUUsage = GetTotalCPUUsage mc,
      AllUsersCPUUsage = Fin 0, AllUsersMemoryUsage = 0, AllUsersCount = 0, LimitedUsersCPUUsage = Fin 0,
      LimitedUsersMemoryUsage = 0, LimitedUsersCount = 0, LimitedUsersRAMUsageBytes = 0, LimitedUsersIOWriteBytes = 0,
      SysMemoryUsage = GetMemoryUsage mc, TotalMemoryMB = GetTotalMemoryMB mc, CachedMemoryMB = GetCachedMemoryMB mc,
      SystemUnderLoad = IsSystemUnderLoad mc, UserCPUUsage = [], UserMetrics = [], EligibleUsers = []\<rparr>"

text \<open>The bytes per second one user adds to the aggregate since the last decision cycle.\<close>

definition io_rate :: "time \<Rightarrow> time \<Rightarrow> u64 option \<Rightarrow> u64 \<Rightarrow> u64" where
  "io_rate now prevTime prev ioDelta =
     (case prev of
        None \<Rightarrow> 0
      | Some p \<Rightarrow>
          (if IsZero prevTime then 0
           else
             (let elapsed = duration_seconds (time_Sub now prevTime) in
              if f64_gt elapsed (Fin 0) \<and> ioDelta \<ge> p
              then u64_of_f64 (f64_div (f64_of_u64 (ioDelta - p)) elapsed) else 0)))"

text \<open>One entry of the loop over all users; the second component is \<open>prevIOBytes\<close>.\<close>

definition collect_user ::
  "bool \<Rightarrow> time \<Rightarrow> time \<Rightarrow> int list \<Rightarrow> int \<times> user_metrics \<Rightarrow>
   system_metrics \<times> (int \<rightharpoonup> u64) \<Rightarrow> system_metrics \<times> (int \<rightharpoonup> u64)" where
  "collect_user updateIOState now prevTime active entry acc =
     (case (entry, acc) of ((uid, um), (s, prev)) \<Rightarrow>
        (let s1 = s\<lparr>AllUsersCPUUsage := f64_add (AllUsersCPUUsage s) (CPUUsage um),
                    AllUsersMemoryUsage := AllUsersMemoryUsage s + MemoryUsage um,
                    AllUsersCount := AllUsersCount s + 1,
                    UserCPUUsage := al_update uid (CPUUsage um) (UserCPUUsage s),
                    UserMetrics := al_update uid (um\<lparr>IsLimited := (uid \<in> set active)\<rparr>) (UserMetrics s)\<rparr>
         in
         if IsLimited um then
           (let s2 = s1\<lparr>EligibleUsers := EligibleUsers s1 @ [uid],
                       LimitedUsersCPUUsage := f64_add (LimitedUsersCPUUsage s1) (CPUUsage um),
                       LimitedUsersMemoryUsage := LimitedUsersMemoryUsage s1 + MemoryUsage um,
                       LimitedUsersRAMUsageBytes := LimitedUsersRAMUsageBytes s1 + MemoryUsage um\<rparr>
            in if updateIOState
               then (s2\<lparr>LimitedUsersIOWriteBytes := LimitedUsersIOWriteBytes s2 +
                          io_rate now prevTime (prev uid) (IOWriteBytes um)\<rparr>,
                     prev(uid \<mapsto> IOWriteBytes um))
               else (s2, prev))
         else (s1, prev)))"

definition collectSystemMetricsWithIOState ::
  "bool \<Rightarrow> time \<Rightarrow> metrics_collector \<Rightarrow> 'c manager \<Rightarrow> system_metrics \<times> 'c manager" where
  "collectSystemMetricsWithIOState updateIOState now mc m =
     (case fold (collect_user updateIOState now (prevIOTime m) (activeUsers m)) (GetAllUserMetrics mc)
             (new_metrics now mc, prevIOBytes m) of
        (s, prev) \<Rightarrow>
          (s\<lparr>LimitedUsersCount := int (length (EligibleUsers s))\<rparr>,
           if updateIOState
           then m\<lparr>prevIOTime := now,
                  prevIOBytes := (\<lambda>uid. if uid \<in> set (keys (GetAllUserMetrics mc)) then prev uid else None)\<rparr>
           else m))"

section \<open>Exporting\<close>

definition getLoadAverage :: "'c cgroup_ops \<Rightarrow> 'c manager \<Rightarrow> f64 option" where
  "getLoadAverage ops m =
     (case op_ReadFile ops ''/proc/loadavg'' (cgroups m) of
        Inl _ \<Rightarrow> None
      | Inr content \<Rightarrow> (case Fields content of [] \<Rightarrow> None | f # _ \<Rightarrow> ParseFloat f))"

definition boolToFloat :: "bool \<Rightarrow> f64" where
  "boolToFloat b = (if b then Fin 1 else Fin 0)"

definition prom_metrics :: "'c cgroup_ops \<Rightarrow> system_metrics \<Rightarrow> 'c manager \<Rightarrow> (string \<times> f64) list" where
  "prom_metrics ops s m =
     [(''cpu_total_usage'', TotalCPUUsage s), (''total_cores'', f64_of_int (TotalCores s)),
      (''all_users_cpu_usage'', AllUsersCPUUsage s), (''all_users_count'', f64_of_int (AllUsersCount s)),
      (''all_users_memory_usage'', f64_of_u64 (AllUsersMemoryUsage s)),
      (''limited_users_cpu_usage'', LimitedUsersCPUUsage s), (''limited_users_count'', f64_of_int (LimitedUsersCount s)),
      (''limited_users_memory_usage'', f64_of_u64 (LimitedUsersMemoryUsage s)),
      (''memory_usage_mb'', SysMemoryUsage s), (''total_memory_mb'', TotalMemoryMB s),
      (''cached_memory_mb'', CachedMemoryMB s), (''limited_users'', f64_of_int (int (length (activeUsers m)))),
      (''limits_active'', boolToFloat (limitsActive m))] @
     (case getLoadAverage ops m of None \<Rightarrow> [] | Some load \<Rightarrow> [(''system_load'', load)])"

definition user_prom :: "'c cgroup_ops \<Rightarrow> metrics_collector \<Rightarrow> int \<times> user_metrics \<Rightarrow> 'c manager \<Rightarrow> 'c manager" where
  "user_prom ops mc entry m =
     (case entry of (uid, um) \<Rightarrow>
        (let username = (if Username um = [] \<or> Username um = Itoa uid then GetUsernameFromUID mc uid else Username um);
             cm = (case op_GetUserCgroupMetrics ops uid (cgroups m) of
                     Inl _ \<Rightarrow> \<lparr>cm_path = '''', cm_cpuQuota = '''', cm_memoryHighEvents = 0, cm_io = no_io\<rparr>
                   | Inr x \<Rightarrow> x);
             from_cgroup = IOReadBytes um = 0 \<and> IOWriteBytes um = 0 \<and> io_rbytes (cm_io cm) > 0
         in emit (UpdateUserMetrics uid username um (uid \<in> set (activeUsers m)) (cm_path cm) (cm_cpuQuota cm)
              (cm_memoryHighEvents cm)
              (if from_cgroup then io_rbytes (cm_io cm) else IOReadBytes um)
              (if from_cgroup then io_wbytes (cm_io cm) else IOWriteBytes um)
              (if from_cgroup then io_rios (cm_io cm) else IOReadOps um)
              (if from_cgroup then io_wios (cm_io cm) else IOWriteOps um)) m))"

definition updatePrometheusMetrics ::
  "'c cgroup_ops \<Rightarrow> metrics_collector \<Rightarrow> system_metrics \<Rightarrow> 'c manager \<Rightarrow> 'c manager" where
  "updatePrometheusMetrics ops mc s m =
     (if \<not> has_exporter m then m
      else
        (let m1 = emit (UpdateMetrics (prom_metrics ops s m)) m;
             m2 = fold (user_prom ops mc) (UserMetrics s) m1;
             m3 = emit (CleanupUserMetrics (keys (UserMetrics s))) m2
         in case getLoadAverage ops m3 of
              None \<Rightarrow> m3
            | Some load \<Rightarrow> emit (UpdateSystemMetrics (TotalCores s) (available_cores (m_cfg m3) s) load) m3))"

definition writeDatabaseMetrics :: "metrics_collector \<Rightarrow> system_metrics \<Rightarrow> 'c manager \<Rightarrow> 'c manager" where
  "writeDatabaseMetrics mc s m =
     (if \<not> DBWriterDue mc then m
      else emit (WriteMetricsToDatabase (UserMetrics s) (TotalCPUUsage s) (TotalCores s) (limitsActive m)
             (int (length (activeUsers m)))) m)"

definition RunMetricsRefresh :: "'c cgroup_ops \<Rightarrow> time \<Rightarrow> metrics_collector \<Rightarrow> 'c manager \<Rightarrow> 'c manager" where
  "RunMetricsRefresh ops now mc m =
     (case collectSystemMetricsWithIOState False now mc m of (s, m1) \<Rightarrow> updatePrometheusMetrics ops mc s m1)"

section \<open>History\<close>

definition maxHistory :: nat where "maxHistory = 100"

definition addControlHistoryEntry :: "history_entry \<Rightarrow> 'c manager \<Rightarrow> 'c manager" where
  "addControlHistoryEntry e m =
     (let es = controlHist m @ [e] in
      m\<lparr>controlHist := (if length es > maxHistory then drop (length es - maxHistory) es else es)\<rparr>)"

definition GetControlHistory :: "int \<Rightarrow> 'c manager \<Rightarrow> history_entry list" where
  "GetControlHistory limit0 m =
     (let n = int (length (controlHist m));
          limit = (if limit0 \<le> 0 \<or> limit0 > n then n else limit0)
      in drop (nat (n - limit)) (controlHist m))"

definition recordControlCycle ::
  "time \<Rightarrow> decision \<Rightarrow> reason \<Rightarrow> system_metrics \<Rightarrow> duration \<Rightarrow> 'c manager \<Rightarrow> 'c manager" where
  "recordControlCycle now d r s elapsed m =
     addControlHistoryEntry
       \<lparr>h_Timestamp = now, h_Decision = d, h_Reason = r, h_TotalCPUUsage = TotalCPUUsage s,
        h_UserCPUUsage = LimitedUsersCPUUsage s, h_ActiveUsers = int (length (UserCPUUsage s)),
        h_LimitsActive = limitsActive m, h_DurationMs = go_div elapsed 1000000\<rparr> m"

section \<open>Stages\<close>

definition executeDecision ::
  "'c cgroup_ops \<Rightarrow> regexp_lib \<Rightarrow> time \<Rightarrow> metrics_collector \<Rightarrow> decision \<Rightarrow> system_metrics \<Rightarrow> 'c manager \<Rightarrow>
   cg_error option \<times> 'c manager" where
  "executeDecision ops rx now mc d s m =
     (case d of
        ACTIVATE_LIMITS \<Rightarrow> activateLimits ops now mc s m
      | DEACTIVATE_LIMITS \<Rightarrow> deactivateLimits ops rx mc m
      | MAINTAIN_CURRENT_STATE \<Rightarrow> (None, releaseIdleUsers ops now s m))"

definition stageIORemediation ::
  "'c cgroup_ops \<Rightarrow> config \<Rightarrow> time \<Rightarrow> metrics_collector \<Rightarrow> 'c manager \<Rightarrow> 'c manager" where
  "stageIORemediation ops cfg now mc m =
     (case CheckAndRemediate ops cfg now (GetLimitedUsers mc) (ioRemediation m) (cgroups m) of
        (r, c) \<Rightarrow> m\<lparr>ioRemediation := IORemediation_Cleanup now (wrap64 (24 * hour)) r, cgroups := c\<rparr>)"

text \<open>One result of the hourly analysis.\<close>

definition apply_pattern ::
  "'c cgroup_ops \<Rightarrow> config \<Rightarrow> time \<Rightarrow> metrics_collector \<Rightarrow> int \<times> pattern_result \<Rightarrow> 'c manager \<Rightarrow> 'c manager" where
  "apply_pattern ops cfg now mc entry m =
     (case entry of (uid, (p, confidence)) \<Rightarrow>
        (let m1 = emit_prom (UpdateUserWorkloadPattern uid (GetUsernameFromUID mc uid) p confidence) m in
         if p = PatternUnknown then m1
         else
           (case ApplyPolicy now uid p cfg (policyEngine m1) of
              (False, pe) \<Rightarrow> m1\<lparr>policyEngine := pe\<rparr>
            | (True, pe) \<Rightarrow>
                (let m2 = m1\<lparr>policyEngine := pe\<rparr> in
                 case GetPolicy uid pe of
                   None \<Rightarrow> m2
                 | Some pol \<Rightarrow>
                     (let m3 = (if CPUQuota pol > 0
                                then perform (op_ApplyCPULimit ops uid (Itoa (CPUQuota pol) @ '' 100000'')) m2 else m2)
                      in if RAMQuota pol \<noteq> [] then perform (op_ApplyRAMLimit ops uid (RAMQuota pol)) m3 else m3)))))"

definition stageWorkloadPatternDetection ::
  "'c cgroup_ops \<Rightarrow> config \<Rightarrow> time \<Rightarrow> nat \<Rightarrow> metrics_collector \<Rightarrow> 'c manager \<Rightarrow> 'c manager" where
  "stageWorkloadPatternDetection ops cfg now h mc m =
     (if \<not> AutodetectPatterns cfg then m
      else
        (let m1 = m\<lparr>patternDetector :=
                      fold (\<lambda>(uid, um). PatternDetector_Update now h uid (CPUUsage um)) (GetAllUserMetrics mc)
                        (patternDetector m)\<rparr>
         in
         if time_Sub now (lastPatternAnalysis m1) > hour then
           (let m2 = m1\<lparr>lastPatternAnalysis := now\<rparr>;
                m3 = fold (apply_pattern ops cfg now mc) (Analyze cfg (patternDetector m2)) m2
            in m3\<lparr>patternDetector := PatternDetector_Cleanup now (hours (PatternHistoryHours cfg)) (patternDetector m3),
                  policyEngine := PolicyEngine_Cleanup now (wrap64 (24 * hour)) (policyEngine m3)\<rparr>)
         else m1))"

definition stageRevertPSIBoosts :: "'c cgroup_ops \<Rightarrow> time \<Rightarrow> 'c manager \<Rightarrow> 'c manager" where
  "stageRevertPSIBoosts ops now m = (case psiWatcher m of None \<Rightarrow> m | Some _ \<Rightarrow> revertPSIBoosts ops now m)"

text \<open>
  The clock of one cycle: the instant, the weekday and the hour of the day. \<open>elapsed\<close> is the measured duration the
  history records.
\<close>

record clock =
  ck_now :: time
  ck_day :: int
  ck_hour :: int
  ck_elapsed :: duration

definition after_decision ::
  "'c cgroup_ops \<Rightarrow> config \<Rightarrow> clock \<Rightarrow> metrics_collector \<Rightarrow> 'c manager \<Rightarrow> 'c manager" where
  "after_decision ops cfg ck mc m =
     stageRevertPSIBoosts ops (ck_now ck)
       (stageWorkloadPatternDetection ops cfg (ck_now ck) (nat (ck_hour ck)) mc
         (stageIORemediation ops cfg (ck_now ck) mc m))"

definition RunControlCycleWithTrigger ::
  "'c cgroup_ops \<Rightarrow> regexp_lib \<Rightarrow> clock \<Rightarrow> metrics_collector \<Rightarrow> string \<Rightarrow> 'c manager \<Rightarrow>
   cg_error option \<times> 'c manager" where
  "RunControlCycleWithTrigger ops rx ck mc trigger m =
     (let cfg = m_cfg m; now = ck_now ck;
          m1 = emit_prom (RecordControlCycleTrigger (if trigger = [] then ''manual'' else trigger)) m
      in
      if IsInBlackout cfg (ck_day ck) (ck_hour ck) then (None, m1)
      else
        (let (s, m2) = collectSystemMetricsWithIOState True now mc m1;
             m3 = updatePrometheusMetrics ops mc s m2;
             m4 = writeDatabaseMetrics mc s m3;
             ((d, r), m5) = makeDecision (m_cfg m4) now mc s m4
         in case executeDecision ops rx now mc d s m5 of
              (Some e, m6) \<Rightarrow> (Some e, m6)
            | (None, m6) \<Rightarrow>
                (None, after_decision ops cfg ck mc (recordControlCycle now d r s (ck_elapsed ck) m6))))"

definition RunControlCycle ::
  "'c cgroup_ops \<Rightarrow> regexp_lib \<Rightarrow> clock \<Rightarrow> metrics_collector \<Rightarrow> 'c manager \<Rightarrow> cg_error option \<times> 'c manager" where
  "RunControlCycle ops rx ck mc m = RunControlCycleWithTrigger ops rx ck mc ''manual'' m"

section \<open>Forced operations\<close>

definition ForceActivateLimits ::
  "'c cgroup_ops \<Rightarrow> time \<Rightarrow> metrics_collector \<Rightarrow> 'c manager \<Rightarrow> cg_error option \<times> 'c manager" where
  "ForceActivateLimits ops now mc m =
     (case collectSystemMetricsWithIOState True now mc m of (s, m1) \<Rightarrow> activateLimits ops now mc s m1)"

definition ForceDeactivateLimits ::
  "'c cgroup_ops \<Rightarrow> regexp_lib \<Rightarrow> metrics_collector \<Rightarrow> 'c manager \<Rightarrow> cg_error option \<times> 'c manager" where
  "ForceDeactivateLimits ops rx mc m =
     (case deactivateLimits ops rx mc m of (e, m1) \<Rightarrow> (e, m1\<lparr>underThreshold := Map.empty\<rparr>))"

end
