(* ===== verification/ManagerInv.thy ===== *)
theory ManagerInv
  imports ControlCycle
begin

text \<open>
  The state manager as a state machine. First what the building blocks leave alone, then the invariant \<open>mgr_ok\<close>, proved for
  any provider that meets the contract \<open>cgroup_provider\<close>.
\<close>

section \<open>What the building blocks leave alone\<close>

text \<open>Only the provider, the watcher, the goroutines and the exported calls differ.\<close>

definition same_core :: "'c manager \<Rightarrow> 'c manager \<Rightarrow> bool" where
  "same_core m m' \<longleftrightarrow>
     m' = m\<lparr>cgroups := cgroups m', psiWatcher := psiWatcher m', pending := pending m', emitted := emitted m'\<rparr>"

lemma same_core_refl [simp]: "same_core m m"
  by (simp add: same_core_def)

lemma same_core_fields:
  assumes "same_core m m'"
  shows "activeUsers m' = activeUsers m" "limitsActive m' = limitsActive m" "sharedCgroupPath m' = sharedCgroupPath m"
    "psiBoostedAt m' = psiBoostedAt m" "controlHist m' = controlHist m" "m_cfg m' = m_cfg m"
    "limitsAppliedTime m' = limitsAppliedTime m" "underThreshold m' = underThreshold m"
    "has_exporter m' = has_exporter m" "policyEngine m' = policyEngine m" "ioRemediation m' = ioRemediation m"
    "thresholdTracker m' = thresholdTracker m" "ioThresholdTracker m' = ioThresholdTracker m"
  by (subst assms [unfolded same_core_def], simp)+

lemma same_core_trans [trans]:
  assumes "same_core a b" "same_core b c" shows "same_core a c"
proof -
  have "c = (a\<lparr>cgroups := cgroups b, psiWatcher := psiWatcher b, pending := pending b, emitted := emitted b\<rparr>)
      \<lparr>cgroups := cgroups c, psiWatcher := psiWatcher c, pending := pending c, emitted := emitted c\<rparr>"
    using assms by (metis same_core_def)
  then show ?thesis by (simp add: same_core_def)
qed

lemma same_core_sym: "same_core a b \<Longrightarrow> same_core b a"
  by (subst same_core_def, subst (asm) same_core_def, erule ssubst) simp

text \<open>Each block is a simplification rule: it does not matter to \<open>same_core\<close>.\<close>

lemma same_core_after: "same_core b c \<Longrightarrow> same_core a c = same_core a b"
  using same_core_trans same_core_sym by blast

lemma same_core_call [simp]: "same_core m (snd (call f m')) = same_core m m'"
  by (rule same_core_after) (simp add: call_def same_core_def split_beta)

lemma same_core_call_eq: "call f m = (e, m') \<Longrightarrow> same_core m m'"
  using same_core_call [of m f m] by simp

lemma same_core_perform [simp]: "same_core m (perform f m') = same_core m m'"
  by (simp add: perform_def)

lemma same_core_emit [simp]: "same_core m (emit e m') = same_core m m'"
  by (rule same_core_after) (simp add: emit_def same_core_def)

lemma same_core_emit_prom [simp]: "same_core m (emit_prom e m') = same_core m m'"
  by (simp add: emit_prom_def)

lemma same_core_spawn [simp]: "same_core m (spawn ts m') = same_core m m'"
  by (rule same_core_after) (simp add: spawn_def same_core_def)

lemma same_core_pending [simp]: "same_core m (m'\<lparr>pending := ts\<rparr>) = same_core m m'"
  by (rule same_core_after) (simp add: same_core_def)

lemma same_core_unwatch [simp]: "same_core m (unwatch_users uids m') = same_core m m'"
  by (rule same_core_after) (simp add: unwatch_users_def same_core_def)

lemma same_core_add_monitor [simp]: "same_core m (add_monitor ops uid t p m') = same_core m m'"
  by (rule same_core_after) (simp add: add_monitor_def same_core_def split_beta split: option.split)

lemma same_core_watch_user [simp]: "same_core m (watch_user ops uid p m') = same_core m m'"
  by (simp add: watch_user_def)

lemma same_core_notify [simp]: "same_core m (notifyUserLimited cfg uid n s m') = same_core m m'"
  by (simp add: notifyUserLimited_def)

lemma same_core_apply_ram [simp]: "same_core m (apply_ram ops cfg uid m') = same_core m m'"
  by (simp add: apply_ram_def Let_def split: sum.split)

lemma same_core_apply_io [simp]: "same_core m (apply_io ops cfg uid m') = same_core m m'"
  by (simp add: apply_io_def)

lemma same_core_run_task [simp]: "same_core m (run_task ops rx mc t m') = same_core m m'"
  by (simp add: run_task_def Let_def split: task.split)

lemma same_core_fold: "(\<And>x m'. same_core m (f x m') = same_core m m') \<Longrightarrow> same_core m (fold f xs m') = same_core m m'"
  by (induction xs arbitrary: m') simp_all

lemma same_core_wait_tasks [simp]: "same_core m (wait_tasks ops rx mc m') = same_core m m'"
  by (simp add: wait_tasks_def same_core_fold)

lemma same_core_readd_users [simp]: "same_core m (snd (readd_users ops p uids m')) = same_core m m'"
  by (induction uids arbitrary: m') (simp_all add: split_beta Let_def split: sum.split)

lemma same_core_restore_users [simp]: "same_core m (snd (restore_users ops rx mc cfg uids m')) = same_core m m'"
  by (induction uids arbitrary: m') (simp_all add: split_beta Let_def split: option.split)

lemma same_core_user_prom [simp]: "same_core m (user_prom ops mc en m') = same_core m m'"
  by (simp add: user_prom_def Let_def split_beta)

lemma same_core_prometheus [simp]: "same_core m (updatePrometheusMetrics ops mc s m') = same_core m m'"
  by (simp add: updatePrometheusMetrics_def Let_def same_core_fold split: option.split)

lemma same_core_database [simp]: "same_core m (writeDatabaseMetrics mc s m') = same_core m m'"
  by (simp add: writeDatabaseMetrics_def)

section \<open>Lists of users and boosts\<close>

lemma distinct_drop [simp]: "distinct us \<Longrightarrow> distinct (drop_users g us)"
  by (simp add: drop_users_def)

lemma set_drop [simp]: "set (drop_users g us) = set us - set g"
  by (auto simp: drop_users_def)

lemma distinct_activate [simp]: "distinct us \<Longrightarrow> distinct (activate_user u us)"
  by (simp add: activate_user_def)

lemma set_activate [simp]: "set (activate_user u us) = insert u (set us)"
  by (auto simp: activate_user_def)

lemma distinct_fold_activate [simp]: "distinct us \<Longrightarrow> distinct (fold activate_user xs us)"
  by (induction xs arbitrary: us) simp_all

lemma set_fold_activate [simp]: "set (fold activate_user xs us) = set xs \<union> set us"
  by (induction xs arbitrary: us) auto

lemma al_wf_drop_boosts [simp]: "al_wf bs \<Longrightarrow> al_wf (drop_boosts g bs)"
  by (simp add: drop_boosts_def)

lemma keys_drop_boosts [simp]: "set (keys (drop_boosts g bs)) = set (keys bs) - set g"
  by (auto simp: drop_boosts_def)

lemma watcher_ok_unwatch: "watcher_ok w \<Longrightarrow> watcher_ok (fold unwatch uids w)"
  by (induction uids arbitrary: w) (simp_all add: unwatch_def watcher_ok_RemoveMonitor)

section \<open>The invariant\<close>

text \<open>
  \<open>mgr_base\<close> holds at every point of every operation, \<open>mgr_ok\<close> between operations: limits that are not active limit nobody,
  active limits have a shared cgroup, and every goroutine was given its path.
\<close>

definition task_path :: "task \<Rightarrow> string" where
  "task_path t = (case t of ReleaseTask _ p \<Rightarrow> p | ReAddTask _ p \<Rightarrow> p | LimitTask _ _ p \<Rightarrow> p)"

definition mgr_base :: "('c \<Rightarrow> bool) \<Rightarrow> 'c manager \<Rightarrow> bool" where
  "mgr_base I m \<longleftrightarrow>
     distinct (activeUsers m) \<and> al_wf (psiBoostedAt m) \<and> length (controlHist m) \<le> maxHistory \<and>
     pred_option watcher_ok (psiWatcher m) \<and> list_all (\<lambda>t. task_path t \<noteq> []) (pending m) \<and> I (cgroups m)"

definition mgr_ok :: "('c \<Rightarrow> bool) \<Rightarrow> 'c manager \<Rightarrow> bool" where
  "mgr_ok I m \<longleftrightarrow>
     mgr_base I m \<and> (\<not> limitsActive m \<longrightarrow> activeUsers m = []) \<and> (limitsActive m \<longrightarrow> sharedCgroupPath m \<noteq> [])"

lemma mgr_base_call: "mgr_base I m \<Longrightarrow> (\<And>c. I c \<Longrightarrow> I (snd (f c))) \<Longrightarrow> mgr_base I (snd (call f m))"
  by (simp add: call_def split_beta mgr_base_def)

lemma mgr_base_perform: "mgr_base I m \<Longrightarrow> (\<And>c. I c \<Longrightarrow> I (snd (f c))) \<Longrightarrow> mgr_base I (perform f m)"
  by (simp add: perform_def mgr_base_call)

lemma mgr_base_emit [simp]: "mgr_base I (emit e m) = mgr_base I m"
  by (simp add: emit_def mgr_base_def)

lemma mgr_base_emit_prom [simp]: "mgr_base I (emit_prom e m) = mgr_base I m"
  by (simp add: emit_prom_def)

lemma mgr_base_spawn [simp]: "mgr_base I (spawn ts m) \<longleftrightarrow> mgr_base I m \<and> list_all (\<lambda>t. task_path t \<noteq> []) ts"
  by (auto simp: spawn_def mgr_base_def)

lemma mgr_base_notify [simp]: "mgr_base I (notifyUserLimited cfg uid n s m) = mgr_base I m"
  by (simp add: notifyUserLimited_def)

lemma mgr_base_unwatch: "mgr_base I m \<Longrightarrow> mgr_base I (unwatch_users uids m)"
  by (auto simp: unwatch_users_def mgr_base_def option.pred_map o_def watcher_ok_unwatch elim!: option.pred_mono_strong)

lemma mgr_base_users: "mgr_base I m \<Longrightarrow> distinct us \<Longrightarrow> mgr_base I (m\<lparr>activeUsers := us\<rparr>)"
  by (simp add: mgr_base_def)

text \<open>Fields the base invariant does not mention.\<close>

lemma mgr_base_frame [simp]:
  "mgr_base I (m\<lparr>limitsActive := a\<rparr>) = mgr_base I m" "mgr_base I (m\<lparr>limitsAppliedTime := t\<rparr>) = mgr_base I m"
  "mgr_base I (m\<lparr>sharedCgroupPath := p\<rparr>) = mgr_base I m" "mgr_base I (m\<lparr>underThreshold := u\<rparr>) = mgr_base I m"
  "mgr_base I (m\<lparr>prevIOTime := t\<rparr>) = mgr_base I m" "mgr_base I (m\<lparr>prevIOBytes := b\<rparr>) = mgr_base I m"
  "mgr_base I (m\<lparr>patternDetector := pd\<rparr>) = mgr_base I m" "mgr_base I (m\<lparr>policyEngine := pe\<rparr>) = mgr_base I m"
  "mgr_base I (m\<lparr>lastPatternAnalysis := t\<rparr>) = mgr_base I m" "mgr_base I (m\<lparr>ioRemediation := r\<rparr>) = mgr_base I m"
  "mgr_base I (m\<lparr>m_cfg := c\<rparr>) = mgr_base I m"
  "mgr_base I (m\<lparr>thresholdTracker := tt\<rparr>) = mgr_base I m" "mgr_base I (m\<lparr>ioThresholdTracker := tt\<rparr>) = mgr_base I m"
  by (simp_all add: mgr_base_def)

lemma mgr_ok_base: "mgr_ok I m \<Longrightarrow> mgr_base I m"
  by (simp add: mgr_ok_def)

text \<open>Between two states with the same core only the base invariant can be lost.\<close>

lemma mgr_ok_same: "mgr_ok I m \<Longrightarrow> same_core m m' \<Longrightarrow> mgr_base I m' \<Longrightarrow> mgr_ok I m'"
  by (simp add: mgr_ok_def same_core_fields [of m m'])

context cgroup_provider begin

lemmas keeps = keep_ApplyCPULimit keep_ApplyCPUWeight keep_ApplyRAMLimit keep_ApplyRAMLimitWithHigh
  keep_ApplyRAMLimitWithHighAndSwapDisabled keep_RemoveRAMLimit keep_RemoveRAMHigh keep_ApplyIOLimit keep_RemoveIOLimit
  keep_MoveAll keep_Release keep_CreateShared keep_ApplyShared keep_CreateUserSub keep_CleanupAll keep_RemovePath

lemma base_add_monitor: "pressure_path p \<Longrightarrow> mgr_base I m \<Longrightarrow> mgr_base I (add_monitor ops uid t p m)"
proof -
  assume p: "pressure_path p" and m: "mgr_base I m"
  have "I (snd (snd (AddMonitor (op_OpenPressure ops) uid t p w c)))" if "I c" for w c
    using that p by (simp add: AddMonitor_def split_beta keep_OpenPressure split: option.split)
  with m show ?thesis
    using watcher_ok_AddMonitor [of _ "op_OpenPressure ops" uid t p "cgroups m"]
    by (auto simp: add_monitor_def split_beta mgr_base_def split: option.split)
qed

lemma base_watch_user: "mgr_base I m \<Longrightarrow> mgr_base I (watch_user ops uid p m)"
  by (simp add: watch_user_def base_add_monitor)

lemma base_run_task: "mgr_base I m \<Longrightarrow> mgr_base I (run_task ops rx mc t m)"
  by (simp add: run_task_def Let_def apply_ram_def apply_io_def mgr_base_perform keeps split: task.split sum.split)

lemma base_run_tasks: "mgr_base I m \<Longrightarrow> mgr_base I (fold (run_task ops rx mc) ts m)"
  by (induction ts arbitrary: m) (simp_all add: base_run_task)

lemma base_wait_tasks: "mgr_base I m \<Longrightarrow> mgr_base I (wait_tasks ops rx mc m)"
  unfolding wait_tasks_def by (rule base_run_tasks) (simp add: mgr_base_def)

lemma base_readd_users: "mgr_base I m \<Longrightarrow> p \<noteq> [] \<Longrightarrow> mgr_base I (snd (readd_users ops p uids m))"
proof (induction uids arbitrary: m)
  case (Cons uid uids)
  have c: "mgr_base I (snd (call (op_CreateUserSubCgroup ops uid p) m))" by (simp add: mgr_base_call Cons.prems keeps)
  then have "mgr_base I (watch_user ops uid q (spawn [ReAddTask uid p] (snd (call (op_CreateUserSubCgroup ops uid p) m))))" for q
    by (intro base_watch_user) (simp add: task_path_def Cons.prems)
  with c show ?case
    using Cons.IH Cons.prems(2) by (auto simp: split_beta Let_def split: sum.split)
qed simp

lemma base_restore_users: "mgr_base I m \<Longrightarrow> mgr_base I (snd (restore_users ops rx mc cfg uids m))"
  by (induction uids arbitrary: m)
     (simp_all add: split_beta Let_def mgr_base_call mgr_base_perform keeps split: option.split)

end

section \<open>The operations keep the invariant\<close>

lemma same_core_users: "same_core a b \<Longrightarrow> same_core (a\<lparr>activeUsers := u\<rparr>) (b\<lparr>activeUsers := u\<rparr>)"
  by (subst (asm) same_core_def, erule ssubst) (simp add: same_core_def)

text \<open>The loop of \<open>activateLimits\<close>: whom it limits, and that it changes nothing else of the core.\<close>

lemma limit_users_spec:
  assumes "limit_users ops cfg mc s uids m = (e, n, m')"
  shows "same_core (m\<lparr>activeUsers := activeUsers m'\<rparr>) m'"
    and "set (activeUsers m) \<subseteq> set (activeUsers m')" "set (activeUsers m') \<subseteq> set (activeUsers m) \<union> set uids"
    and "e = None \<Longrightarrow> set (activeUsers m') = set (activeUsers m) \<union> set uids"
    and "n = 0 \<Longrightarrow> activeUsers m' = activeUsers m" "n > 0 \<Longrightarrow> activeUsers m' \<noteq> []"
    and "distinct (activeUsers m) \<Longrightarrow> distinct (activeUsers m')"
proof -
  have "same_core (m\<lparr>activeUsers := activeUsers m'\<rparr>) m' \<and>
    set (activeUsers m) \<subseteq> set (activeUsers m') \<and> set (activeUsers m') \<subseteq> set (activeUsers m) \<union> set uids \<and>
    (e = None \<longrightarrow> set uids \<subseteq> set (activeUsers m')) \<and> (n = 0 \<longrightarrow> activeUsers m' = activeUsers m) \<and> (n > 0 \<longrightarrow> activeUsers m' \<noteq> []) \<and>
    (distinct (activeUsers m) \<longrightarrow> distinct (activeUsers m'))"
    using assms
  proof (induction uids arbitrary: m e n m')
    case (Cons uid uids)
    show ?case
    proof (cases "uid \<in> set (activeUsers m)")
      case True
      with Cons.IH [of m e n m'] Cons.prems show ?thesis by auto
    next
      case False
      obtain r m1 where c: "call (op_CreateUserSubCgroup ops uid (sharedCgroupPath m)) m = (r, m1)" by (metis surj_pair)
      note s1 = same_core_call_eq [OF c]
      show ?thesis
      proof (cases r)
        case (Inl er)
        obtain e2 n2 where r2: "limit_users ops cfg mc s uids m1 = (e2, n2, m')" "e = Some er" "n = n2"
          using Cons.prems False c Inl by (auto split: prod.splits)
        from same_core_users [OF s1] Cons.IH [OF r2(1)] have "same_core (m\<lparr>activeUsers := activeUsers m'\<rparr>) m'"
          using same_core_trans by blast
        with Cons.IH [OF r2(1)] same_core_fields(1) [OF s1] r2(2,3) show ?thesis by auto
      next
        case (Inr p)
        let ?m3 = "spawn [LimitTask cfg uid (sharedCgroupPath (watch_user ops uid p m1))] (watch_user ops uid p m1)"
        let ?m4 = "?m3\<lparr>activeUsers := activate_user uid (activeUsers ?m3)\<rparr>"
        let ?m5 = "notifyUserLimited cfg uid (GetUsernameFromUID mc uid) s ?m4"
        obtain n2 where r2: "limit_users ops cfg mc s uids ?m5 = (e, n2, m')" "n = Suc n2"
          using Cons.prems False c Inr by (auto simp: Let_def split: prod.splits)
        have s3: "same_core m ?m3" using s1 by simp
        have s5: "same_core ?m4 ?m5" by simp
        have u: "activeUsers ?m5 = activate_user uid (activeUsers m)"
          using same_core_fields(1) [OF s5] same_core_fields(1) [OF s3] by simp
        have "same_core (m\<lparr>activeUsers := x\<rparr>) (?m5\<lparr>activeUsers := x\<rparr>)" for x
          using same_core_users [OF s3, of x] same_core_users [OF s5, of x] same_core_trans by fastforce
        with Cons.IH [OF r2(1)] have "same_core (m\<lparr>activeUsers := activeUsers m'\<rparr>) m'"
          using same_core_trans by blast
        with Cons.IH [OF r2(1)] u r2(2) show ?thesis by auto
      qed
    qed
  qed simp
  then show "same_core (m\<lparr>activeUsers := activeUsers m'\<rparr>) m'"
    "set (activeUsers m) \<subseteq> set (activeUsers m')" "set (activeUsers m') \<subseteq> set (activeUsers m) \<union> set uids"
    "e = None \<Longrightarrow> set (activeUsers m') = set (activeUsers m) \<union> set uids"
    "n = 0 \<Longrightarrow> activeUsers m' = activeUsers m" "n > 0 \<Longrightarrow> activeUsers m' \<noteq> []"
    "distinct (activeUsers m) \<Longrightarrow> distinct (activeUsers m')" by auto
qed

lemma same_core_shared: "same_core a b \<Longrightarrow> same_core (a\<lparr>sharedCgroupPath := q\<rparr>) (b\<lparr>sharedCgroupPath := q\<rparr>)"
  by (subst (asm) same_core_def, erule ssubst) (simp add: same_core_def)

text \<open>The shared cgroup: what \<open>ensure_shared\<close> may change.\<close>

lemma ensure_shared_spec:
  assumes "ensure_shared ops cfg s m = (e, m')"
  shows "same_core (m\<lparr>sharedCgroupPath := sharedCgroupPath m'\<rparr>) m'"
    and "sharedCgroupPath m \<noteq> [] \<Longrightarrow> e = None \<and> m' = m"
proof -
  show "same_core (m\<lparr>sharedCgroupPath := sharedCgroupPath m'\<rparr>) m'"
  proof (cases "sharedCgroupPath m = []")
    case True
    obtain r m1 where c: "call (op_CreateSharedCgroup ops) m = (r, m1)" by (metis surj_pair)
    note s1 = same_core_call_eq [OF c]
    show ?thesis
    proof (cases r)
      case (Inl er)
      with True assms c have m': "m' = m1" by (simp add: ensure_shared_def)
      with same_core_shared [OF s1, of "sharedCgroupPath m'"] show ?thesis by simp
    next
      case (Inr p)
      obtain e2 m3 where c2: "call (op_ApplySharedCPULimit ops p (shared_quota cfg s)) (m1\<lparr>sharedCgroupPath := p\<rparr>) = (e2, m3)"
        by (metis surj_pair)
      with True assms c Inr have m': "m' = m3" by (simp add: ensure_shared_def split: option.splits)
      note s3 = same_core_call_eq [OF c2]
      from same_core_fields(3) [OF s3] have "sharedCgroupPath m' = p" by (simp add: m')
      with same_core_trans [OF same_core_shared [OF s1, of p] s3] show ?thesis by (simp add: m')
    qed
  qed (use assms in \<open>simp add: ensure_shared_def\<close>)
  show "sharedCgroupPath m \<noteq> [] \<Longrightarrow> e = None \<and> m' = m"
    using assms by (simp add: ensure_shared_def)
qed

context cgroup_provider begin

lemma base_limit_users:
  "mgr_base I m \<Longrightarrow> sharedCgroupPath m \<noteq> [] \<Longrightarrow> mgr_base I (snd (snd (limit_users ops cfg mc s uids m)))"
proof (induction uids arbitrary: m)
  case (Cons uid uids)
  let ?c = "call (op_CreateUserSubCgroup ops uid (sharedCgroupPath m)) m"
  have c: "mgr_base I (snd ?c)" by (simp add: mgr_base_call Cons.prems keeps)
  have s: "sharedCgroupPath (snd ?c) = sharedCgroupPath m"
    by (rule same_core_fields(3)) simp
  have w: "sharedCgroupPath (watch_user ops uid p (snd ?c)) = sharedCgroupPath m" for p
    by (rule same_core_fields(3)) simp
  let ?m5 = "\<lambda>p. notifyUserLimited cfg uid (GetUsernameFromUID mc uid) s
     ((spawn [LimitTask cfg uid (sharedCgroupPath m)] (watch_user ops uid p (snd ?c)))\<lparr>activeUsers :=
        activate_user uid (activeUsers (spawn [LimitTask cfg uid (sharedCgroupPath m)] (watch_user ops uid p (snd ?c))))\<rparr>)"
  have b5: "mgr_base I (?m5 p)" for p
  proof -
    have b: "mgr_base I (spawn [LimitTask cfg uid (sharedCgroupPath m)] (watch_user ops uid p (snd ?c)))"
      using base_watch_user [OF c] Cons.prems(2) by (simp add: task_path_def)
    then have "distinct (activeUsers (spawn [LimitTask cfg uid (sharedCgroupPath m)] (watch_user ops uid p (snd ?c))))"
      by (simp add: mgr_base_def)
    with b show ?thesis by (simp add: mgr_base_users)
  qed
  have s5: "sharedCgroupPath (?m5 p) = sharedCgroupPath m" for p
    by (simp add: notifyUserLimited_def emit_def spawn_def w)
  show ?case
    using Cons.IH [OF c] Cons.IH [OF b5] Cons.IH [OF Cons.prems] Cons.prems(2) s s5
    by (simp add: split_beta Let_def w split: sum.split)
qed simp

lemma base_ensure_shared: "mgr_base I m \<Longrightarrow> mgr_base I (snd (ensure_shared ops cfg s m))"
  by (simp add: ensure_shared_def split_beta Let_def mgr_base_call keeps split: sum.split option.split)

lemma ensure_shared_path: "fst (ensure_shared ops cfg s m) = None \<Longrightarrow> sharedCgroupPath (snd (ensure_shared ops cfg s m)) \<noteq> []"
proof -
  have path: "sharedCgroupPath (snd (call f m')) = sharedCgroupPath m'" for f :: "'a \<Rightarrow> 'e \<times> 'a" and m'
    by (rule same_core_fields(3)) simp
  have "p \<noteq> []" if "fst (call (op_CreateSharedCgroup ops) m) = Inr p" for p
    using that shared_nonempty [of "cgroups m" p] by (simp add: call_def split_beta prod_eq_iff)
  then show "fst (ensure_shared ops cfg s m) = None \<Longrightarrow> sharedCgroupPath (snd (ensure_shared ops cfg s m)) \<noteq> []"
    by (auto simp: ensure_shared_def split_beta Let_def path split: sum.splits option.splits)
qed

lemma ok_activateLimits: "mgr_ok I m \<Longrightarrow> mgr_ok I (snd (activateLimits ops now mc s m))"
proof -
  assume m: "mgr_ok I m"
  let ?m1 = "emit_prom IncrementLimitsActivated m"
  let ?removed = "filter (\<lambda>uid. uid \<notin> set (keys (UserCPUUsage s))) (activeUsers ?m1)"
  let ?m2 = "?m1\<lparr>activeUsers := drop_users ?removed (activeUsers ?m1)\<rparr>"
  have f1: "activeUsers ?m1 = activeUsers m" "limitsActive ?m1 = limitsActive m" "sharedCgroupPath ?m1 = sharedCgroupPath m"
    by (simp_all add: emit_prom_def emit_def)
  from m have b2: "mgr_base I ?m2"
    by (intro mgr_base_users) (simp_all add: mgr_ok_base f1, simp add: mgr_ok_def mgr_base_def)
  obtain e m3 where es: "ensure_shared ops (m_cfg m) s ?m2 = (e, m3)" by (metis surj_pair)
  note s3 = ensure_shared_spec [OF es]
  from base_ensure_shared [OF b2, of "m_cfg m" s] es have b3: "mgr_base I m3" by simp
  have f3: "activeUsers m3 = drop_users ?removed (activeUsers m)" "limitsActive m3 = limitsActive m"
    using same_core_fields(1,2) [OF s3(1)] by (simp_all add: f1)
  show ?thesis
  proof (cases e)
    case (Some er)
    then have "sharedCgroupPath m = []" using s3(2) f1 by (cases "sharedCgroupPath m") auto
    with m have "\<not> limitsActive m" "activeUsers m = []" by (auto simp: mgr_ok_def)
    moreover have "activateLimits ops now mc s m = (Some er, m3)"
      by (simp only: activateLimits_def Let_def es Some option.case prod.case)
    ultimately show ?thesis using b3 f3 by (simp add: mgr_ok_def drop_users_def)
  next
    case None
    have p3: "sharedCgroupPath m3 \<noteq> []" using ensure_shared_path [of "m_cfg m" s ?m2] es None by simp
    obtain er n m4 where lu: "limit_users ops (m_cfg m) mc s (EligibleUsers s) m3 = (er, n, m4)" by (metis surj_pair)
    note l = limit_users_spec [OF lu]
    from base_limit_users [OF b3 p3, of "m_cfg m" mc s "EligibleUsers s"] lu have b4: "mgr_base I m4" by simp
    have f4: "sharedCgroupPath m4 \<noteq> []" "limitsActive m4 = limitsActive m"
      using same_core_fields(2,3) [OF l(1)] p3 f3 by auto
    have "\<not> limitsActive m \<Longrightarrow> n = 0 \<Longrightarrow> activeUsers m4 = []"
      using l(5) f3 m by (simp add: mgr_ok_def drop_users_def)
    moreover have "\<not> limitsActive m \<Longrightarrow> ?removed = []" using m by (simp add: mgr_ok_def f1)
    moreover have "activateLimits ops now mc s m =
        (er, if n > 0 \<or> ?removed \<noteq> [] then m4\<lparr>limitsActive := True, limitsAppliedTime := now\<rparr> else m4)"
      by (simp only: activateLimits_def Let_def es None lu option.case prod.case)
    ultimately show ?thesis
      using b4 f4 m by (auto simp: mgr_ok_def)
  qed
qed

end

lemma makeDecision_frame:
  "makeDecision cfg now mc s m = (d, m') \<Longrightarrow>
     m' = m\<lparr>thresholdTracker := thresholdTracker m', ioThresholdTracker := ioThresholdTracker m',
           underThreshold := underThreshold m'\<rparr>"
  by (auto simp: makeDecision_def decide_active_def decide_inactive_def reset_trackers_def Let_def
      split: prod.splits if_splits)

lemma mgr_ok_frame [simp]:
  "mgr_ok I (m\<lparr>underThreshold := u\<rparr>) = mgr_ok I m" "mgr_ok I (m\<lparr>limitsAppliedTime := t\<rparr>) = mgr_ok I m"
  "mgr_ok I (m\<lparr>prevIOTime := t\<rparr>) = mgr_ok I m" "mgr_ok I (m\<lparr>prevIOBytes := b\<rparr>) = mgr_ok I m"
  "mgr_ok I (m\<lparr>patternDetector := pd\<rparr>) = mgr_ok I m" "mgr_ok I (m\<lparr>policyEngine := pe\<rparr>) = mgr_ok I m"
  "mgr_ok I (m\<lparr>lastPatternAnalysis := t\<rparr>) = mgr_ok I m" "mgr_ok I (m\<lparr>ioRemediation := r\<rparr>) = mgr_ok I m"
  "mgr_ok I (m\<lparr>m_cfg := c\<rparr>) = mgr_ok I m"
  "mgr_ok I (m\<lparr>thresholdTracker := tt\<rparr>) = mgr_ok I m" "mgr_ok I (m\<lparr>ioThresholdTracker := tt\<rparr>) = mgr_ok I m"
  by (simp_all add: mgr_ok_def)

lemma mgr_ok_makeDecision: "mgr_ok I m \<Longrightarrow> mgr_ok I (snd (makeDecision cfg now mc s m))"
proof -
  assume m: "mgr_ok I m"
  obtain d m' where d: "makeDecision cfg now mc s m = (d, m')" by (metis surj_pair)
  show ?thesis unfolding d snd_conv by (subst makeDecision_frame [OF d]) (simp add: m)
qed

lemma mgr_ok_emit [simp]: "mgr_ok I (emit e m) = mgr_ok I m"
  unfolding mgr_ok_def mgr_base_emit by (simp add: emit_def)

lemma mgr_ok_emit_prom [simp]: "mgr_ok I (emit_prom e m) = mgr_ok I m"
  by (simp add: emit_prom_def)

lemma mgr_ok_prometheus [simp]: "mgr_ok I (updatePrometheusMetrics ops mc s m) = mgr_ok I m"
proof -
  have "mgr_ok I (fold (user_prom ops mc) us m) = mgr_ok I m" for us m
    by (induction us arbitrary: m) (simp_all add: user_prom_def Let_def split_beta)
  then show ?thesis by (simp add: updatePrometheusMetrics_def Let_def split: option.split)
qed

lemma mgr_ok_database [simp]: "mgr_ok I (writeDatabaseMetrics mc s m) = mgr_ok I m"
  by (simp add: writeDatabaseMetrics_def)

lemma mgr_ok_collect: "mgr_ok I m \<Longrightarrow> mgr_ok I (snd (collectSystemMetricsWithIOState b now mc m))"
  by (simp add: collectSystemMetricsWithIOState_def split_beta)

lemma mgr_ok_boosts: "mgr_ok I m \<Longrightarrow> al_wf bs \<Longrightarrow> mgr_ok I (m\<lparr>psiBoostedAt := bs\<rparr>)"
  by (simp add: mgr_ok_def mgr_base_def)

lemma mgr_ok_boosted: "mgr_ok I m \<Longrightarrow> al_wf (psiBoostedAt m)"
  by (simp add: mgr_ok_def mgr_base_def)

lemma mgr_ok_cgroups: "mgr_ok I m \<Longrightarrow> I c \<Longrightarrow> mgr_ok I (m\<lparr>cgroups := c\<rparr>)"
  by (simp add: mgr_ok_def mgr_base_def)

lemma mgr_ok_I: "mgr_ok I m \<Longrightarrow> I (cgroups m)"
  by (simp add: mgr_ok_def mgr_base_def)

lemma mgr_ok_call: "mgr_ok I m \<Longrightarrow> (\<And>c. I c \<Longrightarrow> I (snd (f c))) \<Longrightarrow> mgr_ok I (snd (call f m))"
  by (simp add: call_def split_beta mgr_ok_cgroups mgr_ok_I)

lemma mgr_ok_perform: "mgr_ok I m \<Longrightarrow> (\<And>c. I c \<Longrightarrow> I (snd (f c))) \<Longrightarrow> mgr_ok I (perform f m)"
  by (simp add: perform_def mgr_ok_call)

lemma mgr_ok_fold: "(\<And>x m. mgr_ok I m \<Longrightarrow> mgr_ok I (f x m)) \<Longrightarrow> mgr_ok I m \<Longrightarrow> mgr_ok I (fold f xs m)"
  by (induction xs arbitrary: m) auto

lemma mgr_ok_history: "mgr_ok I m \<Longrightarrow> mgr_ok I (recordControlCycle now d r s e m)"
  by (simp add: recordControlCycle_def addControlHistoryEntry_def Let_def mgr_ok_def mgr_base_def maxHistory_def)

context cgroup_provider begin

lemma ok_wait_tasks: "mgr_ok I m \<Longrightarrow> mgr_ok I (wait_tasks ops rx mc m)"
  by (rule mgr_ok_same [of I m]) (simp_all add: mgr_ok_base base_wait_tasks)

lemma ok_releaseIdleUsers: "mgr_ok I m \<Longrightarrow> mgr_ok I (releaseIdleUsers ops now s m)"
proof (cases "limitsActive m")
  case True
  assume m: "mgr_ok I m"
  let ?rel = "users_to_release s m" and ?add = "users_to_add s m" and ?p = "sharedCgroupPath m"
  let ?m0 = "m\<lparr>activeUsers := drop_users ?rel (activeUsers m), psiBoostedAt := drop_boosts ?rel (psiBoostedAt m)\<rparr>"
  let ?m2 = "spawn (map (\<lambda>uid. ReleaseTask uid ?p) ?rel) (unwatch_users ?rel ?m0)"
  from m True have p: "?p \<noteq> []" and "mgr_base I ?m0" by (auto simp: mgr_ok_def mgr_base_def)
  then have b2: "mgr_base I ?m2" by (simp add: mgr_base_unwatch list_all_iff task_path_def)
  have s2: "same_core ?m0 ?m2" by simp
  have f: "limitsActive m' = True" "sharedCgroupPath m' = ?p" if "same_core ?m0 m'" for m'
    using same_core_fields(2,3) [OF that] True by auto
  obtain added m3 where r: "readd_users ops ?p ?add ?m2 = (added, m3)" by (metis surj_pair)
  from base_readd_users [OF b2 p, of ?add] r have b3: "mgr_base I m3" by simp
  then have "distinct (activeUsers m3)" by (simp add: mgr_base_def)
  with b3 have b4: "mgr_base I (m3\<lparr>activeUsers := fold activate_user added (activeUsers m3)\<rparr>)"
    by (intro mgr_base_users) simp_all
  have "same_core ?m0 (snd (readd_users ops ?p ?add ?m2))" by simp
  then have s3: "same_core ?m0 m3" by (simp add: r)
  note rel = releaseIdleUsers_def [of ops now s m, unfolded Let_def, simplified True not_True_eq_False if_False]
  show ?thesis
    unfolding rel r prod.case using b2 b3 b4 f [OF s2] f [OF s3] p by (simp add: mgr_ok_def)
qed (simp add: releaseIdleUsers_def)

lemma ok_deactivateLimits: "mgr_ok I m \<Longrightarrow> mgr_ok I (snd (deactivateLimits ops rx mc m))"
proof -
  assume m: "mgr_ok I m"
  let ?m1 = "emit_prom IncrementLimitsDeactivated (wait_tasks ops rx mc m)"
  let ?us = "activeUsers ?m1"
  let ?m0 = "?m1\<lparr>activeUsers := [], limitsActive := False, limitsAppliedTime := zero_time, sharedCgroupPath := ''''\<rparr>"
  let ?m2 = "unwatch_users ?us ?m0"
  let ?m3 = "?m2\<lparr>underThreshold := forget_users ?us (underThreshold ?m2), psiBoostedAt := drop_boosts ?us (psiBoostedAt ?m2)\<rparr>"
  obtain e m4 where r: "restore_users ops rx mc (m_cfg m) ?us ?m3 = (e, m4)" by (metis surj_pair)
  let ?m5 = "if sharedCgroupPath ?m1 \<noteq> [] then perform (op_RemovePath ops (sharedCgroupPath ?m1)) m4 else m4"
  from m have b1: "mgr_base I ?m1" by (simp add: mgr_ok_base base_wait_tasks)
  then have "mgr_base I ?m0" by (simp add: mgr_base_def)
  then have "mgr_base I ?m2" by (rule mgr_base_unwatch)
  then have b3: "mgr_base I ?m3" by (simp add: mgr_base_def)
  from base_restore_users [OF this, of rx mc "m_cfg m" ?us] r have b4: "mgr_base I m4" by simp
  then have b5: "mgr_base I ?m5" by (simp add: mgr_base_perform keeps)
  have "same_core ?m3 (snd (restore_users ops rx mc (m_cfg m) ?us ?m3))" by (simp only: same_core_restore_users same_core_refl)
  then have "same_core ?m3 m4" by (simp only: r snd_conv)
  moreover have last: "same_core a (if b then perform f x else x) = same_core a x"
    for a x :: "'a manager" and b and f :: "'a \<Rightarrow> 'f \<times> 'a" by simp
  ultimately have "same_core ?m3 ?m5" by (simp only: last)
  from same_core_fields(1,2) [OF this] have "activeUsers ?m5 = []" "\<not> limitsActive ?m5"
    using same_core_fields(1,2) [of ?m0 ?m2] by simp_all
  with b5 show ?thesis
    unfolding deactivateLimits_def Let_def r prod.case snd_conv by (simp add: mgr_ok_def)
qed

lemma ok_executeDecision: "mgr_ok I m \<Longrightarrow> mgr_ok I (snd (executeDecision ops rx now mc d s m))"
  by (simp add: executeDecision_def ok_activateLimits ok_deactivateLimits ok_releaseIdleUsers split: decision.split)

lemma ok_OnUserPSIEvent: "mgr_ok I m \<Longrightarrow> mgr_ok I (OnUserPSIEvent ops now ev m)"
proof -
  assume m: "mgr_ok I m"
  then have c: "mgr_ok I (snd (call (op_ApplyCPUWeight ops (ev_UID ev) (PSIBoostWeight (m_cfg m))) m))"
    by (simp add: mgr_ok_call keeps)
  with m show ?thesis
    by (simp add: OnUserPSIEvent_def split_beta mgr_ok_boosts mgr_ok_boosted split: option.split)
qed

lemma ok_revertPSIBoosts: "mgr_ok I m \<Longrightarrow> mgr_ok I (revertPSIBoosts ops now m)"
proof -
  assume m: "mgr_ok I m"
  have f: "mgr_ok I (fold (\<lambda>uid. perform (op_ApplyCPUWeight ops uid 100)) us m)" for us
    by (rule mgr_ok_fold) (simp_all add: m mgr_ok_perform keeps)
  show ?thesis using m mgr_ok_boosts [OF f al_wf_drop_boosts [OF mgr_ok_boosted [OF f]]]
    by (simp add: revertPSIBoosts_def Let_def)
qed

lemma keep_check_user: "I c \<Longrightarrow> I (snd (check_user ops cfg now uid psi st c))"
  by (simp add: check_user_def Let_def applyBoost_def split_beta keep_RemoveIOLimit split: option.split)

lemma keep_check_users: "I c \<Longrightarrow> I (snd (check_users ops cfg now uids m c))"
  by (induction uids arbitrary: m c) (simp_all add: Let_def split_beta keep_check_user split: sum.split)

lemma ok_stageIORemediation: "mgr_ok I m \<Longrightarrow> mgr_ok I (stageIORemediation ops cfg now mc m)"
  using keep_check_users [of "cgroups m"]
  by (simp add: stageIORemediation_def CheckAndRemediate_def split_beta mgr_ok_cgroups mgr_ok_I)

lemma ok_apply_pattern: "mgr_ok I m \<Longrightarrow> mgr_ok I (apply_pattern ops cfg now mc en m)"
  by (simp add: apply_pattern_def Let_def split_beta mgr_ok_perform keeps split: option.split bool.split)

lemma ok_stagePatterns: "mgr_ok I m \<Longrightarrow> mgr_ok I (stageWorkloadPatternDetection ops cfg now h mc m)"
  by (simp add: stageWorkloadPatternDetection_def Let_def mgr_ok_fold ok_apply_pattern)

lemma ok_after_decision: "mgr_ok I m \<Longrightarrow> mgr_ok I (after_decision ops cfg ck mc m)"
  by (simp add: after_decision_def stageRevertPSIBoosts_def ok_stagePatterns ok_stageIORemediation ok_revertPSIBoosts
      split: option.split)

lemma ok_RunControlCycle: "mgr_ok I m \<Longrightarrow> mgr_ok I (snd (RunControlCycleWithTrigger ops rx ck mc trig m))"
  by (simp add: RunControlCycleWithTrigger_def Let_def split_beta mgr_ok_collect mgr_ok_makeDecision ok_executeDecision
      mgr_ok_history ok_after_decision split: option.split)

lemma ok_RunMetricsRefresh: "mgr_ok I m \<Longrightarrow> mgr_ok I (RunMetricsRefresh ops now mc m)"
  by (simp add: RunMetricsRefresh_def split_beta mgr_ok_collect)

lemma ok_ForceActivate: "mgr_ok I m \<Longrightarrow> mgr_ok I (snd (ForceActivateLimits ops now mc m))"
  by (simp add: ForceActivateLimits_def split_beta mgr_ok_collect ok_activateLimits)

lemma ok_ForceDeactivate: "mgr_ok I m \<Longrightarrow> mgr_ok I (snd (ForceDeactivateLimits ops rx mc m))"
  by (simp add: ForceDeactivateLimits_def split_beta ok_deactivateLimits)

lemma ok_ManagerCleanup: "mgr_ok I m \<Longrightarrow> mgr_ok I (snd (ManagerCleanup ops rx mc m))"
  by (simp add: ManagerCleanup_def Let_def split_beta ok_wait_tasks ok_deactivateLimits mgr_ok_call keeps split: option.split)

end

end
