(* ===== verification/ManagerProps.thy ===== *)
theory ManagerProps
  imports ManagerInv
begin

text \<open>
  The state manager as a state machine: its step relation, the invariant of every reachable state, and what a deactivation,
  a blackout, a refresh, the history and the PSI boosts guarantee.
\<close>

section \<open>The manager as a state machine\<close>

text \<open>
  What can happen to a manager, one operation at a time: a control cycle, a refresh of the metrics, the forced operations, a
  pressure event, the end of any goroutine still running, a new configuration, the watcher's registration and a turn of its
  poll loop, the shutdown.
\<close>

inductive mgr_step :: "'c cgroup_ops \<Rightarrow> regexp_lib \<Rightarrow> 'c manager \<Rightarrow> 'c manager \<Rightarrow> bool"
  for ops :: "'c cgroup_ops" and rx :: regexp_lib where
  cycle: "mgr_step ops rx m (snd (RunControlCycleWithTrigger ops rx ck mc trigger m))"
| refresh: "mgr_step ops rx m (RunMetricsRefresh ops now mc m)"
| force_on: "mgr_step ops rx m (snd (ForceActivateLimits ops now mc m))"
| force_off: "mgr_step ops rx m (snd (ForceDeactivateLimits ops rx mc m))"
| pressure: "mgr_step ops rx m (OnUserPSIEvent ops now ev m)"
| goroutine: "pending m = ts @ t # us \<Longrightarrow> mgr_step ops rx m (run_task ops rx mc t (m\<lparr>pending := ts @ us\<rparr>))"
| reconfigure: "mgr_step ops rx m (UpdateConfig cfg m)"
| register: "watcher_ok w \<Longrightarrow> mgr_step ops rx m (RegisterPSIWatcher w m)"
| polled: "mgr_step ops rx m (m\<lparr>psiWatcher := map_option (poll_turn now ready) (psiWatcher m)\<rparr>)"
| shutdown: "mgr_step ops rx m (snd (ManagerCleanup ops rx mc m))"

inductive reachable :: "'c cgroup_ops \<Rightarrow> regexp_lib \<Rightarrow> 'c \<Rightarrow> 'c manager \<Rightarrow> bool"
  for ops :: "'c cgroup_ops" and rx :: regexp_lib and c :: 'c where
  initial: "reachable ops rx c (NewManager cfg exporter c)"
| step: "reachable ops rx c m \<Longrightarrow> mgr_step ops rx m m' \<Longrightarrow> reachable ops rx c m'"

lemma mgr_ok_initial: "I c \<Longrightarrow> mgr_ok I (NewManager cfg exporter c)"
  by (simp add: NewManager_def mgr_ok_def mgr_base_def)

context cgroup_provider begin

lemma mgr_step_ok:
  assumes "mgr_step ops rx m m'" "mgr_ok I m" shows "mgr_ok I m'"
  using assms
proof (induction rule: mgr_step.induct)
  case (goroutine m ts t us mc)
  then have ok: "mgr_ok I (m\<lparr>pending := ts @ us\<rparr>)" by (simp add: mgr_ok_def mgr_base_def)
  show ?case
    by (rule mgr_ok_same [OF ok _ base_run_task [OF mgr_ok_base [OF ok]]]) simp
next
  case (polled m now ready)
  then show ?case
    by (auto simp: mgr_ok_def mgr_base_def option.pred_map o_def watcher_ok_poll elim!: option.pred_mono_strong)
next
  case (register w m)
  then show ?case by (simp add: RegisterPSIWatcher_def mgr_ok_def mgr_base_def)
qed (simp_all add: ok_RunControlCycle ok_RunMetricsRefresh ok_ForceActivate ok_ForceDeactivate ok_OnUserPSIEvent
      ok_ManagerCleanup UpdateConfig_def split: option.split)

lemma reachable_ok: "reachable ops rx c m \<Longrightarrow> I c \<Longrightarrow> mgr_ok I m"
  by (induction rule: reachable.induct) (simp_all add: mgr_ok_initial mgr_step_ok)

end

section \<open>Deactivation\<close>

lemma pending_call [simp]: "pending (snd (call f m)) = pending m"
  by (simp add: call_def split_beta)

lemma pending_perform [simp]: "pending (perform f m) = pending m"
  by (simp add: perform_def)

lemma psiWatcher_call [simp]: "psiWatcher (snd (call f m)) = psiWatcher m"
  by (simp add: call_def split_beta)

lemma psiWatcher_perform [simp]: "psiWatcher (perform f m) = psiWatcher m"
  by (simp add: perform_def)

lemma pending_run_task [simp]: "pending (run_task ops rx mc t m) = pending m"
  by (simp add: run_task_def Let_def apply_ram_def apply_io_def split: task.split sum.split)

lemma pending_wait_tasks [simp]: "pending (wait_tasks ops rx mc m) = []"
proof -
  have "pending (fold (run_task ops rx mc) ts m) = pending m" for ts m
    by (induction ts arbitrary: m) simp_all
  then show ?thesis by (simp add: wait_tasks_def)
qed

lemma pending_restore_users [simp]: "pending (snd (restore_users ops rx mc cfg uids m)) = pending m"
  by (induction uids arbitrary: m) (simp_all add: split_beta Let_def split: option.split)

lemma psiWatcher_restore_users [simp]: "psiWatcher (snd (restore_users ops rx mc cfg uids m)) = psiWatcher m"
  by (induction uids arbitrary: m) (simp_all add: split_beta Let_def split: option.split)

definition watched :: "psi_watcher \<Rightarrow> int \<Rightarrow> string \<Rightarrow> bool" where
  "watched w uid kind \<longleftrightarrow> list_ex (watches uid kind) (monitors w)"

lemma watched_RemoveMonitor [simp]:
  "watched (RemoveMonitor uid kind w) u k \<longleftrightarrow> watched w u k \<and> \<not> (u = uid \<and> k = kind)"
proof -
  have ex: "list_ex P xs \<longleftrightarrow> filter P xs \<noteq> []" for P and xs :: "psi_monitor list"
    by (simp add: list_ex_iff filter_empty_conv)
  show ?thesis unfolding watched_def ex by (simp add: RemoveMonitor_def filter_deactivated)
qed

lemma watched_unwatch [simp]:
  "watched (fold unwatch uids w) u k \<longleftrightarrow> watched w u k \<and> \<not> (u \<in> set uids \<and> k \<in> {''cpu'', ''io''})"
  by (induction uids arbitrary: w) (auto simp: unwatch_def)

lemma forget_users_apply: "forget_users uids c u = (if u \<in> set uids then None else c u)"
  unfolding forget_users_def by (induction uids arbitrary: c) auto

lemma map_of_drop_boosts: "map_of (drop_boosts g bs) u = (if u \<in> set g then None else map_of bs u)"
  by (induction bs) (auto simp: drop_boosts_def)

text \<open>What a deactivation leaves of the users it released.\<close>

definition forgotten :: "'c manager \<Rightarrow> int \<Rightarrow> bool" where
  "forgotten m uid \<longleftrightarrow> uid \<notin> set (activeUsers m) \<and> map_of (psiBoostedAt m) uid = None \<and>
     stable_count (underThreshold m) uid = 0 \<and>
     (case psiWatcher m of None \<Rightarrow> True | Some w \<Rightarrow> \<not> watched w uid ''cpu'' \<and> \<not> watched w uid ''io'')"

lemma deactivateLimits_spec:
  "case deactivateLimits ops rx mc m of (err, m') \<Rightarrow>
     \<not> limitsActive m' \<and> activeUsers m' = [] \<and> sharedCgroupPath m' = [] \<and> limitsAppliedTime m' = zero_time \<and>
     pending m' = [] \<and> list_all (forgotten m') (activeUsers m)"
proof -
  let ?m1 = "emit_prom IncrementLimitsDeactivated (wait_tasks ops rx mc m)"
  let ?us = "activeUsers ?m1"
  let ?m0 = "?m1\<lparr>activeUsers := [], limitsActive := False, limitsAppliedTime := zero_time, sharedCgroupPath := ''''\<rparr>"
  let ?m2 = "unwatch_users ?us ?m0"
  let ?m3 = "?m2\<lparr>underThreshold := forget_users ?us (underThreshold ?m2), psiBoostedAt := drop_boosts ?us (psiBoostedAt ?m2)\<rparr>"
  let ?m5 = "\<lambda>m4. if sharedCgroupPath ?m1 \<noteq> [] then perform (op_RemovePath ops (sharedCgroupPath ?m1)) m4 else m4"
  obtain e m4 where r: "restore_users ops rx mc (m_cfg m) ?us ?m3 = (e, m4)" by (metis surj_pair)
  have d: "deactivateLimits ops rx mc m = (e, ?m5 m4)"
    unfolding deactivateLimits_def Let_def r prod.case ..
  have "same_core ?m3 (snd (restore_users ops rx mc (m_cfg m) ?us ?m3))" by (simp only: same_core_restore_users same_core_refl)
  then have "same_core ?m3 m4" by (simp only: r snd_conv)
  moreover have last: "same_core a (if b then perform f x else x) = same_core a x"
    for a x :: "'a manager" and b and f :: "'a \<Rightarrow> 'f \<times> 'a" by simp
  ultimately have s5: "same_core ?m3 (?m5 m4)" by (simp only: last)
  have us: "?us = activeUsers m" using same_core_fields(1) [of m ?m1] by simp
  have p3: "pending m4 = pending ?m3" "psiWatcher m4 = psiWatcher ?m3"
    using pending_restore_users [of ops rx mc "m_cfg m" ?us ?m3] psiWatcher_restore_users [of ops rx mc "m_cfg m" ?us ?m3]
    by (simp_all only: r snd_conv)
  have p: "pending (?m5 m4) = []" "psiWatcher (?m5 m4) = map_option (fold unwatch ?us) (psiWatcher ?m1)"
    by (simp_all add: p3 unwatch_users_def emit_prom_def emit_def)
  have f: "activeUsers (?m5 m4) = []" "\<not> limitsActive (?m5 m4)" "sharedCgroupPath (?m5 m4) = []"
    "limitsAppliedTime (?m5 m4) = zero_time" "psiBoostedAt (?m5 m4) = drop_boosts ?us (psiBoostedAt ?m1)"
    "underThreshold (?m5 m4) = forget_users ?us (underThreshold ?m1)"
    unfolding same_core_fields [OF s5] by (simp_all add: unwatch_users_def)
  have "forgotten (?m5 m4) uid" if "uid \<in> set (activeUsers m)" for uid
    unfolding forgotten_def f p using that us
    by (simp add: map_of_drop_boosts stable_count_def forget_users_apply split: option.split)
  then show ?thesis unfolding d prod.case using f p by (simp add: list_all_iff)
qed

section \<open>Blackout, refresh, history\<close>

lemma blackout_cycle:
  assumes "IsInBlackout (m_cfg m) (ck_day ck) (ck_hour ck)"
  shows "RunControlCycleWithTrigger ops rx ck mc trigger m =
     (None, emit_prom (RecordControlCycleTrigger (if trigger = [] then ''manual'' else trigger)) m)"
  using assms by (simp add: RunControlCycleWithTrigger_def Let_def)

text \<open>What only exports does not change the manager.\<close>

definition only_emits :: "'c manager \<Rightarrow> 'c manager \<Rightarrow> bool" where
  "only_emits m m' \<longleftrightarrow> m'\<lparr>emitted := []\<rparr> = m\<lparr>emitted := []\<rparr>"

lemma only_emits_refl [simp]: "only_emits m m"
  by (simp add: only_emits_def)

lemma only_emits_emit [simp]: "only_emits m (emit e m') = only_emits m m'"
  by (simp add: only_emits_def emit_def)

lemma only_emits_user_prom [simp]: "only_emits m (user_prom ops mc en m') = only_emits m m'"
  by (simp add: user_prom_def Let_def split_beta)

lemma only_emits_prometheus [simp]: "only_emits m (updatePrometheusMetrics ops mc s m') = only_emits m m'"
proof -
  have "only_emits m (fold (user_prom ops mc) us m') = only_emits m m'" for us m'
    by (induction us arbitrary: m') simp_all
  then show ?thesis by (simp add: updatePrometheusMetrics_def Let_def split: option.split)
qed

lemma refresh_only_exports: "only_emits m (RunMetricsRefresh ops now mc m)"
  by (simp add: RunMetricsRefresh_def collectSystemMetricsWithIOState_def split_beta)

lemma history_fold:
  "length (controlHist m) \<le> maxHistory \<Longrightarrow>
     controlHist (fold addControlHistoryEntry es m) =
       drop (length (controlHist m @ es) - maxHistory) (controlHist m @ es)"
proof (induction es rule: rev_induct)
  case (snoc e es)
  let ?h = "controlHist m @ es" and ?f = "fold addControlHistoryEntry es m"
  have 1: "controlHist (addControlHistoryEntry e ?f) = drop (Suc (length (controlHist ?f)) - maxHistory) (controlHist ?f @ [e])"
    by (simp add: addControlHistoryEntry_def Let_def)
  have 2: "drop (Suc (length (drop (length h - n) h)) - n) (drop (length h - n) h @ [e]) = drop (Suc (length h) - n) (h @ [e])"
    if "n > 0" for h :: "history_entry list" and n
    using that by (cases "length h < n") (auto simp: Suc_diff_le)
  have 3: "controlHist ?f = drop (length ?h - maxHistory) ?h" using snoc by simp
  have "controlHist (fold addControlHistoryEntry (es @ [e]) m) = drop (Suc (length ?h) - maxHistory) (?h @ [e])"
    using 1 unfolding 3 by (subst (asm) 2) (simp_all add: maxHistory_def)
  then show ?case by simp
qed simp

text \<open>The history after any number of cycles, and what a query returns of it.\<close>

lemma history_window:
  "GetControlHistory k (fold addControlHistoryEntry es (NewManager cfg ex c)) =
     (let kept = drop (length es - 100) es
      in if k \<le> 0 \<or> k \<ge> int (length kept) then kept else drop (length kept - nat k) kept)"
proof -
  have h: "controlHist (fold addControlHistoryEntry es (NewManager cfg ex c)) = drop (length es - 100) es"
    by (subst history_fold) (simp_all add: NewManager_def maxHistory_def)
  show ?thesis unfolding GetControlHistory_def Let_def h
    by (auto simp: nat_diff_distrib' not_le not_less)
qed

section \<open>The shared quota is applied once\<close>

lemma failed_quota_never_retried:
  assumes "\<And>c c' p. op_CreateSharedCgroup ops c = (Inr p, c') \<Longrightarrow> p \<noteq> []"
    and "ensure_shared ops cfg s m = (Some (Because ''failed to apply shared CPU limit'' e), m')"
  shows "ensure_shared ops cfg' s' m' = (None, m')"
proof -
  have "sharedCgroupPath m' \<noteq> []"
  proof -
    obtain r m1 where c: "call (op_CreateSharedCgroup ops) m = (r, m1)" by (metis surj_pair)
    from assms(2) have n: "sharedCgroupPath m = []" by (cases "sharedCgroupPath m") (auto simp: ensure_shared_def)
    show ?thesis
    proof (cases r)
      case (Inl er)
      with assms(2) c n show ?thesis by (simp add: ensure_shared_def)
    next
      case (Inr p)
      obtain e2 m3 where c2: "call (op_ApplySharedCPULimit ops p (shared_quota cfg s)) (m1\<lparr>sharedCgroupPath := p\<rparr>) = (e2, m3)"
        by (metis surj_pair)
      have "p \<noteq> []" using assms(1) [of "cgroups m" p] c Inr by (auto simp: call_def split: prod.splits)
      moreover have "m' = m3" using assms(2) c c2 n Inr by (auto simp: ensure_shared_def split: option.splits)
      ultimately show ?thesis using same_core_fields(3) [OF same_core_call_eq [OF c2]] by simp
    qed
  qed
  then show ?thesis by (simp add: ensure_shared_def)
qed

section \<open>PSI boosts\<close>

text \<open>An event boosts at most a user that is limited, and never the root user.\<close>

lemma pressure_boosts_limited:
  "map_of (psiBoostedAt (OnUserPSIEvent ops now ev m)) uid =
     (if uid = ev_UID ev \<and> 0 < uid \<and> uid \<in> set (activeUsers m) \<and>
         fst (op_ApplyCPUWeight ops uid (PSIBoostWeight (m_cfg m)) (cgroups m)) = None
      then Some now else map_of (psiBoostedAt m) uid)"
  by (auto simp: OnUserPSIEvent_def call_def split: prod.splits option.splits)

text \<open>After \<open>revertPSIBoosts\<close> no boost older than the configured duration is left, also when the weight could not be set.\<close>

lemma revertPSIBoosts_boosts:
  assumes "al_wf (psiBoostedAt m)"
  shows "map_of (psiBoostedAt (revertPSIBoosts ops now m)) uid =
     (case map_of (psiBoostedAt m) uid of
        None \<Rightarrow> None
      | Some t \<Rightarrow> if time_Sub now t \<ge> seconds (PSIBoostDuration (m_cfg m)) then None else Some t)"
proof -
  let ?old = "\<lambda>(uid, t). time_Sub now t \<ge> seconds (PSIBoostDuration (m_cfg m))"
  let ?ex = "map fst (filter ?old (psiBoostedAt m))"
  have f: "psiBoostedAt (fold (\<lambda>uid. perform (op_ApplyCPUWeight ops uid 100)) us m') = psiBoostedAt m'" for us and m' :: "'a manager"
    using same_core_fields(4) [of m' "fold (\<lambda>uid. perform (op_ApplyCPUWeight ops uid 100)) us m'"] by (simp add: same_core_fold)
  have mem: "uid \<in> set ?ex \<longleftrightarrow> (\<exists>t. map_of (psiBoostedAt m) uid = Some t \<and> ?old (uid, t))"
    using assms by (force simp: al_wf_def image_iff)
  show ?thesis
    using mem by (auto simp: revertPSIBoosts_def Let_def f map_of_drop_boosts filter_empty_conv split: option.splits dest: map_of_SomeD)
qed

end
