(* ===== verification/ConfigLoadProps.thy ===== *)
theory ConfigLoadProps
  imports ConfigLoad "HOL-Library.Multiset"
begin

text \<open>
  What the parsers and the loaders of the configuration guarantee: the quota arithmetic, well-formed time frames,
  the invariant of the file loader, and what the environment can and cannot change.
\<close>

section \<open>Quotas\<close>

lemma digits_no_suffix:
  assumes "list_all is_digit s" "s \<noteq> []" "\<not> is_digit c"
  shows "\<not> HasSuffix s [c]"
proof
  assume "HasSuffix s [c]"
  then obtain q where "s = q @ [c]" by (auto simp: HasSuffix_iff)
  with assms show False by simp
qed

lemma suffix_last: "HasSuffix s [c] \<longleftrightarrow> s \<noteq> [] \<and> last s = c"
  by (cases s rule: rev_cases) (auto simp: HasSuffix_iff)

lemma not_digits: "\<not> is_digit CHR ''K''" "\<not> is_digit CHR ''M''" "\<not> is_digit CHR ''G''" "\<not> is_digit CHR ''T''"
  by (code_simp)+

lemma suffix_letters:
  assumes "(sfx, m) \<in> set quota_suffixes"
  shows "\<exists>c. sfx = [c] \<and> \<not> is_digit c"
proof -
  from assms have "sfx \<in> {''K'', ''M'', ''G'', ''T''}" by (auto simp: quota_suffixes_def)
  then show ?thesis using not_digits by blast
qed

lemma quota_loop_suffix:
  assumes "distinct (map fst table)" "(sfx, m) \<in> set table" "HasSuffix q sfx"
    and "\<forall>(s, m) \<in> set table. \<exists>c. s = [c]"
  shows "quota_loop table q =
    (case ParseUint (TrimSuffix q sfx) of None \<Rightarrow> Inl (InvalidQuotaNumber (TrimSuffix q sfx)) | Some v \<Rightarrow> Inr (v * m))"
  using assms
proof (induction table q rule: quota_loop.induct)
  case (1 quota)
  then show ?case by simp
next
  case (2 s m' rest quota)
  show ?case
  proof (cases "HasSuffix quota s")
    case True
    from 2(5) obtain c d where "s = [c]" "sfx = [d]" using 2(3) by auto
    with True 2(4) have "s = sfx" by (simp add: suffix_last)
    moreover have "m' = m"
      using 2(2,3) \<open>s = sfx\<close> by (auto simp: rev_image_eqI)
    ultimately show ?thesis using True by (simp add: Let_def)
  next
    case False
    with 2 show ?thesis by auto
  qed
qed

lemma quota_loop_plain:
  assumes "\<forall>(s, m) \<in> set table. \<not> HasSuffix q s"
  shows "quota_loop table q = (case ParseUint q of None \<Rightarrow> Inl (InvalidQuotaFormat q) | Some v \<Rightarrow> Inr v)"
  using assms by (induction table q rule: quota_loop.induct) auto

lemma quota_table: "distinct (map fst quota_suffixes)" "\<forall>(s, m) \<in> set quota_suffixes. \<exists>c. s = [c]"
  by (auto simp: quota_suffixes_def)

lemma quota_loop_order:
  assumes "mset table = mset quota_suffixes"
  shows "quota_loop table q = quota_loop quota_suffixes q"
proof -
  from assms have s: "set table = set quota_suffixes" by (metis set_mset_mset)
  from assms have "mset (map fst table) = mset (map fst quota_suffixes)" by (metis mset_map)
  then have d: "distinct (map fst table)" using quota_table(1) by (metis mset_eq_imp_distinct_iff)
  show ?thesis
  proof (cases "\<exists>(s, m) \<in> set quota_suffixes. HasSuffix q s")
    case True
    then obtain sx m where m: "(sx, m) \<in> set quota_suffixes" "HasSuffix q sx" by auto
    show ?thesis
      using quota_loop_suffix [OF quota_table(1) m quota_table(2)] quota_loop_suffix [OF d _ m(2), of m] m(1) s
        quota_table(2) by auto
  next
    case False
    then have n: "\<forall>(s, m) \<in> set quota_suffixes. \<not> HasSuffix q s" by auto
    with s have "\<forall>(s, m) \<in> set table. \<not> HasSuffix q s" by simp
    from quota_loop_plain [OF this] quota_loop_plain [OF n] show ?thesis by simp
  qed
qed

lemma ParseRAMQuota_suffixed:
  assumes "0 \<le> n" "n < 2 ^ 64" "(sfx, m) \<in> set quota_suffixes"
  shows "\<exists>v. ParseRAMQuota (show_digits n @ sfx) = Inr v \<and> uint v = (n * uint m) mod 2 ^ 64"
proof -
  let ?q = "show_digits n @ sfx"
  have p: "ParseUint (show_digits n) = Some (word_of_int n)"
    using assms by (simp add: ParseUint_def)
  have "quota_loop quota_suffixes ?q = Inr (word_of_int n * m)"
    using quota_loop_suffix [OF quota_table(1) assms(3) _ quota_table(2), of ?q] p by simp
  moreover have "uint (word_of_int n * m) = (n * uint m) mod 2 ^ 64"
    by (simp add: uint_word_ariths uint_word_of_int mod_mult_left_eq)
  ultimately show ?thesis by (simp add: ParseRAMQuota_def)
qed

lemma ParseRAMQuota_FormatUint: "ParseRAMQuota (FormatUint w) = Inr w"
proof -
  have d: "list_all is_digit (FormatUint w)" "FormatUint w \<noteq> []"
    by (simp_all add: FormatUint_def show_digits_correct)
  have "quota_loop quota_suffixes (FormatUint w) = Inr w"
    using quota_loop_plain [of quota_suffixes "FormatUint w"] d suffix_letters digits_no_suffix [OF d]
    by fastforce
  with d(2) show ?thesis by (simp add: ParseRAMQuota_def)
qed

section \<open>Time frames\<close>

lemma parseDays_parts_range: "parseDays_parts ps = Inr ds \<Longrightarrow> d \<in> set ds \<Longrightarrow> 0 \<le> d \<and> d \<le> 6"
  by (induction ps arbitrary: ds)
     (auto split: sum.splits if_splits option.splits list.splits)

lemma parseDays_range: "parseDays spec = Inr ds \<Longrightarrow> d \<in> set ds \<Longrightarrow> 0 \<le> d \<and> d \<le> 6"
  by (auto simp: parseDays_def parseDays_parts_range split: if_splits)

lemma parseHours_range: "parseHours spec = Inr (a, b) \<Longrightarrow> 0 \<le> a \<and> a < b \<and> b \<le> 23"
  by (auto simp: parseHours_def split: list.splits option.splits if_splits)

definition tf_ok :: "timeframe \<Rightarrow> bool" where
  "tf_ok tf \<longleftrightarrow> (\<forall>d\<in>set (DaysOfWeek tf). 0 \<le> d \<and> d \<le> 6) \<and> 0 \<le> HourStart tf \<and> HourStart tf < HourEnd tf \<and> HourEnd tf \<le> 23"

lemma ParseTimeframe_specs_ok: "ParseTimeframe_specs ss = Inr tfs \<Longrightarrow> tf \<in> set tfs \<Longrightarrow> tf_ok tf"
proof (induction ss arbitrary: tfs)
  case Nil
  then show ?case by simp
next
  case (Cons s ss)
  show ?case
  proof (cases "TrimSpace s = []")
    case True
    with Cons show ?thesis by simp
  next
    case False
    with Cons.prems(1) obtain ds hs days h0 h1 tfs' where
      *: "parseDays ds = Inr days" "parseHours hs = Inr (h0, h1)" "ParseTimeframe_specs ss = Inr tfs'"
         "tfs = \<lparr>DaysOfWeek = days, HourStart = h0, HourEnd = h1\<rparr> # tfs'"
      by (auto simp: Let_def split: list.splits sum.splits)
    show ?thesis
    proof (cases "tf \<in> set tfs'")
      case True
      with Cons.IH *(3) show ?thesis by blast
    next
      case False
      with * Cons.prems(2) have "tf = \<lparr>DaysOfWeek = days, HourStart = h0, HourEnd = h1\<rparr>" by simp
      with parseDays_range [OF *(1)] parseHours_range [OF *(2)] show ?thesis by (simp add: tf_ok_def)
    qed
  qed
qed

lemma ParseTimeframe_ok: "ParseTimeframe spec = Inr tfs \<Longrightarrow> \<forall>tf\<in>set tfs. tf_ok tf"
  by (auto simp: ParseTimeframe_def dest: ParseTimeframe_specs_ok)

section \<open>What the handlers keep\<close>

definition handler_keeps :: "(config \<Rightarrow> bool) \<Rightarrow> handler \<Rightarrow> bool" where
  "handler_keeps I h \<longleftrightarrow> (\<forall>cfg v cfg'. I cfg \<longrightarrow> h cfg v = Inr cfg' \<longrightarrow> I cfg')"

named_theorems handler_intros "what each kind of handler keeps"

lemma keeps_setString [handler_intros]: "(\<And>c v. I c \<Longrightarrow> I (a v c)) \<Longrightarrow> handler_keeps I (setString a)"
  by (auto simp: handler_keeps_def setString_def)
lemma keeps_setStringTransform [handler_intros]: "(\<And>c v. I c \<Longrightarrow> I (a v c)) \<Longrightarrow> handler_keeps I (setStringTransform t a)"
  by (auto simp: handler_keeps_def setStringTransform_def)
lemma keeps_setInt [handler_intros]: "(\<And>c v. I c \<Longrightarrow> I (a v c)) \<Longrightarrow> handler_keeps I (setInt a)"
  by (auto simp: handler_keeps_def setInt_def split: option.splits)
lemma keeps_setPositiveInt [handler_intros]: "(\<And>c v. I c \<Longrightarrow> 0 < v \<Longrightarrow> I (a v c)) \<Longrightarrow> handler_keeps I (setPositiveInt a)"
  by (auto simp: handler_keeps_def setPositiveInt_def split: option.splits if_splits)
lemma keeps_setFloat [handler_intros]: "(\<And>c v. I c \<Longrightarrow> I (a v c)) \<Longrightarrow> handler_keeps I (setFloat a)"
  by (auto simp: handler_keeps_def setFloat_def split: option.splits)
lemma keeps_setBool [handler_intros]: "(\<And>c v. I c \<Longrightarrow> I (a v c)) \<Longrightarrow> handler_keeps I (setBool d a)"
  by (auto simp: handler_keeps_def setBool_def split: if_splits)
lemma keeps_setPort [handler_intros]: "(\<And>c v. I c \<Longrightarrow> 1 \<le> v \<Longrightarrow> v \<le> 65535 \<Longrightarrow> I (a v c)) \<Longrightarrow> handler_keeps I (setPort k a)"
  by (auto simp: handler_keeps_def setPort_def split: option.splits if_splits)
lemma keeps_setRegexList [handler_intros]: "(\<And>c v. I c \<Longrightarrow> I (a v c)) \<Longrightarrow> handler_keeps I (setRegexList rx e a)"
  by (auto simp: handler_keeps_def setRegexList_def split: sum.splits)
lemma keeps_setPlainList [handler_intros]: "(\<And>c v. I c \<Longrightarrow> I (a v c)) \<Longrightarrow> handler_keeps I (setPlainList a)"
  by (auto simp: handler_keeps_def setPlainList_def)
lemma keeps_setCgroupBase [handler_intros]:
  "(\<And>c v. I c \<Longrightarrow> \<not> Contains v ''..'' \<Longrightarrow> \<not> HasPrefix v ''/'' \<Longrightarrow> I (c\<lparr>CgroupBase := v\<rparr>)) \<Longrightarrow> handler_keeps I setCgroupBase"
  by (auto simp: handler_keeps_def setCgroupBase_def split: if_splits)
lemma keeps_setBlackout [handler_intros]:
  "(\<And>c v tfs. I c \<Longrightarrow> \<forall>tf\<in>set tfs. tf_ok tf \<Longrightarrow> I (c\<lparr>BlackoutSpec := v, BlackoutTimeframes := tfs\<rparr>)) \<Longrightarrow> handler_keeps I setBlackout"
  by (auto simp: handler_keeps_def setBlackout_def Let_def dest: ParseTimeframe_ok split: if_splits sum.splits)

definition file_inv :: "config \<Rightarrow> bool" where
  "file_inv c \<longleftrightarrow>
     \<not> Contains (CgroupBase c) ''..'' \<and> \<not> HasPrefix (CgroupBase c) ''/'' \<and>
     1 \<le> PrometheusMetricsBindPort c \<and> PrometheusMetricsBindPort c \<le> 65535 \<and>
     (\<forall>tf\<in>set (BlackoutTimeframes c). tf_ok tf) \<and>
     0 < MetricsRefreshInterval c \<and> 0 < PatternMinSamples c \<and> 0 < PSIWindowUs c"

lemma handlers_keep_file_inv: "list_all (\<lambda>(k, h). handler_keeps file_inv h) (configFieldHandlers rx)"
  unfolding configFieldHandlers_def list.pred_inject prod.case
  by (intro conjI TrueI handler_intros; simp add: file_inv_def)


lemma setConfigField_keeps:
  assumes "list_all (\<lambda>(k, h). handler_keeps I h) (configFieldHandlers rx)" "I cfg"
    and "setConfigField rx cfg key value = Inr cfg'"
  shows "I cfg'"
proof (cases "map_of (configFieldHandlers rx) key")
  case None
  with assms show ?thesis by (simp add: setConfigField_def)
next
  case (Some h)
  then have "handler_keeps I h"
    using assms(1) by (force simp: list_all_iff dest: map_of_SomeD)
  with Some assms(2,3) show ?thesis by (auto simp: setConfigField_def handler_keeps_def)
qed

lemma loadLines_keeps:
  assumes "list_all (\<lambda>(k, h). handler_keeps I h) (configFieldHandlers rx)"
    and "loadLines rx i lines cfg = Inr cfg'" "I cfg"
  shows "I cfg'"
  using assms
proof (induction rx i lines cfg rule: loadLines.induct)
  case (1 rx i cfg)
  then show ?case by simp
next
  case (2 rx i line0 rest cfg)
  let ?line = "TrimSpace line0"
  show ?case
  proof (cases "?line = [] \<or> HasPrefix ?line ''#''")
    case True
    with 2 show ?thesis by simp
  next
    case False
    with "2.prems"(2) obtain k v cfg1 where *:
      "setConfigField rx cfg (TrimSpace k) (clean_value v) = Inr cfg1" "loadLines rx (Suc i) rest cfg1 = Inr cfg'"
      "SplitN2 ?line CHR ''='' = [k, v]"
      by (auto simp: Let_def split: list.splits sum.splits)
    from setConfigField_keeps [of I, OF "2.prems"(1,3) *(1)] have "I cfg1" .
    with "2.IH"(2) "2.prems"(1) False * show ?thesis by auto
  qed
qed

lemma loadFromFile_keeps:
  assumes "list_all (\<lambda>(k, h). handler_keeps I h) (configFieldHandlers rx)"
    and "loadFromFile rx file cfg = Inr cfg'" "I cfg"
  shows "I cfg'"
  using assms by (auto simp: loadFromFile_def dest: loadLines_keeps split: file_read.splits)

lemma DefaultConfig_file_inv: "file_inv (DefaultConfig pidMax)"
  by (simp add: file_inv_def DefaultConfig_def) (simp add: HasPrefix_def)

lemma loadFromFile_file_inv:
  "loadFromFile rx file (DefaultConfig pidMax) = Inr cfg \<Longrightarrow> file_inv cfg"
  by (rule loadFromFile_keeps [OF handlers_keep_file_inv _ DefaultConfig_file_inv])

lemma file_settings_safe:
  assumes "loadFromFile rx file (DefaultConfig pidMax) = Inr cfg"
  shows "\<not> Contains (CgroupBase cfg) ''..'' \<and> \<not> HasPrefix (CgroupBase cfg) ''/'' \<and>
    1 \<le> PrometheusMetricsBindPort cfg \<and> PrometheusMetricsBindPort cfg \<le> 65535 \<and>
    (\<forall>tf\<in>set (BlackoutTimeframes cfg). tf_ok tf) \<and> 0 < MetricsRefreshInterval cfg \<and> 0 < PSIWindowUs cfg"
  using loadFromFile_file_inv [OF assms] by (simp add: file_inv_def)

section \<open>The environment\<close>

definition field_keeps :: "(config \<Rightarrow> bool) \<Rightarrow> field \<Rightarrow> bool" where
  "field_keeps I f \<longleftrightarrow>
     (case f of
        FString put \<Rightarrow> \<forall>c v. I c \<longrightarrow> I (put v c)
      | FInt get put \<Rightarrow> \<forall>c v. I c \<longrightarrow> I (put v c)
      | FBool get put \<Rightarrow> \<forall>c v. I c \<longrightarrow> I (put v c)
      | FStrings put \<Rightarrow> \<forall>c v. I c \<longrightarrow> I (put v c)
      | FFloat get put \<Rightarrow> \<forall>c v. I c \<longrightarrow> I (put v c)
      | FOther \<Rightarrow> True)"

lemma env_field_keeps: "field_keeps I f \<Longrightarrow> I c \<Longrightarrow> I (fst (env_field k v f c))"
  by (auto simp: field_keeps_def env_field_def split: field.splits option.splits)

lemma env_loop_keeps:
  "list_all (\<lambda>(k, f). field_keeps I f) fs \<Longrightarrow> I cfg \<Longrightarrow> I (fst (env_loop getenv fs cfg))"
proof (induction getenv fs cfg rule: env_loop.induct)
  case (2 getenv k f rest cfg)
  show ?case
  proof (cases "getenv k = []")
    case False
    obtain c1 ws1 where e: "env_field k (getenv k) f cfg = (c1, ws1)" by (metis surj_pair)
    with env_field_keeps [of I f cfg k "getenv k"] "2.prems" have "I c1" by simp
    with "2.IH"(2) [OF False e [symmetric] refl] "2.prems" False e show ?thesis
      by (auto simp: case_prod_beta)
  qed (use 2 in simp)
qed simp

lemma fields_keep_timeframes:
  "list_all (\<lambda>(k, f). field_keeps (\<lambda>c. BlackoutTimeframes c = tfs) f) configFields"
  unfolding configFields_def list.pred_inject prod.case field_keeps_def field.case
  by (intro conjI TrueI allI impI; simp)

lemma env_blackout_ignored:
  "BlackoutTimeframes (fst (loadFromEnvironment getenv cfg)) = BlackoutTimeframes cfg"
  unfolding loadFromEnvironment_def by (rule env_loop_keeps [OF fields_keep_timeframes refl])

section \<open>LoadAndValidate\<close>

lemma LoadAndValidate_cases:
  assumes "LoadAndValidate rx url pm getenv path file = Inr (c, ws)"
  obtains c0 where "loadFromFile rx file (DefaultConfig pm) = Inr c0"
    "loadFromEnvironment getenv c0 = (c, ws)" "config_errors url c = []"
  using assms
  by (auto simp: LoadAndValidate_def validateConfig_def Let_def split: sum.splits prod.splits option.splits if_splits)

lemma in_blackout_range:
  assumes "\<forall>tf\<in>set (BlackoutTimeframes c). tf_ok tf" "IsInBlackout c day hr"
  shows "0 \<le> day \<and> day \<le> 6 \<and> 0 \<le> hr \<and> hr < 23"
  using assms by (fastforce simp: IsInBlackout_def list_ex_iff in_timeframe_def tf_ok_def split: if_splits)

lemma blackout_hours:
  assumes "LoadAndValidate rx url pm getenv path file = Inr (c, ws)" "IsInBlackout c day hr"
  shows "0 \<le> day \<and> day \<le> 6 \<and> 0 \<le> hr \<and> hr < 23"
proof -
  from assms(1) obtain c0 where c0: "loadFromFile rx file (DefaultConfig pm) = Inr c0"
    "loadFromEnvironment getenv c0 = (c, ws)" by (rule LoadAndValidate_cases)
  with env_blackout_ignored [of getenv c0] have "BlackoutTimeframes c = BlackoutTimeframes c0" by simp
  with loadFromFile_file_inv [OF c0(1)] have "\<forall>tf\<in>set (BlackoutTimeframes c). tf_ok tf"
    by (simp add: file_inv_def)
  then show ?thesis using assms(2) by (rule in_blackout_range)
qed

lemma GetNextBlackoutEnd_frame:
  "GetNextBlackoutEnd c day hr = Some e \<Longrightarrow>
     \<exists>tf\<in>set (BlackoutTimeframes c). in_timeframe day hr tf \<and> e = HourEnd tf"
  by (auto simp: GetNextBlackoutEnd_def find_Some_iff split: if_splits)

lemma blackout_until_end:
  assumes "GetNextBlackoutEnd c day hr = Some e" "hr \<le> h" "h < e"
  shows "IsInBlackout c day h"
proof -
  from GetNextBlackoutEnd_frame [OF assms(1)] obtain tf where
    tf: "tf \<in> set (BlackoutTimeframes c)" "in_timeframe day hr tf" "e = HourEnd tf" by blast
  with assms(2,3) have "in_timeframe day h tf" by (simp add: in_timeframe_def)
  with tf(1) show ?thesis by (auto simp: IsInBlackout_def list_ex_iff)
qed

definition config_ok :: "config \<Rightarrow> bool" where
  "config_ok c \<longleftrightarrow>
     1 \<le> CPUReleaseThreshold c \<and> CPUReleaseThreshold c < CPUThreshold c \<and> CPUThreshold c \<le> 100 \<and>
     0 \<le> CPUThresholdDuration c \<and> 5 \<le> PollingInterval c \<and> 5 \<le> MetricsRefreshInterval c \<and>
     5 \<le> MetricsDBWriteInterval c \<and> 1 \<le> MetricsDBRetentionDays c \<and> 1 \<le> UsernameCacheTTL c \<and>
     0 \<le> ProcessMinAgeSeconds c \<and> 0 \<le> SystemUIDMin c \<and> SystemUIDMin c \<le> SystemUIDMax c \<and>
     LogLevel c \<in> set validLogLevels \<and>
     (PSIEventDriven c \<longrightarrow>
        0 < PSICPUStallThreshold c \<and> 0 < PSIOStallThreshold c \<and> 0 < PSIWindowUs c \<and>
        0 < PSIFallbackInterval c \<and> 1 \<le> PSIBoostWeight c \<and> PSIBoostWeight c \<le> 10000 \<and> 0 < PSIBoostDuration c) \<and>
     (RAMEnabled c \<longrightarrow>
        1 \<le> RAMReleaseThreshold c \<and> RAMReleaseThreshold c < RAMThreshold c \<and> RAMThreshold c \<le> 100 \<and>
        (\<exists>v. ParseRAMQuota (RAMQuotaLimited c) = Inr v) \<and> (\<exists>v. ParseRAMQuota (RAMQuotaPerUser c) = Inr v)) \<and>
     (IOEnabled c \<longrightarrow>
        1 \<le> IOReleaseThreshold c \<and> IOReleaseThreshold c < IOThreshold c \<and> IOThreshold c \<le> 100 \<and>
        0 \<le> IOReadIOPS c \<and> 0 \<le> IOWriteIOPS c)"

lemma err_if_Nil [simp]: "err_if b m = [] \<longleftrightarrow> \<not> b"
  by (simp add: err_if_def)

lemma isValidByteQuota_iff: "isValidByteQuota q \<longleftrightarrow> (\<exists>v. ParseRAMQuota q = Inr v)"
  by (auto simp: isValidByteQuota_def ParseRAMQuota_def split: sum.splits if_splits)

lemma no_errors_config_ok:
  assumes "config_errors url c = []" shows "config_ok c"
proof -
  from assms have *: "cpu_errors c = []" "timing_errors c = []" "psi_errors c = []" "ram_errors c = []"
      "io_errors c = []" "system_errors c = []"
    by (simp_all add: config_errors_def)
  note cpu = *(1)[unfolded cpu_errors_def, simplified]
  note timing = *(2)[unfolded timing_errors_def, simplified]
  note psi = *(3)[unfolded psi_errors_def, simplified]
  note sys = *(6)[unfolded system_errors_def, simplified]
  have "PSIEventDriven c \<Longrightarrow> 0 < PSICPUStallThreshold c \<and> 0 < PSIOStallThreshold c \<and> 0 < PSIWindowUs c \<and>
      0 < PSIFallbackInterval c \<and> 1 \<le> PSIBoostWeight c \<and> PSIBoostWeight c \<le> 10000 \<and> 0 < PSIBoostDuration c"
    using psi by force
  moreover have "RAMEnabled c \<Longrightarrow> 1 \<le> RAMReleaseThreshold c \<and> RAMReleaseThreshold c < RAMThreshold c \<and>
      RAMThreshold c \<le> 100 \<and> isValidByteQuota (RAMQuotaLimited c) \<and> isValidByteQuota (RAMQuotaPerUser c)"
    using *(4) by (simp add: ram_errors_def)
  moreover have "IOEnabled c \<Longrightarrow> 1 \<le> IOReleaseThreshold c \<and> IOReleaseThreshold c < IOThreshold c \<and>
      IOThreshold c \<le> 100 \<and> 0 \<le> IOReadIOPS c \<and> 0 \<le> IOWriteIOPS c"
    using *(5) by (simp add: io_errors_def)
  ultimately show ?thesis
    using cpu timing sys by (simp add: config_ok_def isValidByteQuota_iff)
qed

text \<open>C27: what a successful LoadAndValidate guarantees of the configuration, whatever the file and the environment
  held.\<close>

theorem LoadAndValidate_config_ok:
  "LoadAndValidate rx url pm getenv path file = Inr (c, ws) \<Longrightarrow> config_ok c"
  by (erule LoadAndValidate_cases) (rule no_errors_config_ok)

lemma env_bad_boolean:
  "\<exists>ws. loadFromEnvironment (\<lambda>k. if k = ''IO_REVERT_ON_NORMAL'' then ''ture'' else []) c =
      (c\<lparr>IORevertOnNormal := False\<rparr>, [BadBoolean ''IO_REVERT_ON_NORMAL'' ''ture'' (IORevertOnNormal c)])"
  by (simp add: loadFromEnvironment_def configFields_def env_field_def truthy_def falsy_def ToLower_def to_lower_def)

end
