(* ===== verification/ConfigUseProps.thy ===== *)
theory ConfigUseProps
  imports ConfigUse ConfigLoadProps
begin

text \<open>
  What the configuration in use guarantees: the verdict of the filters does not depend on the regex cache, and a user
  list written by \<open>SetUserExcludeList\<close> or \<open>SetUserIncludeList\<close> is the one the loader reads back.
\<close>

section \<open>The regex cache is transparent\<close>

definition cache_ok :: "regexp_lib \<Rightarrow> (string \<rightharpoonup> regex) \<Rightarrow> bool" where
  "cache_ok rx cache \<longleftrightarrow> (\<forall>p re. cache p = Some re \<longrightarrow> rx p = Some re)"

definition matches :: "regexp_lib \<Rightarrow> string \<Rightarrow> string \<Rightarrow> bool" where
  "matches rx p s \<longleftrightarrow> (case rx p of None \<Rightarrow> False | Some re \<Rightarrow> re s)"

lemma cache_ok_empty [simp]: "cache_ok rx Map.empty"
  by (simp add: cache_ok_def)

lemma matchPattern_spec:
  "cache_ok rx cache \<Longrightarrow> fst (matchPattern rx cache p s) = matches rx p s \<and> cache_ok rx (snd (matchPattern rx cache p s))"
  by (auto simp: matchPattern_def matches_def cache_ok_def split: option.splits)

lemma match_any_spec:
  "cache_ok rx cache \<Longrightarrow>
     fst (match_any rx cache ps s) = list_ex (\<lambda>p. matches rx p s) ps \<and> cache_ok rx (snd (match_any rx cache ps s))"
proof (induction ps arbitrary: cache)
  case (Cons p ps)
  then show ?case using matchPattern_spec [OF Cons.prems, of p s]
    by (cases "matchPattern rx cache p s") auto
qed simp

lemma IsUserWhitelisted_spec:
  assumes "cache_ok rx (regexCache c)"
  shows "IsUserWhitelisted rx c u \<longleftrightarrow>
     (UserIncludeList c = [] \<or> list_ex (\<lambda>p. matches rx p u) (UserIncludeList c)) \<and>
     \<not> list_ex (\<lambda>p. matches rx p u) (UserExcludeList c)"
  using match_any_spec [OF assms] by (simp add: IsUserWhitelisted_def IsUserIncluded_def IsUserExcluded_def)

lemma empty_include_everyone:
  "includeListWarning c \<Longrightarrow> UserExcludeList c = [] \<Longrightarrow> IsUserWhitelisted rx c u"
  by (simp add: includeListWarning_def IsUserWhitelisted_def IsUserIncluded_def IsUserExcluded_def)

section \<open>Values survive the file\<close>

definition quiet :: "char \<Rightarrow> bool" where
  "quiet c \<longleftrightarrow> c \<notin> set quote_chars \<and> c \<noteq> CHR ''#'' \<and> c \<noteq> newline"

definition plain_value :: "string \<Rightarrow> bool" where
  "plain_value v \<longleftrightarrow> list_all quiet v \<and> TrimSpace v = v"

definition listable :: "string \<Rightarrow> bool" where
  "listable p \<longleftrightarrow> p \<noteq> [] \<and> plain_value p \<and> CHR '','' \<notin> set p"

lemma quiet_quote: "list_all quiet v \<Longrightarrow> \<forall>x\<in>set v. x \<notin> set quote_chars"
  by (auto simp: list_all_iff quiet_def)

lemma takeWhile_quiet: "list_all quiet v \<Longrightarrow> takeWhile (\<lambda>c. c \<noteq> CHR ''#'') v = v"
  by (induction v) (auto simp: quiet_def)

lemma clean_value_plain: "plain_value v \<Longrightarrow> clean_value v = v"
  using trim_by_no [OF quiet_quote, of v]
  by (simp add: clean_value_def plain_value_def Let_def takeWhile_quiet Trim_def)

lemma hd_last_trim:
  "TrimSpace s = s \<Longrightarrow> s \<noteq> [] \<Longrightarrow> \<not> is_space (hd s) \<and> \<not> is_space (last s)"
  using trim_by_ends [of is_space s] by (auto simp: TrimSpace_def)

lemma TrimSpace_ends: "s \<noteq> [] \<Longrightarrow> \<not> is_space (hd s) \<Longrightarrow> \<not> is_space (last s) \<Longrightarrow> TrimSpace s = s"
  by (simp add: TrimSpace_def trim_by_id)

lemma Join_hd_last:
  "ps \<noteq> [] \<Longrightarrow> \<forall>p\<in>set ps. p \<noteq> [] \<Longrightarrow> Join ps sep \<noteq> [] \<and> hd (Join ps sep) = hd (hd ps) \<and> last (Join ps sep) = last (last ps)"
proof (induction ps)
  case (Cons p ps)
  then show ?case
    by (cases ps) (auto simp: Join_Cons)
qed simp

lemma set_Join: "set (Join ps sep) \<subseteq> (\<Union>p\<in>set ps. set p) \<union> set sep"
proof (induction ps)
  case (Cons p ps)
  then show ?case by (cases ps) (auto simp: Join_Cons)
qed simp

lemma comma_quiet: "quiet CHR '',''"
  by (simp add: quiet_def quote_chars_def newline_def)

lemma Join_plain:
  assumes "\<forall>p\<in>set ps. listable p"
  shows "plain_value (Join ps '','')"
proof (cases "ps = []")
  case True
  then show ?thesis by (simp add: plain_value_def TrimSpace_def trim_by_def)
next
  case False
  have 1: "\<forall>p\<in>set ps. p \<noteq> []" using assms by (auto simp: listable_def)
  note J = Join_hd_last [OF False 1, of "'',''"]
  have "\<not> is_space (hd (hd ps))" "\<not> is_space (last (last ps))"
    using assms False hd_last_trim [of "hd ps"] hd_last_trim [of "last ps"]
    by (auto simp: listable_def plain_value_def)
  with J have "TrimSpace (Join ps '','') = Join ps '',''" by (intro TrimSpace_ends) auto
  moreover have "list_all quiet (Join ps '','')"
    using set_Join [of ps "'',''"] assms comma_quiet by (fastforce simp: list_all_iff listable_def plain_value_def)
  ultimately show ?thesis by (simp add: plain_value_def)
qed

lemma compile_all_ok:
  "\<forall>p\<in>set ps. listable p \<and> rx p \<noteq> None \<Longrightarrow> compile_all rx ctx ps = Inr ps"
  by (induction ps) (auto simp: listable_def plain_value_def Let_def)

lemma parseRegexList_Join:
  assumes "\<forall>p\<in>set ps. listable p \<and> rx p \<noteq> None"
  shows "parseRegexList rx (Join ps '','') ctx = Inr ps"
proof (cases "ps = []")
  case True
  then show ?thesis by (simp add: parseRegexList_def TrimSpace_def trim_by_def)
next
  case False
  have J: "TrimSpace (Join ps '','') = Join ps '',''" using Join_plain assms by (auto simp: plain_value_def)
  have "Join ps '','' \<noteq> []" using Join_hd_last [OF False] assms by (auto simp: listable_def)
  moreover have "Split (Join ps '','') CHR '','' = ps"
    using False assms by (intro Split_Join) (auto simp: listable_def)
  ultimately show ?thesis using compile_all_ok [OF assms] J by (simp add: parseRegexList_def)
qed

lemma trim_by_strip:
  assumes "\<forall>x\<in>set a. P x" "\<forall>x\<in>set b. P x" "v \<noteq> []" "\<not> P (hd v)" "\<not> P (last v)"
  shows "trim_by P (a @ v @ b) = v"
proof -
  have "dropWhile P (a @ v @ b) = v @ b" using assms by (cases v) auto
  moreover have "dropWhile P (rev b @ rev v) = dropWhile P (rev v)"
    by (rule dropWhile_append2) (use assms(2) in simp)
  moreover have "dropWhile P (rev v) = rev v"
    using assms(3,5) by (cases v rule: rev_cases) auto
  ultimately show ?thesis by (simp add: trim_by_def)
qed

lemma TrimSpace_hash:
  assumes "\<not> is_space x"
  shows "\<exists>n'. TrimSpace (x # w @ CHR ''#'' # n) = x # w @ CHR ''#'' # n'"
proof -
  have h: "\<not> is_space CHR ''#''" by (simp add: is_space_def)
  have d: "dropWhile is_space (rev n @ CHR ''#'' # rev w @ [x]) = dropWhile is_space (rev n) @ CHR ''#'' # rev w @ [x]"
    using h by (induction "rev n" arbitrary: n rule: list.induct) (auto simp: dropWhile_append)
  show ?thesis using assms by (simp add: TrimSpace_def trim_by_def d)
qed

lemma quiet_ends:
  assumes "plain_value v" "v \<noteq> []"
  shows "hd v \<notin> set quote_chars" "last v \<notin> set quote_chars" "\<not> is_space (hd v)" "\<not> is_space (last v)"
  using assms hd_last_trim [of v] by (auto simp: plain_value_def list_all_iff quiet_def)

lemma quote_facts: "\<not> is_space CHR 0x22" "CHR 0x22 \<in> set quote_chars" "CHR '' '' \<notin> set quote_chars" "is_space CHR '' ''"
  by (auto simp: is_space_def quote_chars_def)

lemma clean_value_quoted:
  assumes "plain_value v" "v \<noteq> []"
  shows "clean_value (CHR 0x22 # v @ [CHR 0x22]) = v \<and>
         clean_value (CHR 0x22 # v @ CHR 0x22 # '' #'' @ note) = v @ [CHR 0x22]"
proof
  note q = quiet_ends [OF assms]
  have tw: "takeWhile (\<lambda>c. c \<noteq> CHR ''#'') (CHR 0x22 # v @ CHR 0x22 # r) = CHR 0x22 # v @ CHR 0x22 # takeWhile (\<lambda>c. c \<noteq> CHR ''#'') r" for r
    using assms(1) by (auto simp: plain_value_def list_all_iff quiet_def takeWhile_append2)
  have s1: "TrimSpace (CHR 0x22 # v @ [CHR 0x22]) = CHR 0x22 # v @ [CHR 0x22]"
    by (rule TrimSpace_ends) (simp_all add: quote_facts)
  have "Trim ([CHR 0x22] @ v @ [CHR 0x22]) quote_chars = v"
    unfolding Trim_def by (rule trim_by_strip) (use q assms in \<open>auto simp: quote_facts\<close>)
  with s1 tw [of "[]"] assms(1) show "clean_value (CHR 0x22 # v @ [CHR 0x22]) = v"
    by (simp add: clean_value_def plain_value_def)
  obtain n' where n': "TrimSpace (CHR 0x22 # (v @ CHR 0x22 # '' '') @ CHR ''#'' # note) =
      CHR 0x22 # (v @ CHR 0x22 # '' '') @ CHR ''#'' # n'"
    using TrimSpace_hash [OF quote_facts(1)] by blast
  have "Trim ([CHR 0x22] @ (v @ [CHR 0x22, CHR '' '']) @ []) quote_chars = v @ [CHR 0x22, CHR '' '']"
    unfolding Trim_def by (rule trim_by_strip) (use q assms in \<open>auto simp: quote_facts\<close>)
  moreover have "TrimSpace ([] @ (v @ [CHR 0x22]) @ [CHR '' '']) = v @ [CHR 0x22]"
    unfolding TrimSpace_def by (rule trim_by_strip) (use q assms in \<open>auto simp: quote_facts\<close>)
  ultimately show "clean_value (CHR 0x22 # v @ CHR 0x22 # '' #'' @ note) = v @ [CHR 0x22]"
    using n' tw [of "CHR '' '' # CHR ''#'' # n'"] by (simp add: clean_value_def)
qed
lemma nan_ratio_accepted:
  "setConfigField rx c ''RAM_HIGH_RATIO'' ''NaN'' = Inr (c\<lparr>RAMHighRatio := NaN\<rparr>) \<and>
   (config_errors url (c\<lparr>RAMHighRatio := NaN\<rparr>) = config_errors url (c\<lparr>RAMHighRatio := Fin 1\<rparr>)) \<and>
   GetRAMHighRatio (c\<lparr>RAMHighRatio := NaN\<rparr>) = NaN"
proof (intro conjI)
  have "ParseFloat ''NaN'' = Some NaN" by code_simp
  then show "setConfigField rx c ''RAM_HIGH_RATIO'' ''NaN'' = Inr (c\<lparr>RAMHighRatio := NaN\<rparr>)"
    by (simp add: setConfigField_def configFieldHandlers_def setFloat_def)
  show "config_errors url (c\<lparr>RAMHighRatio := NaN\<rparr>) = config_errors url (c\<lparr>RAMHighRatio := Fin 1\<rparr>)"
    by (simp add: config_errors_def cpu_errors_def timing_errors_def psi_errors_def hook_errors_def ram_errors_def
      io_errors_def system_errors_def f64_gt_def)
  show "GetRAMHighRatio (c\<lparr>RAMHighRatio := NaN\<rparr>) = NaN"
    by (simp add: GetRAMHighRatio_def f64_gt_def)
qed

section \<open>What SaveToFile leaves on disk\<close>

context regular_files begin

lemma save_backup_reads:
  assumes "\<forall>p. regular p" "save_backup os path ts w = (e, w1)"
  shows "ReadFile os path w1 = ReadFile os path w"
  using assms read_other [of "path @ ''.backup_'' @ ts" _ w _ _ path]
  by (auto simp: save_backup_def split: if_splits sum.splits prod.splits option.splits)

lemma SaveToFile_content:
  assumes "\<forall>p. regular p" "SaveToFile os c path ts w = (None, w')" "ReadFile os path w = Inr content"
  shows "ReadFile os path w' = Inr (Join (update_lines c False False (Split content newline)) [newline])"
proof -
  from assms(2) obtain w1 where w1: "save_backup os path ts w = (None, w1)"
    by (auto simp: SaveToFile_def split: prod.splits option.splits)
  note r = save_backup_reads [OF assms(1) w1]
  let ?new = "Join (update_lines c False False (Split content newline)) [newline]"
  from assms w1 r obtain w2 where w2: "WriteFile os (path @ ''.tmp'') ?new w1 = (None, w2)"
    "Rename os (path @ ''.tmp'') path w2 = (None, w')"
    by (auto simp: SaveToFile_def updateConfigLines_def Let_def split: prod.splits option.splits)
  from read_renamed [OF _ _ w2(2)] read_written [OF _ w2(1)] assms(1) show ?thesis by simp
qed

end

section \<open>Loading the file that was saved\<close>

definition list_keys :: "string list" where
  "list_keys = [''USER_INCLUDE_LIST'', ''USER_EXCLUDE_LIST'', ''USER_WHITELIST'']"

definition line_key :: "string \<Rightarrow> string" where
  "line_key t = TrimSpace (hd (SplitN2 t CHR ''=''))"

definition tame_line :: "string \<Rightarrow> bool" where
  "tame_line line \<longleftrightarrow>
     (let t = TrimSpace line in
      HasPrefix t ''USER_INCLUDE_LIST='' \<or> HasPrefix t ''USER_EXCLUDE_LIST='' \<or> line_key t \<notin> set list_keys)"

definition lists_are :: "string list \<Rightarrow> string list \<Rightarrow> config \<Rightarrow> bool" where
  "lists_are inc exc c \<longleftrightarrow> UserIncludeList c = inc \<and> UserExcludeList c = exc"

lemma handlers_keep_lists:
  "list_all (\<lambda>(k, h). k \<in> set list_keys \<or> handler_keeps (lists_are inc exc) h) (configFieldHandlers rx)"
  unfolding configFieldHandlers_def list.pred_inject prod.case
  by (intro conjI TrueI; (simp add: list_keys_def; fail | (rule disjI2, rule handler_intros; simp add: lists_are_def)))

lemma lists_are_refl: "lists_are (UserIncludeList c) (UserExcludeList c) c"
  by (simp add: lists_are_def)

lemma other_key_keeps_lists:
  assumes "k \<notin> set list_keys" "setConfigField rx cfg k v = Inr cfg'"
  shows "UserIncludeList cfg' = UserIncludeList cfg \<and> UserExcludeList cfg' = UserExcludeList cfg"
proof (cases "map_of (configFieldHandlers rx) k")
  case None
  with assms show ?thesis by (simp add: setConfigField_def)
next
  case (Some h)
  then have "(k, h) \<in> set (configFieldHandlers rx)" by (rule map_of_SomeD)
  with handlers_keep_lists [of "UserIncludeList cfg" "UserExcludeList cfg" rx] assms(1)
  have "handler_keeps (lists_are (UserIncludeList cfg) (UserExcludeList cfg)) h"
    unfolding list_all_iff by blast
  moreover have "h cfg v = Inr cfg'" using Some assms(2) by (simp add: setConfigField_def)
  ultimately have "lists_are (UserIncludeList cfg) (UserExcludeList cfg) cfg'"
    using lists_are_refl unfolding handler_keeps_def by blast
  then show ?thesis by (simp add: lists_are_def)
qed

definition value_decides :: "handler \<Rightarrow> bool" where
  "value_decides h \<longleftrightarrow> (\<forall>c1 c2 v. isl (h c1 v) = isl (h c2 v))"

lemma handlers_value_decides: "list_all (\<lambda>(k, h). value_decides h) (configFieldHandlers rx)"
  unfolding configFieldHandlers_def list.pred_inject prod.case value_decides_def
  by (intro conjI TrueI allI; simp add: setString_def setStringTransform_def setInt_def setPositiveInt_def setFloat_def
    setBool_def setPort_def setCgroupBase_def setBlackout_def setRegexList_def setPlainList_def Let_def
    split: option.splits sum.splits)

lemma setConfigField_value_decides: "isl (setConfigField rx c1 k v) = isl (setConfigField rx c2 k v)"
proof (cases "map_of (configFieldHandlers rx) k")
  case (Some h)
  then have "value_decides h"
    using handlers_value_decides [of rx] by (force simp: list_all_iff dest: map_of_SomeD)
  with Some show ?thesis by (auto simp: setConfigField_def value_decides_def)
qed (simp add: setConfigField_def)


lemma load_list_line:
  assumes "line = k @ CHR ''='' # Join ps '',''" "\<forall>p\<in>set ps. listable p \<and> rx p \<noteq> None"
    and "map_of (configFieldHandlers rx) k = Some (setRegexList rx '''' a)"
    and "k \<noteq> []" "\<not> is_space (hd k)" "hd k \<noteq> CHR ''#''" "TrimSpace k = k" "CHR ''='' \<notin> set k"
  shows "loadLines rx i (line # rest) cfg = loadLines rx (Suc i) rest (a ps cfg)"
proof -
  have pv: "plain_value (Join ps '','')" using Join_plain assms(2) by blast
  have sp: "SplitN2 line CHR ''='' = [k, Join ps '','']" using assms(1,8) by (simp add: SplitN2_app)
  have "\<not> is_space (last line)"
    using assms(1) pv hd_last_trim [of "Join ps '',''"] by (auto simp: plain_value_def is_space_def)
  with assms have tl: "TrimSpace line = line" "line \<noteq> []" "\<not> HasPrefix line ''#''"
    by (cases k; auto intro!: TrimSpace_ends simp: HasPrefix_def)+
  have cv: "clean_value (Join ps '','') = Join ps '',''" by (rule clean_value_plain [OF pv])
  have "setConfigField rx cfg k (Join ps '','') = Inr (a ps cfg)"
    using assms(2,3) by (simp add: setConfigField_def setRegexList_def parseRegexList_Join)
  then show ?thesis using tl sp cv assms(7) by (simp add: Let_def)
qed

lemma load_include_line:
  assumes "\<forall>p\<in>set (UserIncludeList c). listable p \<and> rx p \<noteq> None"
  shows "loadLines rx i (include_line c # rest) cfg =
         loadLines rx (Suc i) rest (cfg\<lparr>UserIncludeList := UserIncludeList c\<rparr>)"
  by (rule load_list_line [where k = "''USER_INCLUDE_LIST''", OF _ assms])
     (simp_all add: include_line_def configFieldHandlers_def is_space_def TrimSpace_def trim_by_def)

lemma load_exclude_line:
  assumes "\<forall>p\<in>set (UserExcludeList c). listable p \<and> rx p \<noteq> None"
  shows "loadLines rx i (exclude_line c # rest) cfg =
         loadLines rx (Suc i) rest (cfg\<lparr>UserExcludeList := UserExcludeList c\<rparr>)"
  by (rule load_list_line [where k = "''USER_EXCLUDE_LIST''", OF _ assms])
     (simp_all add: exclude_line_def configFieldHandlers_def is_space_def TrimSpace_def trim_by_def)

lemma loadLines_Cons_ok:
  assumes "loadLines rx i (line # rest) d = Inr d0"
  obtains (skip) "TrimSpace line = [] \<or> HasPrefix (TrimSpace line) ''#''" "loadLines rx (Suc i) rest d = Inr d0"
  | (set_field) k v d' where "\<not> (TrimSpace line = [] \<or> HasPrefix (TrimSpace line) ''#'')"
      "SplitN2 (TrimSpace line) CHR ''='' = [k, v]"
      "setConfigField rx d (TrimSpace k) (clean_value v) = Inr d'" "loadLines rx (Suc i) rest d' = Inr d0"
  using assms by (auto simp: Let_def split: if_splits list.splits sum.splits)

lemma load_update_lines:
  assumes "\<forall>p\<in>set (UserIncludeList c). listable p \<and> rx p \<noteq> None"
    and "\<forall>p\<in>set (UserExcludeList c). listable p \<and> rx p \<noteq> None"
  shows "loadLines rx i old d = Inr d0 \<Longrightarrow> \<forall>line\<in>set old. tame_line line \<Longrightarrow>
    (inc \<longrightarrow> UserIncludeList cfg = UserIncludeList c) \<Longrightarrow> (exc \<longrightarrow> UserExcludeList cfg = UserExcludeList c) \<Longrightarrow>
    \<exists>d1. loadLines rx j (update_lines c inc exc old) cfg = Inr d1 \<and>
      UserIncludeList d1 = UserIncludeList c \<and> UserExcludeList d1 = UserExcludeList c"
proof (induction old arbitrary: i j d cfg inc exc)
  case Nil
  then show ?case
    by (auto simp: load_include_line [OF assms(1)] load_exclude_line [OF assms(2)] simp del: loadLines.simps(2))
next
  case (Cons line rest)
  let ?t = "TrimSpace line"
  from Cons.prems(1) show ?case
  proof (cases rule: loadLines_Cons_ok)
    case skip
    from Cons.IH [OF skip(2), of inc cfg exc "Suc j"] Cons.prems skip(1) show ?thesis by simp
  next
    case (set_field k v d')
    note IH = Cons.IH [OF set_field(4)]
    have tame: "\<forall>l\<in>set rest. tame_line l" using Cons.prems(2) by simp
    consider (inc) "HasPrefix ?t ''USER_INCLUDE_LIST=''"
      | (exc) "\<not> HasPrefix ?t ''USER_INCLUDE_LIST=''" "HasPrefix ?t ''USER_EXCLUDE_LIST=''"
      | (other) "\<not> HasPrefix ?t ''USER_INCLUDE_LIST=''" "\<not> HasPrefix ?t ''USER_EXCLUDE_LIST=''" by blast
    then show ?thesis
    proof cases
      case inc
      with set_field(1) have "update_lines c inc exc (line # rest) = include_line c # update_lines c True exc rest" for inc
        by simp
      with IH [of True "cfg\<lparr>UserIncludeList := UserIncludeList c\<rparr>" exc "Suc j"] tame Cons.prems(4)
      show ?thesis by (simp add: load_include_line [OF assms(1)] del: loadLines.simps(2))
    next
      case exc
      with set_field(1) have "update_lines c inc exc (line # rest) = exclude_line c # update_lines c inc True rest" for exc
        by simp
      with IH [of inc "cfg\<lparr>UserExcludeList := UserExcludeList c\<rparr>" True "Suc j"] tame Cons.prems(3)
      show ?thesis by (simp add: load_exclude_line [OF assms(2)] del: loadLines.simps(2))
    next
      case other
      with set_field(1) have u: "update_lines c inc exc (line # rest) = line # update_lines c inc exc rest" by simp
      have key: "TrimSpace k \<notin> set list_keys"
        using Cons.prems(2) other set_field(2) by (simp add: tame_line_def line_key_def Let_def)
      from setConfigField_value_decides [of rx cfg "TrimSpace k" "clean_value v" d] set_field(3)
      obtain cfg' where cfg': "setConfigField rx cfg (TrimSpace k) (clean_value v) = Inr cfg'"
        by (cases "setConfigField rx cfg (TrimSpace k) (clean_value v)") auto
      from other_key_keeps_lists [OF key this] Cons.prems(3,4)
      have "inc \<longrightarrow> UserIncludeList cfg' = UserIncludeList c" "exc \<longrightarrow> UserExcludeList cfg' = UserExcludeList c" by simp_all
      from IH [OF tame this, of "Suc j"] show ?thesis
        using u set_field(1,2) cfg' by (simp add: Let_def)
    qed
  qed
qed

lemma update_lines_no_newline:
  assumes "\<forall>p\<in>set (UserIncludeList c). listable p" "\<forall>p\<in>set (UserExcludeList c). listable p"
  shows "\<forall>l\<in>set old. newline \<notin> set l \<Longrightarrow> \<forall>l\<in>set (update_lines c inc exc old). newline \<notin> set l"
proof -
  have n: "newline \<notin> set (Join ps '','')" if "\<forall>p\<in>set ps. listable p" for ps
    using Join_plain [OF that] by (auto simp: plain_value_def list_all_iff quiet_def)
  have "newline \<notin> set (include_line c)" "newline \<notin> set (exclude_line c)"
    using n assms by (simp_all add: include_line_def exclude_line_def newline_def)
  then show "\<forall>l\<in>set old. newline \<notin> set l \<Longrightarrow> \<forall>l\<in>set (update_lines c inc exc old). newline \<notin> set l"
    by (induction c inc exc old rule: update_lines.induct) (auto simp: Let_def)
qed

lemma update_lines_nonempty: "update_lines c inc exc (l # ls) \<noteq> []"
  by (simp add: Let_def)

context regular_files begin

lemma SaveToFile_roundtrip:
  assumes "\<forall>p. regular p" "SaveToFile os c path ts w = (None, w')"
    and "ReadFile os path w = Inr content" "loadFromFile rx (FileData content) d = Inr d0"
    and "\<forall>line\<in>set (Split content newline). tame_line line"
    and "\<forall>p\<in>set (UserIncludeList c). listable p \<and> rx p \<noteq> None"
    and "\<forall>p\<in>set (UserExcludeList c). listable p \<and> rx p \<noteq> None"
  shows "\<exists>saved d1. ReadFile os path w' = Inr saved \<and> loadFromFile rx (FileData saved) d = Inr d1 \<and>
      UserIncludeList d1 = UserIncludeList c \<and> UserExcludeList d1 = UserExcludeList c"
proof -
  let ?old = "Split content newline" and ?new = "update_lines c False False (Split content newline)"
  have "\<forall>l\<in>set ?old. newline \<notin> set l" using split_by_parts by (fastforce simp: Split_def)
  with assms(6,7) have "\<forall>l\<in>set ?new. newline \<notin> set l" by (intro update_lines_no_newline) auto
  moreover have "?new \<noteq> []" using update_lines_nonempty Split_nonempty by (metis neq_Nil_conv)
  ultimately have "Split (Join ?new [newline]) newline = ?new" by (intro Split_Join)
  moreover from load_update_lines [OF assms(6,7) _ assms(5), of 0 d d0 False d False 0] assms(4)
  obtain d1 where "loadLines rx 0 ?new d = Inr d1" "UserIncludeList d1 = UserIncludeList c"
    "UserExcludeList d1 = UserExcludeList c" by (auto simp: loadFromFile_def)
  ultimately show ?thesis using SaveToFile_content [OF assms(1-3)] by (simp add: loadFromFile_def)
qed

end


definition any_regex :: regexp_lib where "any_regex p = Some (\<lambda>s. p = s)"

definition sample_conf :: string where
  "sample_conf = ''USE_SYSLOG=on'' @ [newline] @ ''USER_EXCLUDE_LIST=bob''"

section \<open>The theorems at work\<close>

lemma Split_newline_none: "newline \<notin> set s \<Longrightarrow> Split s newline = [s]"
  by (auto simp: Split_def intro!: split_by_no_sep)

definition no_env :: "string \<Rightarrow> string" where "no_env k = []"
definition no_url :: url_lib where "no_url u = None"

lemma env_loop_none: "env_loop no_env fs c = (c, [])"
  by (induction fs) (auto simp: no_env_def)

lemma default_valid: "config_errors no_url (DefaultConfig 4194304) = []"
  by code_simp

lemma LoadAndValidate_config_ok_witness:
  "LoadAndValidate any_regex no_url 4194304 no_env ''/etc/resman.conf'' FileMissing = Inr (DefaultConfig 4194304, []) \<and>
   config_ok (DefaultConfig 4194304)"
proof -
  have "LoadAndValidate any_regex no_url 4194304 no_env ''/etc/resman.conf'' FileMissing = Inr (DefaultConfig 4194304, [])"
    by (simp add: LoadAndValidate_def loadFromFile_def loadFromEnvironment_def env_loop_none validateConfig_def default_valid)
  with LoadAndValidate_config_ok [OF this] show ?thesis by simp
qed

definition office_hours :: config where
  "office_hours = (DefaultConfig 4194304)\<lparr>BlackoutSpec := ''1-5 8-18'',
     BlackoutTimeframes := [\<lparr>DaysOfWeek = [1, 2, 3, 4, 5], HourStart = 8, HourEnd = 18\<rparr>]\<rparr>"

lemma load_office_hours:
  "loadFromFile any_regex (FileData ''BLACKOUT=1-5 8-18'') (DefaultConfig 4194304) = Inr office_hours"
proof -
  have sp: "Split ''BLACKOUT=1-5 8-18'' newline = [''BLACKOUT=1-5 8-18'']" by code_simp
  have ln: "TrimSpace ''BLACKOUT=1-5 8-18'' = ''BLACKOUT=1-5 8-18''" by code_simp
  have kv: "SplitN2 ''BLACKOUT=1-5 8-18'' CHR ''='' = [''BLACKOUT'', ''1-5 8-18'']" by code_simp
  have k: "TrimSpace ''BLACKOUT'' = ''BLACKOUT''" "clean_value ''1-5 8-18'' = ''1-5 8-18''" "TrimSpace ''1-5 8-18'' = ''1-5 8-18''" by code_simp+
  have p: "ParseTimeframe ''1-5 8-18'' = Inr [\<lparr>DaysOfWeek = [1, 2, 3, 4, 5], HourStart = 8, HourEnd = 18\<rparr>]" by code_simp
  have "setConfigField any_regex (DefaultConfig 4194304) ''BLACKOUT'' ''1-5 8-18'' = Inr office_hours"
    by (simp add: setConfigField_def configFieldHandlers_def setBlackout_def Let_def k p office_hours_def)
  then show ?thesis by (simp add: loadFromFile_def sp ln kv k HasPrefix_def Let_def)
qed

lemma load_office_hours_valid:
  "LoadAndValidate any_regex no_url 4194304 no_env ''/etc/resman.conf'' (FileData ''BLACKOUT=1-5 8-18'') = Inr (office_hours, [])"
proof -
  have "config_errors no_url office_hours = config_errors no_url (DefaultConfig 4194304)"
    by (simp add: office_hours_def config_errors_def cpu_errors_def timing_errors_def psi_errors_def hook_errors_def
      ram_errors_def io_errors_def system_errors_def)
  then show ?thesis
    by (simp add: LoadAndValidate_def load_office_hours loadFromEnvironment_def env_loop_none validateConfig_def default_valid)
qed

lemma blackout_hours_witness:
  "IsInBlackout office_hours 3 17 \<and> 0 \<le> (3 :: int) \<and> (3 :: int) \<le> 6 \<and> 0 \<le> (17 :: int) \<and> (17 :: int) < 23"
proof -
  have "IsInBlackout office_hours 3 17"
    by (simp add: office_hours_def IsInBlackout_def in_timeframe_def)
  with blackout_hours [OF load_office_hours_valid this] show ?thesis by simp
qed

lemma blackout_until_end_witness:
  "GetNextBlackoutEnd office_hours 3 9 = Some 18 \<and> IsInBlackout office_hours 3 17"
proof -
  have "GetNextBlackoutEnd office_hours 3 9 = Some 18"
    by (simp add: office_hours_def GetNextBlackoutEnd_def IsInBlackout_def in_timeframe_def)
  with blackout_until_end [OF this, of 17] show ?thesis by simp
qed

lemma file_settings_safe_witness:
  "\<not> Contains (CgroupBase office_hours) ''..'' \<and> tf_ok \<lparr>DaysOfWeek = [1, 2, 3, 4, 5], HourStart = 8, HourEnd = 18\<rparr>"
  using file_settings_safe [OF load_office_hours] by (simp add: office_hours_def)

lemma ParseRAMQuota_suffixed_witness:
  "\<exists>v. ParseRAMQuota (show_digits 16777216 @ ''T'') = Inr v \<and> uint v = 0"
  using ParseRAMQuota_suffixed [of 16777216 "''T''" "1024 * 1024 * 1024 * 1024"] by (simp add: quota_suffixes_def)

lemma quota_loop_order_witness: "quota_loop (rev quota_suffixes) ''512M'' = Inr (512 * 1024 * 1024)"
proof -
  have "quota_loop quota_suffixes ''512M'' = Inr (512 * 1024 * 1024)" by code_simp
  then show ?thesis using quota_loop_order [of "rev quota_suffixes" "''512M''"] by simp
qed

lemma IsUserWhitelisted_spec_witness:
  "IsUserWhitelisted any_regex ((DefaultConfig 4194304)\<lparr>UserIncludeList := [''bob''], UserExcludeList := [''eve'']\<rparr>) ''bob''"
  by (subst IsUserWhitelisted_spec) (simp_all add: DefaultConfig_def matches_def any_regex_def)

lemma clean_value_quoted_witness: "clean_value (CHR 0x22 # ''abc'' @ CHR 0x22 # '' #'' @ ''x'') = ''abc'' @ [CHR 0x22]"
  by (rule conjunct2 [OF clean_value_quoted]) code_simp+

end
