(* ===== verification/DecisionProps.thy ===== *)
theory DecisionProps
  imports ConfigUseProps Decision
begin

text \<open>
  What the decision engine guarantees: the exact conditions of each decision, no activation on metrics that released the
  limits, the meaning of the duration windows and of the stability counters over sequences of calls.
\<close>

lemmas decision_defs = makeDecision_def decide_active_def decide_inactive_def

lemma tracker_Reset_new [simp]: "tracker_Reset t = new_tracker"
  by (simp add: tracker_Reset_def new_tracker_def)

section \<open>When a decision is taken\<close>

text \<open>The IO verdict of \<open>makeDecision\<close>.\<close>

definition io_ready :: "config \<Rightarrow> time \<Rightarrow> system_metrics \<Rightarrow> 'm decision_state_scheme \<Rightarrow> bool" where
  "io_ready cfg now m s = fst (io_window cfg now m (ioThresholdTracker s))"

definition cpu_ready :: "config \<Rightarrow> time \<Rightarrow> system_metrics \<Rightarrow> 'm decision_state_scheme \<Rightarrow> bool" where
  "cpu_ready cfg now m s \<longleftrightarrow> cpu_exceeded cfg m \<and>
     (CPUThresholdDuration cfg \<le> 0 \<or>
      fst (ShouldActivateLimits now (LimitedUsersCPUUsage m) (f64_of_int (CPUThreshold cfg))
             (seconds (CPUThresholdDuration cfg)) (thresholdTracker s)))"

lemma makeDecision_ACTIVATE:
  "fst (fst (makeDecision cfg now mc m s)) = ACTIVATE_LIMITS \<longleftrightarrow>
     \<not> limitsActive s \<and> TotalCores m > MinSystemCores cfg \<and> (IgnoreSystemLoad cfg \<or> \<not> SystemUnderLoad m) \<and>
     (cpu_ready cfg now m s \<or> ram_exceeded cfg m \<or> io_ready cfg now m s)"
  by (simp add: makeDecision_def decide_active_def decide_inactive_def io_ready_def cpu_ready_def Let_def
      split: prod.splits if_splits; auto)

lemma makeDecision_DEACTIVATE:
  "fst (fst (makeDecision cfg now mc m s)) = DEACTIVATE_LIMITS \<longleftrightarrow>
     limitsActive s \<and> time_Sub now (limitsAppliedTime s) \<ge> seconds (MinActiveTime cfg) \<and>
     all_below cfg m \<and> \<not> SystemUnderLoad m \<and>
     (\<forall>uid\<in>set (GetLimitedUsers mc). stable_count (count_samples cfg mc (underThreshold s)) uid \<ge> 3)"
  by (simp add: makeDecision_def decide_active_def decide_inactive_def Let_def list_all_iff not_less
      split: prod.splits if_splits; auto)

text \<open>C8: the exact conditions under which makeDecision activates and under which it deactivates the limits, for
  every configuration, clock, collector answer and state of the trackers.\<close>

theorem decision_characterisation:
  "(fst (fst (makeDecision cfg now mc m s)) = ACTIVATE_LIMITS \<longleftrightarrow>
     \<not> limitsActive s \<and> TotalCores m > MinSystemCores cfg \<and> (IgnoreSystemLoad cfg \<or> \<not> SystemUnderLoad m) \<and>
     (cpu_ready cfg now m s \<or> ram_exceeded cfg m \<or> io_ready cfg now m s)) \<and>
   (fst (fst (makeDecision cfg now mc m s)) = DEACTIVATE_LIMITS \<longleftrightarrow>
     limitsActive s \<and> time_Sub now (limitsAppliedTime s) \<ge> seconds (MinActiveTime cfg) \<and>
     all_below cfg m \<and> \<not> SystemUnderLoad m \<and>
     (\<forall>uid\<in>set (GetLimitedUsers mc). stable_count (count_samples cfg mc (underThreshold s)) uid \<ge> 3))"
  by (simp only: makeDecision_ACTIVATE makeDecision_DEACTIVATE)

section \<open>Hysteresis\<close>

lemma f64_below_above:
  assumes "f64_lt x (f64_of_int a)" "a < b" 
  shows "\<not> f64_ge x (f64_of_int b)"
proof -
  have "f64_le (f64_of_int a) (f64_of_int b)" using assms(2) by (intro f64_of_int_mono) simp
  with assms(1) have "f64_lt x (f64_of_int b)" by (rule f64_lt_le_trans)
  then show ?thesis by (simp add: f64_ge_def f64_lt_not_le)
qed

lemma below_not_exceeded:
  assumes "config_ok cfg"
  shows "cpu_below cfg m \<Longrightarrow> \<not> cpu_exceeded cfg m" "ram_below cfg m \<Longrightarrow> \<not> ram_exceeded cfg m"
    "io_below cfg m \<Longrightarrow> \<not> io_exceeded cfg m"
  using assms f64_below_above
  by (fastforce simp: config_ok_def cpu_below_def cpu_exceeded_def ram_below_def ram_exceeded_def io_below_def io_exceeded_def
        split: if_splits option.splits)+

lemma io_ready_exceeded: "io_ready cfg now m s \<Longrightarrow> io_exceeded cfg m"
  by (auto simp: io_ready_def io_window_def split: if_splits prod.splits)

text \<open>C12: hysteresis. With a validated configuration no snapshot of the metrics makes the engine deactivate the
  limits in one state and activate them in another.\<close>

theorem no_flapping:
  assumes "config_ok cfg" "fst (fst (makeDecision cfg now mc m s)) = DEACTIVATE_LIMITS"
  shows "fst (fst (makeDecision cfg now' mc' m s')) \<noteq> ACTIVATE_LIMITS"
proof -
  from assms(2) have "all_below cfg m" by (simp add: makeDecision_DEACTIVATE)
  with below_not_exceeded [OF assms(1), of m] io_ready_exceeded [of cfg now' m s'] show ?thesis
    by (auto simp: makeDecision_ACTIVATE all_below_def cpu_ready_def)
qed

section \<open>The duration window of the CPU\<close>

text \<open>The samples a tracker has seen since its reset, latest last, and the start of the current excess.\<close>

type_synonym sample = "time \<times> f64"

fun run_start :: "f64 \<Rightarrow> sample list \<Rightarrow> time option" where
  "run_start thr [] = None"
| "run_start thr ((t, x) # later) = (if list_all (\<lambda>(_, y). f64_ge y thr) ((t, x) # later) then Some t else run_start thr later)"

definition tracker_run :: "f64 \<Rightarrow> duration \<Rightarrow> sample list \<Rightarrow> threshold_tracker \<Rightarrow> threshold_tracker" where
  "tracker_run thr req samples t = foldl (\<lambda>t (now, x). snd (ShouldActivateLimits now x thr req t)) t samples"

lemma run_start_below: "\<not> f64_ge x thr \<Longrightarrow> run_start thr (xs @ [(t, x)]) = None"
  by (induction xs) auto

lemma run_start_snoc:
  "run_start thr (xs @ [(t, x)]) =
     (if f64_ge x thr then (case run_start thr xs of None \<Rightarrow> Some t | Some u \<Rightarrow> Some u) else None)"
  by (induction thr xs rule: run_start.induct) (auto simp: run_start_below split: option.splits)

lemma ShouldActivateLimits_start:
  "firstOverThresholdTime (snd (ShouldActivateLimits now x thr req t)) =
     (if f64_ge x thr then (if IsZero (firstOverThresholdTime t) then now else firstOverThresholdTime t) else zero_time)"
  by (simp add: ShouldActivateLimits_def Let_def)

lemma tracker_run_snoc:
  "tracker_run thr req (xs @ [(now, x)]) t = snd (ShouldActivateLimits now x thr req (tracker_run thr req xs t))"
  by (simp add: tracker_run_def)

lemma tracker_run_start:
  assumes "\<forall>(t, x) \<in> set samples. \<not> IsZero t"
  shows "firstOverThresholdTime (tracker_run thr req samples new_tracker) =
    (case run_start thr samples of None \<Rightarrow> zero_time | Some t \<Rightarrow> t)"
  using assms
proof (induction samples rule: rev_induct)
  case Nil
  then show ?case by (simp add: tracker_run_def new_tracker_def)
next
  case (snoc s samples)
  obtain now x where s: "s = (now, x)" by (cases s)
  have nz: "\<not> IsZero u" if "run_start thr samples = Some u" for u
    using that snoc.prems by (induction thr samples rule: run_start.induct) (auto split: if_splits)
  from snoc s nz show ?case
    by (auto simp: tracker_run_snoc run_start_snoc ShouldActivateLimits_start IsZero_def zero_time_def split: option.splits)
qed

text \<open>C24: the duration window. Over any sequence of samples, the tracker is ready exactly when the current unbroken
  run over the threshold began at least the required time ago.\<close>

theorem cpu_window_spec:
  assumes "\<forall>(t, x) \<in> set (samples @ [(now, y)]). \<not> IsZero t"
  shows "fst (ShouldActivateLimits now y thr req (tracker_run thr req samples new_tracker)) \<longleftrightarrow>
    (\<exists>start. run_start thr (samples @ [(now, y)]) = Some start \<and> req \<le> time_Sub now start)"
proof -
  have nz: "\<not> IsZero u" if "run_start thr samples = Some u" for u
    using that assms by (induction thr samples rule: run_start.induct) (auto split: if_splits)
  have "firstOverThresholdTime (tracker_run thr req samples new_tracker) =
      (case run_start thr samples of None \<Rightarrow> zero_time | Some t \<Rightarrow> t)"
    using assms by (intro tracker_run_start) auto
  then show ?thesis
    using nz by (auto simp: ShouldActivateLimits_def Let_def run_start_snoc IsZero_def zero_time_def split: option.splits)
qed

section \<open>Sequences of decisions\<close>

text \<open>What one call of \<open>makeDecision\<close> sees: the clock, the collector and the metrics of the cycle.\<close>

type_synonym observation = "time \<times> metrics_collector \<times> system_metrics"

definition decide :: "config \<Rightarrow> observation \<Rightarrow> 'm decision_state_scheme \<Rightarrow> decision \<times> 'm decision_state_scheme" where
  "decide cfg obs s = (case obs of (now, mc, m) \<Rightarrow> (case makeDecision cfg now mc m s of ((d, _), s') \<Rightarrow> (d, s')))"

fun decisions :: "config \<Rightarrow> observation list \<Rightarrow> 'm decision_state_scheme \<Rightarrow> decision list" where
  "decisions cfg [] s = []"
| "decisions cfg (ob # obs) s = (case decide cfg ob s of (d, s') \<Rightarrow> d # decisions cfg obs s')"

fun decision_run :: "config \<Rightarrow> observation list \<Rightarrow> 'm decision_state_scheme \<Rightarrow> 'm decision_state_scheme" where
  "decision_run cfg [] s = s"
| "decision_run cfg (ob # obs) s = decision_run cfg obs (snd (decide cfg ob s))"

lemma makeDecision_limitsActive [simp]: "limitsActive (snd (makeDecision cfg now mc m s)) = limitsActive s"
  by (simp add: decision_defs reset_trackers_def Let_def split: prod.splits)

lemma decide_simps:
  "fst (decide cfg (now, mc, m) s) = fst (fst (makeDecision cfg now mc m s))"
  "snd (decide cfg (now, mc, m) s) = snd (makeDecision cfg now mc m s)"
  by (simp_all add: decide_def split: prod.splits)

lemma io_only_step:
  assumes "1 \<le> IOThresholdDuration cfg" "IOThresholdDuration cfg \<le> 9000000000"
    and "\<not> cpu_exceeded cfg m" "\<not> ram_exceeded cfg m"
    and "\<not> limitsActive s" "IsZero (firstOverThresholdTime (ioThresholdTracker s))"
  shows "fst (fst (makeDecision cfg now mc m s)) = MAINTAIN_CURRENT_STATE"
    "IsZero (firstOverThresholdTime (ioThresholdTracker (snd (makeDecision cfg now mc m s))))"
proof -
  have "\<not> fst (io_window cfg now m (ioThresholdTracker s))"
    using assms(1,6) seconds_pos [OF assms(1,2)]
    by (auto simp: io_window_def ShouldActivateLimits_def Let_def split: prod.splits)
  with assms show "fst (fst (makeDecision cfg now mc m s)) = MAINTAIN_CURRENT_STATE"
    "IsZero (firstOverThresholdTime (ioThresholdTracker (snd (makeDecision cfg now mc m s))))"
    by (auto simp: makeDecision_def decide_inactive_def reset_trackers_def new_tracker_def IsZero_def zero_time_def Let_def
        split: prod.splits)
qed


section \<open>Stability before a release\<close>

lemma count_sample_step:
  "stable_count (count_sample cfg um u m) uid \<le> max 0 (stable_count m uid) + (if uid = u then 1 else 0)"
  "uid \<noteq> u \<Longrightarrow> stable_count (count_sample cfg um u m) uid = stable_count m uid"
  by (auto simp: count_sample_def stable_count_def split: option.splits)

lemma count_samples_step:
  assumes "distinct us"
  shows "stable_count (fold (count_sample cfg um) us m) uid \<le> max 0 (stable_count m uid) + (if uid \<in> set us then 1 else 0)"
    "uid \<notin> set us \<Longrightarrow> stable_count (fold (count_sample cfg um) us m) uid = stable_count m uid"
  using assms
proof (induction us arbitrary: m)
  case Nil
  { case 1 then show ?case by simp next case 2 then show ?case by simp }
next
  case (Cons u us)
  note s = count_sample_step [where cfg = cfg and um = um and u = u and uid = uid]
  { case 1
    show ?case
    proof (cases "uid = u")
      case True
      with 1 have "stable_count (fold (count_sample cfg um) us (count_sample cfg um u m)) uid =
          stable_count (count_sample cfg um u m) uid" by (intro Cons.IH(2)) auto
      with s(1) [of m] True show ?thesis by simp
    next
      case False
      with 1 Cons.IH(1) [of "count_sample cfg um u m"] s [of m] show ?thesis by simp
    qed
  next
    case 2
    with Cons.IH(2) [of "count_sample cfg um u m"] s [of m] show ?case by simp
  }
qed

lemma decide_inactive_underThreshold:
  "underThreshold (snd (decide_inactive cfg now e m s)) = underThreshold s"
  by (simp add: decide_inactive_def reset_trackers_def Let_def split: prod.splits)

lemma decide_active_underThreshold:
  "underThreshold (snd (decide_active cfg now mc m s)) = underThreshold s \<or>
   all_below cfg m \<and> underThreshold (snd (decide_active cfg now mc m s)) = count_samples cfg mc (underThreshold s)"
  by (simp add: decide_active_def reset_trackers_def Let_def)

lemma makeDecision_underThreshold:
  "underThreshold (snd (makeDecision cfg now mc m s)) = underThreshold s \<or>
   all_below cfg m \<and> underThreshold (snd (makeDecision cfg now mc m s)) = count_samples cfg mc (underThreshold s)"
proof -
  obtain e t' where "io_window cfg now m (ioThresholdTracker s) = (e, t')" by (metis surj_pair)
  then show ?thesis
    using decide_active_underThreshold [of cfg now mc m "s\<lparr>ioThresholdTracker := t'\<rparr>"]
    by (simp add: makeDecision_def decide_inactive_underThreshold Let_def)
qed

lemma makeDecision_counts:
  assumes "distinct (GetLimitedUsers mc)"
  shows "stable_count (underThreshold (snd (makeDecision cfg now mc m s))) uid \<le>
         max 0 (stable_count (underThreshold s) uid) + (if all_below cfg m then 1 else 0)"
  using count_samples_step(1) [OF assms, of cfg "GetAllUserMetrics mc" "underThreshold s" uid]
    makeDecision_underThreshold [of cfg now mc m s]
  by (auto simp: count_samples_def split: if_splits)

definition below_calls :: "config \<Rightarrow> observation list \<Rightarrow> nat" where
  "below_calls cfg obs = length (filter (\<lambda>(now, mc, m). all_below cfg m) obs)"

lemma decision_run_counts:
  assumes "\<forall>(now, mc, m) \<in> set obs. distinct (GetLimitedUsers mc)"
  shows "stable_count (underThreshold (decision_run cfg obs s)) uid \<le>
         max 0 (stable_count (underThreshold s) uid) + int (below_calls cfg obs)"
  using assms
proof (induction obs arbitrary: s)
  case (Cons ob obs)
  obtain now mc m where ob: "ob = (now, mc, m)" by (cases ob)
  with Cons.prems makeDecision_counts [of mc cfg now m s uid] Cons.IH [of "snd (makeDecision cfg now mc m s)"]
  show ?case by (auto simp: decide_simps below_calls_def split: if_splits)
qed (simp add: below_calls_def)

section \<open>The theorems at work\<close>

definition idle_metrics :: system_metrics where
  "idle_metrics =
     \<lparr>Timestamp = zero_time, TotalCores = 4, TotalCPUUsage = Fin 10, AllUsersCPUUsage = Fin 5, AllUsersMemoryUsage = 0,
      AllUsersCount = 1, LimitedUsersCPUUsage = Fin 5, LimitedUsersMemoryUsage = 0, LimitedUsersCount = 1,
      LimitedUsersRAMUsageBytes = 0, LimitedUsersIOWriteBytes = 0, SysMemoryUsage = Fin 0, TotalMemoryMB = Fin 1024,
      CachedMemoryMB = Fin 0, SystemUnderLoad = False, UserCPUUsage = [(1000, Fin 5)], UserMetrics = [],
      EligibleUsers = [1000]\<rparr>"

definition busy_metrics :: system_metrics where
  "busy_metrics = idle_metrics\<lparr>LimitedUsersCPUUsage := Fin 95, UserCPUUsage := [(1000, Fin 95)]\<rparr>"

definition user_at :: "rat \<Rightarrow> user_metrics" where
  "user_at p = \<lparr>UID = 1000, Username = ''alice'', CPUUsage = Fin p, CPUUsageAverage = Fin p, CPUUsageEMA = Fin p, MemoryUsage = 0,
     ProcessCount = 1, IsLimited = True, IOReadBytes = 0, IOWriteBytes = 0, IOReadOps = 0, IOWriteOps = 0\<rparr>"

definition collector_at :: "rat \<Rightarrow> metrics_collector" where
  "collector_at p = \<lparr>GetTotalCores = 4, GetTotalCPUUsage = Fin 10, GetMemoryUsage = Fin 0, GetTotalMemoryMB = Fin 1024,
     GetCachedMemoryMB = Fin 0, IsSystemUnderLoad = False, GetAllUserMetrics = [(1000, user_at p)], GetLimitedUsers = [1000],
     GetUsernameFromUID = (\<lambda>uid. ''alice''), DBWriterDue = False\<rparr>"

abbreviation "default_cfg \<equiv> DefaultConfig 4194304"

definition active_state :: decision_state where
  "active_state = \<lparr>limitsActive = True, limitsAppliedTime = second, thresholdTracker = new_tracker,
     ioThresholdTracker = new_tracker, underThreshold = Map.empty\<rparr>"

definition inactive_state :: decision_state where
  "inactive_state = active_state\<lparr>limitsActive := False\<rparr>"

text \<open>Three samples below the threshold, with one far above it in between: the counters survive it.\<close>

definition interrupted :: "observation list" where
  "interrupted = [(100 * second, collector_at 5, idle_metrics), (130 * second, collector_at 5, idle_metrics),
     (160 * second, collector_at 95, busy_metrics)]"

lemma released_after_interruption:
  "decisions default_cfg (interrupted @ [(190 * second, collector_at 5, idle_metrics)]) active_state =
     [MAINTAIN_CURRENT_STATE, MAINTAIN_CURRENT_STATE, MAINTAIN_CURRENT_STATE, DEACTIVATE_LIMITS]"
  by code_simp

lemma default_config_ok: "config_ok default_cfg"
  by (rule no_errors_config_ok [OF default_valid])

theorem no_flapping_witness:
  "fst (fst (makeDecision default_cfg (190 * second) (collector_at 5) idle_metrics
     (active_state\<lparr>underThreshold := [1000 \<mapsto> 2]\<rparr>))) = DEACTIVATE_LIMITS \<and>
   fst (fst (makeDecision default_cfg (220 * second) (collector_at 5) idle_metrics inactive_state)) \<noteq> ACTIVATE_LIMITS"
proof -
  have "fst (fst (makeDecision default_cfg (190 * second) (collector_at 5) idle_metrics
     (active_state\<lparr>underThreshold := [1000 \<mapsto> 2]\<rparr>))) = DEACTIVATE_LIMITS" by code_simp
  with no_flapping [OF default_config_ok this] show ?thesis by blast
qed

theorem cpu_window_spec_witness:
  "fst (ShouldActivateLimits 100 (Fin 90) (Fin 75) 30 (tracker_run (Fin 75) 30 [(40, Fin 80), (50, Fin 20), (60, Fin 80)] new_tracker))"
proof -
  have nz: "\<forall>(t, x) \<in> set ([(40, Fin 80), (50, Fin 20), (60, Fin 80)] @ [(100, Fin 90)]). \<not> IsZero t" by code_simp
  have r: "run_start (Fin 75) ([(40, Fin 80), (50, Fin 20), (60, Fin 80)] @ [(100, Fin 90)]) = Some 60" by code_simp
  have t: "30 \<le> time_Sub 100 60" by code_simp
  show ?thesis by (rule cpu_window_spec [THEN iffD2, OF nz]) (use r t in blast)
qed

definition io_cfg :: config where
  "io_cfg = default_cfg\<lparr>IOEnabled := True, IOWriteBPS := ''10M'', IOThresholdDuration := 60\<rparr>"

definition io_busy :: system_metrics where
  "io_busy = idle_metrics\<lparr>LimitedUsersIOWriteBytes := 1000000000\<rparr>"

definition io_days :: "observation list" where
  "io_days = map (\<lambda>i. (i * 30 * second, collector_at 5, io_busy)) [1, 2, 3, 4, 5]"



definition long_over :: decision_state where
  "long_over = inactive_state\<lparr>thresholdTracker := new_tracker\<lparr>firstOverThresholdTime := 10 * second\<rparr>\<rparr>"

theorem decision_characterisation_witness:
  "fst (fst (makeDecision default_cfg (190 * second) (collector_at 5) busy_metrics long_over)) = ACTIVATE_LIMITS"
proof -
  have "\<not> limitsActive long_over" "TotalCores busy_metrics > MinSystemCores default_cfg" "\<not> SystemUnderLoad busy_metrics"
    "cpu_ready default_cfg (190 * second) busy_metrics long_over"
    by code_simp+
  then show ?thesis using decision_characterisation [of default_cfg "190 * second" "collector_at 5" busy_metrics long_over] by blast
qed

section \<open>Three quiet cycles release\<close>

text \<open>A cycle in which nothing stands against a release: \<open>us\<close> are the limited users.\<close>

definition quiet_cycle :: "config \<Rightarrow> time \<Rightarrow> int list \<Rightarrow> observation \<Rightarrow> bool" where
  "quiet_cycle cfg applied us obs \<longleftrightarrow>
     (case obs of (now, mc, m) \<Rightarrow>
        seconds (MinActiveTime cfg) \<le> time_Sub now applied \<and> all_below cfg m \<and> \<not> SystemUnderLoad m \<and>
        GetLimitedUsers mc = us \<and>
        list_all (\<lambda>uid. case map_of (GetAllUserMetrics mc) uid of
                          None \<Rightarrow> False
                        | Some um \<Rightarrow> f64_lt (CPUUsageEMA um) (f64_of_int (CPUReleaseThreshold cfg))) us)"

lemma stable_count_upd: "stable_count (c(u \<mapsto> n)) v = (if v = u then n else stable_count c v)"
  by (simp add: stable_count_def)

lemma count_samples_below:
  assumes "distinct us" "uid \<in> set us"
    and "\<forall>u\<in>set us. \<exists>um. map_of ms u = Some um \<and> f64_lt (CPUUsageEMA um) (f64_of_int (CPUReleaseThreshold cfg))"
  shows "stable_count (fold (count_sample cfg ms) us c) uid = stable_count c uid + 1"
  using assms
proof (induction us arbitrary: c)
  case (Cons u us)
  then obtain um where um: "map_of ms u = Some um" "f64_lt (CPUUsageEMA um) (f64_of_int (CPUReleaseThreshold cfg))" by auto
  then have c: "count_sample cfg ms u c = c(u \<mapsto> stable_count c u + 1)" by (simp add: count_sample_def)
  show ?case
  proof (cases "uid = u")
    case True
    with Cons.prems(1) have "uid \<notin> set us" by simp
    with count_samples_step(2) [of us uid cfg ms "count_sample cfg ms u c"] Cons.prems(1) True c show ?thesis
      by (simp add: stable_count_upd)
  next
    case False
    with Cons.IH [of "count_sample cfg ms u c"] Cons.prems c show ?thesis by (simp add: stable_count_upd del: fun_upd_apply)
  qed
qed simp

lemma quiet_step:
  assumes "quiet_cycle cfg (limitsAppliedTime s) us (now, mc, m)" "limitsActive s" "distinct us"
  shows "underThreshold (snd (decide cfg (now, mc, m) s)) = count_samples cfg mc (underThreshold s)"
    and "limitsAppliedTime (snd (decide cfg (now, mc, m) s)) = limitsAppliedTime s"
    and "uid \<in> set us \<Longrightarrow> stable_count (count_samples cfg mc (underThreshold s)) uid = stable_count (underThreshold s) uid + 1"
    and "\<forall>uid\<in>set us. 2 \<le> stable_count (underThreshold s) uid \<Longrightarrow> fst (decide cfg (now, mc, m) s) = DEACTIVATE_LIMITS"
proof -
  have q: "seconds (MinActiveTime cfg) \<le> time_Sub now (limitsAppliedTime s)" "all_below cfg m" "\<not> SystemUnderLoad m"
    "GetLimitedUsers mc = us"
    "\<forall>u\<in>set us. \<exists>um. map_of (GetAllUserMetrics mc) u = Some um \<and> f64_lt (CPUUsageEMA um) (f64_of_int (CPUReleaseThreshold cfg))"
    using assms(1) by (auto simp: quiet_cycle_def list_all_iff split: option.splits)
  show "underThreshold (snd (decide cfg (now, mc, m) s)) = count_samples cfg mc (underThreshold s)"
    "limitsAppliedTime (snd (decide cfg (now, mc, m) s)) = limitsAppliedTime s"
    using q(1,2) assms(2) by (auto simp: decide_simps makeDecision_def decide_active_def reset_trackers_def Let_def split: prod.splits)
  show st: "stable_count (count_samples cfg mc (underThreshold s)) uid = stable_count (underThreshold s) uid + 1"
    if "uid \<in> set us" for uid
    using count_samples_below [OF assms(3) that q(5)] by (simp add: count_samples_def q(4))
  show "fst (decide cfg (now, mc, m) s) = DEACTIVATE_LIMITS" if "\<forall>uid\<in>set us. 2 \<le> stable_count (underThreshold s) uid"
    using q assms(2) st that by (simp add: decide_simps makeDecision_DEACTIVATE)
qed



end
