(* ===== verification/ManagerSpec.thy ===== *)
theory ManagerSpec
  imports ManagerProps DecisionProps
begin

text \<open>
  The metrics a cycle collects, and the refinement of an abstract manager (limits off, or in force for a set of users) by the
  control cycle.
\<close>

section \<open>The metrics of a cycle\<close>

lemma al_update_fresh: "k \<notin> set (keys xs) \<Longrightarrow> al_update k v xs = xs @ [(k, v)]"
  by (induction xs) auto

abbreviation limited_of :: "(int \<times> user_metrics) list \<Rightarrow> (int \<times> user_metrics) list" where
  "limited_of es \<equiv> filter (\<lambda>(uid, um). IsLimited um) es"

lemma collect_fold:
  assumes "fold (collect_user b now pt active) es (s, prev) = (s', prev')" "distinct (keys es)"
    and "set (keys es) \<inter> set (keys (UserCPUUsage s)) = {}" "set (keys es) \<inter> set (keys (UserMetrics s)) = {}"
  shows "EligibleUsers s' = EligibleUsers s @ keys (limited_of es) \<and>
    AllUsersCount s' = AllUsersCount s + int (length es) \<and>
    UserCPUUsage s' = UserCPUUsage s @ map (\<lambda>(uid, um). (uid, CPUUsage um)) es \<and>
    UserMetrics s' = UserMetrics s @ map (\<lambda>(uid, um). (uid, um\<lparr>IsLimited := (uid \<in> set active)\<rparr>)) es \<and>
    AllUsersMemoryUsage s' = AllUsersMemoryUsage s + sum_list (map (\<lambda>(uid, um). MemoryUsage um) es) \<and>
    LimitedUsersRAMUsageBytes s' = LimitedUsersRAMUsageBytes s + sum_list (map (\<lambda>(uid, um). MemoryUsage um) (limited_of es)) \<and>
    LimitedUsersIOWriteBytes s' = LimitedUsersIOWriteBytes s +
      (if b then sum_list (map (\<lambda>(uid, um). io_rate now pt (prev uid) (IOWriteBytes um)) (limited_of es)) else 0) \<and>
    LimitedUsersCPUUsage s' = fold (\<lambda>(uid, um) a. f64_add a (CPUUsage um)) (limited_of es) (LimitedUsersCPUUsage s) \<and>
    (TotalCores s', SystemUnderLoad s', TotalMemoryMB s') = (TotalCores s, SystemUnderLoad s, TotalMemoryMB s) \<and>
    prev' = (\<lambda>uid. case map_of (limited_of es) uid of Some um \<Rightarrow> if b then Some (IOWriteBytes um) else prev uid | None \<Rightarrow> prev uid)"
  using assms
proof (induction es arbitrary: s prev)
  case (Cons en es)
  obtain uid um where en: "en = (uid, um)" by (cases en)
  obtain s1 prev1 where c: "collect_user b now pt active en (s, prev) = (s1, prev1)" by (metis surj_pair)
  have fresh: "al_update uid v (UserCPUUsage s) = UserCPUUsage s @ [(uid, v)]" 
    "al_update uid w (UserMetrics s) = UserMetrics s @ [(uid, w)]" for v w
    using Cons.prems(3,4) by (simp_all add: al_update_fresh en)
  have u: "uid \<notin> set (keys es)" using Cons.prems(2) by (simp add: en)
  then have n: "map_of (limited_of es) uid = None" by (auto simp: map_of_eq_None_iff rev_image_eqI)
  have p: "prev1 = (if IsLimited um \<and> b then prev(uid \<mapsto> IOWriteBytes um) else prev)"
    using c by (auto simp: collect_user_def Let_def en split: if_splits)
  have s1: "EligibleUsers s1 = EligibleUsers s @ keys (limited_of [en])" "AllUsersCount s1 = AllUsersCount s + 1"
    "UserCPUUsage s1 = UserCPUUsage s @ [(uid, CPUUsage um)]"
    "UserMetrics s1 = UserMetrics s @ [(uid, um\<lparr>IsLimited := (uid \<in> set active)\<rparr>)]"
    "AllUsersMemoryUsage s1 = AllUsersMemoryUsage s + MemoryUsage um"
    "LimitedUsersRAMUsageBytes s1 = LimitedUsersRAMUsageBytes s + (if IsLimited um then MemoryUsage um else 0)"
    "LimitedUsersIOWriteBytes s1 = LimitedUsersIOWriteBytes s +
       (if IsLimited um \<and> b then io_rate now pt (prev uid) (IOWriteBytes um) else 0)"
    "LimitedUsersCPUUsage s1 = (if IsLimited um then f64_add (LimitedUsersCPUUsage s) (CPUUsage um) else LimitedUsersCPUUsage s)"
    "(TotalCores s1, SystemUnderLoad s1, TotalMemoryMB s1) = (TotalCores s, SystemUnderLoad s, TotalMemoryMB s)"
    using c by (auto simp: collect_user_def Let_def en fresh split: if_splits)
  have io: "sum_list (map (\<lambda>(uid, um). io_rate now pt (prev1 uid) (IOWriteBytes um)) (limited_of es)) =
      sum_list (map (\<lambda>(uid, um). io_rate now pt (prev uid) (IOWriteBytes um)) (limited_of es))"
    using u by (intro arg_cong [where f = sum_list] map_cong refl) (auto simp: p rev_image_eqI)
  have r: "fold (collect_user b now pt active) es (s1, prev1) = (s', prev')"
    using Cons.prems(1) c by simp
  have d: "set (keys es) \<inter> set (keys (UserCPUUsage s1)) = {}" "set (keys es) \<inter> set (keys (UserMetrics s1)) = {}"
    using Cons.prems(3,4) u by (auto simp: s1 en)
  note IH = Cons.IH [OF r _ d]
  show ?case using IH Cons.prems(2) n unfolding io
    by (auto simp: s1 p en fun_eq_iff algebra_simps split: option.split if_splits)
qed simp

section \<open>What a cycle may do: the abstract manager\<close>

text \<open>
  The abstract manager knows only whether limits are in force and on whom. \<open>spec_cycle\<close> says what one control cycle may do to
  it, given the configuration, the clock, the instant the limits were applied and the answers of the collector.
\<close>

datatype limiting = Off | Limiting "int set"

definition abs_manager :: "'c manager \<Rightarrow> limiting" where
  "abs_manager m = (if limitsActive m then Limiting (set (activeUsers m)) else Off)"

definition eligible :: "metrics_collector \<Rightarrow> int set" where
  "eligible mc = set (keys (limited_of (GetAllUserMetrics mc)))"

definition busy :: "metrics_collector \<Rightarrow> int set" where
  "busy mc = {uid. \<exists>um. map_of (GetAllUserMetrics mc) uid = Some um \<and> f64_ge (CPUUsage um) idleThreshold}"

definition idle :: "metrics_collector \<Rightarrow> int set" where
  "idle mc = {uid. \<forall>um. map_of (GetAllUserMetrics mc) uid = Some um \<longrightarrow> f64_lt (CPUUsage um) idleThreshold}"

inductive spec_cycle :: "config \<Rightarrow> clock \<Rightarrow> time \<Rightarrow> metrics_collector \<Rightarrow> limiting \<Rightarrow> limiting \<Rightarrow> bool"
  for cfg :: config and ck :: clock and applied :: time and mc :: metrics_collector where
  suspended: "IsInBlackout cfg (ck_day ck) (ck_hour ck) \<Longrightarrow> spec_cycle cfg ck applied mc st st"
| stay_off: "spec_cycle cfg ck applied mc Off Off"
| activate:
    "\<not> IsInBlackout cfg (ck_day ck) (ck_hour ck) \<Longrightarrow> U \<noteq> {} \<Longrightarrow> U \<subseteq> eligible mc \<Longrightarrow> GetTotalCores mc > MinSystemCores cfg \<Longrightarrow>
     IgnoreSystemLoad cfg \<or> \<not> IsSystemUnderLoad mc \<Longrightarrow> spec_cycle cfg ck applied mc Off (Limiting U)"
| adjust:
    "\<not> IsInBlackout cfg (ck_day ck) (ck_hour ck) \<Longrightarrow> A \<subseteq> eligible mc \<inter> busy mc \<Longrightarrow>
     spec_cycle cfg ck applied mc (Limiting U) (Limiting (U - idle mc \<union> A))"
| release:
    "\<not> IsInBlackout cfg (ck_day ck) (ck_hour ck) \<Longrightarrow> seconds (MinActiveTime cfg) \<le> time_Sub (ck_now ck) applied \<Longrightarrow>
     \<not> IsSystemUnderLoad mc \<Longrightarrow> spec_cycle cfg ck applied mc (Limiting U) Off"

inductive_cases spec_from_Off: "spec_cycle cfg ck applied mc Off st"
inductive_cases spec_to_Off: "spec_cycle cfg ck applied mc (Limiting U) Off"

lemma spec_activation:
  assumes "spec_cycle cfg ck applied mc Off (Limiting U)"
  shows "\<not> IsInBlackout cfg (ck_day ck) (ck_hour ck) \<and> U \<noteq> {} \<and> U \<subseteq> eligible mc \<and> GetTotalCores mc > MinSystemCores cfg"
  using assms by (rule spec_from_Off) simp_all

lemma spec_release:
  assumes "spec_cycle cfg ck applied mc (Limiting U) Off"
  shows "\<not> IsInBlackout cfg (ck_day ck) (ck_hour ck) \<and> seconds (MinActiveTime cfg) \<le> time_Sub (ck_now ck) applied \<and>
    \<not> IsSystemUnderLoad mc"
  using assms by (rule spec_to_Off) simp_all

text \<open>The order of the abstract states: fewer users limited.\<close>

instantiation limiting :: order
begin

fun less_eq_limiting :: "limiting \<Rightarrow> limiting \<Rightarrow> bool" where
  "Off \<le> st = True"
| "Limiting U \<le> Off = False"
| "Limiting U \<le> Limiting V = (U \<subseteq> V)"

definition less_limiting :: "limiting \<Rightarrow> limiting \<Rightarrow> bool" where
  "a < b \<longleftrightarrow> a \<le> b \<and> \<not> b \<le> (a :: limiting)"

instance
proof
  fix x y z :: limiting
  show "x < y \<longleftrightarrow> x \<le> y \<and> \<not> y \<le> x" by (rule less_limiting_def)
  show "x \<le> x" by (cases x) simp_all
  show "x \<le> y \<Longrightarrow> y \<le> z \<Longrightarrow> x \<le> z" by (cases x; cases y; cases z) auto
  show "x \<le> y \<Longrightarrow> y \<le> x \<Longrightarrow> x = y" by (cases x; cases y) auto
qed

end

inductive_simps spec_stays_off [simp]: "spec_cycle cfg ck applied mc Off Off"

lemma spec_shrinks: "spec_cycle cfg ck applied mc st st' \<Longrightarrow> eligible mc = {} \<Longrightarrow> st' \<le> st"
  by (induction rule: spec_cycle.induct) auto

section \<open>Releasing and adding users\<close>

lemma readd_users_subset: "set (fst (readd_users ops p uids m)) \<subseteq> set uids"
  by (induction uids arbitrary: m) (auto simp: split_beta Let_def split: sum.split)

lemma releaseIdleUsers_users:
  assumes "limitsActive m"
  shows "\<exists>A. A \<subseteq> set (users_to_add s m) \<and> limitsActive (releaseIdleUsers ops now s m) \<and>
    set (activeUsers (releaseIdleUsers ops now s m)) = set (activeUsers m) - set (users_to_release s m) \<union> A \<and>
    limitsAppliedTime (releaseIdleUsers ops now s m) = (if A = {} then limitsAppliedTime m else now)"
proof -
  let ?rel = "users_to_release s m" and ?add = "users_to_add s m" and ?p = "sharedCgroupPath m"
  let ?m0 = "m\<lparr>activeUsers := drop_users ?rel (activeUsers m), psiBoostedAt := drop_boosts ?rel (psiBoostedAt m)\<rparr>"
  let ?m2 = "spawn (map (\<lambda>uid. ReleaseTask uid ?p) ?rel) (unwatch_users ?rel ?m0)"
  obtain added m3 where r: "readd_users ops ?p ?add ?m2 = (added, m3)" by (metis surj_pair)
  have s2: "same_core ?m0 ?m2" by simp
  have "same_core ?m0 (snd (readd_users ops ?p ?add ?m2))" by simp
  then have s3: "same_core ?m0 m3" by (simp add: r)
  note f2 = same_core_fields(1,2,7) [OF s2] and f3 = same_core_fields(1,2,7) [OF s3]
  have a: "set added \<subseteq> set ?add" using readd_users_subset [of ops ?p ?add ?m2] by (simp add: r)
  note rel = releaseIdleUsers_def [of ops now s m, unfolded Let_def, simplified assms not_True_eq_False if_False]
  show ?thesis
  proof (cases "?add \<noteq> [] \<and> ?p \<noteq> [] \<and> added \<noteq> []")
    case True
    then show ?thesis unfolding rel r prod.case using assms a f3 by (intro exI [of _ "set added"]) auto
  next
    case False
    then show ?thesis unfolding rel r prod.case using assms f2 f3 by (intro exI [of _ "{}"]) auto
  qed
qed

section \<open>Blocks that do not touch the users\<close>

definition users_of :: "'c manager \<Rightarrow> bool \<times> int list" where
  "users_of m = (limitsActive m, activeUsers m)"

lemma users_of_same: "same_core m m' \<Longrightarrow> users_of m' = users_of m"
  by (simp add: users_of_def same_core_fields [of m m'])

lemma users_of_frame [simp]:
  "users_of (m\<lparr>psiBoostedAt := b\<rparr>) = users_of m" "users_of (m\<lparr>policyEngine := pe\<rparr>) = users_of m"
  "users_of (m\<lparr>patternDetector := pd\<rparr>) = users_of m" "users_of (m\<lparr>lastPatternAnalysis := t\<rparr>) = users_of m"
  "users_of (m\<lparr>ioRemediation := r, cgroups := c\<rparr>) = users_of m" "users_of (m\<lparr>controlHist := h\<rparr>) = users_of m"
  by (simp_all add: users_of_def)

lemma users_of_perform [simp]: "users_of (perform f m) = users_of m"
  by (rule users_of_same) simp

lemma users_of_emit_prom [simp]: "users_of (emit_prom e m) = users_of m"
  by (rule users_of_same) simp

lemma users_of_fold: "(\<And>x m. users_of (f x m) = users_of m) \<Longrightarrow> users_of (fold f xs m) = users_of m"
  by (induction xs arbitrary: m) simp_all

lemma users_of_stages [simp]:
  "users_of (stageIORemediation ops cfg now mc m) = users_of m"
  "users_of (apply_pattern ops cfg now mc en m) = users_of m"
  "users_of (stageRevertPSIBoosts ops now m) = users_of m"
  "users_of (recordControlCycle now d r s e m) = users_of m"
proof -
  show "users_of (stageIORemediation ops cfg now mc m) = users_of m"
    by (simp add: stageIORemediation_def split_beta)
  show "users_of (apply_pattern ops cfg now mc en m) = users_of m"
    by (simp add: apply_pattern_def Let_def split_beta split: option.split bool.split)
  show "users_of (stageRevertPSIBoosts ops now m) = users_of m"
    by (simp add: stageRevertPSIBoosts_def revertPSIBoosts_def Let_def users_of_fold split: option.split)
  show "users_of (recordControlCycle now d r s e m) = users_of m"
    by (simp add: recordControlCycle_def addControlHistoryEntry_def Let_def)
qed

lemma users_of_patterns [simp]: "users_of (stageWorkloadPatternDetection ops cfg now h mc m) = users_of m"
  by (simp add: stageWorkloadPatternDetection_def Let_def users_of_fold)

lemma users_of_after [simp]: "users_of (after_decision ops cfg ck mc m) = users_of m"
  by (simp add: after_decision_def)

lemma abs_users: "users_of m = users_of m' \<Longrightarrow> abs_manager m = abs_manager m'"
  by (simp add: users_of_def abs_manager_def)

section \<open>A cycle refines the abstract manager\<close>

lemma collect_spec:
  assumes "al_wf (GetAllUserMetrics mc)" "collectSystemMetricsWithIOState b now mc m = (s, m')"
  shows "EligibleUsers s = keys (limited_of (GetAllUserMetrics mc))"
    "UserCPUUsage s = map (\<lambda>(uid, um). (uid, CPUUsage um)) (GetAllUserMetrics mc)"
    "TotalCores s = GetTotalCores mc" "SystemUnderLoad s = IsSystemUnderLoad mc"
    "users_of m' = users_of m" "sharedCgroupPath m' = sharedCgroupPath m" "m_cfg m' = m_cfg m"
    "limitsAppliedTime m' = limitsAppliedTime m"
proof -
  obtain s1 prev1 where f: "fold (collect_user b now (prevIOTime m) (activeUsers m)) (GetAllUserMetrics mc)
      (new_metrics now mc, prevIOBytes m) = (s1, prev1)" by (metis surj_pair)
  have c: "s = s1\<lparr>LimitedUsersCount := int (length (EligibleUsers s1))\<rparr>"
    "m' = (if b then m\<lparr>prevIOTime := now,
        prevIOBytes := (\<lambda>uid. if uid \<in> set (keys (GetAllUserMetrics mc)) then prev1 uid else None)\<rparr> else m)"
    using assms(2) by (simp_all add: collectSystemMetricsWithIOState_def f split: if_splits)
  have "distinct (keys (GetAllUserMetrics mc))" using assms(1) by (simp add: al_wf_def)
  from collect_fold [OF f this] show "EligibleUsers s = keys (limited_of (GetAllUserMetrics mc))"
    "UserCPUUsage s = map (\<lambda>(uid, um). (uid, CPUUsage um)) (GetAllUserMetrics mc)"
    "TotalCores s = GetTotalCores mc" "SystemUnderLoad s = IsSystemUnderLoad mc"
    by (simp_all add: c new_metrics_def)
  show "users_of m' = users_of m" "sharedCgroupPath m' = sharedCgroupPath m" "m_cfg m' = m_cfg m"
    "limitsAppliedTime m' = limitsAppliedTime m" by (simp_all add: c users_of_def)
qed

lemma map_of_cpu: "map_of (map (\<lambda>(uid, um). (uid, CPUUsage um)) es) uid = map_option CPUUsage (map_of es uid)"
  by (induction es) auto

lemma released_idle:
  assumes "al_wf (GetAllUserMetrics mc)" "collectSystemMetricsWithIOState b now mc m0 = (s, m1)"
  shows "set (users_to_release s m) = set (activeUsers m) \<inter> idle mc"
    and "set (users_to_add s m) \<subseteq> eligible mc \<inter> busy mc"
  using collect_spec(1,2) [OF assms]
  by (auto simp: users_to_release_def users_to_add_def idle_def busy_def eligible_def map_of_cpu split: option.splits)

lemma activateLimits_users:
  assumes "activateLimits ops now mc s m = (e, m')" "\<not> limitsActive m" "activeUsers m = []"
  shows "limitsActive m' \<longleftrightarrow> activeUsers m' \<noteq> []" "set (activeUsers m') \<subseteq> set (EligibleUsers s)"
proof -
  let ?m1 = "emit_prom IncrementLimitsActivated m"
  let ?removed = "filter (\<lambda>uid. uid \<notin> set (keys (UserCPUUsage s))) (activeUsers ?m1)"
  let ?m2 = "?m1\<lparr>activeUsers := drop_users ?removed (activeUsers ?m1)\<rparr>"
  have f1: "activeUsers ?m1 = []" "limitsActive ?m1 = limitsActive m"
    using assms(3) by (simp_all add: emit_prom_def emit_def)
  obtain r m3 where es: "ensure_shared ops (m_cfg m) s ?m2 = (r, m3)" by (metis surj_pair)
  have f3: "activeUsers m3 = []" "\<not> limitsActive m3"
    using same_core_fields(1,2) [OF ensure_shared_spec(1) [OF es]] assms(2) f1 by (simp_all add: drop_users_def)
  obtain er n m4 where lu: "limit_users ops (m_cfg m) mc s (EligibleUsers s) m3 = (er, n, m4)" by (metis surj_pair)
  note l = limit_users_spec [OF lu]
  have f4: "\<not> limitsActive m4" using same_core_fields(2) [OF l(1)] f3 by simp
  have *: "activateLimits ops now mc s m = (case r of Some er \<Rightarrow> (Some er, m3)
     | None \<Rightarrow> (er, if n > 0 \<or> ?removed \<noteq> [] then m4\<lparr>limitsActive := True, limitsAppliedTime := now\<rparr> else m4))"
    by (simp only: activateLimits_def Let_def es lu prod.case)
  have rem: "?removed = []" using f1 by simp
  show "limitsActive m' \<longleftrightarrow> activeUsers m' \<noteq> []" "set (activeUsers m') \<subseteq> set (EligibleUsers s)"
    using assms(1) * rem f3 f4 l(3,5,6) by (auto split: option.splits if_splits)
qed

text \<open>What a decision does to the users.\<close>

lemma executeDecision_refines:
  assumes "al_wf (GetAllUserMetrics mc)" "collectSystemMetricsWithIOState b (ck_now ck) mc m0 = (s, m1)"
    and "mgr_ok I m" "abs_manager m = st" "\<not> IsInBlackout cfg (ck_day ck) (ck_hour ck)"
    and "fst (fst (makeDecision cfg (ck_now ck) mc' s dm)) = d" "limitsActive dm = limitsActive m"
      "limitsAppliedTime dm = applied"
  shows "spec_cycle cfg ck applied mc st (abs_manager (snd (executeDecision ops rx (ck_now ck) mc d s m)))"
proof -
  note s = collect_spec(1-4) [OF assms(1,2)]
  show ?thesis
  proof (cases d)
    case ACTIVATE_LIMITS
    with assms(6) have a: "\<not> limitsActive m" "GetTotalCores mc > MinSystemCores cfg"
      "IgnoreSystemLoad cfg \<or> \<not> IsSystemUnderLoad mc"
      using makeDecision_ACTIVATE [of cfg "ck_now ck" mc' s dm] assms(7) by (auto simp: s)
    then have "activeUsers m = []" using assms(3) by (simp add: mgr_ok_def)
    obtain e m' where r: "activateLimits ops (ck_now ck) mc s m = (e, m')" by (metis surj_pair)
    from activateLimits_users [OF r a(1) \<open>activeUsers m = []\<close>] assms(4,5) a show ?thesis
      by (cases "limitsActive m'")
         (auto simp: executeDecision_def ACTIVATE_LIMITS r abs_manager_def s eligible_def intro!: stay_off activate)
  next
    case DEACTIVATE_LIMITS
    with assms(6) have a: "limitsActive m" "seconds (MinActiveTime cfg) \<le> time_Sub (ck_now ck) applied" "\<not> IsSystemUnderLoad mc"
      using makeDecision_DEACTIVATE [of cfg "ck_now ck" mc' s dm] assms(7,8) by (auto simp: s)
    have "abs_manager (snd (deactivateLimits ops rx mc m)) = Off"
      using deactivateLimits_spec [of m ops rx mc] by (auto simp: abs_manager_def split: prod.splits)
    with a assms(4,5) show ?thesis
      by (auto simp: executeDecision_def DEACTIVATE_LIMITS abs_manager_def intro: release)
  next
    case MAINTAIN_CURRENT_STATE
    show ?thesis
    proof (cases "limitsActive m")
      case True
      from releaseIdleUsers_users [OF True, where s = s and ops = ops and now = "ck_now ck"] obtain A where
        A: "A \<subseteq> set (users_to_add s m)" "limitsActive (releaseIdleUsers ops (ck_now ck) s m)"
          "set (activeUsers (releaseIdleUsers ops (ck_now ck) s m)) = set (activeUsers m) - set (users_to_release s m) \<union> A"
        by blast
      note r = released_idle [OF assms(1,2), of m]
      have "set (activeUsers m) - set (users_to_release s m) \<union> A = set (activeUsers m) - idle mc \<union> A" using r(1) by blast
      with A r(2) True assms(4,5) show ?thesis
        by (auto simp: executeDecision_def MAINTAIN_CURRENT_STATE abs_manager_def intro!: adjust)
    next
      case False
      with assms(4) show ?thesis
        by (auto simp: executeDecision_def MAINTAIN_CURRENT_STATE abs_manager_def releaseIdleUsers_def intro: stay_off)
    qed
  qed
qed

lemma makeDecision_keeps:
  assumes "makeDecision cfg now mc s m = (d, m')"
  shows "users_of m' = users_of m" "limitsAppliedTime m' = limitsAppliedTime m"
  by (subst makeDecision_frame [OF assms], simp add: users_of_def)+

lemma cycle_refines:
  assumes "mgr_ok I m" "al_wf (GetAllUserMetrics mc)"
  shows "spec_cycle (m_cfg m) ck (limitsAppliedTime m) mc (abs_manager m)
     (abs_manager (snd (RunControlCycleWithTrigger ops rx ck mc trigger m)))"
proof -
  let ?m1 = "emit_prom (RecordControlCycleTrigger (if trigger = [] then ''manual'' else trigger)) m"
  have s1: "same_core m ?m1" by simp
  show ?thesis
  proof (cases "IsInBlackout (m_cfg m) (ck_day ck) (ck_hour ck)")
    case True
    moreover have "abs_manager ?m1 = abs_manager m" by (rule abs_users) (rule users_of_same [OF s1])
    ultimately show ?thesis by (simp add: RunControlCycleWithTrigger_def Let_def suspended)
  next
    case False
    obtain s m2 where c: "collectSystemMetricsWithIOState True (ck_now ck) mc ?m1 = (s, m2)" by (metis surj_pair)
    let ?m4 = "writeDatabaseMetrics mc s (updatePrometheusMetrics ops mc s m2)"
    obtain d r m5 where d: "makeDecision (m_cfg ?m4) (ck_now ck) mc s ?m4 = ((d, r), m5)" by (metis surj_pair)
    note cs = collect_spec(5-8) [OF assms(2) c]
    have s4: "same_core m2 ?m4" by simp
    have u4: "users_of ?m4 = users_of m" "m_cfg ?m4 = m_cfg m" "limitsAppliedTime ?m4 = limitsAppliedTime m"
      using cs users_of_same [OF s4] users_of_same [OF s1] same_core_fields(6,7) [OF s4] same_core_fields(6,7) [OF s1]
      by simp_all
    have u5: "users_of m5 = users_of m" using makeDecision_keeps [OF d] u4 by simp
    have ok5: "mgr_ok I m5"
      using mgr_ok_makeDecision [of I ?m4 "m_cfg ?m4" "ck_now ck" mc s] mgr_ok_collect [of I ?m1 True "ck_now ck" mc]
        assms(1) c d by simp
    have "spec_cycle (m_cfg m) ck (limitsAppliedTime m) mc (abs_manager m)
        (abs_manager (snd (executeDecision ops rx (ck_now ck) mc d s m5)))"
    proof (rule executeDecision_refines [OF assms(2) c ok5])
      show "abs_manager m5 = abs_manager m" by (rule abs_users [OF u5])
      show "fst (fst (makeDecision (m_cfg m) (ck_now ck) mc s ?m4)) = d" using d u4(2) by simp
      show "limitsActive ?m4 = limitsActive m5" using u4(1) u5 by (simp add: users_of_def)
    qed (use False u4 in simp_all)
    moreover obtain e m6 where x: "executeDecision ops rx (ck_now ck) mc d s m5 = (e, m6)" by (metis surj_pair)
    moreover have "abs_manager (snd (RunControlCycleWithTrigger ops rx ck mc trigger m)) = abs_manager m6"
      by (rule abs_users) (simp add: RunControlCycleWithTrigger_def Let_def False c d x split: option.split)
    ultimately show ?thesis by simp
  qed
qed

section \<open>Activation reaches every eligible user\<close>

lemma pending_emit [simp]: "pending (emit e m) = pending m"
  by (simp add: emit_def)

lemma pending_emit_prom [simp]: "pending (emit_prom e m) = pending m"
  by (simp add: emit_prom_def)

lemma pending_notify [simp]: "pending (notifyUserLimited cfg uid n s m) = pending m"
  by (simp add: notifyUserLimited_def)

lemma pending_add_monitor [simp]: "pending (add_monitor ops uid t p m) = pending m"
  by (simp add: add_monitor_def split_beta split: option.split)

lemma pending_watch_user [simp]: "pending (watch_user ops uid p m) = pending m"
  by (simp add: watch_user_def)

lemma pending_spawn [simp]: "pending (spawn ts m) = pending m @ ts"
  by (simp add: spawn_def)

lemma limit_users_pending:
  assumes "limit_users ops cfg mc s uids m = (e, n, m')"
  shows "set (pending m) \<subseteq> set (pending m')"
    and "e = None \<Longrightarrow> u \<in> set uids \<Longrightarrow> u \<notin> set (activeUsers m) \<Longrightarrow> LimitTask cfg u (sharedCgroupPath m) \<in> set (pending m')"
proof -
  have "set (pending m) \<subseteq> set (pending m') \<and> (e = None \<longrightarrow> u \<in> set uids \<longrightarrow> u \<notin> set (activeUsers m) \<longrightarrow>
      LimitTask cfg u (sharedCgroupPath m) \<in> set (pending m'))"
    using assms
  proof (induction uids arbitrary: m e n m')
    case (Cons uid uids)
    show ?case
    proof (cases "uid \<in> set (activeUsers m)")
      case True
      with Cons.IH [of m e n m'] Cons.prems show ?thesis by auto
    next
      case False
      obtain r m1 where c: "call (op_CreateUserSubCgroup ops uid (sharedCgroupPath m)) m = (r, m1)" by (metis surj_pair)
      have p1: "pending m1 = pending m" using pending_call [of "op_CreateUserSubCgroup ops uid (sharedCgroupPath m)" m] c by simp
      show ?thesis
      proof (cases r)
        case (Inl er)
        obtain e2 n2 where "limit_users ops cfg mc s uids m1 = (e2, n2, m')" "e = Some er"
          using Cons.prems False c Inl by (auto split: prod.splits)
        with Cons.IH p1 show ?thesis by fastforce
      next
        case (Inr p)
        let ?w = "watch_user ops uid p m1"
        let ?m3 = "spawn [LimitTask cfg uid (sharedCgroupPath ?w)] ?w"
        let ?m4 = "?m3\<lparr>activeUsers := activate_user uid (activeUsers ?m3)\<rparr>"
        let ?m5 = "notifyUserLimited cfg uid (GetUsernameFromUID mc uid) s ?m4"
        obtain n2 where r2: "limit_users ops cfg mc s uids ?m5 = (e, n2, m')"
          using Cons.prems False c Inr by (auto simp: Let_def split: prod.splits)
        have sw: "same_core m ?w" using same_core_call_eq [OF c] by simp
        have s5: "same_core ?m4 ?m5" by simp
        note f = same_core_fields(1,3) [OF sw] same_core_fields(1,3) [OF s5]
        have "activeUsers ?m3 = activeUsers ?w" "sharedCgroupPath ?m3 = sharedCgroupPath ?w" by (simp_all add: spawn_def)
        then have a5: "activeUsers ?m5 = activate_user uid (activeUsers m)" "sharedCgroupPath ?m5 = sharedCgroupPath m"
          using f by simp_all
        have p5: "pending ?m5 = pending m @ [LimitTask cfg uid (sharedCgroupPath m)]" using p1 f(2) by simp
        from Cons.IH [OF r2] a5 p5 show ?thesis by auto
      qed
    qed
  qed simp
  then show "set (pending m) \<subseteq> set (pending m')"
    "e = None \<Longrightarrow> u \<in> set uids \<Longrightarrow> u \<notin> set (activeUsers m) \<Longrightarrow> LimitTask cfg u (sharedCgroupPath m) \<in> set (pending m')"
    by auto
qed

lemma activation_reaches_eligible:
  assumes "activateLimits ops now mc s m = (None, m')"
  shows "set (activeUsers m') = set (activeUsers m) \<inter> set (keys (UserCPUUsage s)) \<union> set (EligibleUsers s)"
    and "uid \<in> set (EligibleUsers s) \<Longrightarrow> uid \<notin> set (activeUsers m) \<Longrightarrow>
      LimitTask (m_cfg m) uid (sharedCgroupPath m') \<in> set (pending m')"
proof -
  let ?m1 = "emit_prom IncrementLimitsActivated m"
  let ?removed = "filter (\<lambda>uid. uid \<notin> set (keys (UserCPUUsage s))) (activeUsers ?m1)"
  let ?m2 = "?m1\<lparr>activeUsers := drop_users ?removed (activeUsers ?m1)\<rparr>"
  have f1: "activeUsers ?m1 = activeUsers m" by (simp add: emit_prom_def emit_def)
  obtain r m3 where es: "ensure_shared ops (m_cfg m) s ?m2 = (r, m3)" by (metis surj_pair)
  obtain er n m4 where lu: "limit_users ops (m_cfg m) mc s (EligibleUsers s) m3 = (er, n, m4)" by (metis surj_pair)
  have *: "activateLimits ops now mc s m = (case r of Some er \<Rightarrow> (Some er, m3)
     | None \<Rightarrow> (er, if n > 0 \<or> ?removed \<noteq> [] then m4\<lparr>limitsActive := True, limitsAppliedTime := now\<rparr> else m4))"
    by (simp only: activateLimits_def Let_def es lu prod.case)
  with assms have r: "r = None" "er = None"
    and m': "m' = (if n > 0 \<or> ?removed \<noteq> [] then m4\<lparr>limitsActive := True, limitsAppliedTime := now\<rparr> else m4)"
    by (auto split: option.splits)
  have f3: "activeUsers m3 = drop_users ?removed (activeUsers m)"
    using same_core_fields(1) [OF ensure_shared_spec(1) [OF es]] by (simp add: f1)
  note l = limit_users_spec [OF lu]
  have eq: "activeUsers m' = activeUsers m4" "pending m' = pending m4" "sharedCgroupPath m' = sharedCgroupPath m4"
    by (simp_all add: m')
  show "set (activeUsers m') = set (activeUsers m) \<inter> set (keys (UserCPUUsage s)) \<union> set (EligibleUsers s)"
    using l(4) [OF r(2)] f3 by (auto simp: eq f1)
  show "LimitTask (m_cfg m) uid (sharedCgroupPath m') \<in> set (pending m')"
    if "uid \<in> set (EligibleUsers s)" "uid \<notin> set (activeUsers m)"
    using limit_users_pending(2) [OF lu r(2) that(1)] that(2) f3 same_core_fields(3) [OF l(1)] by (simp add: eq)
qed

end
