(* ===== verification/StageProps.thy ===== *)
theory StageProps
  imports ManagerInv
begin

text \<open>
  What the stages after the decision guarantee: IO remediation over sequences of cycles, the policies and the pattern
  detector.
\<close>

section \<open>Remediation never boosts\<close>

text \<open>The states one pass can reach from an empty map: no boost, and a starvation that began in this very pass.\<close>

definition fresh_boost :: "time \<Rightarrow> io_boost \<Rightarrow> bool" where
  "fresh_boost now st \<longleftrightarrow> \<not> bs_IsActive st \<and> bs_LastBoostTime st = zero_time \<and>
     (IsZero (bs_StarvationStart st) \<or> bs_StarvationStart st = now)"

lemma fresh_new [simp]: "fresh_boost now new_boost"
  by (simp add: fresh_boost_def new_boost_def IsZero_def zero_time_def)

lemma check_user_fresh:
  assumes "1 \<le> IOStarvationThreshold cfg" "IOStarvationThreshold cfg \<le> 9000000000" "fresh_boost now st"
  shows "snd (check_user ops cfg now uid psi st c) = c \<and> fresh_boost now (fst (check_user ops cfg now uid psi st c))"
  using assms(3) seconds_pos [OF assms(1,2)]
  by (auto simp: check_user_def fresh_boost_def Let_def IsZero_def zero_time_def)

lemma check_users_fresh:
  assumes "1 \<le> IOStarvationThreshold cfg" "IOStarvationThreshold cfg \<le> 9000000000"
    and "\<And>u st. m u = Some st \<Longrightarrow> fresh_boost now st"
  shows "snd (check_users ops cfg now uids m c) = c \<and>
    (\<forall>u st. fst (check_users ops cfg now uids m c) u = Some st \<longrightarrow> fresh_boost now st)"
  using assms(3)
proof (induction uids arbitrary: m)
  case (Cons uid uids)
  let ?st = "case m uid of Some b \<Rightarrow> b | None \<Rightarrow> new_boost"
  have st: "fresh_boost now ?st" using Cons.prems by (auto split: option.split)
  note cu = check_user_fresh [OF assms(1,2) st, of ops uid _ c]
  have m1: "\<And>u b. (m(uid \<mapsto> ?st)) u = Some b \<Longrightarrow> fresh_boost now b"
    using st Cons.prems by (auto split: if_splits)
  show ?case
  proof (cases "op_GetPSIStats ops uid c")
    case (Inl e)
    have "snd (check_users ops cfg now uids (m(uid \<mapsto> ?st)) c) = c \<and>
      (\<forall>u st. fst (check_users ops cfg now uids (m(uid \<mapsto> ?st)) c) u = Some st \<longrightarrow> fresh_boost now st)"
      by (rule Cons.IH) (rule m1)
    with Inl show ?thesis by (simp add: Let_def)
  next
    case (Inr psi)
    obtain st' c' where r: "check_user ops cfg now uid psi ?st c = (st', c')" by (metis surj_pair)
    have m2: "\<And>u b. (m(uid \<mapsto> st')) u = Some b \<Longrightarrow> fresh_boost now b"
      using cu [of psi] r Cons.prems by (auto split: if_splits)
    have "snd (check_users ops cfg now uids (m(uid \<mapsto> st')) c) = c \<and>
      (\<forall>u st. fst (check_users ops cfg now uids (m(uid \<mapsto> st')) c) u = Some st \<longrightarrow> fresh_boost now st)"
      by (rule Cons.IH) (rule m2)
    with cu [of psi] r Inr show ?thesis by (simp add: Let_def)
  qed
qed simp

lemma Cleanup_fresh:
  assumes "\<And>u st. boostStates r u = Some st \<Longrightarrow> fresh_boost now st" "24 * hour < now"
  shows "boostStates (IORemediation_Cleanup now (wrap64 (24 * hour)) r) = Map.empty"
proof -
  have "cleanup_boost now (wrap64 (24 * hour)) st = None" if "boostStates r u = Some st" for u st
  proof -
    have "wrap64 (24 * hour) < time_Sub now zero_time"
      using assms(2) by (simp add: time_Sub_def max_duration_def zero_time_def hour_def in_int64_def)
    with assms(1) [OF that] show ?thesis by (simp add: cleanup_boost_def fresh_boost_def)
  qed
  then show ?thesis by (auto simp: IORemediation_Cleanup_def split: option.split)
qed

lemma stageIORemediation_idle:
  assumes "1 \<le> IOStarvationThreshold cfg" "IOStarvationThreshold cfg \<le> 9000000000" "24 * hour < now"
    and "boostStates (ioRemediation m) = Map.empty"
  shows "cgroups (stageIORemediation ops cfg now mc m) = cgroups m \<and>
    boostStates (ioRemediation (stageIORemediation ops cfg now mc m)) = Map.empty"
proof -
  obtain r c where cr: "CheckAndRemediate ops cfg now (GetLimitedUsers mc) (ioRemediation m) (cgroups m) = (r, c)"
    by (metis surj_pair)
  have "c = cgroups m \<and> (\<forall>u st. boostStates r u = Some st \<longrightarrow> fresh_boost now st)"
    using cr check_users_fresh [OF assms(1,2), of "Map.empty" now ops "GetLimitedUsers mc" "cgroups m"] assms(4)
    by (auto simp: CheckAndRemediate_def split: if_splits prod.splits)
  with Cleanup_fresh [of r now] assms(3) show ?thesis by (simp add: stageIORemediation_def cr)
qed


section \<open>Boosts per hour\<close>

text \<open>Between two cleanups a user gets at most the configured number of boosts.\<close>

definition boosts_bounded :: "int \<Rightarrow> (int \<rightharpoonup> io_boost) \<Rightarrow> bool" where
  "boosts_bounded n m \<longleftrightarrow> (\<forall>u st. m u = Some st \<longrightarrow> bs_BoostCount st \<le> n)"

lemma check_user_bound:
  "IOBoostMaxPerHour cfg \<le> n \<Longrightarrow> bs_BoostCount st \<le> n \<Longrightarrow> bs_BoostCount (fst (check_user ops cfg now uid psi st c)) \<le> n"
  by (auto simp: check_user_def applyBoost_def revertBoost_def Let_def split: prod.splits option.splits)

lemma check_users_bound:
  assumes "IOBoostMaxPerHour cfg \<le> n" "0 \<le> n" "boosts_bounded n m"
  shows "boosts_bounded n (fst (check_users ops cfg now uids m c))"
  using assms(3)
proof (induction uids arbitrary: m c)
  case (Cons uid uids)
  let ?st = "case m uid of Some b \<Rightarrow> b | None \<Rightarrow> new_boost"
  have st: "bs_BoostCount ?st \<le> n" using Cons.prems assms(2) by (auto simp: boosts_bounded_def new_boost_def split: option.split)
  have upd: "boosts_bounded n (m(uid \<mapsto> b))" if "bs_BoostCount b \<le> n" for b
    using that Cons.prems by (auto simp: boosts_bounded_def)
  show ?case
  proof (cases "op_GetPSIStats ops uid c")
    case (Inr psi)
    obtain st' c' where r: "check_user ops cfg now uid psi ?st c = (st', c')" by (metis surj_pair)
    have "bs_BoostCount st' \<le> n" using check_user_bound [OF assms(1) st, of ops now uid psi c] r by simp
    then have "boosts_bounded n (fst (check_users ops cfg now uids (m(uid \<mapsto> st')) c'))" by (intro Cons.IH upd)
    with Inr r show ?thesis by (simp add: Let_def)
  qed (simp add: Let_def Cons.IH [OF upd [OF st]])
qed simp

lemma boosts_per_hour:
  assumes "boosts_bounded (max 0 (IOBoostMaxPerHour cfg)) (boostStates r)"
  shows "boosts_bounded (max 0 (IOBoostMaxPerHour cfg)) (boostStates (fst (CheckAndRemediate ops cfg now us r c))) \<and>
    boosts_bounded (max 0 (IOBoostMaxPerHour cfg)) (boostStates (IORemediation_Cleanup now age r))"
proof
  show "boosts_bounded (max 0 (IOBoostMaxPerHour cfg)) (boostStates (fst (CheckAndRemediate ops cfg now us r c)))"
    using assms check_users_bound [OF _ _ assms, of cfg ops now us c]
    by (simp add: CheckAndRemediate_def split_beta)
  show "boosts_bounded (max 0 (IOBoostMaxPerHour cfg)) (boostStates (IORemediation_Cleanup now age r))"
    using assms by (auto simp: boosts_bounded_def IORemediation_Cleanup_def cleanup_boost_def split: option.splits if_splits)
qed

section \<open>Policies and patterns\<close>

lemma ApplyPolicy_settles:
  assumes "p \<noteq> PatternUnknown"
  shows "case ApplyPolicy now uid p cfg pe of (changed, pe') \<Rightarrow>
    (\<exists>pol. GetPolicy uid pe' = Some pol \<and> (CPUQuota pol, RAMQuota pol) = getQuotasForPattern p cfg) \<and>
    ApplyPolicy now' uid p cfg pe' = (False, pe') \<and>
    (\<not> changed \<longrightarrow> pe' = pe) \<and> (\<forall>u. u \<noteq> uid \<longrightarrow> GetPolicy u pe' = GetPolicy u pe)"
  using assms by (auto simp: ApplyPolicy_def GetPolicy_def split: prod.splits option.splits if_splits)

lemma f64_min_not_gt: "\<not> f64_gt (f64_min a b) b"
  by (cases a; cases b) (auto simp: f64_min_def f64_gt_def split: if_splits)

lemma classify_figures_at_most_one: "classify_figures r v a = (p, conf) \<Longrightarrow> \<not> f64_gt conf (lit 1)"
proof -
  have "\<not> f64_gt (lit 0) (lit 1)" by code_simp
  then show "classify_figures r v a = (p, conf) \<Longrightarrow> \<not> f64_gt conf (lit 1)"
    by (auto simp: classify_figures_def Let_def f64_min_not_gt split: if_splits)
qed

lemma classifyPattern_confidence:
  assumes "classifyPattern st thr = (p, conf)"
  shows "(p = PatternUnknown \<and> conf = lit 0) \<or> (\<not> f64_lt conf thr \<and> \<not> f64_gt conf (lit 1))"
  using assms classify_figures_at_most_one by (auto simp: classifyPattern_def Let_def split: prod.splits if_splits)

text \<open>The statistics of a user: 24 hours, and a total that is the sum of the hours.\<close>

definition stats_ok :: "hourly_stats \<Rightarrow> bool" where
  "stats_ok st \<longleftrightarrow> length (HourlyCPU st) = 24 \<and> length (HourlyCount st) = 24 \<and>
     list_all (\<lambda>n. 0 \<le> n) (HourlyCount st) \<and> TotalSamples st = sum_list (HourlyCount st)"

definition detector_ok :: "pattern_detector \<Rightarrow> bool" where
  "detector_ok pd \<longleftrightarrow> al_wf (userStats pd) \<and> (\<forall>(u, st) \<in> set (userStats pd). stats_ok st)"

lemma stats_ok_new: "stats_ok (new_stats now)"
  by (simp add: stats_ok_def new_stats_def sum_list_replicate list_all_iff)

lemma sum_list_update_int: "i < length xs \<Longrightarrow> sum_list (xs[i := x]) = sum_list xs + x - (xs ! i :: int)"
  by (induction xs arbitrary: i) (auto split: nat.split)

lemma stats_ok_add: "stats_ok st \<Longrightarrow> h < 24 \<Longrightarrow> stats_ok (add_sample now h x st)"
  by (auto simp: stats_ok_def add_sample_def Let_def sum_list_update_int list_all_length nth_list_update)

lemma detector_ok_Update: "detector_ok pd \<Longrightarrow> h < 24 \<Longrightarrow> detector_ok (PatternDetector_Update now h uid x pd)"
proof -
  assume ok: "detector_ok pd" and h: "h < 24"
  let ?st = "case map_of (userStats pd) uid of Some st \<Rightarrow> st | None \<Rightarrow> new_stats now"
  have "stats_ok ?st" using ok by (auto simp: detector_ok_def stats_ok_new split: option.split dest!: map_of_SomeD)
  then have "stats_ok (add_sample now h x ?st)" using h by (rule stats_ok_add)
  with ok show ?thesis
    by (auto simp: detector_ok_def PatternDetector_Update_def Let_def dest!: al_update_member)
qed

lemma detector_ok_Cleanup: "detector_ok pd \<Longrightarrow> detector_ok (PatternDetector_Cleanup now age pd)"
  by (auto simp: detector_ok_def PatternDetector_Cleanup_def)

text \<open>Any run of samples and cleanups from an empty detector.\<close>

datatype detector_event = Sample time nat int f64 | Expire time duration

fun detector_step :: "detector_event \<Rightarrow> pattern_detector \<Rightarrow> pattern_detector" where
  "detector_step (Sample now h uid x) pd = PatternDetector_Update now h uid x pd"
| "detector_step (Expire now age) pd = PatternDetector_Cleanup now age pd"

lemma detector_invariant:
  assumes "\<forall>now h uid x. Sample now h uid x \<in> set evs \<longrightarrow> h < 24"
  shows "detector_ok (fold detector_step evs NewPatternDetector)"
proof -
  have "detector_ok (fold detector_step evs pd)" if "detector_ok pd" for pd
    using that assms
  proof (induction evs arbitrary: pd)
    case (Cons ev evs)
    then have "detector_ok (detector_step ev pd)"
      by (cases ev) (auto intro: detector_ok_Update detector_ok_Cleanup)
    moreover have "\<forall>now h uid x. Sample now h uid x \<in> set evs \<longrightarrow> h < 24" using Cons.prems by simp
    ultimately show ?case using Cons.IH [of "detector_step ev pd"] by simp
  qed simp
  moreover have "detector_ok NewPatternDetector" by (simp add: detector_ok_def NewPatternDetector_def)
  ultimately show ?thesis by blast
qed

end
