(* ===== verification/TrackingFile.thy ===== *)
theory TrackingFile
  imports CgroupOps
begin

text \<open>
  The tracking file of \<open>cgroup/storage.go\<close>: saving, removing and loading entries refine the operations of a map from users to
  paths. The contract of the files it needs is the locale \<open>tracking_store\<close>, which extends \<open>regular_files\<close>.
\<close>

section \<open>The tracking file\<close>

text \<open>Beyond ordinary files: a file that \<open>Stat\<close> does not find cannot be read.\<close>

locale tracking_store = regular_files +
  assumes stat_absent: "regular p \<Longrightarrow> IsNotExist (Stat os p w) \<Longrightarrow> ReadFile os p w = Inl NotExist"

definition unlines :: "string list \<Rightarrow> string" where
  "unlines ls = concat (map (\<lambda>l. l @ [newline]) ls)"

definition entry_line :: "int \<times> string \<Rightarrow> string" where
  "entry_line e = Itoa (fst e) @ '':'' @ snd e"

text \<open>An entry the file can hold: a Go \<open>int\<close>, and a path of one line.\<close>

definition storable :: "int \<times> string \<Rightarrow> bool" where
  "storable e \<longleftrightarrow> in_int64 (fst e) \<and> newline \<notin> set (snd e) \<and> \<not> HasSuffix (snd e) [CHR 0x0D]"

lemma Split_unlines: "\<forall>l\<in>set ls. newline \<notin> set l \<Longrightarrow> Split (unlines ls) newline = ls @ [[]]"
proof (induction ls)
  case (Cons l ls)
  then have "split_by (\<lambda>x. x = newline) (l @ newline # unlines ls) = l # split_by (\<lambda>x. x = newline) (unlines ls)"
    by (intro split_by_append_sep) auto
  with Cons show ?case by (simp add: Split_def unlines_def)
qed (simp add: unlines_def Split_def)

lemma scan_unlines: "\<forall>l\<in>set ls. newline \<notin> set l \<Longrightarrow> scan_lines (unlines ls) = map strip_cr ls"
  by (simp add: scan_lines_def Split_unlines)

lemma Join_unlines: "Join ls [newline] @ [newline] = unlines (if ls = [] then [[]] else ls)"
  by (induction ls "[newline]" rule: Join.induct) (auto simp: unlines_def)

lemma colon_not_Itoa: "CHR '':'' \<notin> set (Itoa i)"
proof
  assume "CHR '':'' \<in> set (Itoa i)"
  moreover have "\<not> is_digit CHR '':''" by code_simp
  ultimately show False using Itoa_chars by blast
qed

lemma newline_not_Itoa: "newline \<notin> set (Itoa i)"
proof
  assume "newline \<in> set (Itoa i)"
  moreover have "\<not> is_digit newline" "newline \<noteq> CHR ''-''" by code_simp+
  ultimately show False using Itoa_chars by blast
qed

lemma entry_line_props:
  assumes "storable e"
  shows "newline \<notin> set (entry_line e)" "strip_cr (entry_line e) = entry_line e" "entry_line e \<noteq> []"
    "SplitN2 (entry_line e) CHR '':'' = [Itoa (fst e), snd e]"
proof -
  show "newline \<notin> set (entry_line e)" using assms newline_not_Itoa by (auto simp: entry_line_def storable_def newline_def)
  show "entry_line e \<noteq> []" by (simp add: entry_line_def)
  show "SplitN2 (entry_line e) CHR '':'' = [Itoa (fst e), snd e]"
    unfolding entry_line_def append_Cons append_Nil by (rule SplitN2_app [OF colon_not_Itoa])
  have "\<not> HasSuffix (Itoa (fst e) @ '':'' @ snd e) [CHR 0x0D]"
    using assms by (cases "snd e" rule: rev_cases) (auto simp: storable_def HasSuffix_def)
  then show "strip_cr (entry_line e) = entry_line e" by (simp add: strip_cr_def TrimSuffix_def entry_line_def)
qed

text \<open>The lines of a file that holds the entries \<open>es\<close>, blank lines apart.\<close>

definition lines_of :: "(int \<times> string) list \<Rightarrow> string list \<Rightarrow> bool" where
  "lines_of es ls \<longleftrightarrow> filter (\<lambda>l. l \<noteq> []) ls = map entry_line es \<and> list_all storable es"

lemma lines_of_plain:
  assumes "lines_of es ls" "l \<in> set ls" shows "newline \<notin> set l" "strip_cr l = l"
proof -
  have "l = [] \<or> l \<in> set (filter (\<lambda>l. l \<noteq> []) ls)" using assms(2) by auto
  with assms(1) have "l = [] \<or> l \<in> entry_line ` set es" by (simp add: lines_of_def)
  then have "l = [] \<or> (\<exists>e. storable e \<and> l = entry_line e)" using assms(1) unfolding lines_of_def list_all_iff by blast
  moreover have "strip_cr [] = []" by (simp add: strip_cr_def TrimSuffix_def HasSuffix_def)
  ultimately show "newline \<notin> set l" "strip_cr l = l" using entry_line_props(1,2) by (metis empty_iff empty_set)+
qed

lemma scan_lines_of: "lines_of es ls \<Longrightarrow> scan_lines (unlines ls) = ls"
  using scan_unlines [of ls] lines_of_plain [of es ls] by (simp add: map_idI)

text \<open>What a load makes of the entries: a later line for the same user replaces the path.\<close>

definition as_map :: "(int \<times> string) list \<Rightarrow> (int \<times> string) list \<Rightarrow> (int \<times> string) list" where
  "as_map es m = fold (\<lambda>(uid, p). al_update uid p) es m"

lemma load_lines_of:
  "lines_of es ls \<Longrightarrow> \<forall>(uid, p)\<in>set es. exists p \<Longrightarrow> load_lines exists ls m = as_map es m"
proof (induction ls arbitrary: es m)
  case Nil
  then show ?case by (simp add: lines_of_def as_map_def)
next
  case (Cons l ls)
  show ?case
  proof (cases "l = []")
    case True
    with Cons.prems(1) have "lines_of es ls" by (simp add: lines_of_def)
    from Cons.IH [OF this Cons.prems(2)] True show ?thesis by simp
  next
    case False
    then obtain e es' where e: "es = e # es'" "l = entry_line e" "lines_of es' ls" "storable e"
      using Cons.prems(1) by (cases es) (auto simp: lines_of_def)
    from entry_line_props [OF e(4)] e(1,2,4) Cons.prems(2) Cons.IH [OF e(3)] show ?thesis
      by (cases e) (simp add: as_map_def storable_def)
  qed
qed

lemma keep_lines_of:
  "lines_of es ls \<Longrightarrow> lines_of (al_delete uid es) (filter (keep_line uid) ls)"
proof (induction ls arbitrary: es)
  case Nil
  then show ?case by (simp add: lines_of_def al_delete_def)
next
  case (Cons l ls)
  show ?case
  proof (cases "l = []")
    case True
    with Cons show ?thesis by (simp add: lines_of_def keep_line_def)
  next
    case False
    then obtain e es' where e: "es = e # es'" "l = entry_line e" "lines_of es' ls" "storable e"
      using Cons.prems by (cases es) (auto simp: lines_of_def)
    have "keep_line uid l \<longleftrightarrow> fst e \<noteq> uid"
      using entry_line_props [OF e(4)] e(2,4) by (simp add: keep_line_def storable_def)
    with Cons.IH [OF e(3)] e(1,2,4) entry_line_props(3) [OF e(4)] show ?thesis
      by (auto simp: lines_of_def al_delete_def)
  qed
qed

lemma al_delete_update:
  "al_delete u (al_update v p m) = (if u = v then al_delete u m else al_update v p (al_delete u m))"
  by (induction m) (auto simp: al_delete_def)

lemma al_delete_Cons: "al_delete u (e # es) = (if fst e = u then al_delete u es else e # al_delete u es)"
  by (simp add: al_delete_def)

lemma as_map_delete: "as_map (al_delete u es) (al_delete u m) = al_delete u (as_map es m)"
proof (induction es arbitrary: m)
  case (Cons e es)
  obtain v p where e: "e = (v, p)" by (cases e)
  have "as_map (al_delete u es) (al_delete u (al_update v p m)) = al_delete u (as_map es (al_update v p m))"
    by (rule Cons.IH)
  then show ?case by (auto simp: e al_delete_Cons al_delete_update as_map_def)
qed (simp add: as_map_def al_delete_def)

text \<open>The operations on the file, as the abstract map sees them.\<close>

datatype track_op = Track int string | Untrack int

fun track_abs :: "track_op \<Rightarrow> (int \<times> string) list \<Rightarrow> (int \<times> string) list" where
  "track_abs (Track uid p) m = al_update uid p m"
| "track_abs (Untrack uid) m = al_delete uid m"

fun track_real :: "'w os \<Rightarrow> track_op \<Rightarrow> 'w cgroup \<Rightarrow> os_error option \<times> 'w cgroup" where
  "track_real os (Track uid p) s = saveCgroupToFile os uid p s"
| "track_real os (Untrack uid) s = removeCgroupFromFile os uid s"

fun track_all :: "'w os \<Rightarrow> track_op list \<Rightarrow> 'w cgroup \<Rightarrow> 'w cgroup option" where
  "track_all os [] s = Some s"
| "track_all os (x # xs) s = (case track_real os x s of (None, s1) \<Rightarrow> track_all os xs s1 | (Some e, s1) \<Rightarrow> None)"

fun track_ok :: "track_op \<Rightarrow> bool" where
  "track_ok (Track uid p) = storable (uid, p)"
| "track_ok (Untrack uid) = True"

context tracking_store begin

definition holds :: "'a cgroup \<Rightarrow> (int \<times> string) list \<Rightarrow> bool" where
  "holds s es \<longleftrightarrow>
     (case ReadFile os (createdCgroupsFile s) (world s) of
        Inl e \<Rightarrow> es = []
      | Inr content \<Rightarrow> \<exists>ls. content = unlines ls \<and> lines_of es ls)"

lemma track_step:
  assumes "regular (createdCgroupsFile s)" "holds s es" "track_ok x" "track_real os x s = (None, s1)"
  shows "createdCgroupsFile s1 = createdCgroupsFile s"
    and "\<exists>es1. holds s1 es1 \<and> as_map es1 [] = track_abs x (as_map es []) \<and> set es1 \<subseteq> set es \<union> {(u, p). x = Track u p}"
proof -
  show f: "createdCgroupsFile s1 = createdCgroupsFile s"
    using assms(4) by (cases x) (auto simp: saveCgroupToFile_def removeCgroupFromFile_def cg_do_def cg_write_def
        split: prod.splits if_splits sum.splits)
  show "\<exists>es1. holds s1 es1 \<and> as_map es1 [] = track_abs x (as_map es []) \<and> set es1 \<subseteq> set es \<union> {(u, p). x = Track u p}"
  proof (cases x)
    case (Track uid p)
    with assms(4) have ap: "AppendFile os (createdCgroupsFile s) (entry_line (uid, p) @ [newline]) (world s) = (None, world s1)"
      by (auto simp: saveCgroupToFile_def cg_do_def entry_line_def split: prod.splits)
    have st: "storable (uid, p)" using assms(3) Track by simp
    have "holds s1 (es @ [(uid, p)])"
    proof (cases "ReadFile os (createdCgroupsFile s) (world s)")
      case (Inl e)
      with assms(2) have "es = []" by (simp add: holds_def)
      moreover have "ReadFile os (createdCgroupsFile s) (world s1) = Inr (unlines [entry_line (uid, p)])"
        using read_appended [OF assms(1) ap] Inl by (simp add: unlines_def)
      ultimately show ?thesis using st entry_line_props(3) [OF st]
        unfolding holds_def f by (auto simp: lines_of_def intro!: exI [of _ "[entry_line (uid, p)]"])
    next
      case (Inr content)
      with assms(2) obtain ls where ls: "content = unlines ls" "lines_of es ls" by (auto simp: holds_def)
      have "ReadFile os (createdCgroupsFile s) (world s1) = Inr (unlines (ls @ [entry_line (uid, p)]))"
        using read_appended [OF assms(1) ap] Inr ls(1) by (simp add: unlines_def)
      then show ?thesis using st entry_line_props(3) [OF st] ls(2)
        unfolding holds_def f by (auto simp: lines_of_def intro!: exI [of _ "ls @ [entry_line (uid, p)]"])
    qed
    then show ?thesis by (intro exI [of _ "es @ [(uid, p)]"]) (auto simp: as_map_def Track)
  next
    case (Untrack uid)
    show ?thesis
    proof (cases "ReadFile os (createdCgroupsFile s) (world s)")
      case (Inl e)
      with assms(2,4) Untrack have "es = []" "s1 = s"
        by (auto simp: holds_def removeCgroupFromFile_def cg_read_def split: if_splits)
      with assms(2) show ?thesis by (intro exI [of _ "[]"]) (auto simp: as_map_def Untrack al_delete_def)
    next
      case (Inr content)
      with assms(2) obtain ls where ls: "content = unlines ls" "lines_of es ls" by (auto simp: holds_def)
      have "\<not> IsNotExist (Stat os (createdCgroupsFile s) (world s))"
        using stat_absent [OF assms(1)] Inr by fastforce
      with assms(4) Untrack Inr scan_lines_of [OF ls(2)] ls(1) have
        w: "WriteFile os (createdCgroupsFile s) (unlines (let k = filter (keep_line uid) ls in if k = [] then [[]] else k)) (world s) =
          (None, world s1)"
        by (auto simp: removeCgroupFromFile_def cg_stat_def cg_read_def cg_write_def Join_unlines Let_def split: prod.splits)
      have "lines_of (al_delete uid es) (let k = filter (keep_line uid) ls in if k = [] then [[]] else k)"
        using keep_lines_of [OF ls(2), of uid] by (cases "filter (keep_line uid) ls = []") (auto simp: Let_def lines_of_def)
      then have "holds s1 (al_delete uid es)"
        using read_written [OF assms(1) w] unfolding holds_def f by auto
      moreover have "as_map (al_delete uid es) [] = track_abs x (as_map es [])"
        using as_map_delete [of uid es "[]"] by (simp add: Untrack al_delete_def [of uid "[]"])
      ultimately show ?thesis by (intro exI [of _ "al_delete uid es"]) (auto simp: al_delete_def)
    qed
  qed
qed

lemma track_run:
  assumes "track_all os xs s = Some s1" "regular (createdCgroupsFile s)" "holds s es" "list_all track_ok xs"
  shows "\<exists>es1. holds s1 es1 \<and> as_map es1 [] = fold track_abs xs (as_map es []) \<and>
    set es1 \<subseteq> set es \<union> {(u, p). Track u p \<in> set xs} \<and> createdCgroupsFile s1 = createdCgroupsFile s"
  using assms
proof (induction xs arbitrary: s es)
  case (Cons x xs)
  then obtain s2 where s2: "track_real os x s = (None, s2)" "track_all os xs s2 = Some s1"
    by (auto split: prod.splits option.splits)
  from track_step [OF Cons.prems(2,3) _ s2(1)] Cons.prems(2,4) obtain es2 where
    es2: "regular (createdCgroupsFile s2)" "holds s2 es2" "as_map es2 [] = track_abs x (as_map es [])"
      "set es2 \<subseteq> set es \<union> {(u, p). x = Track u p}" "createdCgroupsFile s2 = createdCgroupsFile s" by auto
  from Cons.IH [OF s2(2) es2(1,2)] Cons.prems(4) es2(3-5) show ?case by fastforce
qed auto

lemma load_holds:
  assumes "holds s es" "regular (createdCgroupsFile s)" "\<forall>(uid, p)\<in>set es. Stat os p (world s) = None" "createdCgroups s = []"
    and "loadExistingCgroups os s = (None, s1)"
  shows "createdCgroups s1 = as_map es []"
proof (cases "ReadFile os (createdCgroupsFile s) (world s)")
  case (Inl e)
  with assms show ?thesis
    by (auto simp: loadExistingCgroups_def holds_def cg_stat_def cg_read_def as_map_def split: if_splits)
next
  case (Inr content)
  with assms(1) obtain ls where ls: "content = unlines ls" "lines_of es ls" by (auto simp: holds_def)
  have "\<not> IsNotExist (Stat os (createdCgroupsFile s) (world s))"
    using stat_absent [OF assms(2)] Inr by fastforce
  with assms(4,5) Inr ls(1) scan_lines_of [OF ls(2)] load_lines_of [OF ls(2), of "\<lambda>p. cg_stat os p s = None" "[]"] assms(3)
  show ?thesis by (auto simp: loadExistingCgroups_def cg_stat_def cg_read_def)
qed

end

interpretation mem_tracking: tracking_store mem_os "\<lambda>_. True"
  by unfold_locales (auto simp: mem_os_def IsNotExist_def split: if_splits)


end
