(* ===== verification/CgroupProps.thy ===== *)
theory CgroupProps
  imports TrackingFile ConfigUseProps
begin

text \<open>
  What the cgroup operations guarantee: the agreement of the two parsers of byte quantities, the sums of \<open>io.stat\<close>, where
  the processes of a user end up, and when a user cannot be released.
\<close>

section \<open>Two parsers of byte quantities\<close>

lemma digits_trim: "list_all is_digit s \<Longrightarrow> c \<in> set ''KMGT'' \<Longrightarrow> TrimSpace (s @ [c]) = s @ [c] \<and> TrimSpace s = s"
proof
  assume d: "list_all is_digit s" and c: "c \<in> set ''KMGT''"
  have nc: "\<not> is_space c" using c by (auto simp: is_space_def)
  have "\<forall>x\<in>set (s @ [c]). \<not> is_space x" using d nc is_digit_not_space by (auto simp: list_all_iff)
  then show "TrimSpace (s @ [c]) = s @ [c]" unfolding TrimSpace_def by (rule trim_by_no)
  have "\<forall>x\<in>set s. \<not> is_space x" using d is_digit_not_space by (auto simp: list_all_iff)
  then show "TrimSpace s = s" unfolding TrimSpace_def by (rule trim_by_no)
qed

lemma suffix_multipliers:
  "suffix_multiplier CHR ''K'' = Some 1024" "suffix_multiplier CHR ''M'' = Some (1024 * 1024)"
  "suffix_multiplier CHR ''G'' = Some (1024 * 1024 * 1024)" "suffix_multiplier CHR ''T'' = Some (1024 * 1024 * 1024 * 1024)"
  by (simp_all add: suffix_multiplier_def ToUpper_def to_upper_def)

lemma digit_no_multiplier: "is_digit c \<Longrightarrow> suffix_multiplier c = None"
proof -
  assume c: "is_digit c"
  then have "(of_char c :: int) \<le> 57" by (simp add: is_digit_def digit_val_def)
  then have "(of_char c :: nat) \<le> 57" using of_nat_of_char [of c, where 'a = int] by (metis of_nat_le_iff of_nat_numeral)
  then have "ToUpper [c] = [c]" by (simp add: ToUpper_def to_upper_def)
  moreover have "c \<noteq> CHR ''K''" "c \<noteq> CHR ''M''" "c \<noteq> CHR ''G''" "c \<noteq> CHR ''T''" using c not_digits by auto
  ultimately show ?thesis by (simp add: suffix_multiplier_def Let_def)
qed

lemma ParseRAMQuota_parseBPS: "ParseRAMQuota q = Inr v \<Longrightarrow> parseBPSValue q = v"
proof -
  assume q: "ParseRAMQuota q = Inr v"
  have sfx: "parseBPSValue (n @ [c]) = x * m" if "ParseUint n = Some x" "suffix_multiplier c = Some m" "c \<in> set ''KMGT''" for n c x m
    using that digits_trim [OF ParseUint_Some(1) [OF that(1)] that(3)] by (simp add: parseBPSValue_def)
  have plain: "parseBPSValue q = x" if "ParseUint q = Some x" for x
  proof -
    note p = ParseUint_Some(1,2) [OF that]
    then have "is_digit (last q)" by (simp add: list_all_iff)
    moreover have "TrimSpace q = q" using digits_trim [OF p(1), of "CHR ''K''"] by simp
    ultimately show ?thesis using that p by (simp add: parseBPSValue_def digit_no_multiplier)
  qed
  from q show ?thesis
    by (auto simp: ParseRAMQuota_def quota_suffixes_def HasSuffix_iff TrimSuffix_append plain Let_def
       suffix_multipliers sfx split: if_splits option.splits)
qed

section \<open>Releasing a user\<close>

text \<open>
  The documented rule of cgroup v2 for \<open>cgroup.procs\<close>: one process is migrated per write. A write that holds several process
  ids fails and moves nothing.
\<close>

definition one_pid_per_write :: "'w os \<Rightarrow> string \<Rightarrow> bool" where
  "one_pid_per_write os f \<longleftrightarrow>
     (\<forall>pids w. 2 \<le> length pids \<longrightarrow> (\<exists>e. WriteFile os f (Join (map Itoa pids) [newline]) w = (Some e, w)))"

lemma cgroup_world_same [simp]: "s\<lparr>world := world s\<rparr> = (s :: 'w cgroup)"
  by simp

text \<open>C20: under the documented rule that one write to cgroup.procs migrates one process, the release of a user with
  several processes always fails.\<close>

theorem release_several_fails:
  assumes "one_pid_per_write os (root_procs s)"
    and "cg_stat os (path_join sharedPath (user_dir uid)) s = None"
    and "readPidsFromFile os (path_join (path_join sharedPath (user_dir uid)) ''cgroup.procs'') s = Inr pids" "2 \<le> length pids"
  shows "\<exists>e. ReleaseUserFromSharedCgroup os uid sharedPath s = (Some e, s)"
proof -
  obtain e where "WriteFile os (root_procs s) (Join (map Itoa pids) [newline]) (world s) = (Some e, world s)"
    using assms(1,4) unfolding one_pid_per_write_def by blast
  moreover have "pids \<noteq> []" using assms(4) by auto
  ultimately have "writePidsBatch os (root_procs s) pids s = (Some e, s)"
    by (simp add: writePidsBatch_def cg_write_def)
  with assms(2,3) show ?thesis
    by (simp add: ReleaseUserFromSharedCgroup_def Let_def IsNotExist_def)
qed

section \<open>Moving the processes of a user\<close>

text \<open>
  \<open>place\<close> tells the \<open>cgroup.procs\<close> file a process was last written to. The documented behaviour the code relies on: a write of
  one process id to a \<open>cgroup.procs\<close> file that succeeds moves that process; no other write moves one; /proc keeps the
  descriptions of the processes.
\<close>

definition moves_pids :: "'w os \<Rightarrow> ('w \<Rightarrow> int \<Rightarrow> string) \<Rightarrow> bool" where
  "moves_pids os place \<longleftrightarrow>
     (\<forall>f pid w w'. path_base f = ''cgroup.procs'' \<longrightarrow> WriteFile os f (Itoa pid) w = (None, w') \<longrightarrow>
        place w' = (place w)(pid := f)) \<and>
     (\<forall>f c w. path_base f \<noteq> ''cgroup.procs'' \<longrightarrow> place (snd (WriteFile os f c w)) = place w) \<and>
     (\<forall>p w. place (snd (MkdirAll os p w)) = place w) \<and>
     (\<forall>f c w pid g. ReadFile os (proc_file pid g) (snd (WriteFile os f c w)) = ReadFile os (proc_file pid g) w) \<and>
     (\<forall>p w pid g. ReadFile os (proc_file pid g) (snd (MkdirAll os p w)) = ReadFile os (proc_file pid g) w)"

definition same_view :: "'w os \<Rightarrow> 'w cgroup \<Rightarrow> 'w cgroup \<Rightarrow> bool" where
  "same_view os s t \<longleftrightarrow> cg_cfg t = cg_cfg s \<and>
     (\<forall>pid g. ReadFile os (proc_file pid g) (world t) = ReadFile os (proc_file pid g) (world s))"

lemma same_view_refl [simp]: "same_view os s s"
  by (simp add: same_view_def)

lemma same_view_trans: "same_view os s t \<Longrightarrow> same_view os t u \<Longrightarrow> same_view os s u"
  by (simp add: same_view_def)

lemma same_view_name: "same_view os s t \<Longrightarrow> getProcessName os pl pid t = getProcessName os pl pid s"
  by (simp add: same_view_def getProcessName_def getProcessInfo_def cg_read_def)

lemma same_view_write: "moves_pids os place \<Longrightarrow> cg_write os f c s = (e, t) \<Longrightarrow> same_view os s t"
  by (auto simp: moves_pids_def same_view_def cg_write_def split: prod.splits) (metis snd_conv)

lemma place_write: "moves_pids os place \<Longrightarrow> cg_write os f c s = (e, t) \<Longrightarrow> path_base f \<noteq> ''cgroup.procs'' \<Longrightarrow>
    place (world t) = place (world s)"
  by (auto simp: moves_pids_def cg_write_def split: prod.splits) (metis snd_conv)

lemma procs_write: "moves_pids os place \<Longrightarrow> cg_write os f (Itoa pid) s = (None, t) \<Longrightarrow> path_base f = ''cgroup.procs'' \<Longrightarrow>
    place (world t) = (place (world s))(pid := f)"
  by (auto simp: moves_pids_def cg_write_def split: prod.splits)

lemma create_sub_view:
  assumes "moves_pids os place" "CreateUserSubCgroup os uid p s = (r, t)"
  shows "same_view os s t" "place (world t) = place (world s)"
proof -
  obtain e s1 where m: "cg_do (MkdirAll os (path_join p (user_dir uid))) s = (e, s1)" by (metis surj_pair)
  obtain e2 s2 where w: "cg_write os (path_join (path_join p (user_dir uid)) ''cpu.weight'') ''100'' s1 = (e2, s2)" by (metis surj_pair)
  have 1: "same_view os s s1" "place (world s1) = place (world s)"
    using assms(1) m by (auto simp: moves_pids_def same_view_def cg_do_def split: prod.splits) (metis snd_conv)+
  have b: "path_base (path_join (path_join p (user_dir uid)) ''cpu.weight'') \<noteq> ''cgroup.procs''"
    by (subst path_base_join) (simp_all add: plain_name_def)
  have t: "t = s1 \<or> t = s2" using assms(2) m w by (auto simp: CreateUserSubCgroup_def Let_def split: option.splits)
  show "same_view os s t" using t 1 same_view_trans [OF 1(1) same_view_write [OF assms(1) w]] by auto
  show "place (world t) = place (world s)" using t 1 place_write [OF assms(1) w b] by auto
qed

abbreviation sub_procs :: "string \<Rightarrow> int \<Rightarrow> string" where
  "sub_procs sharedPath uid \<equiv> path_join (path_join sharedPath (user_dir uid)) ''cgroup.procs''"

lemma shared_move_one:
  assumes "moves_pids os place" "MoveProcessToSharedCgroup os pid p uid s = (None, t)"
  shows "same_view os s t" "place (world t) = (place (world s))(pid := sub_procs p uid)"
proof -
  obtain r s1 where c: "(if IsNotExist (cg_stat os (path_join p (user_dir uid)) s) then CreateUserSubCgroup os uid p s
      else (Inr (path_join p (user_dir uid)), s)) = (r, s1)" by (metis surj_pair)
  have 1: "same_view os s s1" "place (world s1) = place (world s)"
    using c create_sub_view [OF assms(1), of uid p s r s1] by (auto split: if_splits)
  have w: "cg_write os (sub_procs p uid) (Itoa pid) s1 = (None, t)"
    using assms(2) c by (auto simp: MoveProcessToSharedCgroup_def Let_def split: sum.splits prod.splits option.splits)
  have b: "path_base (sub_procs p uid) = ''cgroup.procs''" by (rule path_base_join) (simp add: plain_name_def)
  show "same_view os s t" using same_view_trans [OF 1(1) same_view_write [OF assms(1) w]] .
  show "place (world t) = (place (world s))(pid := sub_procs p uid)" using procs_write [OF assms(1) w b] 1(2) by simp
qed

lemma shared_move_each:
  assumes "moves_pids os place"
    and "move_each rx os pl (\<lambda>pid. MoveProcessToSharedCgroup os pid p uid) pids s = (0, t)"
  shows "place (world t) pid =
    (if pid \<in> set pids \<and> \<not> IsProcessExcluded rx (cg_cfg s) (getProcessName os pl pid s)
     then sub_procs p uid else place (world s) pid)"
  using assms(2)
proof (induction pids arbitrary: s)
  case (Cons q pids)
  show ?case
  proof (cases "IsProcessExcluded rx (cg_cfg s) (getProcessName os pl q s)")
    case True
    with Cons show ?thesis by auto
  next
    case False
    obtain e s1 where m: "MoveProcessToSharedCgroup os q p uid s = (e, s1)" by (metis surj_pair)
    obtain n s2 where r: "move_each rx os pl (\<lambda>pid. MoveProcessToSharedCgroup os pid p uid) pids s1 = (n, s2)" by (metis surj_pair)
    from Cons.prems False m r have "e = None" "n = 0" "s2 = t" by (auto split: if_splits)
    note one = shared_move_one [OF assms(1) m [unfolded \<open>e = None\<close>]]
    have v: "cg_cfg s1 = cg_cfg s" "getProcessName os pl x s1 = getProcessName os pl x s" for x
      using one(1) same_view_name [OF one(1)] by (simp_all add: same_view_def)
    from Cons.IH [of s1] r \<open>n = 0\<close> \<open>s2 = t\<close> v one(2) False show ?thesis by auto
  qed
qed simp


section \<open>IO statistics\<close>

text \<open>A line of \<open>io.stat\<close> as the kernel writes it.\<close>

definition io_words :: "string \<times> io_stats \<Rightarrow> string list" where
  "io_words r = [fst r, ''rbytes='' @ FormatUint (io_rbytes (snd r)), ''wbytes='' @ FormatUint (io_wbytes (snd r)),
     ''rios='' @ FormatUint (io_rios (snd r)), ''wios='' @ FormatUint (io_wios (snd r))]"

definition io_line :: "string \<times> io_stats \<Rightarrow> string" where
  "io_line r = Join (io_words r) '' ''"

definition device_name :: "string \<Rightarrow> bool" where
  "device_name d \<longleftrightarrow> d \<noteq> [] \<and> list_all (\<lambda>c. \<not> is_space c \<and> c \<noteq> CHR ''='') d"

definition add_io :: "io_stats \<Rightarrow> io_stats \<Rightarrow> io_stats" where
  "add_io a b = \<lparr>io_rbytes = io_rbytes a + io_rbytes b, io_wbytes = io_wbytes a + io_wbytes b,
     io_rios = io_rios a + io_rios b, io_wios = io_wios a + io_wios b\<rparr>"

lemma split_by_Join:
  "ws \<noteq> [] \<Longrightarrow> \<forall>w\<in>set ws. \<forall>x\<in>set w. \<not> P x \<Longrightarrow> P c \<Longrightarrow> split_by P (Join ws [c]) = ws"
proof (induction ws "[c]" rule: Join.induct)
  case (3 x y ys)
  then have "split_by P (x @ c # Join (y # ys) [c]) = x # split_by P (Join (y # ys) [c])"
    by (intro split_by_append_sep) auto
  with 3 show ?case by simp
qed (simp_all add: split_by_no_sep)

lemma FormatUint_chars: "c \<in> set (FormatUint w) \<Longrightarrow> is_digit c"
  using show_digits_correct [of "uint w"] by (auto simp: FormatUint_def list_all_iff)

lemma io_words_plain:
  assumes "device_name (fst r)" "w \<in> set (io_words r)"
  shows "w \<noteq> []" "\<forall>c\<in>set w. \<not> is_space c"
proof -
  have d: "\<not> is_space c" if "c \<in> set (FormatUint n)" for c n
    using is_digit_not_space FormatUint_chars [OF that] by blast
  have k: "\<not> is_space c" if "c \<in> set ''rbytes=wbytes=rios=wios=''" for c
    using that by (auto simp: is_space_def)
  show "w \<noteq> []" "\<forall>c\<in>set w. \<not> is_space c"
    using assms d k by (auto simp: io_words_def device_name_def list_all_iff)
qed

lemma io_line_fields:
  assumes "device_name (fst r)"
  shows "Fields (TrimSpace (io_line r)) = io_words r" "newline \<notin> set (io_line r)"
proof -
  let ?ws = "io_words r"
  have ne: "?ws \<noteq> []" by (simp add: io_words_def)
  have sp: "split_by is_space (Join ?ws '' '') = ?ws"
    using io_words_plain(2) [OF assms] ne by (intro split_by_Join) (auto simp: is_space_def)
  have h: "fst r \<noteq> []" "\<not> is_space (hd (fst r))" using io_words_plain [OF assms, of "fst r"] by (auto simp: io_words_def)
  obtain v where v: "io_line r = v @ ''wios='' @ FormatUint (io_wios (snd r))"
    by (simp add: io_line_def io_words_def)
  have l: "io_line r \<noteq> []" "\<not> is_space (last (io_line r))" "\<not> is_space (hd (io_line r))"
  proof -
    show "io_line r \<noteq> []" by (simp add: v)
    have "FormatUint (io_wios (snd r)) \<noteq> []" by (simp add: FormatUint_def show_digits_correct)
    then show "\<not> is_space (last (io_line r))" using FormatUint_chars is_digit_not_space last_in_set by (fastforce simp: v)
    show "\<not> is_space (hd (io_line r))" using h by (simp add: io_line_def io_words_def hd_append)
  qed
  then have "TrimSpace (io_line r) = io_line r" by (intro TrimSpace_ends) auto
  moreover have "Fields (io_line r) = ?ws"
    using sp io_words_plain(1) [OF assms] by (simp add: Fields_def io_line_def filter_id_conv)
  ultimately show "Fields (TrimSpace (io_line r)) = io_words r" by simp
  have "is_space newline" "newline \<noteq> CHR '' ''" by (simp_all add: is_space_def newline_def)
  with io_words_plain(2) [OF assms] set_Join [of ?ws "'' ''"] show "newline \<notin> set (io_line r)"
    unfolding io_line_def by fastforce
qed

lemma add_io_part_key:
  assumes "CHR ''='' \<notin> set k"
  shows "add_io_part (k @ CHR ''='' # FormatUint n) st =
    (if k = ''rios'' then st\<lparr>io_rios := io_rios st + n\<rparr> else if k = ''wios'' then st\<lparr>io_wios := io_wios st + n\<rparr>
     else if k = ''rbytes'' then st\<lparr>io_rbytes := io_rbytes st + n\<rparr>
     else if k = ''wbytes'' then st\<lparr>io_wbytes := io_wbytes st + n\<rparr> else st)"
  using SplitN2_app [OF assms, of "FormatUint n"] by (simp add: add_io_part_def)

lemma add_io_words: "device_name (fst r) \<Longrightarrow> fold add_io_part (io_words r) st = add_io st (snd r)"
proof -
  assume d: "device_name (fst r)"
  then have "SplitN2 (fst r) CHR ''='' = [fst r]" by (auto simp: SplitN2_def device_name_def list_all_iff)
  then have "add_io_part (fst r) st = st" by (simp add: add_io_part_def)
  then show ?thesis
    using add_io_part_key [of "''rbytes''"] add_io_part_key [of "''wbytes''"] add_io_part_key [of "''rios''"] add_io_part_key [of "''wios''"]
    by (simp add: io_words_def add_io_def)
qed

text \<open>The statistics of all devices are summed, modulo 2 to the 64.\<close>

lemma io_stat_sums:
  assumes "list_all (\<lambda>r. device_name (fst r)) rs"
  shows "parse_io_stat (unlines (map io_line rs)) = foldr add_io (map snd rs) no_io"
proof -
  have nl: "\<forall>l\<in>set (map io_line rs). newline \<notin> set l"
    using assms io_line_fields(2) by (auto simp: list_all_iff)
  have f: "fold (\<lambda>line st. fold add_io_part (Fields (TrimSpace line)) st) (map io_line rs) st = fold (\<lambda>r st. add_io st (snd r)) rs st" for st
    using assms by (induction rs arbitrary: st) (simp_all add: io_line_fields(1) add_io_words)
  have e: "fold add_io_part (Fields (TrimSpace [])) st = st" for st by (simp add: Fields_def TrimSpace_def trim_by_def)
  have "fold (\<lambda>r st. add_io st (snd r)) rs st = add_io (foldr add_io (map snd rs) no_io) st" for st
    by (induction rs arbitrary: st) (simp_all add: add_io_def no_io_def algebra_simps)
  then have g: "fold (\<lambda>r st. add_io st (snd r)) rs no_io = foldr add_io (map snd rs) no_io" by (simp add: add_io_def no_io_def)
  show ?thesis unfolding parse_io_stat_def Split_unlines [OF nl] by (simp only: fold_append comp_apply f e fold_simps g)
qed

end
