(* ===== verification/Samples.thy ===== *)
theory Samples
  imports ManagerSpec StageProps CgroupProps
begin

text \<open>
  Concrete providers and managers, and the theorems of the components applied to them.
\<close>

section \<open>The theorems at work\<close>

text \<open>A provider on an in-memory file system, with one process of user 1000.\<close>

definition sample_fs :: mem_fs where
  "sample_fs = \<lparr>files = Map.empty, dirs = [''/sys/fs/cgroup'']\<rparr>"

definition sample_procs :: "mem_fs proc_lib" where
  "sample_procs = \<lparr>Processes = (\<lambda>_. Some [(4242, [1000])]), LookupId = (\<lambda>_. Some ''alice''), in_time = (\<lambda>_ _. True)\<rparr>"

definition sample_provider :: "mem_fs cgroup" where
  "sample_provider = \<lparr>cg_cfg = default_cfg, createdCgroups = [], createdCgroupsFile = ''/run/cgroups'',
     controllersAvailable = True, cgroupRootWritable = True, world = sample_fs\<rparr>"

abbreviation sample_ops :: "mem_fs cgroup cgroup_ops" where
  "sample_ops \<equiv> real_ops any_regex mem_os sample_procs"

definition fresh_manager :: "mem_fs cgroup manager" where
  "fresh_manager = NewManager default_cfg False sample_provider"

definition noon :: clock where
  "noon = \<lparr>ck_now = 1000 * second, ck_day = 3, ck_hour = 12, ck_elapsed = 1000000\<rparr>"

definition limited_manager :: "mem_fs cgroup manager" where
  "limited_manager = snd (ForceActivateLimits sample_ops (10 * second) (collector_at 95) fresh_manager)"

lemma sample_tracked: "tracked_ok sample_provider"
  by (simp add: tracked_ok_def sample_provider_def)

lemma reach_limited: "reachable sample_ops any_regex sample_provider limited_manager"
  unfolding limited_manager_def fresh_manager_def by (rule reachable.step [OF reachable.initial force_on])

lemma limited_users: "limitsActive limited_manager \<and> activeUsers limited_manager = [1000]"
  by code_simp

lemma sample_wf: "al_wf (GetAllUserMetrics (collector_at p))"
  by (simp add: collector_at_def al_wf_def)

text \<open>A file system in which the shared quota cannot be written.\<close>

definition no_quota_os :: "mem_fs os" where
  "no_quota_os = mem_os\<lparr>WriteFile := (\<lambda>p c w. if path_base p = ''cpu.max'' then (Some OtherError, w) else (None, w))\<rparr>"

lemma blackout_cycle_witness:
  "RunControlCycleWithTrigger sample_ops any_regex noon (collector_at 95) ''timer'' (UpdateConfig (Some office_hours) limited_manager) =
     (None, UpdateConfig (Some office_hours) limited_manager) \<and>
   limitsActive (UpdateConfig (Some office_hours) limited_manager)"
proof
  let ?m = "UpdateConfig (Some office_hours) limited_manager"
  have "m_cfg ?m = office_hours" by (simp add: UpdateConfig_def)
  then have b: "IsInBlackout (m_cfg ?m) (ck_day noon) (ck_hour noon)"
    by (simp add: office_hours_def noon_def IsInBlackout_def in_timeframe_def)
  have "\<not> has_exporter limited_manager" by code_simp
  then have "emit_prom e ?m = ?m" for e by (simp add: emit_prom_def UpdateConfig_def)
  with blackout_cycle [OF b, of sample_ops any_regex "collector_at 95" "''timer''"]
  show "RunControlCycleWithTrigger sample_ops any_regex noon (collector_at 95) ''timer'' ?m = (None, ?m)" by simp
  show "limitsActive ?m" using limited_users by (simp add: UpdateConfig_def)
qed

definition boosted_manager :: "mem_fs cgroup manager" where
  "boosted_manager = limited_manager\<lparr>psiBoostedAt := [(1000, second), (1001, 900 * second)]\<rparr>"

lemma revertPSIBoosts_boosts_witness:
  "map_of (psiBoostedAt (revertPSIBoosts sample_ops (1000 * second) boosted_manager)) 1000 = None"
proof -
  have "al_wf (psiBoostedAt boosted_manager)" by (simp add: boosted_manager_def al_wf_def)
  note r = revertPSIBoosts_boosts [OF this, of sample_ops "1000 * second" 1000]
  have "seconds (PSIBoostDuration (m_cfg boosted_manager)) \<le> time_Sub (1000 * second) second" by code_simp
  then show ?thesis unfolding r by (simp add: boosted_manager_def)
qed

definition remediation_cfg :: config where
  "remediation_cfg = default_cfg\<lparr>IORemediationEnabled := True, IOStarvationThreshold := 1\<rparr>"


lemma ApplyPolicy_settles_witness:
  "fst (ApplyPolicy 20 1000 PatternMixed default_cfg (snd (ApplyPolicy 10 1000 PatternMixed default_cfg Map.empty))) = False"
  using ApplyPolicy_settles [where p = PatternMixed and now = 10 and uid = 1000 and cfg = default_cfg and pe = Map.empty and now' = 20] by (auto split: prod.splits)

lemma classifyPattern_confidence_witness:
  "\<not> f64_gt (snd (classifyPattern (new_stats 0) (Fin (1 / 2)))) (lit 1)"
proof -
  obtain q conf where c: "classifyPattern (new_stats 0) (Fin (1 / 2)) = (q, conf)" by (metis surj_pair)
  have "\<not> f64_gt (lit 0) (lit 1)" by code_simp
  with classifyPattern_confidence [OF c] c show ?thesis by auto
qed

lemma detector_invariant_witness:
  "detector_ok (fold detector_step [Sample 5 3 1000 (Fin 10), Sample 6 23 1000 (Fin 30), Expire 7 1] NewPatternDetector)"
  by (rule detector_invariant) auto

lemma boosts_per_hour_witness:
  "boosts_bounded 3 (boostStates (fst (CheckAndRemediate sample_ops (default_cfg\<lparr>IOBoostMaxPerHour := 3\<rparr>) second [1000]
     NewIORemediation sample_provider)))"
proof -
  have "boosts_bounded (max 0 (IOBoostMaxPerHour (default_cfg\<lparr>IOBoostMaxPerHour := 3\<rparr>))) (boostStates NewIORemediation)"
    by (simp add: boosts_bounded_def NewIORemediation_def)
  from boosts_per_hour [OF this, where ops = sample_ops and now = second and us = "[1000]" and c = sample_provider] show ?thesis by simp
qed

section \<open>Witnesses for the cgroup operations\<close>

lemma ParseRAMQuota_parseBPS_witness: "parseBPSValue ''512M'' = 512 * 1024 * 1024"
proof -
  have "ParseRAMQuota ''512M'' = Inr (512 * 1024 * 1024)" by code_simp
  from ParseRAMQuota_parseBPS [OF this] show ?thesis .
qed

lemma io_stat_sums_witness:
  "io_wbytes (parse_io_stat (unlines (map io_line
     [(''8:0'', \<lparr>io_rbytes = 1, io_wbytes = 20, io_rios = 3, io_wios = 4\<rparr>),
      (''8:16'', \<lparr>io_rbytes = 5, io_wbytes = 600, io_rios = 7, io_wios = 8\<rparr>)]))) = 620"
proof -
  have "list_all (\<lambda>r. device_name (fst r)) [(''8:0'', \<lparr>io_rbytes = 1, io_wbytes = 20, io_rios = 3, io_wios = 4\<rparr>),
      (''8:16'', \<lparr>io_rbytes = 5, io_wbytes = 600, io_rios = 7, io_wios = 8\<rparr>)]" by code_simp
  from io_stat_sums [OF this] show ?thesis by (simp add: add_io_def no_io_def)
qed

definition one_pid_os :: "mem_fs os" where
  "one_pid_os = mem_os\<lparr>WriteFile := (\<lambda>p c w. if newline \<in> set c then (Some OtherError, w) else (None, w))\<rparr>"

lemma one_pid_os_law: "one_pid_per_write one_pid_os f"
proof -
  have "newline \<in> set (Join (map Itoa pids) [newline])" if "2 \<le> length pids" for pids
    using that by (cases pids; cases "tl pids") auto
  then show ?thesis by (auto simp: one_pid_per_write_def one_pid_os_def)
qed

definition two_processes :: "mem_fs cgroup" where
  "two_processes = sample_provider\<lparr>world := \<lparr>files = [''/limited/user_1000/cgroup.procs'' \<mapsto> ''4242'' @ [newline] @ ''4243''],
     dirs = [''/limited/user_1000'']\<rparr>\<rparr>"

lemma release_several_fails_witness:
  "\<exists>e. ReleaseUserFromSharedCgroup one_pid_os 1000 ''/limited'' two_processes = (Some e, two_processes)"
proof (rule release_several_fails [OF one_pid_os_law])
  show "cg_stat one_pid_os (path_join ''/limited'' (user_dir 1000)) two_processes = None" by code_simp
  show "readPidsFromFile one_pid_os (path_join (path_join ''/limited'' (user_dir 1000)) ''cgroup.procs'') two_processes = Inr [4242, 4243]"
    by code_simp
qed simp

text \<open>A world that only remembers where each process was written.\<close>

definition place_os :: "(int \<Rightarrow> string) os" where
  "place_os =
     \<lparr>ReadFile = (\<lambda>p w. Inl NotExist),
      WriteFile = (\<lambda>f c w. if path_base f = ''cgroup.procs''
         then (case Atoi c of Some pid \<Rightarrow> (None, w(pid := f)) | None \<Rightarrow> (Some OtherError, w)) else (None, w)),
      AppendFile = (\<lambda>f c w. (None, w)), Stat = (\<lambda>p w. Some NotExist), Chmod = (\<lambda>p w. (None, w)), Mkdir = (\<lambda>p w. (None, w)),
      MkdirAll = (\<lambda>p w. (None, w)), Remove = (\<lambda>p w. (None, w)), RemoveAll = (\<lambda>p w. (None, w)), Rename = (\<lambda>p q w. (None, w)),
      ReadDir = (\<lambda>p w. Inl NotExist)\<rparr>"

lemma place_os_law: "moves_pids place_os (\<lambda>w. w)"
  by (auto simp: moves_pids_def place_os_def Atoi_def split: option.splits if_splits)

definition place_procs :: "(int \<Rightarrow> string) proc_lib" where
  "place_procs = \<lparr>Processes = (\<lambda>_. Some [(4242, [1000]), (1, [0])]), LookupId = (\<lambda>_. None), in_time = (\<lambda>_ _. True)\<rparr>"

definition place_provider :: "(int \<Rightarrow> string) cgroup" where
  "place_provider = \<lparr>cg_cfg = default_cfg, createdCgroups = [], createdCgroupsFile = ''/run/cgroups'', controllersAvailable = True,
     cgroupRootWritable = True, world = (\<lambda>pid. ''/cgroup.procs'')\<rparr>"


definition track_run_ops :: "track_op list" where
  "track_run_ops = [Track 1000 ''/cg/user_1000'', Track 1001 ''/cg/user_1001'', Untrack 1000]"

definition track_fs :: "mem_fs cgroup" where
  "track_fs = sample_provider\<lparr>world := \<lparr>files = Map.empty, dirs = [''/cg/user_1000'', ''/cg/user_1001'']\<rparr>\<rparr>"


end
