(* ===== verification/Collector.thy ===== *)
theory Collector
  imports Cgroup MetricsTypes
begin

text \<open>
  The metrics collector, \<open>metrics/collector.go\<close>: its caches, the figures of the system with their fallbacks to
  /proc, and the scan that aggregates the processes of every monitored user.

  The files and the process table are those of one instant: the world \<open>w\<close> is an argument of every operation, and
  \<open>now\<close> stands for every \<open>time.Now()\<close> of a call. Package \<open>gopsutil\<close> is the parameter \<open>pl\<close>. A getter returns None
  where the type assertion on the cached value would panic.
\<close>

section \<open>The libraries the collector asks\<close>

text \<open>The part of \<open>cpu.TimesStat\<close> the collector uses.\<close>

record times_stat =
  tUser :: f64
  tNice :: f64
  tSystem :: f64
  tIdle :: f64
  tIowait :: f64
  tIrq :: f64
  tSoftirq :: f64
  tSteal :: f64

definition zero_times :: times_stat where
  "zero_times = \<lparr>tUser = Fin 0, tNice = Fin 0, tSystem = Fin 0, tIdle = Fin 0, tIowait = Fin 0, tIrq = Fin 0,
     tSoftirq = Fin 0, tSteal = Fin 0\<rparr>"

text \<open>
  \<open>cpu.Counts(true)\<close>, \<open>cpu.Times(false)\<close>, \<open>cpu.Percent\<close>, \<open>mem.VirtualMemory()\<close> as total, used and cached bytes,
  \<open>process.NewProcess\<close>, and the methods of a process handle, which is its process id. None is an error (or a nil
  result). \<open>Processes\<close> lists every process with its user ids, no ids standing for an error of \<open>Uids\<close>.
\<close>

record 'w gopsutil = "'w proc_lib" +
  cpu_Counts :: "'w \<Rightarrow> int option"
  cpu_Times :: "'w \<Rightarrow> times_stat list option"
  cpu_Percent :: "'w \<Rightarrow> f64 list option"
  mem_VirtualMemory :: "'w \<Rightarrow> (u64 \<times> u64 \<times> u64) option"
  host_BootTime :: "'w \<Rightarrow> u64 option"
  ps_New :: "int \<Rightarrow> 'w \<Rightarrow> bool"
  ps_Status :: "int \<Rightarrow> 'w \<Rightarrow> string list option"
  ps_Times :: "int \<Rightarrow> 'w \<Rightarrow> times_stat option"
  ps_CreateTime :: "int \<Rightarrow> 'w \<Rightarrow> int option"
  ps_RSS :: "int \<Rightarrow> 'w \<Rightarrow> u64 option"

text \<open>\<open>v, _ := strconv.ParseUint(s, 10, 64)\<close> and \<open>strconv.ParseFloat\<close>, their errors ignored.\<close>

definition uint_value :: "string \<Rightarrow> u64" where
  "uint_value s =
     (case ParseUint s of Some v \<Rightarrow> v | None \<Rightarrow> if s \<noteq> [] \<and> list_all is_digit s then 2 ^ 64 - 1 else 0)"

definition float_value :: "string \<Rightarrow> f64" where
  "float_value s =
     (case ParseFloat s of
        Some v \<Rightarrow> v
      | None \<Rightarrow>
          (let neg = HasPrefix s ''-'' in
           case parse_unsigned_float (if neg \<or> HasPrefix s ''+'' then tl s else s) of
             None \<Rightarrow> Fin 0
           | Some _ \<Rightarrow> f64_inf neg))"

definition unix_epoch :: time where
  "unix_epoch = 62135596800 * second"

definition UnixMilli :: "time \<Rightarrow> int" where
  "UnixMilli t = (t - unix_epoch) div 1000000"

section \<open>State\<close>

text \<open>The values the general cache holds.\<close>

datatype cached =
    CInt int
  | CFloat f64
  | CBool bool
  | CU64 u64
  | CUsers "int list"
  | CMetrics "(int \<times> user_metrics) list"

record collector =
  col_cfg :: config
  cache :: "(string \<times> cached) list"
  cacheTimestamps :: "(string \<times> time) list"
  prevCPUStats :: times_stat
  prevProcCPU :: "(int \<times> times_stat) list"
  prevProcTime :: "(int \<times> time) list"
  emaValues :: "int \<rightharpoonup> f64"
  usernameCache :: "(int \<times> string) list"
  usernameCacheTime :: "(int \<times> time) list"
  usernameCacheTTL :: duration

definition MAX_CACHE_SIZE :: nat where "MAX_CACHE_SIZE = 10000"
definition MAX_PROC_CACHE_SIZE :: nat where "MAX_PROC_CACHE_SIZE = 5000"
definition MAX_USERNAME_CACHE_SIZE :: nat where "MAX_USERNAME_CACHE_SIZE = 10000"

definition NewCollector :: "'w gopsutil \<Rightarrow> config \<Rightarrow> 'w \<Rightarrow> collector" where
  "NewCollector pl cfg w =
     \<lparr>col_cfg = cfg, cache = [], cacheTimestamps = [],
      prevCPUStats = (case cpu_Times pl w of Some (s # _) \<Rightarrow> s | _ \<Rightarrow> zero_times),
      prevProcCPU = [], prevProcTime = [], emaValues = Map.empty, usernameCache = [], usernameCacheTime = [],
      usernameCacheTTL = seconds 3600\<rparr>"

section \<open>Caches\<close>

text \<open>The loops that look for the oldest entry: only a strictly older one replaces the candidate.\<close>

fun oldest_entry :: "('k \<times> time) list \<Rightarrow> 'k \<times> time \<Rightarrow> 'k \<times> time" where
  "oldest_entry [] best = best"
| "oldest_entry ((k, ts) # rest) best = oldest_entry rest (if ts < snd best then (k, ts) else best)"

definition metricsCacheTTL :: "collector \<Rightarrow> duration" where
  "metricsCacheTTL c = seconds (MetricsCacheTTL (col_cfg c))"

definition getFromCache :: "string \<Rightarrow> duration \<Rightarrow> time \<Rightarrow> collector \<Rightarrow> cached option" where
  "getFromCache key ttl now c =
     (case map_of (cache c) key of
        None \<Rightarrow> None
      | Some val \<Rightarrow>
          (case map_of (cacheTimestamps c) key of
             None \<Rightarrow> None
           | Some ts \<Rightarrow> if time_Sub now ts > ttl then None else Some val))"

definition evict_cache :: "time \<Rightarrow> collector \<Rightarrow> collector" where
  "evict_cache now c =
     (if length (cache c) \<ge> MAX_CACHE_SIZE then
        (let oldestKey = fst (oldest_entry (cacheTimestamps c) ('''', now)) in
         if oldestKey \<noteq> ''''
         then c\<lparr>cache := al_delete oldestKey (cache c), cacheTimestamps := al_delete oldestKey (cacheTimestamps c)\<rparr>
         else c)
      else c)"

definition setInCache :: "time \<Rightarrow> string \<Rightarrow> cached \<Rightarrow> collector \<Rightarrow> collector" where
  "setInCache now key v c =
     (let c1 = evict_cache now c in
      c1\<lparr>cache := al_update key v (cache c1), cacheTimestamps := al_update key now (cacheTimestamps c1)\<rparr>)"

definition ClearCache :: "collector \<Rightarrow> collector" where
  "ClearCache c = c\<lparr>cache := [], cacheTimestamps := []\<rparr>"

definition Collector_UpdateConfig :: "config \<Rightarrow> collector \<Rightarrow> collector" where
  "Collector_UpdateConfig newConfig c = ClearCache (c\<lparr>col_cfg := newConfig\<rparr>)"

definition fiveMinutes :: duration where "fiveMinutes = 300000000000"

text \<open>The keys of the entries older than an age.\<close>

definition stale :: "time \<Rightarrow> duration \<Rightarrow> ('k \<times> time) list \<Rightarrow> 'k list" where
  "stale now age ts = keys (filter (\<lambda>(k, t). time_Sub now t > age) ts)"

definition drop_keys :: "'k list \<Rightarrow> ('k \<times> 'v) list \<Rightarrow> ('k \<times> 'v) list" where
  "drop_keys ks xs = filter (\<lambda>p. fst p \<notin> set ks) xs"

definition cleanupCache :: "time \<Rightarrow> collector \<Rightarrow> collector" where
  "cleanupCache now c =
     (let old = stale now fiveMinutes (cacheTimestamps c);
          oldProcs = stale now fiveMinutes (prevProcTime c);
          oldUsers = stale now (usernameCacheTTL c) (usernameCacheTime c)
      in c\<lparr>cache := drop_keys old (cache c), cacheTimestamps := drop_keys old (cacheTimestamps c),
          prevProcCPU := drop_keys oldProcs (prevProcCPU c), prevProcTime := drop_keys oldProcs (prevProcTime c),
          usernameCache := drop_keys oldUsers (usernameCache c),
          usernameCacheTime := drop_keys oldUsers (usernameCacheTime c)\<rparr>)"

definition SetUsernameCacheTTL :: "duration \<Rightarrow> collector \<Rightarrow> collector" where
  "SetUsernameCacheTTL ttl c = c\<lparr>usernameCacheTTL := ttl\<rparr>"

text \<open>
  A getter with a cache: a fresh value is asserted to the type of the getter, otherwise the rest of the getter runs.
\<close>

definition cached_or ::
  "(cached \<Rightarrow> 'a option) \<Rightarrow> string \<Rightarrow> duration \<Rightarrow> time \<Rightarrow> (collector \<Rightarrow> 'a option \<times> collector) \<Rightarrow> collector \<Rightarrow>
   'a option \<times> collector" where
  "cached_or as key ttl now rest c =
     (case getFromCache key ttl now c of Some v \<Rightarrow> (as v, c) | None \<Rightarrow> rest c)"

fun as_int :: "cached \<Rightarrow> int option" where "as_int (CInt n) = Some n" | "as_int _ = None"
fun as_float :: "cached \<Rightarrow> f64 option" where "as_float (CFloat x) = Some x" | "as_float _ = None"
fun as_bool :: "cached \<Rightarrow> bool option" where "as_bool (CBool b) = Some b" | "as_bool _ = None"
fun as_u64 :: "cached \<Rightarrow> u64 option" where "as_u64 (CU64 w) = Some w" | "as_u64 _ = None"
fun as_users :: "cached \<Rightarrow> int list option" where "as_users (CUsers us) = Some us" | "as_users _ = None"

text \<open>A computed value that goes to the cache.\<close>

definition stored :: "('a \<Rightarrow> cached) \<Rightarrow> time \<Rightarrow> string \<Rightarrow> 'a \<Rightarrow> collector \<Rightarrow> 'a option \<times> collector" where
  "stored mk now key v c = (Some v, setInCache now key (mk v) c)"

section \<open>Figures of the system\<close>

definition read_lines :: "'w os \<Rightarrow> string \<Rightarrow> 'w \<Rightarrow> string list option" where
  "read_lines os p w = (case ReadFile os p w of Inl _ \<Rightarrow> None | Inr d \<Rightarrow> Some (scan_lines d))"

definition getTotalCoresFallback :: "'w os \<Rightarrow> 'w \<Rightarrow> int" where
  "getTotalCoresFallback os w =
     (case read_lines os ''/proc/cpuinfo'' w of
        None \<Rightarrow> 1
      | Some ls \<Rightarrow>
          (let cores = int (length (filter (\<lambda>l. HasPrefix l ''processor'') ls)) in if cores = 0 then 1 else cores))"

definition Collector_GetTotalCores :: "'w os \<Rightarrow> 'w gopsutil \<Rightarrow> 'w \<Rightarrow> time \<Rightarrow> collector \<Rightarrow> int option \<times> collector" where
  "Collector_GetTotalCores os pl w now =
     cached_or as_int ''total_cores'' (seconds 3600) now (\<lambda>c.
       stored CInt now ''total_cores''
         (case cpu_Counts pl w of Some n \<Rightarrow> n | None \<Rightarrow> getTotalCoresFallback os w) c)"

text \<open>
  The first line of /proc/stat: user, nice, system, idle, iowait, irq, softirq and steal, the last 0 when it is not
  there. None: no such line, or fewer than eight fields.
\<close>

definition stat_fields :: "string list \<Rightarrow> u64 list option" where
  "stat_fields ls =
     (case ls of
        [] \<Rightarrow> None
      | line # _ \<Rightarrow>
          (let fields = Fields line in
           if \<not> HasPrefix line ''cpu '' \<or> length fields < 8 then None
           else Some (map uint_value (take 7 (tl fields)) @
                      [if length fields > 8 then uint_value (fields ! 8) else 0])))"

definition times_of :: "u64 list \<Rightarrow> times_stat" where
  "times_of v =
     \<lparr>tUser = f64_of_u64 (v ! 0), tNice = f64_of_u64 (v ! 1), tSystem = f64_of_u64 (v ! 2), tIdle = f64_of_u64 (v ! 3),
      tIowait = f64_of_u64 (v ! 4), tIrq = f64_of_u64 (v ! 5), tSoftirq = f64_of_u64 (v ! 6), tSteal = f64_of_u64 (v ! 7)\<rparr>"

definition times_total :: "times_stat \<Rightarrow> u64" where
  "times_total s =
     u64_of_f64 (tUser s) + u64_of_f64 (tNice s) + u64_of_f64 (tSystem s) + u64_of_f64 (tIdle s) +
     u64_of_f64 (tIowait s) + u64_of_f64 (tIrq s) + u64_of_f64 (tSoftirq s) + u64_of_f64 (tSteal s)"

definition getTotalCPUUsageFallback :: "'w os \<Rightarrow> 'w \<Rightarrow> time \<Rightarrow> collector \<Rightarrow> f64 \<times> collector" where
  "getTotalCPUUsageFallback os w now c =
     (case Option.bind (read_lines os ''/proc/stat'' w) stat_fields of
        None \<Rightarrow> (Fin 0, c)
      | Some v \<Rightarrow>
          (let prev = prevCPUStats c; c1 = c\<lparr>prevCPUStats := times_of v\<rparr> in
           if f64_eq (tUser prev) (Fin 0) \<and> f64_eq (tSystem prev) (Fin 0) \<and> f64_eq (tIdle prev) (Fin 0)
           then (Fin 0, c1)
           else
             (let totalDelta = sum_list v - times_total prev; idleDelta = v ! 3 - u64_of_f64 (tIdle prev) in
              if totalDelta = 0 then (Fin 0, c1)
              else
                (let usage = f64_div (f64_mul (f64_of_int 100) (f64_of_u64 (totalDelta - idleDelta)))
                               (f64_of_u64 totalDelta)
                 in (usage, setInCache now ''total_cpu_usage'' (CFloat usage) c1)))))"

definition Collector_GetTotalCPUUsage :: "'w os \<Rightarrow> 'w gopsutil \<Rightarrow> 'w \<Rightarrow> time \<Rightarrow> collector \<Rightarrow> f64 option \<times> collector" where
  "Collector_GetTotalCPUUsage os pl w now c =
     cached_or as_float ''total_cpu_usage'' (metricsCacheTTL c) now (\<lambda>c.
       case cpu_Percent pl w of
         Some (usage # _) \<Rightarrow> stored CFloat now ''total_cpu_usage'' usage c
       | _ \<Rightarrow> (case getTotalCPUUsageFallback os w now c of (usage, c1) \<Rightarrow> (Some usage, c1))) c"

definition to_MB :: "u64 \<Rightarrow> f64" where
  "to_MB b = f64_div (f64_div (f64_of_u64 b) (f64_of_int 1024)) (f64_of_int 1024)"

text \<open>The value of the last line of /proc/meminfo with this first field, in kB; 0 when there is none.\<close>

definition meminfo_value :: "string \<Rightarrow> string list \<Rightarrow> f64" where
  "meminfo_value name ls =
     foldl (\<lambda>acc l. case Fields l of f # v # _ \<Rightarrow> if f = name then float_value v else acc | _ \<Rightarrow> acc) (Fin 0) ls"

definition getMemoryUsageFallback :: "'w os \<Rightarrow> 'w \<Rightarrow> f64" where
  "getMemoryUsageFallback os w =
     (case read_lines os ''/proc/meminfo'' w of
        None \<Rightarrow> Fin 0
      | Some ls \<Rightarrow>
          (let memTotal = meminfo_value ''MemTotal:'' ls; memAvailable = meminfo_value ''MemAvailable:'' ls in
           if f64_eq memTotal (Fin 0) then Fin 0
           else f64_div (f64_sub memTotal (if f64_eq memAvailable (Fin 0) then Fin 0 else memAvailable)) (f64_of_int 1024)))"

text \<open>The first line with a prefix and a second field decides; that field is in kB.\<close>

fun meminfo_line :: "string \<Rightarrow> string list \<Rightarrow> f64" where
  "meminfo_line p [] = Fin 0"
| "meminfo_line p (l # ls) =
     (if HasPrefix l p then
        (case Fields l of _ # v # _ \<Rightarrow> f64_div (float_value v) (f64_of_int 1024) | _ \<Rightarrow> meminfo_line p ls)
      else meminfo_line p ls)"

definition meminfo_fallback :: "string \<Rightarrow> 'w os \<Rightarrow> 'w \<Rightarrow> f64" where
  "meminfo_fallback p os w =
     (case read_lines os ''/proc/meminfo'' w of None \<Rightarrow> Fin 0 | Some ls \<Rightarrow> meminfo_line p ls)"

definition getTotalMemoryFallback :: "'w os \<Rightarrow> 'w \<Rightarrow> f64" where
  "getTotalMemoryFallback = meminfo_fallback ''MemTotal:''"

definition getCachedMemoryFallback :: "'w os \<Rightarrow> 'w \<Rightarrow> f64" where
  "getCachedMemoryFallback = meminfo_fallback ''Cached:''"

definition Collector_GetMemoryUsage :: "'w os \<Rightarrow> 'w gopsutil \<Rightarrow> 'w \<Rightarrow> time \<Rightarrow> collector \<Rightarrow> f64 option \<times> collector" where
  "Collector_GetMemoryUsage os pl w now c =
     cached_or as_float ''memory_usage'' (metricsCacheTTL c) now (\<lambda>c.
       case mem_VirtualMemory pl w of
         None \<Rightarrow> (Some (getMemoryUsageFallback os w), c)
       | Some (_, usedBytes, _) \<Rightarrow> stored CFloat now ''memory_usage'' (to_MB usedBytes) c) c"

definition Collector_GetTotalMemoryMB :: "'w os \<Rightarrow> 'w gopsutil \<Rightarrow> 'w \<Rightarrow> time \<Rightarrow> collector \<Rightarrow> f64 option \<times> collector" where
  "Collector_GetTotalMemoryMB os pl w now c =
     cached_or as_float ''total_memory'' (metricsCacheTTL c) now (\<lambda>c.
       case mem_VirtualMemory pl w of
         None \<Rightarrow> (Some (getTotalMemoryFallback os w), c)
       | Some (totalBytes, _, _) \<Rightarrow> stored CFloat now ''total_memory'' (to_MB totalBytes) c) c"

definition Collector_GetCachedMemoryMB :: "'w os \<Rightarrow> 'w gopsutil \<Rightarrow> 'w \<Rightarrow> time \<Rightarrow> collector \<Rightarrow> f64 option \<times> collector" where
  "Collector_GetCachedMemoryMB os pl w now c =
     cached_or as_float ''cached_memory'' (metricsCacheTTL c) now (\<lambda>c.
       case mem_VirtualMemory pl w of
         None \<Rightarrow> (Some (getCachedMemoryFallback os w), c)
       | Some (_, _, cachedBytes) \<Rightarrow> stored CFloat now ''cached_memory'' (to_MB cachedBytes) c) c"

text \<open>\<open>GetSystemLoad\<close>, and the same reading in \<open>getLoadAverage\<close>; None is an error.\<close>

definition GetSystemLoad :: "'w os \<Rightarrow> 'w \<Rightarrow> f64 option" where
  "GetSystemLoad os w =
     (case ReadFile os ''/proc/loadavg'' w of
        Inl _ \<Rightarrow> None
      | Inr d \<Rightarrow> (case Fields d of [] \<Rightarrow> None | f # _ \<Rightarrow> ParseFloat f))"

definition Collector_IsSystemUnderLoad :: "'w os \<Rightarrow> 'w gopsutil \<Rightarrow> 'w \<Rightarrow> time \<Rightarrow> collector \<Rightarrow> bool option \<times> collector" where
  "Collector_IsSystemUnderLoad os pl w now =
     cached_or as_bool ''system_under_load'' (seconds 10) now (\<lambda>c.
       case GetSystemLoad os w of
         None \<Rightarrow> (Some False, c)
       | Some load \<Rightarrow>
           (case Collector_GetTotalCores os pl w now c of
              (None, c1) \<Rightarrow> (None, c1)
            | (Some cores, c1) \<Rightarrow>
                stored CBool now ''system_under_load''
                  (f64_gt load (f64_mul (f64_of_int cores) (f64_of_rat (7 / 10)))) c1))"

end
