(* ===== verification/CollectorUsers.thy ===== *)
theory CollectorUsers
  imports Collector
begin

text \<open>
  The metrics collector, \<open>metrics/collector.go\<close>, continued: user names, the CPU usage of a process between two
  samples, and the scan that sums the processes of every monitored user. The last section is the collector as the
  state manager sees it.
\<close>

section \<open>User names\<close>

definition getCachedUsername :: "time \<Rightarrow> int \<Rightarrow> collector \<Rightarrow> string option" where
  "getCachedUsername now uid c =
     (case map_of (usernameCache c) uid of
        None \<Rightarrow> None
      | Some username \<Rightarrow>
          (case map_of (usernameCacheTime c) uid of
             None \<Rightarrow> None
           | Some ts \<Rightarrow> if time_Sub now ts > usernameCacheTTL c then None else Some username))"

text \<open>User id 0 stands for "no oldest entry" and is never evicted.\<close>

definition evict_username :: "time \<Rightarrow> collector \<Rightarrow> collector" where
  "evict_username now c =
     (if length (usernameCache c) \<ge> MAX_USERNAME_CACHE_SIZE then
        (let oldestUID = fst (oldest_entry (usernameCacheTime c) (0, now)) in
         if oldestUID \<noteq> 0
         then c\<lparr>usernameCache := al_delete oldestUID (usernameCache c),
                usernameCacheTime := al_delete oldestUID (usernameCacheTime c)\<rparr>
         else c)
      else c)"

definition cacheUsername :: "time \<Rightarrow> int \<Rightarrow> string \<Rightarrow> collector \<Rightarrow> collector" where
  "cacheUsername now uid username c =
     (let c1 = evict_username now c in
      c1\<lparr>usernameCache := al_update uid username (usernameCache c1),
         usernameCacheTime := al_update uid now (usernameCacheTime c1)\<rparr>)"

text \<open>The user name of a line of /etc/passwd that belongs to the user id.\<close>

fun passwd_name :: "int \<Rightarrow> string list \<Rightarrow> string option" where
  "passwd_name uid [] = None"
| "passwd_name uid (line # ls) =
     (if HasPrefix line ''#'' then passwd_name uid ls
      else (case Split line CHR '':'' of
              f0 # f1 # f2 # _ \<Rightarrow> if Atoi f2 = Some uid then Some f0 else passwd_name uid ls
            | _ \<Rightarrow> passwd_name uid ls))"

definition getUsernameFromPasswd :: "'w os \<Rightarrow> 'w \<Rightarrow> int \<Rightarrow> string option" where
  "getUsernameFromPasswd os w uid = Option.bind (read_lines os ''/etc/passwd'' w) (passwd_name uid)"

definition getUsername :: "'w os \<Rightarrow> 'w gopsutil \<Rightarrow> 'w \<Rightarrow> time \<Rightarrow> int \<Rightarrow> collector \<Rightarrow> string \<times> collector" where
  "getUsername os pl w now uid c =
     (case getCachedUsername now uid c of
        Some username \<Rightarrow> (username, c)
      | None \<Rightarrow>
          (let from_passwd =
                 (case getUsernameFromPasswd os w uid of
                    Some n \<Rightarrow> if n \<noteq> '''' then (n, cacheUsername now uid n c) else (Itoa uid, c)
                  | None \<Rightarrow> (Itoa uid, c))
           in case LookupId pl (Itoa uid) of
                Some n \<Rightarrow> if n \<noteq> '''' then (n, cacheUsername now uid n c) else from_passwd
              | None \<Rightarrow> from_passwd))"

definition isMonitoredUserUID :: "config \<Rightarrow> int \<Rightarrow> bool" where
  "isMonitoredUserUID cfg uid \<longleftrightarrow> SystemUIDMin cfg \<le> uid \<and> uid \<le> SystemUIDMax cfg"

section \<open>Figures of a process\<close>

definition isProcessRunningLongEnough :: "'w gopsutil \<Rightarrow> 'w \<Rightarrow> time \<Rightarrow> config \<Rightarrow> int \<Rightarrow> bool" where
  "isProcessRunningLongEnough pl w now cfg pid =
     (case ps_Status pl pid w of
        None \<Rightarrow> False
      | Some statuses \<Rightarrow>
          (if \<not> list_ex (\<lambda>s. s = ''R'' \<or> s = ''running'') statuses then False
           else if ProcessMinAgeSeconds cfg \<le> 0 then True
           else
             (case ps_CreateTime pl pid w of
                None \<Rightarrow> False
              | Some createTime \<Rightarrow>
                  (if createTime = 0 then False
                   else f64_ge
                     (f64_div (f64_sub (f64_of_int (UnixMilli now)) (f64_of_int createTime)) (f64_of_int 1000))
                     (f64_of_int (ProcessMinAgeSeconds cfg))))))"

text \<open>A full cache gives up its oldest sample, whatever its age.\<close>

definition evict_process :: "collector \<Rightarrow> collector" where
  "evict_process c =
     (if length (prevProcCPU c) \<ge> MAX_PROC_CACHE_SIZE then
        (case prevProcTime c of
           [] \<Rightarrow> c
         | p # ps \<Rightarrow>
             (let oldestPID = fst (oldest_entry ps p) in
              c\<lparr>prevProcCPU := al_delete oldestPID (prevProcCPU c), prevProcTime := al_delete oldestPID (prevProcTime c)\<rparr>))
      else c)"

definition store_sample :: "time \<Rightarrow> int \<Rightarrow> times_stat \<Rightarrow> collector \<Rightarrow> collector" where
  "store_sample now pid tms c =
     c\<lparr>prevProcCPU := al_update pid tms (prevProcCPU c), prevProcTime := al_update pid now (prevProcTime c)\<rparr>"

text \<open>The percentage between two samples; None when no time has passed.\<close>

definition sample_percent :: "times_stat \<Rightarrow> time \<Rightarrow> times_stat \<Rightarrow> time \<Rightarrow> f64 option" where
  "sample_percent prevTimes prevTime tms now =
     (let elapsed = duration_seconds (time_Sub now prevTime) in
      if f64_gt elapsed (Fin 0) then
        (let delta = f64_add (f64_sub (tUser tms) (tUser prevTimes)) (f64_sub (tSystem tms) (tSystem prevTimes))
         in Some (f64_mul (f64_div delta elapsed) (f64_of_int 100)))
      else None)"

definition getProcessCPUUsageSimpleWithHandle ::
  "'w gopsutil \<Rightarrow> 'w \<Rightarrow> time \<Rightarrow> int \<Rightarrow> collector \<Rightarrow> f64 \<times> collector" where
  "getProcessCPUUsageSimpleWithHandle pl w now pid c =
     (if \<not> isProcessRunningLongEnough pl w now (col_cfg c) pid then (Fin 0, c)
      else
        (case ps_Times pl pid w of
           None \<Rightarrow> (Fin 0, c)
         | Some tms \<Rightarrow>
             (case (case (map_of (prevProcCPU c) pid, map_of (prevProcTime c) pid) of
                      (Some prevTimes, Some prevTime) \<Rightarrow> sample_percent prevTimes prevTime tms now
                    | _ \<Rightarrow> None) of
                Some cpuPercent \<Rightarrow> (cpuPercent, store_sample now pid tms c)
              | None \<Rightarrow> (Fin 0, store_sample now pid tms (evict_process c)))))"

definition int32 :: "int \<Rightarrow> int" where
  "int32 n = (n + 2 ^ 31) mod 2 ^ 32 - 2 ^ 31"

definition getProcessCPUUsageSimple :: "'w gopsutil \<Rightarrow> 'w \<Rightarrow> time \<Rightarrow> int \<Rightarrow> collector \<Rightarrow> f64 \<times> collector" where
  "getProcessCPUUsageSimple pl w now pid c =
     (if \<not> ps_New pl (int32 pid) w then (Fin 0, c)
      else getProcessCPUUsageSimpleWithHandle pl w now (int32 pid) c)"

definition getProcessCPUAverage :: "'w gopsutil \<Rightarrow> 'w \<Rightarrow> int \<Rightarrow> f64 \<Rightarrow> f64" where
  "getProcessCPUAverage pl w pid systemUptimeSeconds =
     (case (ps_Times pl pid w, ps_CreateTime pl pid w, host_BootTime pl w) of
        (Some tms, Some createTime, Some bootTime) \<Rightarrow>
          (if createTime = 0 \<or> bootTime = 0 then Fin 0
           else
             (let processAgeSeconds =
                    f64_sub systemUptimeSeconds
                      (f64_sub (f64_div (f64_of_int createTime) (f64_of_int 1000)) (f64_of_u64 bootTime));
                  avgCPU = f64_mul (f64_div (f64_add (tUser tms) (tSystem tms)) processAgeSeconds) (f64_of_int 100)
              in if f64_le processAgeSeconds (Fin 0) then Fin 0
                 else if f64_lt avgCPU (Fin 0) then Fin 0
                 else if f64_gt avgCPU (f64_of_int 100) then f64_of_int 100 else avgCPU))
      | _ \<Rightarrow> Fin 0)"

definition getSystemUptimeSeconds :: "'w os \<Rightarrow> 'w \<Rightarrow> f64" where
  "getSystemUptimeSeconds os w =
     (case ReadFile os ''/proc/uptime'' w of
        Inl _ \<Rightarrow> Fin 0
      | Inr d \<Rightarrow> (case Fields d of [] \<Rightarrow> Fin 0 | f # _ \<Rightarrow> (case ParseFloat f of None \<Rightarrow> Fin 0 | Some v \<Rightarrow> v)))"

text \<open>\<open>/proc/[pid]/io\<close>: bytes read, bytes written, read and write calls; the last line with a key counts.\<close>

definition io_line :: "u64 \<times> u64 \<times> u64 \<times> u64 \<Rightarrow> string \<Rightarrow> u64 \<times> u64 \<times> u64 \<times> u64" where
  "io_line acc line =
     (case (Fields (TrimSpace line), acc) of
        ([k, v], (rB, wB, rO, wO)) \<Rightarrow>
          (case ParseUint v of
             None \<Rightarrow> acc
           | Some n \<Rightarrow>
               (let key = TrimSuffix k '':'' in
                if key = ''read_bytes'' then (n, wB, rO, wO)
                else if key = ''write_bytes'' then (rB, n, rO, wO)
                else if key = ''syscr'' then (rB, wB, n, wO)
                else if key = ''syscw'' then (rB, wB, rO, n)
                else acc))
      | _ \<Rightarrow> acc)"

definition getProcessIO :: "'w os \<Rightarrow> 'w \<Rightarrow> int \<Rightarrow> u64 \<times> u64 \<times> u64 \<times> u64" where
  "getProcessIO os w pid =
     (case ReadFile os (proc_file pid ''io'') w of
        Inl _ \<Rightarrow> (0, 0, 0, 0)
      | Inr d \<Rightarrow> foldl io_line (0, 0, 0, 0) (Split d newline))"

text \<open>\<open>VmRSS\<close> of \<open>/proc/[pid]/status\<close> in bytes. The first such line with a value decides.\<close>

fun rss_line :: "string list \<Rightarrow> u64" where
  "rss_line [] = 0"
| "rss_line (l # ls) =
     (if HasPrefix l ''VmRSS:'' then
        (case Fields l of
           _ # v # _ \<Rightarrow> (case ParseUint v of None \<Rightarrow> 0 | Some kb \<Rightarrow> kb * 1024)
         | _ \<Rightarrow> rss_line ls)
      else rss_line ls)"

definition getProcessMemoryUsage :: "'w os \<Rightarrow> 'w \<Rightarrow> int \<Rightarrow> u64" where
  "getProcessMemoryUsage os w pid =
     (case ReadFile os (proc_file pid ''status'') w of Inl _ \<Rightarrow> 0 | Inr d \<Rightarrow> rss_line (Split d newline))"

text \<open>The real user id of a status file; None is an error.\<close>

definition Collector_getUIDFromStatusFile :: "'w os \<Rightarrow> 'w \<Rightarrow> string \<Rightarrow> int option" where
  "Collector_getUIDFromStatusFile os w statusFile =
     (case read_lines os statusFile w of
        None \<Rightarrow> None
      | Some ls \<Rightarrow> (case status_uid ls of Inl _ \<Rightarrow> None | Inr uid \<Rightarrow> Some uid))"

definition calculateEMA :: "int \<Rightarrow> f64 \<Rightarrow> collector \<Rightarrow> f64 \<times> collector" where
  "calculateEMA uid currentValue c =
     (let ema = (case emaValues c uid of
                   None \<Rightarrow> currentValue
                 | Some prevEMA \<Rightarrow>
                     f64_add (f64_mul (f64_of_rat (3 / 10)) currentValue) (f64_mul (f64_of_rat (7 / 10)) prevEMA))
      in (ema, c\<lparr>emaValues := (emaValues c)(uid \<mapsto> ema)\<rparr>))"

section \<open>The scan\<close>

record user_data =
  ud_cpuUsage :: f64
  ud_cpuUsageAvg :: f64
  ud_processCount :: int
  ud_memoryUsage :: u64
  ud_ioReadBytes :: u64
  ud_ioWriteBytes :: u64
  ud_ioReadOps :: u64
  ud_ioWriteOps :: u64

definition no_data :: user_data where
  "no_data = \<lparr>ud_cpuUsage = Fin 0, ud_cpuUsageAvg = Fin 0, ud_processCount = 0, ud_memoryUsage = 0,
     ud_ioReadBytes = 0, ud_ioWriteBytes = 0, ud_ioReadOps = 0, ud_ioWriteOps = 0\<rparr>"

text \<open>Change the data of a user, from \<open>no_data\<close> at its first process.\<close>

definition at_user :: "int \<Rightarrow> (user_data \<Rightarrow> user_data) \<Rightarrow> (int \<times> user_data) list \<Rightarrow> (int \<times> user_data) list" where
  "at_user uid f t = al_update uid (f (case map_of t uid of None \<Rightarrow> no_data | Some d \<Rightarrow> d)) t"

definition add_figures :: "f64 \<Rightarrow> u64 \<Rightarrow> user_data \<Rightarrow> user_data" where
  "add_figures usage rss d =
     d\<lparr>ud_processCount := ud_processCount d + 1, ud_cpuUsage := f64_add (ud_cpuUsage d) usage,
       ud_memoryUsage := ud_memoryUsage d + rss\<rparr>"

definition add_average :: "f64 \<Rightarrow> user_data \<Rightarrow> user_data" where
  "add_average avg d = d\<lparr>ud_cpuUsageAvg := f64_add (ud_cpuUsageAvg d) avg\<rparr>"

definition add_io :: "u64 \<times> u64 \<times> u64 \<times> u64 \<Rightarrow> user_data \<Rightarrow> user_data" where
  "add_io v d =
     (case v of (rB, wB, rO, wO) \<Rightarrow>
        d\<lparr>ud_ioReadBytes := ud_ioReadBytes d + rB, ud_ioWriteBytes := ud_ioWriteBytes d + wB,
          ud_ioReadOps := ud_ioReadOps d + rO, ud_ioWriteOps := ud_ioWriteOps d + wO\<rparr>)"

text \<open>One process of the first loop; a process whose user ids cannot be read has none.\<close>

definition scan_figures ::
  "'w gopsutil \<Rightarrow> 'w \<Rightarrow> time \<Rightarrow> f64 \<Rightarrow> int \<times> int list \<Rightarrow> (int \<times> user_data) list \<times> collector \<Rightarrow>
   (int \<times> user_data) list \<times> collector" where
  "scan_figures pl w now uptime p acc =
     (case (p, acc) of
        ((pid, uid # _), (t, c)) \<Rightarrow>
          (if \<not> isMonitoredUserUID (col_cfg c) uid then (t, c)
           else
             (case getProcessCPUUsageSimpleWithHandle pl w now pid c of
                (cpuUsage, c1) \<Rightarrow>
                  (at_user uid
                     (\<lambda>d. add_average (getProcessCPUAverage pl w pid uptime)
                        (add_figures cpuUsage (case ps_RSS pl pid w of None \<Rightarrow> 0 | Some rss \<Rightarrow> rss) d)) t, c1)))
      | _ \<Rightarrow> acc)"

definition scan_io :: "'w os \<Rightarrow> 'w \<Rightarrow> int \<times> int list \<Rightarrow> (int \<times> user_data) list \<Rightarrow> (int \<times> user_data) list" where
  "scan_io os w p t =
     (case p of (pid, uid # _) \<Rightarrow> at_user uid (add_io (getProcessIO os w pid)) t | _ \<Rightarrow> t)"

definition io_of :: "user_data \<Rightarrow> u64 \<times> u64 \<times> u64 \<times> u64" where
  "io_of d = (ud_ioReadBytes d, ud_ioWriteBytes d, ud_ioReadOps d, ud_ioWriteOps d)"

definition merge_io :: "(int \<Rightarrow> bool) \<Rightarrow> (int \<times> user_data) list \<Rightarrow> (int \<times> user_data) list \<Rightarrow> (int \<times> user_data) list" where
  "merge_io monitored ioData t =
     fold (\<lambda>(uid, d) t. if monitored uid then at_user uid (add_io (io_of d)) t else t) ioData t"

definition make_metrics :: "regexp_lib \<Rightarrow> config \<Rightarrow> int \<Rightarrow> string \<Rightarrow> f64 \<Rightarrow> user_data \<Rightarrow> user_metrics" where
  "make_metrics rx cfg uid username ema d =
     \<lparr>UID = uid, Username = username, CPUUsage = ud_cpuUsage d, CPUUsageAverage = ud_cpuUsageAvg d, CPUUsageEMA = ema,
      MemoryUsage = ud_memoryUsage d, ProcessCount = ud_processCount d, IsLimited = IsUserWhitelisted rx cfg username,
      IOReadBytes = ud_ioReadBytes d, IOWriteBytes = ud_ioWriteBytes d, IOReadOps = ud_ioReadOps d,
      IOWriteOps = ud_ioWriteOps d\<rparr>"

definition finish_user ::
  "regexp_lib \<Rightarrow> 'w os \<Rightarrow> 'w gopsutil \<Rightarrow> 'w \<Rightarrow> time \<Rightarrow> int \<times> user_data \<Rightarrow>
   (int \<times> user_metrics) list \<times> collector \<Rightarrow> (int \<times> user_metrics) list \<times> collector" where
  "finish_user rx os pl w now entry acc =
     (case (entry, acc) of ((uid, d), (ms, c)) \<Rightarrow>
        (let (username, c1) = getUsername os pl w now uid c;
             (ema, c2) = calculateEMA uid (ud_cpuUsage d) c1
         in (al_update uid (make_metrics rx (col_cfg c2) uid username ema d) ms, c2)))"

text \<open>The loop over the entries of /proc, when the process table cannot be read.\<close>

definition scan_entry ::
  "'w os \<Rightarrow> 'w gopsutil \<Rightarrow> 'w \<Rightarrow> time \<Rightarrow> f64 \<Rightarrow> string \<times> bool \<Rightarrow>
   ((int \<times> user_data) list \<times> (int \<times> user_data) list) \<times> collector \<Rightarrow>
   ((int \<times> user_data) list \<times> (int \<times> user_data) list) \<times> collector" where
  "scan_entry os pl w now uptime entry acc =
     (case (entry, acc) of ((name, dir), ((t, ioData), c)) \<Rightarrow>
        (if \<not> dir then acc
         else
           (case (Atoi name, Collector_getUIDFromStatusFile os w (path_join (path_join ''/proc'' name) ''status'')) of
              (Some pid, Some uid) \<Rightarrow>
                (if \<not> isMonitoredUserUID (col_cfg c) uid then acc
                 else
                   (case getProcessCPUUsageSimple pl w now pid c of
                      (cpuUsage, c1) \<Rightarrow>
                        ((at_user uid
                            (\<lambda>d. (if ps_New pl (int32 pid) w
                                  then add_average (getProcessCPUAverage pl w (int32 pid) uptime) else id)
                               (add_figures cpuUsage (getProcessMemoryUsage os w pid) d)) t,
                          at_user uid (add_io (getProcessIO os w pid)) ioData), c1)))
            | _ \<Rightarrow> acc)))"

definition getAllUserMetricsFallback ::
  "regexp_lib \<Rightarrow> 'w os \<Rightarrow> 'w gopsutil \<Rightarrow> 'w \<Rightarrow> time \<Rightarrow> collector \<Rightarrow> (int \<times> user_metrics) list \<times> collector" where
  "getAllUserMetricsFallback rx os pl w now c =
     (case ReadDir os ''/proc'' w of
        Inl _ \<Rightarrow> ([], c)
      | Inr entries \<Rightarrow>
          (case fold (scan_entry os pl w now (getSystemUptimeSeconds os w)) entries (([], []), c) of
             ((t, ioData), c1) \<Rightarrow> fold (finish_user rx os pl w now) (merge_io (\<lambda>_. True) ioData t) ([], c1)))"

definition Collector_GetAllUserMetrics ::
  "regexp_lib \<Rightarrow> 'w os \<Rightarrow> 'w gopsutil \<Rightarrow> 'w \<Rightarrow> time \<Rightarrow> collector \<Rightarrow> (int \<times> user_metrics) list \<times> collector" where
  "Collector_GetAllUserMetrics rx os pl w now c =
     (case getFromCache ''all_user_metrics'' (metricsCacheTTL c) now c of
        Some (CMetrics ms) \<Rightarrow> (ms, c)
      | _ \<Rightarrow>
          (case Processes pl w of
             None \<Rightarrow> getAllUserMetricsFallback rx os pl w now c
           | Some procs \<Rightarrow>
               (case fold (scan_figures pl w now (getSystemUptimeSeconds os w)) procs ([], c) of
                  (t, c1) \<Rightarrow>
                    (let ioData = fold (scan_io os w) procs [];
                         t1 = merge_io (isMonitoredUserUID (col_cfg c1)) ioData t;
                         (ms, c2) = fold (finish_user rx os pl w now) t1 ([], c1)
                     in (ms, setInCache now ''all_user_metrics'' (CMetrics ms) c2)))))"

section \<open>Getters over the scan\<close>

text \<open>The shape all of them share: a cached value, or one computed from the metrics of all users.\<close>

definition from_metrics ::
  "(cached \<Rightarrow> 'a option) \<Rightarrow> ('a \<Rightarrow> cached) \<Rightarrow> string \<Rightarrow> ((int \<times> user_metrics) list \<Rightarrow> 'a) \<Rightarrow>
   (collector \<Rightarrow> (int \<times> user_metrics) list \<times> collector) \<Rightarrow> time \<Rightarrow> collector \<Rightarrow> 'a option \<times> collector" where
  "from_metrics as mk key f all now c =
     cached_or as key (metricsCacheTTL c) now (\<lambda>c. case all c of (ms, c1) \<Rightarrow> stored mk now key (f ms) c1) c"

definition sum_cpu :: "(int \<times> user_metrics) list \<Rightarrow> f64" where
  "sum_cpu ms = fold (\<lambda>(uid, um) a. f64_add a (CPUUsage um)) ms (Fin 0)"

definition sum_memory :: "(int \<times> user_metrics) list \<Rightarrow> u64" where
  "sum_memory ms = sum_list (map (\<lambda>(uid, um). MemoryUsage um) ms)"

definition limited_entries :: "(int \<times> user_metrics) list \<Rightarrow> (int \<times> user_metrics) list" where
  "limited_entries ms = filter (\<lambda>(uid, um). IsLimited um) ms"

definition Collector_GetAllUsersCPUUsage where
  "Collector_GetAllUsersCPUUsage rx os pl w now =
     from_metrics as_float CFloat ''all_users_cpu_usage'' sum_cpu (Collector_GetAllUserMetrics rx os pl w now) now"

definition Collector_GetLimitedUsersCPUUsage where
  "Collector_GetLimitedUsersCPUUsage rx os pl w now =
     from_metrics as_float CFloat ''limited_users_cpu_usage'' (\<lambda>ms. sum_cpu (limited_entries ms))
       (Collector_GetAllUserMetrics rx os pl w now) now"

definition Collector_GetAllUsers where
  "Collector_GetAllUsers rx os pl w now =
     from_metrics as_users CUsers ''all_users'' keys (Collector_GetAllUserMetrics rx os pl w now) now"

definition Collector_GetLimitedUsers where
  "Collector_GetLimitedUsers rx os pl w now =
     from_metrics as_users CUsers ''limited_users'' (\<lambda>ms. keys (limited_entries ms))
       (Collector_GetAllUserMetrics rx os pl w now) now"

definition Collector_GetAllUsersMemoryUsage where
  "Collector_GetAllUsersMemoryUsage rx os pl w now =
     from_metrics as_u64 CU64 ''all_users_memory_usage'' sum_memory (Collector_GetAllUserMetrics rx os pl w now) now"

definition Collector_GetLimitedUsersMemoryUsage where
  "Collector_GetLimitedUsersMemoryUsage rx os pl w now =
     from_metrics as_u64 CU64 ''limited_users_memory_usage'' (\<lambda>ms. sum_memory (limited_entries ms))
       (Collector_GetAllUserMetrics rx os pl w now) now"

definition Collector_GetUserCPUUsage where
  "Collector_GetUserCPUUsage rx os pl w now uid c =
     (if \<not> isMonitoredUserUID (col_cfg c) uid then (Some (Fin 0), c)
      else from_metrics as_float CFloat (''cpu_usage_uid_'' @ Itoa uid)
        (\<lambda>ms. case map_of ms uid of None \<Rightarrow> Fin 0 | Some um \<Rightarrow> CPUUsage um)
        (Collector_GetAllUserMetrics rx os pl w now) now c)"

definition Collector_GetUserMemoryUsage where
  "Collector_GetUserMemoryUsage rx os pl w now uid c =
     (if \<not> isMonitoredUserUID (col_cfg c) uid then (Some 0, c)
      else from_metrics as_u64 CU64 (''memory_usage_uid_'' @ Itoa uid)
        (\<lambda>ms. case map_of ms uid of None \<Rightarrow> 0 | Some um \<Rightarrow> MemoryUsage um)
        (Collector_GetAllUserMetrics rx os pl w now) now c)"

definition Collector_GetUserProcessCount where
  "Collector_GetUserProcessCount rx os pl w now uid c =
     (if \<not> isMonitoredUserUID (col_cfg c) uid then (Some 0, c)
      else from_metrics as_int CInt (''process_count_uid_'' @ Itoa uid)
        (\<lambda>ms. case map_of ms uid of None \<Rightarrow> 0 | Some um \<Rightarrow> ProcessCount um)
        (Collector_GetAllUserMetrics rx os pl w now) now c)"

end
