(* ===== verification/Exporter.thy ===== *)
theory Exporter
  imports CollectorUsers StateManager
begin

text \<open>
  The Prometheus exporter, \<open>metrics/prometheus.go\<close>: the series it keeps for users, its counters, the authentication of
  a request, and the flags of its server. The registry is a map from a metric with its label values to a value; the
  constant labels are left out. HTTP, TLS and the JWT library are not modelled: a request is given with what the library
  reads from it, and the check of a token is the parameter \<open>jwt\<close>.
\<close>

section \<open>Series\<close>

text \<open>One constructor for each metric the exporter registers, by the field that holds it.\<close>

datatype metric =
    cpuTotalUsage | memoryUsage | totalMemoryMB | cachedMemoryMB | limitedUsers | allUsersCPUUsage | allUsersMemoryUsage
  | allUsersCount | limitedUsersCPUUsage | limitedUsersMemoryUsage | limitedUsersCount | limits_Active | systemLoad
  | totalCores | actionCores | userCPUUsage | userCPUUsageAverage | userCPUUsageEMA | userMemoryUsage | userProcessCount
  | userLimited | userMemoryHighEvents | userIOReadBytes | userIOWriteBytes | userIOReadOps | userIOWriteOps
  | userWorkloadPattern | cgroupCPUQuota | cgroupCPUPeriod | cgroupMemoryUsage | limitsActivatedTotal
  | limitsDeactivatedTotal | controlCyclesTotal | controlCycleTriggers | psiEventsTotal | psiLastEventTimestamp | errorsTotal

type_synonym series = "metric \<times> string list \<rightharpoonup> f64"

definition set_series :: "metric \<Rightarrow> string list \<Rightarrow> f64 \<Rightarrow> series \<Rightarrow> series" where
  "set_series x ls v s = s((x, ls) \<mapsto> v)"

definition add_series :: "metric \<Rightarrow> string list \<Rightarrow> f64 \<Rightarrow> series \<Rightarrow> series" where
  "add_series x ls v s = s((x, ls) \<mapsto> f64_add (case s (x, ls) of None \<Rightarrow> Fin 0 | Some old \<Rightarrow> old) v)"

definition inc :: "metric \<Rightarrow> string list \<Rightarrow> series \<Rightarrow> series" where
  "inc x ls s = add_series x ls (Fin 1) s"

definition delete_series :: "metric \<Rightarrow> string list \<Rightarrow> series \<Rightarrow> series" where
  "delete_series x ls s = s((x, ls) := None)"

section \<open>State\<close>

record io_snapshot =
  ReadBytes :: u64
  WriteBytes :: u64
  ReadOps :: u64
  WriteOps :: u64

definition no_snapshot :: io_snapshot where
  "no_snapshot = \<lparr>ReadBytes = 0, WriteBytes = 0, ReadOps = 0, WriteOps = 0\<rparr>"

text \<open>
  \<open>activeUserMetrics\<close> is the list of the keys of a Go map to true. \<open>stopPending\<close>: the channel \<open>stopChan\<close>, of capacity 1,
  holds a signal; \<open>serving\<close>: the goroutine that waits for it lives.
\<close>

record exporter =
  exp_cfg :: config
  series_of :: series
  activeUserMetrics :: "string list"
  prevMemoryHighEvents :: "string \<rightharpoonup> u64"
  prevIOStats :: "string \<rightharpoonup> io_snapshot"
  prevUserPatterns :: "string \<rightharpoonup> string"
  lastUpdate :: time
  isRunning :: bool
  serving :: bool
  stopPending :: bool
  basicAuthPassword :: string
  jwtSecret :: string
  tlsCertFile :: string
  tlsKeyFile :: string
  tlsCAFile :: string

datatype credential_error =
  PasswordFileUnreadable | SecretFileUnreadable | TLSCertMissing | TLSKeyMissing | TLSCAMissing

text \<open>
  \<open>loadCredentials\<close>: each part runs only when the part before it gave no error; what was loaded before stays.
\<close>

definition load_password :: "'w os \<Rightarrow> 'w \<Rightarrow> exporter \<Rightarrow> credential_error option \<times> exporter" where
  "load_password os w e =
     (let cfg = exp_cfg e in
      if (PrometheusAuthType cfg = ''basic'' \<or> PrometheusAuthType cfg = ''both'') \<and> PrometheusAuthPasswordFile cfg \<noteq> ''''
      then (case ReadFile os (PrometheusAuthPasswordFile cfg) w of
              Inl _ \<Rightarrow> (Some PasswordFileUnreadable, e)
            | Inr d \<Rightarrow> (None, e\<lparr>basicAuthPassword := TrimSpace d\<rparr>))
      else (None, e))"

definition load_secret :: "'w os \<Rightarrow> 'w \<Rightarrow> exporter \<Rightarrow> credential_error option \<times> exporter" where
  "load_secret os w e =
     (let cfg = exp_cfg e in
      if (PrometheusAuthType cfg = ''jwt'' \<or> PrometheusAuthType cfg = ''both'') \<and> PrometheusJWTSecretFile cfg \<noteq> ''''
      then (case ReadFile os (PrometheusJWTSecretFile cfg) w of
              Inl _ \<Rightarrow> (Some SecretFileUnreadable, e)
            | Inr d \<Rightarrow> (None, e\<lparr>jwtSecret := TrimSpace d\<rparr>))
      else (None, e))"

definition load_tls_file :: "'w os \<Rightarrow> 'w \<Rightarrow> string \<Rightarrow> credential_error \<Rightarrow> (exporter \<Rightarrow> exporter) \<Rightarrow> exporter \<Rightarrow>
   credential_error option \<times> exporter" where
  "load_tls_file os w file err upd e =
     (if file = '''' then (None, e) else if Stat os file w \<noteq> None then (Some err, e) else (None, upd e))"

definition load_tls :: "'w os \<Rightarrow> 'w \<Rightarrow> exporter \<Rightarrow> credential_error option \<times> exporter" where
  "load_tls os w e =
     (let cfg = exp_cfg e in
      if \<not> PrometheusTLSEnabled cfg then (None, e)
      else
        (case load_tls_file os w (PrometheusTLSCertFile cfg) TLSCertMissing (tlsCertFile_update (\<lambda>_. PrometheusTLSCertFile cfg)) e of
           (Some err, e1) \<Rightarrow> (Some err, e1)
         | (None, e1) \<Rightarrow>
             (case load_tls_file os w (PrometheusTLSKeyFile cfg) TLSKeyMissing (tlsKeyFile_update (\<lambda>_. PrometheusTLSKeyFile cfg)) e1 of
                (Some err, e2) \<Rightarrow> (Some err, e2)
              | (None, e2) \<Rightarrow>
                  load_tls_file os w (PrometheusTLSCAFile cfg) TLSCAMissing (tlsCAFile_update (\<lambda>_. PrometheusTLSCAFile cfg)) e2)))"

definition loadCredentials :: "'w os \<Rightarrow> 'w \<Rightarrow> exporter \<Rightarrow> credential_error option \<times> exporter" where
  "loadCredentials os w e =
     (case load_password os w e of
        (Some err, e1) \<Rightarrow> (Some err, e1)
      | (None, e1) \<Rightarrow>
          (case load_secret os w e1 of
             (Some err, e2) \<Rightarrow> (Some err, e2)
           | (None, e2) \<Rightarrow> load_tls os w e2))"

datatype exporter_result = ExporterDisabled | BadPort | ExporterCreated exporter

text \<open>\<open>NewPrometheusExporter\<close>: an error of \<open>loadCredentials\<close> is logged and dropped.\<close>

definition NewPrometheusExporter :: "'w os \<Rightarrow> config \<Rightarrow> 'w \<Rightarrow> exporter_result" where
  "NewPrometheusExporter os cfg w =
     (if \<not> EnablePrometheus cfg then ExporterDisabled
      else if PrometheusMetricsBindPort cfg \<le> 0 \<or> PrometheusMetricsBindPort cfg > 65535 then BadPort
      else ExporterCreated (snd (loadCredentials os w
        \<lparr>exp_cfg = cfg, series_of = Map.empty, activeUserMetrics = [], prevMemoryHighEvents = Map.empty,
         prevIOStats = Map.empty, prevUserPatterns = Map.empty, lastUpdate = zero_time, isRunning = False,
         serving = False, stopPending = False, basicAuthPassword = '''', jwtSecret = '''', tlsCertFile = '''',
         tlsKeyFile = '''', tlsCAFile = ''''\<rparr>)))"

section \<open>Updates\<close>

text \<open>The user name behind a user id in /etc/passwd; the id itself when there is none.\<close>

definition exporter_username :: "'w os \<Rightarrow> 'w \<Rightarrow> string \<Rightarrow> string" where
  "exporter_username os w uidStr =
     (case Atoi uidStr of
        None \<Rightarrow> ''unknown''
      | Some uid \<Rightarrow>
          (case read_lines os ''/etc/passwd'' w of
             None \<Rightarrow> uidStr
           | Some ls \<Rightarrow>
               (case List.map_filter (\<lambda>l. case Split l CHR '':'' of
                       f0 # f1 # f2 # _ \<Rightarrow> if f2 = Itoa uid then Some f0 else None | _ \<Rightarrow> None) ls of
                  [] \<Rightarrow> uidStr
                | n # _ \<Rightarrow> n)))"

definition user_key :: "string \<Rightarrow> string \<Rightarrow> string" where
  "user_key uidStr username = uidStr @ ''_'' @ username"

definition label_name :: "'w os \<Rightarrow> 'w \<Rightarrow> string \<Rightarrow> string \<Rightarrow> string" where
  "label_name os w uidStr username = (if username = '''' \<or> username = uidStr then exporter_username os w uidStr else username)"

definition basic_metrics :: "(string \<times> metric) list" where
  "basic_metrics =
     [(''cpu_total_usage'', cpuTotalUsage), (''all_users_cpu_usage'', allUsersCPUUsage), (''all_users_count'', allUsersCount),
      (''limited_users'', limitedUsers), (''limited_users_cpu_usage'', limitedUsersCPUUsage),
      (''limited_users_count'', limitedUsersCount), (''memory_usage_mb'', memoryUsage), (''total_memory_mb'', totalMemoryMB),
      (''cached_memory_mb'', cachedMemoryMB), (''all_users_memory_usage'', allUsersMemoryUsage),
      (''limited_users_memory_usage'', limitedUsersMemoryUsage), (''limits_active'', limits_Active),
      (''system_load'', systemLoad), (''total_cores'', totalCores)]"

text \<open>\<open>updateCgroupMetric\<close>: the label is what stands between the first underscore and the first colon after it.\<close>

definition updateCgroupMetric :: "string \<Rightarrow> f64 \<Rightarrow> metric \<Rightarrow> series \<Rightarrow> series" where
  "updateCgroupMetric key value x s =
     (if CHR '':'' \<notin> set key \<or> CHR ''_'' \<notin> set key then s
      else
        (let remaining = tl (dropWhile (\<lambda>ch. ch \<noteq> CHR ''_'') key) in
         if CHR '':'' \<notin> set remaining then s
         else set_series x [takeWhile (\<lambda>ch. ch \<noteq> CHR '':'') remaining, tl (dropWhile (\<lambda>ch. ch \<noteq> CHR '':'') remaining)] value s))"

definition update_metric :: "'w os \<Rightarrow> 'w \<Rightarrow> string \<times> f64 \<Rightarrow> series \<Rightarrow> series" where
  "update_metric os w kv s =
     (case kv of (key, value) \<Rightarrow>
        (case map_of basic_metrics key of
           Some x \<Rightarrow> set_series x [] value s
         | None \<Rightarrow>
             (let parts = Split key CHR ''_'' in
              if HasPrefix key ''user_cpu_usage_'' then
                (if length parts \<ge> 4 then set_series userCPUUsage [parts ! 3, exporter_username os w (parts ! 3)] value s else s)
              else if HasPrefix key ''user_memory_usage_'' then
                (if length parts \<ge> 4 then
                   set_series userMemoryUsage [parts ! 3, exporter_username os w (parts ! 3)]
                     (if HasSuffix key ''_mb'' then f64_mul (f64_mul value (f64_of_int 1024)) (f64_of_int 1024) else value) s
                 else s)
              else if HasPrefix key ''user_limited_'' then
                (if length parts \<ge> 3 then set_series userLimited [parts ! 2, exporter_username os w (parts ! 2)] value s else s)
              else if HasPrefix key ''cgroup_cpu_quota_'' then updateCgroupMetric key value cgroupCPUQuota s
              else if HasPrefix key ''cgroup_cpu_period_'' then updateCgroupMetric key value cgroupCPUPeriod s
              else if HasPrefix key ''cgroup_memory_usage_'' then updateCgroupMetric key value cgroupMemoryUsage s
              else s)))"

definition Exporter_UpdateMetrics :: "'w os \<Rightarrow> 'w \<Rightarrow> time \<Rightarrow> (string \<times> f64) list \<Rightarrow> exporter \<Rightarrow> exporter" where
  "Exporter_UpdateMetrics os w now ms e =
     (if time_Sub now (lastUpdate e) < seconds 15 then e
      else e\<lparr>lastUpdate := now,
             series_of := fold (update_metric os w) ms (inc controlCyclesTotal [] (series_of e))\<rparr>)"

definition parseCPUQuota :: "string \<Rightarrow> int \<times> int" where
  "parseCPUQuota quotaStr =
     (case Fields quotaStr of
        [q, p] \<Rightarrow>
          (if q = ''max'' then -1 else (case Atoi q of None \<Rightarrow> 0 | Some v \<Rightarrow> v),
           case Atoi p of None \<Rightarrow> 0 | Some v \<Rightarrow> v)
      | _ \<Rightarrow> (-1, -1))"

definition getCgroupMemoryUsage :: "'w os \<Rightarrow> 'w \<Rightarrow> string \<Rightarrow> int" where
  "getCgroupMemoryUsage os w cgroupPath =
     (case ReadFile os (path_join cgroupPath ''memory.current'') w of
        Inl _ \<Rightarrow> 0
      | Inr d \<Rightarrow> (case Atoi (TrimSpace d) of None \<Rightarrow> 0 | Some n \<Rightarrow> n))"

text \<open>A counter moves by the growth of its source; a source that shrank moves nothing.\<close>

definition add_growth :: "metric \<Rightarrow> string list \<Rightarrow> u64 \<Rightarrow> u64 \<Rightarrow> series \<Rightarrow> series" where
  "add_growth x ls prev new s = (if new \<ge> prev then add_series x ls (f64_of_u64 (new - prev)) s else s)"

definition cgroup_series :: "'w os \<Rightarrow> 'w \<Rightarrow> string \<Rightarrow> string \<Rightarrow> string \<Rightarrow> series \<Rightarrow> series" where
  "cgroup_series os w uidStr cgroupPath cpuQuota s =
     (if cgroupPath = '''' then s
      else
        (let (quota, period) = parseCPUQuota cpuQuota; ls = [uidStr, cgroupPath];
             s1 = (if cpuQuota \<noteq> '''' \<and> quota \<ge> 0 then set_series cgroupCPUQuota ls (f64_of_int quota) s else s);
             s2 = (if cpuQuota \<noteq> '''' \<and> period > 0 then set_series cgroupCPUPeriod ls (f64_of_int period) s1 else s1)
         in set_series cgroupMemoryUsage ls (f64_of_u64 (word_of_int (getCgroupMemoryUsage os w cgroupPath))) s2))"

definition Exporter_UpdateUserMetrics ::
  "'w os \<Rightarrow> 'w \<Rightarrow> int \<Rightarrow> string \<Rightarrow> user_metrics \<Rightarrow> bool \<Rightarrow> string \<Rightarrow> string \<Rightarrow> u64 \<Rightarrow> u64 \<Rightarrow> u64 \<Rightarrow> u64 \<Rightarrow> u64 \<Rightarrow>
   exporter \<Rightarrow> exporter" where
  "Exporter_UpdateUserMetrics os w uid username0 um limited cgroupPath cpuQuota memoryHighEvents rB wB rO wO e =
     (let uidStr = Itoa uid; username = label_name os w uidStr username0; ls = [uidStr, username];
          userKey = user_key uidStr username;
          gauges = set_series userLimited ls (if limited then Fin 1 else Fin 0)
            (set_series userProcessCount ls (f64_of_int (ProcessCount um))
              (set_series userMemoryUsage ls (f64_of_u64 (MemoryUsage um))
                (set_series userCPUUsageEMA ls (CPUUsageEMA um)
                  (set_series userCPUUsageAverage ls (CPUUsageAverage um)
                    (set_series userCPUUsage ls (CPUUsage um) (series_of e))))));
          prevHigh = (case prevMemoryHighEvents e userKey of None \<Rightarrow> 0 | Some n \<Rightarrow> n);
          high = (if memoryHighEvents > prevHigh
                  then add_series userMemoryHighEvents ls (f64_of_u64 (memoryHighEvents - prevHigh)) gauges else gauges);
          prevIO = (case prevIOStats e userKey of None \<Rightarrow> no_snapshot | Some x \<Rightarrow> x);
          io = add_growth userIOWriteOps ls (WriteOps prevIO) wO
            (add_growth userIOReadOps ls (ReadOps prevIO) rO
              (add_growth userIOWriteBytes ls (WriteBytes prevIO) wB
                (add_growth userIOReadBytes ls (ReadBytes prevIO) rB high)))
      in e\<lparr>activeUserMetrics := (if userKey \<in> set (activeUserMetrics e) then activeUserMetrics e else activeUserMetrics e @ [userKey]),
           series_of := cgroup_series os w uidStr cgroupPath cpuQuota io,
           prevMemoryHighEvents := (prevMemoryHighEvents e)(userKey \<mapsto> memoryHighEvents),
           prevIOStats := (prevIOStats e)(userKey \<mapsto> \<lparr>ReadBytes = rB, WriteBytes = wB, ReadOps = rO, WriteOps = wO\<rparr>)\<rparr>)"

text \<open>The series a user loses when it is no longer active.\<close>

definition cleaned_metrics :: "metric list" where
  "cleaned_metrics =
     [userCPUUsage, userMemoryUsage, userProcessCount, userLimited, userMemoryHighEvents, userIOReadBytes,
      userIOWriteBytes, userIOReadOps, userIOWriteOps]"

definition cleanup_user :: "int list \<Rightarrow> string \<Rightarrow> exporter \<Rightarrow> exporter" where
  "cleanup_user activeUids userKey e =
     (case SplitN2 userKey CHR ''_'' of
        [uidStr, username] \<Rightarrow>
          (case Atoi uidStr of
             None \<Rightarrow> e
           | Some uid \<Rightarrow>
               (if uid \<in> set activeUids then e
                else
                  (let ls = [uidStr, username];
                       s = fold (\<lambda>x. delete_series x ls) cleaned_metrics (series_of e)
                   in e\<lparr>series_of := (case prevUserPatterns e userKey of
                             None \<Rightarrow> s | Some p \<Rightarrow> delete_series userWorkloadPattern [uidStr, username, p] s),
                        prevMemoryHighEvents := (prevMemoryHighEvents e)(userKey := None),
                        prevIOStats := (prevIOStats e)(userKey := None),
                        prevUserPatterns := (prevUserPatterns e)(userKey := None),
                        activeUserMetrics := filter (\<lambda>k. k \<noteq> userKey) (activeUserMetrics e)\<rparr>)))
      | _ \<Rightarrow> e)"

definition Exporter_CleanupUserMetrics :: "int list \<Rightarrow> exporter \<Rightarrow> exporter" where
  "Exporter_CleanupUserMetrics activeUids e = fold (cleanup_user activeUids) (activeUserMetrics e) e"

definition Exporter_UpdateSystemMetrics :: "int \<Rightarrow> int \<Rightarrow> f64 \<Rightarrow> exporter \<Rightarrow> exporter" where
  "Exporter_UpdateSystemMetrics cores action load e =
     e\<lparr>series_of := set_series systemLoad [] load
         (set_series actionCores [] (f64_of_int action) (set_series totalCores [] (f64_of_int cores) (series_of e)))\<rparr>"

definition pattern_label :: "pattern \<Rightarrow> string" where
  "pattern_label p =
     (case p of PatternUnknown \<Rightarrow> ''unknown'' | PatternBatchNight \<Rightarrow> ''batch_night'' | PatternInteractiveDay \<Rightarrow> ''interactive_day''
      | PatternMixed \<Rightarrow> ''mixed'' | PatternAlwaysOn \<Rightarrow> ''always_on'' | PatternSporadic \<Rightarrow> ''sporadic'')"

definition Exporter_UpdateUserWorkloadPattern :: "'w os \<Rightarrow> 'w \<Rightarrow> int \<Rightarrow> string \<Rightarrow> pattern \<Rightarrow> f64 \<Rightarrow> exporter \<Rightarrow> exporter" where
  "Exporter_UpdateUserWorkloadPattern os w uid username0 p confidence e =
     (let uidStr = Itoa uid; username = label_name os w uidStr username0; userKey = user_key uidStr username;
          new = pattern_label p;
          s = (case prevUserPatterns e userKey of
                 Some old \<Rightarrow> if old \<noteq> new then delete_series userWorkloadPattern [uidStr, username, old] (series_of e) else series_of e
               | None \<Rightarrow> series_of e)
      in e\<lparr>series_of := set_series userWorkloadPattern [uidStr, username, new] confidence s,
           prevUserPatterns := (prevUserPatterns e)(userKey \<mapsto> new)\<rparr>)"

definition Exporter_RecordControlCycleTrigger :: "string \<Rightarrow> exporter \<Rightarrow> exporter" where
  "Exporter_RecordControlCycleTrigger trigger e =
     e\<lparr>series_of := inc controlCycleTriggers [if trigger = '''' then ''unknown'' else trigger] (series_of e)\<rparr>"

definition RecordPSIEvent :: "time \<Rightarrow> string \<Rightarrow> string \<Rightarrow> time \<Rightarrow> exporter \<Rightarrow> exporter" where
  "RecordPSIEvent now typ0 scope0 timestamp0 e =
     (let typ = (if typ0 = '''' then ''unknown'' else typ0); scope = (if scope0 = '''' then ''unknown'' else scope0);
          timestamp = (if IsZero timestamp0 then now else timestamp0)
      in e\<lparr>series_of := set_series psiLastEventTimestamp [typ, scope] (f64_of_int ((timestamp - unix_epoch) div second))
             (inc psiEventsTotal [typ, scope] (series_of e))\<rparr>)"

section \<open>Authentication\<close>

text \<open>
  A request: the user and password of \<open>BasicAuth\<close> and the value of the header \<open>Authorization\<close>. \<open>jwt secret token\<close> is
  \<open>jwt.Parse\<close> restricted to HMAC methods: the issuer and audience claims that are strings, when the token is valid.
\<close>

record request =
  req_basic :: "(string \<times> string) option"
  req_authorization :: string

type_synonym jwt_lib = "string \<Rightarrow> string \<Rightarrow> (string option \<times> string option) option"

definition checkBasicAuth :: "exporter \<Rightarrow> request \<Rightarrow> bool" where
  "checkBasicAuth e r =
     (case req_basic r of
        None \<Rightarrow> False
      | Some (username, password) \<Rightarrow> username = PrometheusAuthUsername (exp_cfg e) \<and> password = basicAuthPassword e)"

definition checkJWTAuth :: "jwt_lib \<Rightarrow> exporter \<Rightarrow> request \<Rightarrow> bool" where
  "checkJWTAuth jwt e r =
     (let cfg = exp_cfg e in
      if req_authorization r = '''' then False
      else
        (case Split (req_authorization r) CHR '' '' of
           [scheme, token] \<Rightarrow>
             (if scheme \<noteq> ''Bearer'' then False
              else
                (case jwt (jwtSecret e) token of
                   None \<Rightarrow> False
                 | Some (iss, aud) \<Rightarrow>
                     (PrometheusJWTIssuer cfg = '''' \<or> iss = Some (PrometheusJWTIssuer cfg)) \<and>
                     (PrometheusJWTAudience cfg = '''' \<or> aud = Some (PrometheusJWTAudience cfg))))
         | _ \<Rightarrow> False))"

text \<open>Whether the middleware lets a request for /metrics through.\<close>

definition authMiddleware :: "jwt_lib \<Rightarrow> exporter \<Rightarrow> request \<Rightarrow> bool" where
  "authMiddleware jwt e r =
     (let typ = PrometheusAuthType (exp_cfg e) in
      if typ = ''none'' \<or> typ = '''' then True
      else (typ = ''basic'' \<or> typ = ''both'') \<and> checkBasicAuth e r \<or> (typ = ''jwt'' \<or> typ = ''both'') \<and> checkJWTAuth jwt e r)"

section \<open>The server\<close>

definition Exporter_Start :: "exporter \<Rightarrow> bool \<times> exporter" where
  "Exporter_Start e = (if isRunning e then (False, e) else (True, e\<lparr>isRunning := True, serving := True\<rparr>))"

text \<open>\<open>Stop\<close> puts a signal into the channel, or fails when one is there; the goroutine takes it and shuts down, once.\<close>

definition Exporter_Stop :: "exporter \<Rightarrow> bool \<times> exporter" where
  "Exporter_Stop e = (if stopPending e then (False, e) else (True, e\<lparr>stopPending := True\<rparr>))"

definition exporter_turn :: "exporter \<Rightarrow> exporter" where
  "exporter_turn e =
     (if serving e \<and> stopPending e then e\<lparr>stopPending := False, serving := False, isRunning := False\<rparr> else e)"

definition GetMetricsEndpoint :: "config \<Rightarrow> string" where
  "GetMetricsEndpoint cfg =
     ''http://'' @ PrometheusMetricsBindHost cfg @ '':'' @ Itoa (PrometheusMetricsBindPort cfg) @ ''/metrics''"

end
