(* ===== verification/Reload.thy ===== *)
theory Reload
  imports ConfigLoad Exporter
begin

text \<open>
  Changing the configuration while the daemon runs: the watcher of the configuration file (\<open>config/watcher.go\<close>) and the
  reloader that hands a new configuration to the components (\<open>reloader/reloader.go\<close>). The answers of \<open>os.Stat\<close>, of the
  file and of the environment are arguments. Locks are left out but for the one that \<open>SafeConfigUpdate\<close> takes twice.
\<close>

section \<open>The reloader\<close>

text \<open>The components it reaches. The cgroup manager is only told about the change in a log line.\<close>

record 'c runtime =
  rt_manager :: "'c manager"
  rt_collector :: collector
  rt_exporter :: "exporter option"

datatype apply_error = EnablingNeedsRestart | StopFailed | BindNeedsRestart

definition handlePrometheusConfigChange :: "config \<Rightarrow> exporter \<Rightarrow> apply_error option \<times> exporter" where
  "handlePrometheusConfigChange newConfig e =
     (if \<not> isRunning e \<and> EnablePrometheus newConfig then (Some EnablingNeedsRestart, e)
      else if isRunning e \<and> \<not> EnablePrometheus newConfig then
        (case Exporter_Stop e of (stopped, e1) \<Rightarrow> (if stopped then None else Some StopFailed, e1))
      else if GetMetricsEndpoint (exp_cfg e) \<noteq> GetMetricsEndpoint newConfig then (Some BindNeedsRestart, e)
      else (None, e))"

text \<open>
  \<open>OnConfigChange\<close>: \<open>held\<close> tells whether the caller holds the reloader's lock, which
  \<open>handlePrometheusConfigChange\<close> takes as well. A Go mutex is not reentrant: the call then never returns. An error of the exporter is
  collected, and the other components get the configuration all the same.
\<close>

definition OnConfigChange :: "bool \<Rightarrow> config \<Rightarrow> 'c runtime \<Rightarrow> (apply_error option \<times> 'c runtime) option" where
  "OnConfigChange held newConfig rt =
     (if held \<and> rt_exporter rt \<noteq> None then None
      else
        (let (err, ex) = (case rt_exporter rt of
               None \<Rightarrow> (None, None)
             | Some e \<Rightarrow> (case handlePrometheusConfigChange newConfig e of (err, e1) \<Rightarrow> (err, Some e1)))
         in Some (err, rt\<lparr>rt_exporter := ex, rt_manager := UpdateConfig (Some newConfig) (rt_manager rt),
               rt_collector := Collector_UpdateConfig newConfig (rt_collector rt)\<rparr>)))"

datatype 'c safe_update = NilConfig | SafeApplied "apply_error option" "'c runtime"

definition SafeConfigUpdate :: "(config \<Rightarrow> config option) \<Rightarrow> 'c runtime \<Rightarrow> 'c safe_update option" where
  "SafeConfigUpdate updateFunc rt =
     (case updateFunc (m_cfg (rt_manager rt)) of
        None \<Rightarrow> Some NilConfig
      | Some newCfg \<Rightarrow> map_option (\<lambda>(err, rt1). SafeApplied err rt1) (OnConfigChange True newCfg rt))"

section \<open>The watcher\<close>

text \<open>
  \<open>stopClosed\<close>: the channel \<open>stopChan\<close> is closed; \<open>looping\<close>: the goroutine of \<open>watchLoop\<close> lives; \<open>pendingReload\<close> and
  \<open>debounceDue\<close>, the instant an armed timer fires, are local to that goroutine.
\<close>

record watcher =
  wt_path :: string
  currentConfig :: config
  wt_running :: bool
  stopClosed :: bool
  looping :: bool
  lastModTime :: time
  lastFileSize :: int
  pendingReload :: bool
  debounceDue :: "time option"

text \<open>What \<open>os.Stat\<close> tells of the file: the time of its last change and its size.\<close>

type_synonym file_stat = "os_error + time \<times> int"

datatype watcher_error = NoFsnotify | CannotStat os_error | CannotAdd

definition NewWatcher :: "bool \<Rightarrow> file_stat \<Rightarrow> bool \<Rightarrow> string \<Rightarrow> config \<Rightarrow> watcher_error + watcher" where
  "NewWatcher fsnotify st added configPath initialConfig =
     (if \<not> fsnotify then Inl NoFsnotify
      else (case st of
              Inl e \<Rightarrow> Inl (CannotStat e)
            | Inr (modTime, len) \<Rightarrow>
                (if \<not> added then Inl CannotAdd
                 else Inr \<lparr>wt_path = configPath, currentConfig = initialConfig, wt_running = False, stopClosed = False,
                        looping = False, lastModTime = modTime, lastFileSize = len, pendingReload = False,
                        debounceDue = None\<rparr>)))"

definition Watcher_Start :: "watcher \<Rightarrow> bool \<times> watcher" where
  "Watcher_Start w =
     (if wt_running w then (False, w)
      else (True, w\<lparr>wt_running := True, looping := True, pendingReload := False, debounceDue := None\<rparr>))"

text \<open>Closing a closed channel panics: \<open>None\<close>.\<close>

definition Watcher_Stop :: "watcher \<Rightarrow> watcher option" where
  "Watcher_Stop w =
     (if \<not> wt_running w then Some w
      else if stopClosed w then None
      else Some (w\<lparr>stopClosed := True, wt_running := False\<rparr>))"

section \<open>Reloading\<close>

text \<open>The libraries and the environment \<open>LoadAndValidate\<close> needs.\<close>

record load_env =
  le_rx :: regexp_lib
  le_url :: url_lib
  le_pidMax :: int
  le_getenv :: "string \<Rightarrow> string"

definition load_config :: "load_env \<Rightarrow> string \<Rightarrow> file_read \<Rightarrow> config_error + config \<times> env_warning list" where
  "load_config env path file = LoadAndValidate (le_rx env) (le_url env) (le_pidMax env) (le_getenv env) path file"

datatype reload_result =
    ConfigRemoved
  | StatFailed os_error
  | NotChanged
  | ReloadFailed config_error
  | ApplyFailed apply_error
  | ReloadBlocked
  | ConfigApplied

definition handleConfigChange ::
  "load_env \<Rightarrow> file_stat \<Rightarrow> file_read \<Rightarrow> watcher \<times> 'c runtime \<Rightarrow> reload_result \<times> watcher \<times> 'c runtime" where
  "handleConfigChange env st file s =
     (case s of (w, rt) \<Rightarrow>
        (case st of
           Inl e \<Rightarrow> (if IsNotExist (Some e) then ConfigRemoved else StatFailed e, w, rt)
         | Inr (modTime, len) \<Rightarrow>
             (if modTime = lastModTime w \<and> len = lastFileSize w then (NotChanged, w, rt)
              else
                (case load_config env (wt_path w) file of
                   Inl e \<Rightarrow> (ReloadFailed e, w, rt)
                 | Inr (newConfig, _) \<Rightarrow>
                     (case OnConfigChange False newConfig rt of
                        None \<Rightarrow> (ReloadBlocked, w, rt)
                      | Some (Some err, rt1) \<Rightarrow> (ApplyFailed err, w, rt1)
                      | Some (None, rt1) \<Rightarrow>
                          (ConfigApplied,
                           w\<lparr>currentConfig := newConfig, lastModTime := modTime, lastFileSize := len\<rparr>, rt1))))))"

definition checkConfigChange ::
  "load_env \<Rightarrow> file_stat \<Rightarrow> file_stat \<Rightarrow> file_read \<Rightarrow> watcher \<times> 'c runtime \<Rightarrow> reload_result \<times> watcher \<times> 'c runtime" where
  "checkConfigChange env st st' file s =
     (case st of
        Inl e \<Rightarrow> (StatFailed e, s)
      | Inr (modTime, len) \<Rightarrow>
          (if modTime = lastModTime (fst s) \<and> len = lastFileSize (fst s) then (NotChanged, s)
           else handleConfigChange env st' file s))"

section \<open>The loop of the watcher\<close>

datatype fs_op = OpCreate | OpWrite | OpRemove | OpRename | OpChmod

text \<open>One case of the \<open>select\<close>. \<open>EventsClosed\<close> and \<open>ErrorsClosed\<close> are a receive on a closed channel.\<close>

datatype loop_event =
    StopSignal
  | FsEvent "fs_op list" string
  | EventsClosed
  | FsError
  | ErrorsClosed
  | PeriodicCheck
  | DebounceFired

definition relevant :: "watcher \<Rightarrow> fs_op list \<Rightarrow> string \<Rightarrow> bool" where
  "relevant w ops name \<longleftrightarrow> set ops \<inter> {OpWrite, OpCreate, OpRemove, OpRename} \<noteq> {} \<and> name = wt_path w"

text \<open>
  One turn at the instant \<open>now\<close>. \<open>st\<close>, \<open>st'\<close> and \<open>file\<close> answer the calls of \<open>os.Stat\<close> and of the loader. An event that
  cannot happen (a timer that is not due, a stop signal before \<open>Stop\<close>) leaves everything as it is.
\<close>

definition watch_turn ::
  "load_env \<Rightarrow> time \<Rightarrow> file_stat \<Rightarrow> file_stat \<Rightarrow> file_read \<Rightarrow> loop_event \<Rightarrow> watcher \<times> 'c runtime \<Rightarrow>
   reload_result option \<times> watcher \<times> 'c runtime" where
  "watch_turn env now st st' file ev s =
     (case s of (w, rt) \<Rightarrow>
        (if \<not> looping w then (None, s)
         else
           (case ev of
              StopSignal \<Rightarrow> (None, if stopClosed w then w\<lparr>looping := False\<rparr> else w, rt)
            | EventsClosed \<Rightarrow> (None, w\<lparr>looping := False\<rparr>, rt)
            | ErrorsClosed \<Rightarrow> (None, w\<lparr>looping := False\<rparr>, rt)
            | FsError \<Rightarrow> (None, s)
            | FsEvent ops name \<Rightarrow>
                (if relevant w ops name \<and> \<not> pendingReload w
                 then (None, w\<lparr>pendingReload := True, debounceDue := Some (now + seconds 2)\<rparr>, rt)
                 else (None, s))
            | PeriodicCheck \<Rightarrow>
                (case checkConfigChange env st st' file s of (r, s1) \<Rightarrow> (Some r, s1))
            | DebounceFired \<Rightarrow>
                (case debounceDue w of
                   None \<Rightarrow> (None, s)
                 | Some due \<Rightarrow>
                     (if now < due then (None, s)
                      else if pendingReload w then
                        (case handleConfigChange env st file (w\<lparr>debounceDue := None, pendingReload := False\<rparr>, rt) of
                           (r, s1) \<Rightarrow> (Some r, s1))
                      else (None, w\<lparr>debounceDue := None\<rparr>, rt))))))"

end
