(* ===== verification/Database.thy ===== *)
theory Database
  imports MetricsTypes Prelude "HOL-Library.Multiset"
begin

text \<open>
  The history of the metrics: the database manager (\<open>database/manager.go\<close>), its parser of time ranges
  (\<open>database/time_parser.go\<close>) and the writer that feeds it (\<open>metrics/db_writer.go\<close>, \<open>WriteMetricsToDatabase\<close>).

  SQLite is a parameter: the record \<open>sqlite\<close> has one field for each statement the code executes, over an abstract
  database \<open>'d\<close>. The locale \<open>sqlite_store\<close> says what these statements do to the rows, and is interpreted on a database that is
  two lists. The calendar of the local time zone is the parameter \<open>calendar\<close>.
\<close>

section \<open>Records and statements\<close>

record user_record =
  ur_UID :: int
  ur_Username :: string
  ur_CPUUsagePercent :: f64
  ur_MemoryUsageBytes :: int
  ur_ProcessCount :: int
  ur_CgroupPath :: string
  ur_CPUQuota :: string
  ur_IsLimited :: bool
  ur_Timestamp :: time

record system_record =
  sr_TotalCPUUsagePercent :: f64
  sr_TotalCores :: int
  sr_SystemLoad :: f64
  sr_LimitsActive :: bool
  sr_LimitedUsersCount :: int
  sr_Timestamp :: time

text \<open>The row of the aggregating query: average, minimum and maximum of three columns, and the share of limited rows.\<close>

record user_summary =
  us_Username :: string
  us_PeriodStart :: string
  us_PeriodEnd :: string
  us_CPU :: "f64 \<times> f64 \<times> f64"
  us_Memory :: "f64 \<times> f64 \<times> f64"
  us_ProcessCount :: "f64 \<times> f64 \<times> f64"
  us_LimitedTimePercent :: f64
  us_Samples :: int

text \<open>
  A failed statement is \<open>False\<close> or \<open>None\<close>. A query that fails while its rows are scanned is a failed query; a query
  of one row answers \<open>Some None\<close> when there is no row, or when the value is NULL.
\<close>

record 'd sqlite =
  create_schema :: "'d \<Rightarrow> bool \<times> 'd"
  insert_user :: "user_record \<Rightarrow> 'd \<Rightarrow> bool \<times> 'd"
  insert_system :: "system_record \<Rightarrow> 'd \<Rightarrow> bool \<times> 'd"
  select_user :: "int \<Rightarrow> time \<Rightarrow> time \<Rightarrow> int \<Rightarrow> 'd \<Rightarrow> user_record list option"
  select_system :: "time \<Rightarrow> time \<Rightarrow> int \<Rightarrow> 'd \<Rightarrow> system_record list option"
  select_summary :: "int \<Rightarrow> time \<Rightarrow> time \<Rightarrow> 'd \<Rightarrow> user_summary option option"
  count_user :: "'d \<Rightarrow> int option"
  count_system :: "'d \<Rightarrow> int option"
  min_timestamp :: "'d \<Rightarrow> time option option"
  max_timestamp :: "'d \<Rightarrow> time option option"
  count_uids :: "'d \<Rightarrow> int option"
  delete_user_before :: "time \<Rightarrow> 'd \<Rightarrow> int option \<times> 'd"
  delete_system_before :: "time \<Rightarrow> 'd \<Rightarrow> bool \<times> 'd"
  vacuum :: "'d \<Rightarrow> bool \<times> 'd"

section \<open>The database manager\<close>

definition WriteUserMetrics :: "'d sqlite \<Rightarrow> user_record \<Rightarrow> 'd \<Rightarrow> bool \<times> 'd" where
  "WriteUserMetrics sq r d = insert_user sq r d"

definition WriteSystemMetrics :: "'d sqlite \<Rightarrow> system_record \<Rightarrow> 'd \<Rightarrow> bool \<times> 'd" where
  "WriteSystemMetrics sq r d = insert_system sq r d"

definition GetUserHistory :: "'d sqlite \<Rightarrow> int \<Rightarrow> time \<Rightarrow> time \<Rightarrow> int \<Rightarrow> 'd \<Rightarrow> user_record list option" where
  "GetUserHistory sq uid startTime endTime limit d = select_user sq uid startTime endTime limit d"

definition GetSystemHistory :: "'d sqlite \<Rightarrow> time \<Rightarrow> time \<Rightarrow> int \<Rightarrow> 'd \<Rightarrow> system_record list option" where
  "GetSystemHistory sq startTime endTime limit d = select_system sq startTime endTime limit d"

definition GetUserSummary :: "'d sqlite \<Rightarrow> int \<Rightarrow> time \<Rightarrow> time \<Rightarrow> 'd \<Rightarrow> user_summary option option" where
  "GetUserSummary sq uid startTime endTime d = select_summary sq uid startTime endTime d"

record database_info =
  di_SizeBytes :: int
  di_UserMetricsCount :: int
  di_SystemMetricsCount :: int
  di_OldestRecord :: "time option"
  di_NewestRecord :: "time option"
  di_RetentionDays :: int
  di_UsersTracked :: int

datatype info_error = CannotStatDatabase | CannotCountUsers | CannotCountSystem | CannotCountUids

text \<open>\<open>size\<close> is the size \<open>os.Stat\<close> tells; an error of the two timestamp queries leaves the field empty.\<close>

definition GetDatabaseInfo :: "'d sqlite \<Rightarrow> string \<Rightarrow> int option \<Rightarrow> int \<Rightarrow> 'd \<Rightarrow> info_error + database_info" where
  "GetDatabaseInfo sq dbPath fileSize retentionDays d =
     (case (if dbPath = '':memory:'' then Some 0 else fileSize) of
        None \<Rightarrow> Inl CannotStatDatabase
      | Some bytes \<Rightarrow>
          (case count_user sq d of
             None \<Rightarrow> Inl CannotCountUsers
           | Some users \<Rightarrow>
               (case count_system sq d of
                  None \<Rightarrow> Inl CannotCountSystem
                | Some systems \<Rightarrow>
                    (case count_uids sq d of
                       None \<Rightarrow> Inl CannotCountUids
                     | Some uids \<Rightarrow>
                         Inr \<lparr>di_SizeBytes = bytes, di_UserMetricsCount = users, di_SystemMetricsCount = systems,
                            di_OldestRecord = (case min_timestamp sq d of Some t \<Rightarrow> t | None \<Rightarrow> None),
                            di_NewestRecord = (case max_timestamp sq d of Some t \<Rightarrow> t | None \<Rightarrow> None),
                            di_RetentionDays = retentionDays, di_UsersTracked = uids\<rparr>))))"

text \<open>
  The calendar of the local time zone: \<open>cal_days n t\<close> is \<open>t.AddDate(0, 0, n)\<close>, \<open>cal_date t\<close> the year, the month and the day
  of \<open>t\<close>, \<open>cal_weekday\<close> its weekday (0 is Sunday), \<open>cal_at\<close> is \<open>time.Date\<close> of year, month, day, hour, minute and second.
\<close>

record calendar =
  cal_days :: "int \<Rightarrow> time \<Rightarrow> time"
  cal_date :: "time \<Rightarrow> int \<times> int \<times> int"
  cal_weekday :: "time \<Rightarrow> int"
  cal_at :: "int \<Rightarrow> int \<Rightarrow> int \<Rightarrow> int \<Rightarrow> int \<Rightarrow> int \<Rightarrow> time"

text \<open>\<open>CleanupOldData\<close>: the count it returned before the failure of a later statement is dropped by its caller.\<close>

definition CleanupOldData :: "calendar \<Rightarrow> 'd sqlite \<Rightarrow> time \<Rightarrow> int \<Rightarrow> 'd \<Rightarrow> int option \<times> 'd" where
  "CleanupOldData cal sq now retentionDays d =
     (let cutoff = cal_days cal (- retentionDays) now in
      case delete_user_before sq cutoff d of
        (None, d1) \<Rightarrow> (None, d1)
      | (Some userDeleted, d1) \<Rightarrow>
          (case delete_system_before sq cutoff d1 of
             (False, d2) \<Rightarrow> (None, d2)
           | (True, d2) \<Rightarrow> (case vacuum sq d2 of (ok, d3) \<Rightarrow> (if ok then Some userDeleted else None, d3))))"

text \<open>
  \<open>NewDatabaseManager\<close>: \<open>mkdir\<close> and \<open>opened\<close> answer the creation of the directory and \<open>sql.Open\<close>.
\<close>

datatype open_error = CannotCreateDirectory | CannotOpen | CannotInitSchema

definition NewDatabaseManager :: "'d sqlite \<Rightarrow> bool \<Rightarrow> bool \<Rightarrow> 'd \<Rightarrow> open_error + 'd" where
  "NewDatabaseManager sq mkdir opened d =
     (if \<not> mkdir then Inl CannotCreateDirectory
      else if \<not> opened then Inl CannotOpen
      else (case create_schema sq d of (ok, d1) \<Rightarrow> if ok then Inr d1 else Inl CannotInitSchema))"

section \<open>The writer\<close>

record db_writer =
  writeInterval :: duration
  lastWriteTime :: time
  enabled :: bool

definition NewDBWriter :: "int \<Rightarrow> db_writer" where
  "NewDBWriter writeIntervalSeconds =
     \<lparr>writeInterval = seconds writeIntervalSeconds, lastWriteTime = zero_time, enabled = True\<rparr>"

definition ShouldWrite :: "time \<Rightarrow> db_writer \<Rightarrow> bool" where
  "ShouldWrite now w \<longleftrightarrow> enabled w \<and> time_Sub now (lastWriteTime w) \<ge> writeInterval w"

definition MarkWritten :: "time \<Rightarrow> db_writer \<Rightarrow> db_writer" where
  "MarkWritten now w = w\<lparr>lastWriteTime := now\<rparr>"

definition SetEnabled :: "bool \<Rightarrow> db_writer \<Rightarrow> db_writer" where
  "SetEnabled b w = w\<lparr>enabled := b\<rparr>"

definition DBWriter_Close :: "db_writer \<Rightarrow> db_writer" where
  "DBWriter_Close w = w\<lparr>enabled := False\<rparr>"

text \<open>The two writers of records: an error of the statement is logged and dropped.\<close>

definition DBWriter_WriteUserMetrics ::
  "'d sqlite \<Rightarrow> time \<Rightarrow> int \<Rightarrow> string \<Rightarrow> f64 \<Rightarrow> u64 \<Rightarrow> int \<Rightarrow> bool \<Rightarrow> string \<Rightarrow> string \<Rightarrow> db_writer \<Rightarrow> 'd \<Rightarrow> 'd" where
  "DBWriter_WriteUserMetrics sq now uid username cpuUsage mem processCount isLimited cgroupPath cpuQuota w d =
     (if \<not> enabled w then d
      else snd (WriteUserMetrics sq
        \<lparr>ur_UID = uid, ur_Username = username, ur_CPUUsagePercent = cpuUsage, ur_MemoryUsageBytes = sint mem,
         ur_ProcessCount = processCount, ur_CgroupPath = cgroupPath, ur_CPUQuota = cpuQuota, ur_IsLimited = isLimited,
         ur_Timestamp = now\<rparr> d))"

definition DBWriter_WriteSystemMetrics ::
  "'d sqlite \<Rightarrow> time \<Rightarrow> f64 \<Rightarrow> int \<Rightarrow> f64 \<Rightarrow> bool \<Rightarrow> int \<Rightarrow> db_writer \<Rightarrow> 'd \<Rightarrow> 'd" where
  "DBWriter_WriteSystemMetrics sq now cpu cores load limits limitedUsers w d =
     (if \<not> enabled w then d
      else snd (WriteSystemMetrics sq
        \<lparr>sr_TotalCPUUsagePercent = cpu, sr_TotalCores = cores, sr_SystemLoad = load, sr_LimitsActive = limits,
         sr_LimitedUsersCount = limitedUsers, sr_Timestamp = now\<rparr> d))"

text \<open>\<open>WriteMetricsToDatabase\<close> of the collector, with a writer configured.\<close>

definition Collector_WriteMetricsToDatabase ::
  "'d sqlite \<Rightarrow> time \<Rightarrow> (int \<times> user_metrics) list \<Rightarrow> f64 \<Rightarrow> int \<Rightarrow> f64 \<Rightarrow> bool \<Rightarrow> int \<Rightarrow> db_writer \<times> 'd \<Rightarrow> db_writer \<times> 'd" where
  "Collector_WriteMetricsToDatabase sq now ums cpu cores load limits limitedUsers s =
     (case s of (w, d) \<Rightarrow>
        (MarkWritten now w,
         fold (\<lambda>(uid, um). DBWriter_WriteUserMetrics sq now uid (Username um) (CPUUsage um) (MemoryUsage um)
                 (ProcessCount um) False '''' '''' w) ums
           (DBWriter_WriteSystemMetrics sq now cpu cores load limits limitedUsers w d)))"

section \<open>Time ranges\<close>

text \<open>\<open>ParseDuration\<close>: the product of two durations wraps around.\<close>

definition ParseDuration :: "string \<Rightarrow> duration option" where
  "ParseDuration s =
     (if length s < 2 then None
      else
        (case Atoi (butlast s) of
           None \<Rightarrow> None
         | Some v \<Rightarrow>
             (if last s = CHR ''h'' then Some (wrap64 (v * hour))
              else if last s = CHR ''d'' then Some (wrap64 (wrap64 (v * 24) * hour))
              else None)))"

text \<open>The pattern \<open>^now-\d+[hd]$\<close>.\<close>

definition relative_format :: "string \<Rightarrow> bool" where
  "relative_format s \<longleftrightarrow>
     HasPrefix s ''now-'' \<and> length s \<ge> 6 \<and> last s \<in> {CHR ''h'', CHR ''d''} \<and> list_all is_digit (butlast (drop 4 s))"

text \<open>\<open>rfc\<close> and \<open>day\<close> are \<open>time.Parse\<close> with the layouts of RFC 3339 and of a bare date.\<close>

definition ParseTimeRange ::
  "calendar \<Rightarrow> (string \<Rightarrow> time option) \<Rightarrow> (string \<Rightarrow> (int \<times> int \<times> int) option) \<Rightarrow> string \<Rightarrow> time \<Rightarrow> (time \<times> time) option" where
  "ParseTimeRange cal rfc day input defaultEnd =
     (let s = ToLower input; (y, mo, d) = cal_date cal defaultEnd in
      if input = '''' then Some (defaultEnd - 24 * hour, defaultEnd)
      else if s = ''today'' then Some (cal_at cal y mo d 0 0 0, defaultEnd)
      else if s = ''yesterday'' then
        (case cal_date cal (cal_days cal (-1) defaultEnd) of
           (y1, mo1, d1) \<Rightarrow> Some (cal_at cal y1 mo1 d1 0 0 0, cal_at cal y1 mo1 d1 23 59 59))
      else if s = ''last_24_hours'' \<or> s = ''last24h'' then Some (defaultEnd - 24 * hour, defaultEnd)
      else if s = ''last_7_days'' \<or> s = ''last7d'' \<or> s = ''last_week'' then Some (defaultEnd - 7 * (24 * hour), defaultEnd)
      else if s = ''last_30_days'' \<or> s = ''last30d'' \<or> s = ''last_month'' then Some (defaultEnd - 30 * (24 * hour), defaultEnd)
      else if s = ''this_week'' then
        (let since = (if cal_weekday cal defaultEnd = 0 then 7 else cal_weekday cal defaultEnd)
         in Some (cal_at cal y mo (d - since + 1) 0 0 0, defaultEnd))
      else if s = ''this_month'' then Some (cal_at cal y mo 1 0 0 0, defaultEnd)
      else if relative_format input then
        (case ParseDuration (drop 4 input) of None \<Rightarrow> None | Some dur \<Rightarrow> Some (defaultEnd + wrap64 (- dur), defaultEnd))
      else
        (case rfc input of
           Some t \<Rightarrow> Some (t, defaultEnd)
         | None \<Rightarrow>
             (case day input of
                None \<Rightarrow> None
              | Some (y1, mo1, d1) \<Rightarrow> Some (cal_at cal y1 mo1 d1 0 0 0, cal_at cal y1 mo1 d1 23 59 59))))"

end
