(* ===== verification/App.thy ===== *)
theory App
  imports Reload Database ControlCycle
begin

text \<open>
  The application: the start (\<open>main.go\<close>, \<open>internal/app/app_bootstrap.go\<close>), the control loop (\<open>app_loop.go\<close>), the pressure
  events (\<open>app_psi.go\<close>) and the shutdown (\<open>app_shutdown.go\<close>), over the models of the components. It is here that the
  answers the state manager gets from the collector are computed by the collector, and that the calls it makes on the
  exporter and on the database are carried out.

  \<open>None\<close> stands for a panic of the Go program.
\<close>

section \<open>State\<close>

text \<open>The libraries: the operating system, gopsutil, the loader's, and SQLite.\<close>

record ('w, 'd) platform =
  pf_os :: "'w os"
  pf_pl :: "'w gopsutil"
  pf_env :: load_env
  pf_sq :: "'d sqlite"

abbreviation pf_rx :: "('w, 'd) platform \<Rightarrow> regexp_lib" where
  "pf_rx pf \<equiv> le_rx (pf_env pf)"

definition pf_ops :: "('w, 'd) platform \<Rightarrow> 'w cgroup cgroup_ops" where
  "pf_ops pf = real_ops (pf_rx pf) (pf_os pf) (proc_lib.truncate (pf_pl pf))"

text \<open>
  \<open>a_cfg\<close> is the configuration of the start, which a reload does not replace; \<open>a_psi\<close> is the pressure watcher as long as the
  manager has none; \<open>refreshInterval\<close> is 0 without a refresh ticker; \<open>cycleComplete\<close> tells that this channel is closed;
  \<open>cancelled\<close> that the context is.
\<close>

record ('w, 'd) app = "'w cgroup runtime" +
  a_cfg :: config
  a_watcher :: "watcher option"
  a_db :: "(db_writer \<times> 'd) option"
  psiEventDriven :: bool
  a_psi :: "psi_watcher option"
  pollingInterval :: int
  refreshInterval :: int
  cycleComplete :: bool
  cancelled :: bool
  finished :: bool

abbreviation world_of :: "('w, 'd) app \<Rightarrow> 'w" where
  "world_of a \<equiv> world (cgroups (rt_manager a))"

section \<open>What the manager asks and tells\<close>

text \<open>A getter of the collector; a failed type assertion panics.\<close>

definition ask :: "(collector \<Rightarrow> 'a option \<times> collector) \<Rightarrow> collector \<Rightarrow> ('a \<times> collector) option" where
  "ask getter c = (case getter c of (None, _) \<Rightarrow> None | (Some v, c1) \<Rightarrow> Some (v, c1))"

definition names_only :: "('w, 'd) platform \<Rightarrow> 'w \<Rightarrow> time \<Rightarrow> collector \<Rightarrow> metrics_collector" where
  "names_only pf w now c =
     \<lparr>GetTotalCores = 0, GetTotalCPUUsage = Fin 0, GetMemoryUsage = Fin 0, GetTotalMemoryMB = Fin 0, GetCachedMemoryMB = Fin 0,
      IsSystemUnderLoad = False, GetAllUserMetrics = [], GetLimitedUsers = [],
      GetUsernameFromUID = (\<lambda>uid. fst (getUsername (pf_os pf) (pf_pl pf) w now uid c)), DBWriterDue = False\<rparr>"

text \<open>
  The calls of \<open>collectSystemMetricsWithIOState\<close>, in its order. The names are answered from the state after them; what a
  look-up leaves in the cache of names is a step of its own.
\<close>

definition system_answers ::
  "('w, 'd) platform \<Rightarrow> 'w \<Rightarrow> time \<Rightarrow> bool \<Rightarrow> collector \<Rightarrow> (metrics_collector \<times> collector) option" where
  "system_answers pf w now due c =
     Option.bind (ask (Collector_GetTotalCores (pf_os pf) (pf_pl pf) w now) c) (\<lambda>(cores, c1).
     Option.bind (ask (Collector_GetTotalCPUUsage (pf_os pf) (pf_pl pf) w now) c1) (\<lambda>(cpu, c2).
     Option.bind (ask (Collector_GetMemoryUsage (pf_os pf) (pf_pl pf) w now) c2) (\<lambda>(mem, c3).
     Option.bind (ask (Collector_GetTotalMemoryMB (pf_os pf) (pf_pl pf) w now) c3) (\<lambda>(total, c4).
     Option.bind (ask (Collector_GetCachedMemoryMB (pf_os pf) (pf_pl pf) w now) c4) (\<lambda>(cachedMB, c5).
     Option.bind (ask (Collector_IsSystemUnderLoad (pf_os pf) (pf_pl pf) w now) c5) (\<lambda>(load, c6).
       (case Collector_GetAllUserMetrics (pf_rx pf) (pf_os pf) (pf_pl pf) w now c6 of
          (ums, c7) \<Rightarrow>
            Some ((names_only pf w now c7)\<lparr>GetTotalCores := cores, GetTotalCPUUsage := cpu, GetMemoryUsage := mem,
                    GetTotalMemoryMB := total, GetCachedMemoryMB := cachedMB, IsSystemUnderLoad := load,
                    GetAllUserMetrics := ums, DBWriterDue := due\<rparr>, c7))))))))"

text \<open>A call on the exporter; the calls of a manager without exporter reach a nil receiver and do nothing.\<close>

definition export_call :: "'w os \<Rightarrow> 'w \<Rightarrow> time \<Rightarrow> emitted_call \<Rightarrow> exporter \<Rightarrow> exporter" where
  "export_call os w now em e =
     (case em of
        RecordControlCycleTrigger t \<Rightarrow> Exporter_RecordControlCycleTrigger t e
      | IncrementLimitsActivated \<Rightarrow> e\<lparr>series_of := inc limitsActivatedTotal [] (series_of e)\<rparr>
      | IncrementLimitsDeactivated \<Rightarrow> e\<lparr>series_of := inc limitsDeactivatedTotal [] (series_of e)\<rparr>
      | UpdateMetrics ms \<Rightarrow> Exporter_UpdateMetrics os w now ms e
      | UpdateUserMetrics uid name um limited path quota high rB wB rO wO \<Rightarrow>
          Exporter_UpdateUserMetrics os w uid name um limited path quota high rB wB rO wO e
      | CleanupUserMetrics uids \<Rightarrow> Exporter_CleanupUserMetrics uids e
      | UpdateSystemMetrics cores action load \<Rightarrow> Exporter_UpdateSystemMetrics cores action load e
      | UpdateUserWorkloadPattern uid name p confidence \<Rightarrow> Exporter_UpdateUserWorkloadPattern os w uid name p confidence e
      | StopExporter \<Rightarrow> snd (Exporter_Stop e)
      | _ \<Rightarrow> e)"

text \<open>The manager hands the database a load of 0.\<close>

definition store_call :: "'d sqlite \<Rightarrow> time \<Rightarrow> emitted_call \<Rightarrow> db_writer \<times> 'd \<Rightarrow> db_writer \<times> 'd" where
  "store_call sq now em s =
     (case em of
        WriteMetricsToDatabase ums cpu cores limits n \<Rightarrow>
          Collector_WriteMetricsToDatabase sq now ums cpu cores (Fin 0) limits n s
      | _ \<Rightarrow> s)"

definition flush :: "('w, 'd) platform \<Rightarrow> time \<Rightarrow> ('w, 'd) app \<Rightarrow> ('w, 'd) app" where
  "flush pf now a =
     a\<lparr>rt_exporter := map_option (fold (export_call (pf_os pf) (world_of a) now) (emitted (rt_manager a))) (rt_exporter a),
       a_db := map_option (fold (store_call (pf_sq pf) now) (emitted (rt_manager a))) (a_db a),
       rt_manager := (rt_manager a)\<lparr>emitted := []\<rparr>\<rparr>"

definition due :: "time \<Rightarrow> ('w, 'd) app \<Rightarrow> bool" where
  "due now a = (case a_db a of None \<Rightarrow> False | Some (w, _) \<Rightarrow> ShouldWrite now w)"

section \<open>Cycles\<close>

text \<open>A blackout asks the collector nothing; a cycle that fails does not reach the stage that asks for the limited users.\<close>

definition app_cycle :: "('w, 'd) platform \<Rightarrow> clock \<Rightarrow> string \<Rightarrow> ('w, 'd) app \<Rightarrow> ('w, 'd) app option" where
  "app_cycle pf ck trigger a =
     (let m = rt_manager a; w = world_of a; now = ck_now ck; c = rt_collector a in
      if IsInBlackout (m_cfg m) (ck_day ck) (ck_hour ck) then
        Some (flush pf now (a\<lparr>rt_manager :=
          snd (RunControlCycleWithTrigger (pf_ops pf) (pf_rx pf) ck (names_only pf w now c) trigger m)\<rparr>))
      else
        Option.bind (system_answers pf w now (due now a) c) (\<lambda>(mc, c1).
        Option.bind (ask (Collector_GetLimitedUsers (pf_rx pf) (pf_os pf) (pf_pl pf) w now) c1) (\<lambda>(limited, c2).
          (case RunControlCycleWithTrigger (pf_ops pf) (pf_rx pf) ck (mc\<lparr>GetLimitedUsers := limited\<rparr>) trigger m of
             (err, m1) \<Rightarrow>
               Some (flush pf now (a\<lparr>rt_manager := m1, rt_collector := (if err = None then c2 else c1)\<rparr>))))))"

definition app_refresh :: "('w, 'd) platform \<Rightarrow> time \<Rightarrow> ('w, 'd) app \<Rightarrow> ('w, 'd) app option" where
  "app_refresh pf now a =
     Option.bind (system_answers pf (world_of a) now (due now a) (rt_collector a)) (\<lambda>(mc, c1).
       Some (flush pf now (a\<lparr>rt_manager := RunMetricsRefresh (pf_ops pf) now mc (rt_manager a), rt_collector := c1\<rparr>)))"

section \<open>The start\<close>

text \<open>
  The builder. The configuration is one object that every component points to: what the start changes in it, they see.
\<close>

record ('w, 'd) builder =
  b_cfg :: config
  b_err :: "cg_error option"
  b_cgroup :: "'w cgroup option"
  b_collector :: "collector option"
  b_db :: "(db_writer \<times> 'd) option"
  b_exporter :: "exporter option"
  b_manager :: "'w cgroup manager option"
  b_watcher :: "watcher option"

definition NewApp :: "config \<Rightarrow> ('w, 'd) builder" where
  "NewApp cfg =
     \<lparr>b_cfg = cfg, b_err = None, b_cgroup = None, b_collector = None, b_db = None, b_exporter = None, b_manager = None,
      b_watcher = None\<rparr>"

definition share_cfg :: "config \<Rightarrow> ('w, 'd) builder \<Rightarrow> ('w, 'd) builder" where
  "share_cfg cfg b =
     b\<lparr>b_cfg := cfg, b_cgroup := map_option (cg_cfg_update (\<lambda>_. cfg)) (b_cgroup b),
       b_collector := map_option (col_cfg_update (\<lambda>_. cfg)) (b_collector b)\<rparr>"

definition WithCgroupManager :: "('w, 'd) platform \<Rightarrow> 'w \<Rightarrow> ('w, 'd) builder \<Rightarrow> ('w, 'd) builder" where
  "WithCgroupManager pf w b =
     (if b_err b \<noteq> None then b
      else (case NewCgroupManager (pf_os pf) (b_cfg b) w of
              (Some e, _) \<Rightarrow> b\<lparr>b_err := Some e\<rparr>
            | (None, c) \<Rightarrow> b\<lparr>b_cgroup := Some c\<rparr>))"

definition WithMetricsCollector :: "('w, 'd) platform \<Rightarrow> 'w \<Rightarrow> ('w, 'd) builder \<Rightarrow> ('w, 'd) builder" where
  "WithMetricsCollector pf w b =
     (if b_err b \<noteq> None then b else b\<lparr>b_collector := Some (NewCollector (pf_pl pf) (b_cfg b) w)\<rparr>)"

definition WithDatabase ::
  "('w, 'd) platform \<Rightarrow> calendar \<Rightarrow> time \<Rightarrow> bool \<Rightarrow> bool \<Rightarrow> 'd \<Rightarrow> ('w, 'd) builder \<Rightarrow> ('w, 'd) builder" where
  "WithDatabase pf cal now mkdir opened d b =
     (let cfg = b_cfg b in
      if b_err b \<noteq> None then b
      else if \<not> MetricsDBEnabled cfg then b
      else (case NewDatabaseManager (pf_sq pf) mkdir opened d of
              Inl _ \<Rightarrow> share_cfg (cfg\<lparr>MetricsDBEnabled := False\<rparr>) b
            | Inr d1 \<Rightarrow>
                b\<lparr>b_db := Some (NewDBWriter (MetricsDBWriteInterval cfg),
                     snd (CleanupOldData cal (pf_sq pf) now (MetricsDBRetentionDays cfg) d1)),
                  b_collector := map_option (SetUsernameCacheTTL (wrap64 (UsernameCacheTTL cfg * (60 * second)))) (b_collector b)\<rparr>))"

definition WithPrometheus :: "('w, 'd) platform \<Rightarrow> 'w \<Rightarrow> bool \<Rightarrow> ('w, 'd) builder \<Rightarrow> ('w, 'd) builder" where
  "WithPrometheus pf w portAvailable b =
     (let cfg = b_cfg b in
      if b_err b \<noteq> None then b
      else if \<not> EnablePrometheus cfg then b
      else if \<not> portAvailable then share_cfg (cfg\<lparr>EnablePrometheus := False\<rparr>) b
      else (case NewPrometheusExporter (pf_os pf) cfg w of
              ExporterCreated e \<Rightarrow>
                (case Exporter_Start e of (started, e1) \<Rightarrow> if started then b\<lparr>b_exporter := Some e1\<rparr> else b)
            | _ \<Rightarrow> b))"

text \<open>
  The exporter is handed over as a pointer, nil or not, in an interface: the manager's test for nil never succeeds, so
  \<open>has_exporter\<close> is set without an exporter too.
\<close>

definition WithStateManager :: "('w, 'd) builder \<Rightarrow> ('w, 'd) builder" where
  "WithStateManager b =
     (if b_err b \<noteq> None then b else b\<lparr>b_manager := map_option (NewManager (b_cfg b) True) (b_cgroup b)\<rparr>)"

definition WithConfigWatcher :: "bool \<Rightarrow> file_stat \<Rightarrow> bool \<Rightarrow> string \<Rightarrow> ('w, 'd) builder \<Rightarrow> ('w, 'd) builder" where
  "WithConfigWatcher fsnotify st added configPath b =
     (if b_err b \<noteq> None \<or> configPath = '''' then b
      else (case NewWatcher fsnotify st added configPath (b_cfg b) of
              Inl _ \<Rightarrow> b
            | Inr w \<Rightarrow> (case Watcher_Start w of (started, w1) \<Rightarrow> if started then b\<lparr>b_watcher := Some w1\<rparr> else b)))"

definition built_app :: "('w, 'd) builder \<Rightarrow> (cg_error + ('w, 'd) app) option" where
  "built_app b =
     (case b_err b of
        Some e \<Rightarrow> Some (Inl e)
      | None \<Rightarrow>
          (case (b_manager b, b_collector b) of
             (Some m, Some c) \<Rightarrow>
               Some (Inr \<lparr>rt_manager = m, rt_collector = c, rt_exporter = b_exporter b, a_cfg = b_cfg b, a_watcher = b_watcher b,
                  a_db = b_db b, psiEventDriven = False, a_psi = None, pollingInterval = 0, refreshInterval = 0,
                  cycleComplete = True, cancelled = False, finished = False\<rparr>)
           | _ \<Rightarrow> None))"

text \<open>
  \<open>main\<close>: the configuration is loaded, then the components are built in order. The other arguments are what the system
  answers: the file, its \<open>stat\<close>, the port, the database.
\<close>

record 'd start_answers =
  sa_file :: file_read
  sa_stat :: file_stat
  sa_fsnotify :: bool
  sa_added :: bool
  sa_port :: bool
  sa_mkdir :: bool
  sa_opened :: bool
  sa_database :: 'd

datatype ('w, 'd) start_result = BadConfig config_error | StartFailed cg_error | Started "('w, 'd) app"

definition build ::
  "('w, 'd) platform \<Rightarrow> calendar \<Rightarrow> time \<Rightarrow> string \<Rightarrow> 'd start_answers \<Rightarrow> 'w \<Rightarrow> config \<Rightarrow> ('w, 'd) builder" where
  "build pf cal now configPath sa w cfg =
     (let b1 = WithCgroupManager pf w (NewApp cfg);
          w1 = (case b_cgroup b1 of None \<Rightarrow> w | Some c \<Rightarrow> world c)
      in WithConfigWatcher (sa_fsnotify sa) (sa_stat sa) (sa_added sa) configPath
           (WithStateManager
             (WithPrometheus pf w1 (sa_port sa)
               (WithDatabase pf cal now (sa_mkdir sa) (sa_opened sa) (sa_database sa) (WithMetricsCollector pf w1 b1)))))"

definition main ::
  "('w, 'd) platform \<Rightarrow> calendar \<Rightarrow> time \<Rightarrow> string \<Rightarrow> 'd start_answers \<Rightarrow> 'w \<Rightarrow> ('w, 'd) start_result option" where
  "main pf cal now configPath sa w =
     (case load_config (pf_env pf) configPath (sa_file sa) of
        Inl e \<Rightarrow> Some (BadConfig e)
      | Inr (cfg, _) \<Rightarrow>
          (case built_app (build pf cal now configPath sa w cfg) of
             None \<Rightarrow> None
           | Some (Inl e) \<Rightarrow> Some (StartFailed e)
           | Some (Inr a) \<Rightarrow> Some (Started a)))"

section \<open>Pressure\<close>

definition pressureFileExists :: "'w os \<Rightarrow> 'w \<Rightarrow> string \<Rightarrow> bool" where
  "pressureFileExists os w path \<longleftrightarrow> Stat os path w = None"

definition selectPressurePath :: "'w os \<Rightarrow> 'w \<Rightarrow> string \<Rightarrow> string \<Rightarrow> string" where
  "selectPressurePath os w cgroupPath procPath =
     (if pressureFileExists os w cgroupPath then cgroupPath else if pressureFileExists os w procPath then procPath else '''')"

text \<open>One system monitor; the number counts it when it could be added.\<close>

definition watch_system ::
  "'c cgroup_ops \<Rightarrow> string \<Rightarrow> string \<Rightarrow> nat \<times> psi_watcher \<times> 'c \<Rightarrow> nat \<times> psi_watcher \<times> 'c" where
  "watch_system ops typ path s =
     (case s of (n, w, c) \<Rightarrow>
        (if path = '''' then s
         else (case AddMonitor (op_OpenPressure ops) 0 typ path w c of
                 (None, w1, c1) \<Rightarrow> (n + 1, w1, c1) | (Some _, w1, c1) \<Rightarrow> (n, w1, c1))))"

definition startPSIWatcher :: "('w, 'd) platform \<Rightarrow> bool \<Rightarrow> ('w, 'd) app \<Rightarrow> ('w, 'd) app" where
  "startPSIWatcher pf started a =
     (let cfg = a_cfg a; os = pf_os pf; w = world_of a; m = rt_manager a;
          cgroupCPU = CgroupRoot cfg @ ''/cpu.pressure''; cgroupIO = CgroupRoot cfg @ ''/io.pressure'';
          sysCPU = selectPressurePath os w cgroupCPU ''/proc/pressure/cpu'';
          sysIO = selectPressurePath os w cgroupIO ''/proc/pressure/io''
      in
      if \<not> PSIEventDriven cfg \<or> sysCPU = '''' \<and> sysIO = '''' \<or> \<not> started then a
      else
        (let pw = SetThreshold ''io'' (word_of_int (PSIOStallThreshold cfg))
               (SetThreshold ''cpu'' (word_of_int (PSICPUStallThreshold cfg)) (NewPSIWatcher (word_of_int (PSIWindowUs cfg))));
             (n, pw1, c1) = watch_system (pf_ops pf) ''io'' sysIO (watch_system (pf_ops pf) ''cpu'' sysCPU (0, pw, cgroups m));
             m1 = m\<lparr>cgroups := c1\<rparr>
         in
         if n = 0 then a\<lparr>rt_manager := m1\<rparr>
         else if pressureFileExists os w cgroupCPU \<or> pressureFileExists os w cgroupIO
         then a\<lparr>psiEventDriven := True, rt_manager := RegisterPSIWatcher pw1 m1\<rparr>
         else a\<lparr>psiEventDriven := True, rt_manager := m1, a_psi := Some pw1\<rparr>))"

definition isPSIEventDrivenActive :: "('w, 'd) app \<Rightarrow> bool" where
  "isPSIEventDrivenActive a \<longleftrightarrow> PSIEventDriven (a_cfg a) \<and> psiEventDriven a"

section \<open>The control loop\<close>

definition controlCycleInterval :: "('w, 'd) app \<Rightarrow> int" where
  "controlCycleInterval a =
     (let cfg = m_cfg (rt_manager a) in
      if isPSIEventDrivenActive a then PSIFallbackInterval cfg else PollingInterval cfg)"

definition metricsRefreshInterval :: "('w, 'd) app \<Rightarrow> int" where
  "metricsRefreshInterval a =
     (if \<not> isPSIEventDrivenActive a \<or> rt_exporter a = None then 0 else MetricsRefreshInterval (m_cfg (rt_manager a)))"

text \<open>\<open>time.NewTicker\<close> panics unless its period is positive; without a positive interval there is no refresh ticker.\<close>

definition ticker_ok :: "int \<Rightarrow> bool" where
  "ticker_ok interval \<longleftrightarrow> 0 < seconds interval"

definition newOptionalTicker :: "int \<Rightarrow> bool option" where
  "newOptionalTicker interval = (if interval \<le> 0 then Some False else if ticker_ok interval then Some True else None)"

definition refreshMetricsTicker :: "('w, 'd) app \<Rightarrow> ('w, 'd) app option" where
  "refreshMetricsTicker a =
     (let next = metricsRefreshInterval a in
      if next = refreshInterval a then Some a
      else map_option (\<lambda>_. a\<lparr>refreshInterval := next\<rparr>) (newOptionalTicker next))"

text \<open>The channel is closed before and after every cycle, and cycles run on the goroutine of the loop.\<close>

definition acquireCycleSlot :: "('w, 'd) app \<Rightarrow> bool" where
  "acquireCycleSlot a \<longleftrightarrow> cycleComplete a"

definition guarded_cycle :: "('w, 'd) platform \<Rightarrow> clock \<Rightarrow> string \<Rightarrow> ('w, 'd) app \<Rightarrow> ('w, 'd) app option" where
  "guarded_cycle pf ck trigger a =
     (if \<not> acquireCycleSlot a then Some a
      else map_option (cycleComplete_update (\<lambda>_. True)) (app_cycle pf ck trigger (a\<lparr>cycleComplete := False\<rparr>)))"

definition handleTickerCycle :: "('w, 'd) platform \<Rightarrow> clock \<Rightarrow> ('w, 'd) app \<Rightarrow> ('w, 'd) app option" where
  "handleTickerCycle pf ck a =
     (let current = controlCycleInterval a in
      if current \<noteq> pollingInterval a \<and> \<not> ticker_ok current then None
      else guarded_cycle pf ck ''ticker'' (a\<lparr>pollingInterval := current\<rparr>))"

definition handlePSIEvent :: "('w, 'd) platform \<Rightarrow> clock \<Rightarrow> psi_event \<Rightarrow> ('w, 'd) app \<Rightarrow> ('w, 'd) app option" where
  "handlePSIEvent pf ck ev a =
     (let scope = (if ev_UID ev > 0 then ''user'' else ''system'');
          a1 = (if ev_UID ev > 0 then a\<lparr>rt_manager := OnUserPSIEvent (pf_ops pf) (ck_now ck) ev (rt_manager a)\<rparr> else a);
          a2 = a1\<lparr>rt_exporter :=
                 map_option (RecordPSIEvent (ck_now ck) (ev_Type ev) scope (ev_Timestamp ev)) (rt_exporter a1)\<rparr>
      in guarded_cycle pf ck (''psi_'' @ scope @ ''_'' @ ev_Type ev) a2)"

text \<open>The first event of the channel the loop receives from.\<close>

definition take_event :: "('w, 'd) app \<Rightarrow> (psi_event \<times> ('w, 'd) app) option" where
  "take_event a =
     (case psiWatcher (rt_manager a) of
        Some w \<Rightarrow>
          (case events w of
             [] \<Rightarrow> None
           | ev # evs \<Rightarrow> Some (ev, a\<lparr>rt_manager := (rt_manager a)\<lparr>psiWatcher := Some (w\<lparr>events := evs\<rparr>)\<rparr>\<rparr>))
      | None \<Rightarrow>
          (case a_psi a of
             None \<Rightarrow> None
           | Some w \<Rightarrow>
               (case events w of [] \<Rightarrow> None | ev # evs \<Rightarrow> Some (ev, a\<lparr>a_psi := Some (w\<lparr>events := evs\<rparr>)\<rparr>))))"

text \<open>What \<open>Run\<close> does before the loop.\<close>

definition start_loop :: "('w, 'd) platform \<Rightarrow> clock \<Rightarrow> bool \<Rightarrow> ('w, 'd) app \<Rightarrow> ('w, 'd) app option" where
  "start_loop pf ck started a =
     (let a1 = startPSIWatcher pf started a;
          a2 = a1\<lparr>pollingInterval := controlCycleInterval a1, refreshInterval := metricsRefreshInterval a1\<rparr>
      in
      if \<not> ticker_ok (pollingInterval a2) \<or> newOptionalTicker (refreshInterval a2) = None then None
      else app_cycle pf ck ''initial'' a2)"

section \<open>Shutdown\<close>

text \<open>An error of the cleanup is printed, and the shutdown goes on.\<close>

definition shutdown :: "('w, 'd) platform \<Rightarrow> time \<Rightarrow> ('w, 'd) app \<Rightarrow> ('w, 'd) app option" where
  "shutdown pf now a =
     Option.bind (case a_watcher a of None \<Rightarrow> Some None | Some w \<Rightarrow> map_option Some (Watcher_Stop w)) (\<lambda>wt.
       (let m = snd (ManagerCleanup (pf_ops pf) (pf_rx pf) (names_only pf (world_of a) now (rt_collector a)) (rt_manager a));
            a1 = flush pf now (a\<lparr>a_watcher := wt, rt_manager := m\<rparr>)
        in Some (a1\<lparr>rt_manager := (rt_manager a1)\<lparr>psiWatcher := map_option StopWatcher (psiWatcher (rt_manager a1))\<rparr>,
                   a_psi := map_option StopWatcher (a_psi a1), finished := True\<rparr>)))"

end
