(* ===== verification/CollectorProps.thy ===== *)
theory CollectorProps
  imports CollectorUsers
begin

text \<open>
  The invariant of the collector: its caches agree with their timestamps, hold values of the type their getter asserts,
  and the samples of processes are bounded. Then what the scan computes.
\<close>

section \<open>The invariant\<close>

text \<open>The type of the value behind each key.\<close>

definition cached_ok :: "string \<Rightarrow> cached \<Rightarrow> bool" where
  "cached_ok key v \<longleftrightarrow>
     (if key = ''total_cores'' \<or> HasPrefix key ''process_count_uid_'' then as_int v \<noteq> None
      else if key = ''system_under_load'' then as_bool v \<noteq> None
      else if key = ''all_users'' \<or> key = ''limited_users'' then as_users v \<noteq> None
      else if key = ''all_user_metrics'' then (case v of CMetrics ms \<Rightarrow> al_wf ms | _ \<Rightarrow> False)
      else if key = ''all_users_memory_usage'' \<or> key = ''limited_users_memory_usage'' \<or>
              HasPrefix key ''memory_usage_uid_'' then as_u64 v \<noteq> None
      else as_float v \<noteq> None)"

definition typed_cache :: "(string \<times> cached) list \<Rightarrow> bool" where
  "typed_cache xs \<longleftrightarrow> list_all (\<lambda>(k, v). cached_ok k v) xs"

lemma typed_cache_update [simp]: "typed_cache xs \<Longrightarrow> cached_ok k v \<Longrightarrow> typed_cache (al_update k v xs)"
  by (auto simp: typed_cache_def list_all_iff dest!: al_update_member)

lemma typed_cache_less [simp]:
  "typed_cache []" "typed_cache xs \<Longrightarrow> typed_cache (al_delete k xs)" "typed_cache xs \<Longrightarrow> typed_cache (drop_keys ks xs)"
  by (auto simp: typed_cache_def list_all_iff al_delete_def drop_keys_def)

definition paired :: "('k \<times> 'v) list \<Rightarrow> ('k \<times> time) list \<Rightarrow> bool" where
  "paired xs ts \<longleftrightarrow> al_wf xs \<and> al_wf ts \<and> set (keys xs) = set (keys ts)"

definition col_ok :: "collector \<Rightarrow> bool" where
  "col_ok c \<longleftrightarrow>
     paired (cache c) (cacheTimestamps c) \<and> paired (prevProcCPU c) (prevProcTime c) \<and>
     paired (usernameCache c) (usernameCacheTime c) \<and> length (prevProcCPU c) \<le> MAX_PROC_CACHE_SIZE \<and>
     typed_cache (cache c)"

lemma al_wf_drop_keys [simp]: "al_wf xs \<Longrightarrow> al_wf (drop_keys ks xs)"
  by (simp add: drop_keys_def)

lemma keys_drop_keys [simp]: "set (keys (drop_keys ks xs)) = set (keys xs) - set ks"
  by (auto simp: drop_keys_def)

lemma drop_keys_subset: "set (drop_keys ks xs) \<subseteq> set xs"
  by (auto simp: drop_keys_def)

lemma paired_update [simp, inv_intros]: "paired xs ts \<Longrightarrow> paired (al_update k v xs) (al_update k t ts)"
  by (simp add: paired_def del: set_map)

lemma paired_delete [simp, inv_intros]: "paired xs ts \<Longrightarrow> paired (al_delete k xs) (al_delete k ts)"
  by (simp add: paired_def del: set_map)

lemma paired_drop [simp, inv_intros]: "paired xs ts \<Longrightarrow> paired (drop_keys ks xs) (drop_keys ks ts)"
  by (simp add: paired_def del: set_map)

lemma paired_Nil [simp, inv_intros]: "paired [] []"
  by (simp add: paired_def)

lemma length_al_update: "length (al_update k v xs) \<le> Suc (length xs)"
  by (induction xs) auto

lemma length_al_update_present: "k \<in> set (keys xs) \<Longrightarrow> length (al_update k v xs) = length xs"
  by (induction xs) auto

lemma length_al_delete_present: "al_wf xs \<Longrightarrow> k \<in> set (keys xs) \<Longrightarrow> Suc (length (al_delete k xs)) = length xs"
proof (induction xs)
  case (Cons p ps)
  show ?case
  proof (cases "fst p = k")
    case True
    then have "k \<notin> set (keys ps)" using Cons.prems(1) by (auto simp: al_wf_def)
    then have "al_delete k ps = ps" by (auto simp: al_delete_def intro!: filter_True)
    then show ?thesis using True by (simp add: al_delete_def)
  next
    case False
    then show ?thesis using Cons by (auto simp: al_delete_def al_wf_def)
  qed
qed simp

lemma length_drop_keys: "length (drop_keys ks xs) \<le> length xs"
  by (simp add: drop_keys_def)

lemma oldest_entry_member: "oldest_entry xs best \<in> insert best (set xs)"
  by (induction xs best rule: oldest_entry.induct) (auto split: if_splits)

lemma col_ok_new [inv_intros]: "col_ok (NewCollector pl cfg w)"
  by (simp add: col_ok_def NewCollector_def)

lemma col_ok_evict_cache [inv_intros]: "col_ok c \<Longrightarrow> col_ok (evict_cache now c)"
  by (simp add: col_ok_def evict_cache_def Let_def)

lemma col_ok_setInCache [inv_intros]: "col_ok c \<Longrightarrow> cached_ok key v \<Longrightarrow> col_ok (setInCache now key v c)"
  using col_ok_evict_cache [of c now]
  by (simp add: col_ok_def setInCache_def Let_def)

lemma col_ok_ClearCache [inv_intros]: "col_ok c \<Longrightarrow> col_ok (ClearCache c)"
  by (simp add: col_ok_def ClearCache_def)

lemma col_ok_UpdateConfig [inv_intros]: "col_ok c \<Longrightarrow> col_ok (Collector_UpdateConfig cfg c)"
  by (simp add: col_ok_def Collector_UpdateConfig_def ClearCache_def)

lemma col_ok_SetUsernameCacheTTL [inv_intros]: "col_ok c \<Longrightarrow> col_ok (SetUsernameCacheTTL ttl c)"
  by (simp add: col_ok_def SetUsernameCacheTTL_def)

lemma col_ok_cleanupCache [inv_intros]: "col_ok c \<Longrightarrow> col_ok (cleanupCache now c)"
  using order_trans [OF length_drop_keys [of "stale now fiveMinutes (prevProcTime c)" "prevProcCPU c"]]
  by (simp add: col_ok_def cleanupCache_def Let_def)

lemma col_ok_prevCPUStats [simp]: "col_ok (c\<lparr>prevCPUStats := s\<rparr>) = col_ok c"
  by (simp add: col_ok_def)

lemma col_ok_emaValues [simp]: "col_ok (c\<lparr>emaValues := e\<rparr>) = col_ok c"
  by (simp add: col_ok_def)

lemma col_ok_cacheUsername [inv_intros]: "col_ok c \<Longrightarrow> col_ok (cacheUsername now uid n c)"
  by (simp add: col_ok_def cacheUsername_def evict_username_def Let_def)

lemma col_ok_getUsername [inv_intros]: "col_ok c \<Longrightarrow> col_ok (snd (getUsername os pl w now uid c))"
  by (auto simp: getUsername_def Let_def col_ok_cacheUsername split: option.splits)

lemma col_ok_calculateEMA [inv_intros]: "col_ok c \<Longrightarrow> col_ok (snd (calculateEMA uid x c))"
  by (simp add: calculateEMA_def Let_def)

text \<open>Samples: the eviction makes room before a sample of a new process is stored.\<close>

lemma evict_process_shrinks:
  assumes "col_ok c"
  shows "length (prevProcCPU (evict_process c)) < MAX_PROC_CACHE_SIZE"
proof (cases "length (prevProcCPU c) \<ge> MAX_PROC_CACHE_SIZE")
  case True
  have "prevProcCPU c \<noteq> []" using True by (auto simp: MAX_PROC_CACHE_SIZE_def)
  then have "prevProcTime c \<noteq> []" using assms by (auto simp: col_ok_def paired_def)
  then obtain p ps where ps: "prevProcTime c = p # ps" by (cases "prevProcTime c") auto
  let ?k = "fst (oldest_entry ps p)"
  have "?k \<in> set (keys (prevProcTime c))"
    unfolding ps using oldest_entry_member [of ps p] by auto
  then have "?k \<in> set (keys (prevProcCPU c))" "al_wf (prevProcCPU c)"
    using assms by (auto simp: col_ok_def paired_def)
  from length_al_delete_present [OF this(2,1)] True assms show ?thesis
    by (simp add: evict_process_def ps col_ok_def Let_def)
next
  case False
  then show ?thesis by (simp add: evict_process_def)
qed

lemma col_ok_evict_process [inv_intros]: "col_ok c \<Longrightarrow> col_ok (evict_process c)"
  using evict_process_shrinks [of c]
  by (auto simp: col_ok_def evict_process_def Let_def split: list.split)

lemma col_ok_store_sample:
  assumes "col_ok c" "length (prevProcCPU c) < MAX_PROC_CACHE_SIZE \<or> pid \<in> set (keys (prevProcCPU c))"
  shows "col_ok (store_sample now pid t c)"
  using assms length_al_update [of pid t "prevProcCPU c"] length_al_update_present [of pid "prevProcCPU c" t]
  by (auto simp: col_ok_def store_sample_def simp del: set_map)

lemma col_ok_process_cpu [inv_intros]:
  assumes "col_ok c"
  shows "col_ok (snd (getProcessCPUUsageSimpleWithHandle pl w now pid c))"
  using assms col_ok_store_sample [OF col_ok_evict_process [OF assms] disjI1 [OF evict_process_shrinks [OF assms]]]
  by (auto simp: getProcessCPUUsageSimpleWithHandle_def split: option.splits
      intro!: col_ok_store_sample disjI2 map_of_Some_keys simp del: set_map)

lemma col_ok_process_cpu_pid [inv_intros]:
  "col_ok c \<Longrightarrow> col_ok (snd (getProcessCPUUsageSimple pl w now pid c))"
  by (simp add: getProcessCPUUsageSimple_def col_ok_process_cpu)

section \<open>The scan keeps the invariant\<close>

lemma al_wf_at_user [simp, inv_intros]: "al_wf t \<Longrightarrow> al_wf (at_user uid f t)"
  by (simp add: at_user_def)

definition scan_ok :: "(int \<times> 'a) list \<times> collector \<Rightarrow> bool" where
  "scan_ok acc \<longleftrightarrow> al_wf (fst acc) \<and> col_ok (snd acc)"

lemma fold_keeps: "P s \<Longrightarrow> (\<And>x s. x \<in> set xs \<Longrightarrow> P s \<Longrightarrow> P (f x s)) \<Longrightarrow> P (fold f xs s)"
  by (induction xs arbitrary: s) auto

lemma scan_figures_ok: "scan_ok acc \<Longrightarrow> scan_ok (scan_figures pl w now uptime p acc)"
  using col_ok_process_cpu [of "snd acc" pl w now "fst p"]
  by (auto simp: scan_ok_def scan_figures_def split: prod.split list.split)

lemma scan_io_wf: "al_wf t \<Longrightarrow> al_wf (scan_io os w p t)"
  by (auto simp: scan_io_def split: prod.split list.split)

lemma merge_io_wf: "al_wf t \<Longrightarrow> al_wf (merge_io monitored ioData t)"
  unfolding merge_io_def by (rule fold_keeps) auto

lemma finish_user_ok: "scan_ok acc \<Longrightarrow> scan_ok (finish_user rx os pl w now entry acc)"
  by (auto simp: scan_ok_def finish_user_def Let_def split_beta
      intro: col_ok_calculateEMA col_ok_getUsername)

lemma fold_finish_ok: "col_ok c \<Longrightarrow> scan_ok (fold (finish_user rx os pl w now) t ([], c))"
  by (rule fold_keeps) (simp_all add: scan_ok_def [of "([], c)"] finish_user_ok)

definition scan_entry_ok :: "((int \<times> user_data) list \<times> (int \<times> user_data) list) \<times> collector \<Rightarrow> bool" where
  "scan_entry_ok acc \<longleftrightarrow> al_wf (fst (fst acc)) \<and> al_wf (snd (fst acc)) \<and> col_ok (snd acc)"

lemma scan_entry_keeps: "scan_entry_ok acc \<Longrightarrow> scan_entry_ok (scan_entry os pl w now uptime e acc)"
proof -
  assume a: "scan_entry_ok acc"
  have "col_ok c1" if "getProcessCPUUsageSimple pl w now pid (snd acc) = (x, c1)" for pid x c1
    using a col_ok_process_cpu_pid [of "snd acc" pl w now pid] by (simp add: that scan_entry_ok_def)
  with a show ?thesis
    by (auto simp: scan_entry_ok_def scan_entry_def split: prod.split option.split)
qed

lemma fallback_ok: "col_ok c \<Longrightarrow> scan_ok (getAllUserMetricsFallback rx os pl w now c)"
proof (cases "ReadDir os ''/proc'' w")
  case (Inr entries)
  assume c: "col_ok c"
  obtain t ioData c1 where f: "fold (scan_entry os pl w now (getSystemUptimeSeconds os w)) entries (([], []), c) = ((t, ioData), c1)"
    by (metis surj_pair)
  have "scan_entry_ok ((t, ioData), c1)"
    unfolding f [symmetric] by (rule fold_keeps) (simp_all add: scan_entry_keeps, simp add: scan_entry_ok_def c)
  then have "col_ok c1" by (simp add: scan_entry_ok_def)
  with Inr f show ?thesis by (simp add: getAllUserMetricsFallback_def fold_finish_ok)
qed (simp add: getAllUserMetricsFallback_def scan_ok_def)

lemma getFromCache_ok: "col_ok c \<Longrightarrow> getFromCache key ttl now c = Some v \<Longrightarrow> cached_ok key v"
  by (auto simp: col_ok_def typed_cache_def list_all_iff getFromCache_def split: option.splits if_splits
      dest!: map_of_SomeD)

lemma all_user_metrics_ok:
  assumes c: "col_ok c"
  shows "scan_ok (Collector_GetAllUserMetrics rx os pl w now c)"
proof -
  have miss: "scan_ok (case Processes pl w of
       None \<Rightarrow> getAllUserMetricsFallback rx os pl w now c
     | Some procs \<Rightarrow>
         (case fold (scan_figures pl w now (getSystemUptimeSeconds os w)) procs ([], c) of
            (t, c1) \<Rightarrow>
              (let ioData = fold (scan_io os w) procs [];
                   t1 = merge_io (isMonitoredUserUID (col_cfg c1)) ioData t;
                   (ms, c2) = fold (finish_user rx os pl w now) t1 ([], c1)
               in (ms, setInCache now ''all_user_metrics'' (CMetrics ms) c2))))"
  proof (cases "Processes pl w")
    case (Some procs)
    obtain t c1 where f: "fold (scan_figures pl w now (getSystemUptimeSeconds os w)) procs ([], c) = (t, c1)"
      by (metis surj_pair)
    have "scan_ok (t, c1)"
      unfolding f [symmetric] by (rule fold_keeps) (simp_all add: scan_figures_ok, simp add: scan_ok_def c)
    then have c1: "col_ok c1" by (simp add: scan_ok_def)
    obtain ms c2 where g: "fold (finish_user rx os pl w now)
        (merge_io (isMonitoredUserUID (col_cfg c1)) (fold (scan_io os w) procs []) t) ([], c1) = (ms, c2)"
      by (metis surj_pair)
    have "scan_ok (ms, c2)" unfolding g [symmetric] by (rule fold_finish_ok [OF c1])
    then have ms: "al_wf ms" "col_ok c2" by (simp_all add: scan_ok_def)
    have "cached_ok ''all_user_metrics'' (CMetrics ms)" using ms(1) by (simp add: cached_ok_def HasPrefix_def)
    with ms show ?thesis by (simp add: Some f g scan_ok_def col_ok_setInCache)
  qed (simp add: fallback_ok c)
  show ?thesis
  proof (cases "getFromCache ''all_user_metrics'' (metricsCacheTTL c) now c")
    case (Some v)
    with getFromCache_ok [OF c Some] miss c show ?thesis
      by (cases v) (auto simp: Collector_GetAllUserMetrics_def cached_ok_def HasPrefix_def scan_ok_def)
  qed (use miss in \<open>simp add: Collector_GetAllUserMetrics_def\<close>)
qed


section \<open>Reachable collectors never panic\<close>

text \<open>A getter that returns a value and keeps the invariant.\<close>

definition answers :: "'a option \<times> collector \<Rightarrow> bool" where
  "answers r \<longleftrightarrow> fst r \<noteq> None \<and> col_ok (snd r)"

lemma answers_cached_or:
  assumes "col_ok c" "\<And>v. cached_ok key v \<Longrightarrow> as v \<noteq> None" "answers (rest c)"
  shows "answers (cached_or as key ttl now rest c)"
  using assms getFromCache_ok [OF assms(1)] by (auto simp: answers_def cached_or_def split: option.split)

lemma answers_stored: "col_ok c \<Longrightarrow> cached_ok key (mk v) \<Longrightarrow> answers (stored mk now key v c)"
  by (simp add: answers_def stored_def col_ok_setInCache)

lemma answers_from_metrics:
  assumes "col_ok c" "\<And>v. cached_ok key v \<Longrightarrow> as v \<noteq> None" "\<And>x. cached_ok key (mk x)" "scan_ok (all c)"
  shows "answers (from_metrics as mk key f all now c)"
  unfolding from_metrics_def
  by (rule answers_cached_or) (use assms in \<open>auto simp: scan_ok_def split: prod.split intro!: answers_stored\<close>)

lemma fallback_cpu_ok: "col_ok c \<Longrightarrow> col_ok (snd (getTotalCPUUsageFallback os w now c))"
proof -
  have k: "cached_ok ''total_cpu_usage'' (CFloat x)" for x by (simp add: cached_ok_def HasPrefix_def)
  show "col_ok c \<Longrightarrow> ?thesis"
    by (auto simp: getTotalCPUUsageFallback_def Let_def split: option.split intro!: col_ok_setInCache k)
qed

lemma answers_cores: "col_ok c \<Longrightarrow> answers (Collector_GetTotalCores os pl w now c)"
  unfolding Collector_GetTotalCores_def
  by (rule answers_cached_or) (simp_all add: answers_stored cached_ok_def split: option.split)

lemma answers_cpu: "col_ok c \<Longrightarrow> answers (Collector_GetTotalCPUUsage os pl w now c)"
  unfolding Collector_GetTotalCPUUsage_def using fallback_cpu_ok [of c os w now]
  by (auto intro!: answers_cached_or answers_stored simp: cached_ok_def HasPrefix_def answers_def [of "(Some _, _)"]
      split: option.split list.split prod.split)

lemma answers_memory:
  assumes "col_ok c"
  shows "answers (Collector_GetMemoryUsage os pl w now c)" "answers (Collector_GetTotalMemoryMB os pl w now c)"
    "answers (Collector_GetCachedMemoryMB os pl w now c)"
  unfolding Collector_GetMemoryUsage_def Collector_GetTotalMemoryMB_def Collector_GetCachedMemoryMB_def using assms
  by (auto intro!: answers_cached_or answers_stored simp: cached_ok_def HasPrefix_def answers_def [of "(Some _, _)"]
      split: option.split prod.split)

lemma answers_load: "col_ok c \<Longrightarrow> answers (Collector_IsSystemUnderLoad os pl w now c)"
  unfolding Collector_IsSystemUnderLoad_def using answers_cores [of c os pl w now]
  by (auto intro!: answers_cached_or answers_stored simp: cached_ok_def HasPrefix_def answers_def [of "(_, _)"]
      split: option.split prod.split)

lemmas getter_defs = Collector_GetAllUsersCPUUsage_def Collector_GetLimitedUsersCPUUsage_def Collector_GetAllUsers_def
  Collector_GetLimitedUsers_def Collector_GetAllUsersMemoryUsage_def Collector_GetLimitedUsersMemoryUsage_def
  Collector_GetUserCPUUsage_def Collector_GetUserMemoryUsage_def Collector_GetUserProcessCount_def

lemma answers_users:
  assumes "col_ok c"
  shows "answers (Collector_GetAllUsersCPUUsage rx os pl w now c)"
    "answers (Collector_GetLimitedUsersCPUUsage rx os pl w now c)"
    "answers (Collector_GetAllUsers rx os pl w now c)" "answers (Collector_GetLimitedUsers rx os pl w now c)"
    "answers (Collector_GetAllUsersMemoryUsage rx os pl w now c)"
    "answers (Collector_GetLimitedUsersMemoryUsage rx os pl w now c)"
    "answers (Collector_GetUserCPUUsage rx os pl w now uid c)" "answers (Collector_GetUserMemoryUsage rx os pl w now uid c)"
    "answers (Collector_GetUserProcessCount rx os pl w now uid c)"
  unfolding getter_defs
  using assms by (auto intro!: answers_from_metrics all_user_metrics_ok simp: cached_ok_def HasPrefix_def
      answers_def [of "(Some _, _)"])

lemmas getters_answer = answers_cores answers_cpu answers_memory answers_load answers_users

text \<open>The operations of the collector, each in any world and at any time.\<close>

inductive collector_step :: "regexp_lib \<Rightarrow> 'w os \<Rightarrow> 'w gopsutil \<Rightarrow> collector \<Rightarrow> collector \<Rightarrow> bool" for rx os pl where
  step_cores: "collector_step rx os pl c (snd (Collector_GetTotalCores os pl w now c))"
| step_cpu: "collector_step rx os pl c (snd (Collector_GetTotalCPUUsage os pl w now c))"
| step_memory: "collector_step rx os pl c (snd (Collector_GetMemoryUsage os pl w now c))"
| step_total_memory: "collector_step rx os pl c (snd (Collector_GetTotalMemoryMB os pl w now c))"
| step_cached_memory: "collector_step rx os pl c (snd (Collector_GetCachedMemoryMB os pl w now c))"
| step_load: "collector_step rx os pl c (snd (Collector_IsSystemUnderLoad os pl w now c))"
| step_all: "collector_step rx os pl c (snd (Collector_GetAllUserMetrics rx os pl w now c))"
| step_all_cpu: "collector_step rx os pl c (snd (Collector_GetAllUsersCPUUsage rx os pl w now c))"
| step_limited_cpu: "collector_step rx os pl c (snd (Collector_GetLimitedUsersCPUUsage rx os pl w now c))"
| step_users: "collector_step rx os pl c (snd (Collector_GetAllUsers rx os pl w now c))"
| step_limited: "collector_step rx os pl c (snd (Collector_GetLimitedUsers rx os pl w now c))"
| step_all_mem: "collector_step rx os pl c (snd (Collector_GetAllUsersMemoryUsage rx os pl w now c))"
| step_limited_mem: "collector_step rx os pl c (snd (Collector_GetLimitedUsersMemoryUsage rx os pl w now c))"
| step_user_cpu: "collector_step rx os pl c (snd (Collector_GetUserCPUUsage rx os pl w now uid c))"
| step_user_mem: "collector_step rx os pl c (snd (Collector_GetUserMemoryUsage rx os pl w now uid c))"
| step_user_count: "collector_step rx os pl c (snd (Collector_GetUserProcessCount rx os pl w now uid c))"
| step_name: "collector_step rx os pl c (snd (getUsername os pl w now uid c))"
| step_cleanup: "collector_step rx os pl c (cleanupCache now c)"
| step_clear: "collector_step rx os pl c (ClearCache c)"
| step_config: "collector_step rx os pl c (Collector_UpdateConfig cfg c)"
| step_ttl: "collector_step rx os pl c (SetUsernameCacheTTL ttl c)"

inductive collector_reachable :: "regexp_lib \<Rightarrow> 'w os \<Rightarrow> 'w gopsutil \<Rightarrow> collector \<Rightarrow> bool" for rx os pl where
  new: "collector_reachable rx os pl (NewCollector pl cfg w)"
| step: "collector_reachable rx os pl c \<Longrightarrow> collector_step rx os pl c c' \<Longrightarrow> collector_reachable rx os pl c'"

definition getters_safe :: "regexp_lib \<Rightarrow> 'w os \<Rightarrow> 'w gopsutil \<Rightarrow> 'w \<Rightarrow> time \<Rightarrow> int \<Rightarrow> collector \<Rightarrow> bool" where
  "getters_safe rx os pl w now uid c \<longleftrightarrow>
     fst (Collector_GetTotalCores os pl w now c) \<noteq> None \<and> fst (Collector_GetTotalCPUUsage os pl w now c) \<noteq> None \<and>
     fst (Collector_GetMemoryUsage os pl w now c) \<noteq> None \<and> fst (Collector_GetTotalMemoryMB os pl w now c) \<noteq> None \<and>
     fst (Collector_GetCachedMemoryMB os pl w now c) \<noteq> None \<and> fst (Collector_IsSystemUnderLoad os pl w now c) \<noteq> None \<and>
     fst (Collector_GetAllUsersCPUUsage rx os pl w now c) \<noteq> None \<and>
     fst (Collector_GetLimitedUsersCPUUsage rx os pl w now c) \<noteq> None \<and>
     fst (Collector_GetAllUsers rx os pl w now c) \<noteq> None \<and> fst (Collector_GetLimitedUsers rx os pl w now c) \<noteq> None \<and>
     fst (Collector_GetAllUsersMemoryUsage rx os pl w now c) \<noteq> None \<and>
     fst (Collector_GetLimitedUsersMemoryUsage rx os pl w now c) \<noteq> None \<and>
     fst (Collector_GetUserCPUUsage rx os pl w now uid c) \<noteq> None \<and>
     fst (Collector_GetUserMemoryUsage rx os pl w now uid c) \<noteq> None \<and>
     fst (Collector_GetUserProcessCount rx os pl w now uid c) \<noteq> None"

lemma collector_step_ok: "collector_step rx os pl c c' \<Longrightarrow> col_ok c \<Longrightarrow> col_ok c'"
  by (induction rule: collector_step.induct)
    (simp_all add: inv_intros getters_answer [unfolded answers_def] all_user_metrics_ok [unfolded scan_ok_def])

lemma collector_reachable_ok: "collector_reachable rx os pl c \<Longrightarrow> col_ok c"
  by (induction rule: collector_reachable.induct) (auto intro: col_ok_new collector_step_ok)

text \<open>C32: type safety of the cache of untyped values: no getter ever meets a value of another type.\<close>

theorem collector_never_panics:
  assumes "collector_reachable rx os pl c"
  shows "getters_safe rx os pl w now uid c"
  using collector_reachable_ok [OF assms] unfolding getters_safe_def
  by (auto simp: getters_answer [unfolded answers_def])

lemma process_samples_bounded:
  assumes "collector_reachable rx os pl c"
  shows "length (prevProcCPU c) \<le> 5000 \<and> set (keys (prevProcCPU c)) = set (keys (prevProcTime c))"
  using collector_reachable_ok [OF assms] by (simp add: col_ok_def paired_def MAX_PROC_CACHE_SIZE_def)

end
