(* ===== verification/CollectorSums.thy ===== *)
theory CollectorSums
  imports CollectorProps
begin

text \<open>
  What the scan of the collector computes, against a direct definition over the process table, and the CPU
  usage of processes between two scans.
\<close>

section \<open>Folds that update the data of users\<close>

lemma map_of_at_user:
  "map_of (at_user uid f t) = (map_of t)(uid \<mapsto> f (case map_of t uid of None \<Rightarrow> no_data | Some d \<Rightarrow> d))"
  by (simp add: at_user_def)

text \<open>Every item changes the data of its owner, if it has one.\<close>

definition each_owner :: "('a \<Rightarrow> int option) \<Rightarrow> ('a \<Rightarrow> user_data \<Rightarrow> user_data) \<Rightarrow> 'a \<Rightarrow> (int \<times> user_data) list \<Rightarrow>
   (int \<times> user_data) list" where
  "each_owner own g x t = (case own x of None \<Rightarrow> t | Some u \<Rightarrow> at_user u (g x) t)"

abbreviation owned_by :: "('a \<Rightarrow> int option) \<Rightarrow> int \<Rightarrow> 'a list \<Rightarrow> 'a list" where
  "owned_by own uid xs \<equiv> filter (\<lambda>x. own x = Some uid) xs"

lemma map_of_fold_each_owner:
  "map_of (fold (each_owner own g) xs t) uid =
     (if owned_by own uid xs = [] then map_of t uid
      else Some (fold g (owned_by own uid xs) (case map_of t uid of None \<Rightarrow> no_data | Some d \<Rightarrow> d)))"
proof (induction xs arbitrary: t)
  case (Cons x xs)
  then show ?case
    by (cases "own x") (auto simp: each_owner_def map_of_at_user split: option.split)
qed simp

section \<open>The first loop\<close>

definition owner_of :: "config \<Rightarrow> int \<times> int list \<Rightarrow> int option" where
  "owner_of cfg p = (case snd p of [] \<Rightarrow> None | uid # _ \<Rightarrow> if isMonitoredUserUID cfg uid then Some uid else None)"

text \<open>The CPU figures of the processes in order, 0 for those that are not monitored, and the collector afterwards.\<close>

fun cpu_run :: "'w gopsutil \<Rightarrow> 'w \<Rightarrow> time \<Rightarrow> (int \<times> int list) list \<Rightarrow> collector \<Rightarrow> f64 list \<times> collector" where
  "cpu_run pl w now [] c = ([], c)"
| "cpu_run pl w now (p # ps) c =
     (let (x, c1) = (if owner_of (col_cfg c) p = None then (Fin 0, c)
                     else getProcessCPUUsageSimpleWithHandle pl w now (fst p) c);
          (xs, c2) = cpu_run pl w now ps c1
      in (x # xs, c2))"

definition figures :: "'w gopsutil \<Rightarrow> 'w \<Rightarrow> f64 \<Rightarrow> (int \<times> int list) \<times> f64 \<Rightarrow> user_data \<Rightarrow> user_data" where
  "figures pl w uptime px d =
     add_average (getProcessCPUAverage pl w (fst (fst px)) uptime)
       (add_figures (snd px) (case ps_RSS pl (fst (fst px)) w of None \<Rightarrow> 0 | Some rss \<Rightarrow> rss) d)"

lemma process_cpu_cfg [simp]: "col_cfg (snd (getProcessCPUUsageSimpleWithHandle pl w now pid c)) = col_cfg c"
  by (auto simp: getProcessCPUUsageSimpleWithHandle_def store_sample_def evict_process_def Let_def
      split: option.split list.split)

lemma cpu_run_cfg [simp]: "col_cfg (snd (cpu_run pl w now ps c)) = col_cfg c"
  by (induction ps arbitrary: c) (auto simp: split_beta Let_def)

lemma cpu_run_length [simp]: "length (fst (cpu_run pl w now ps c)) = length ps"
  by (induction ps arbitrary: c) (auto simp: split_beta Let_def)

lemma scan_figures_fold:
  "fold (scan_figures pl w now uptime) ps (t, c) =
     (fold (each_owner (\<lambda>px. owner_of (col_cfg c) (fst px)) (figures pl w uptime)) (zip ps (fst (cpu_run pl w now ps c))) t,
      snd (cpu_run pl w now ps c))"
proof (induction ps arbitrary: t c)
  case (Cons p ps)
  obtain pid us where p: "p = (pid, us)" by (cases p)
  show ?case
  proof (cases "owner_of (col_cfg c) p")
    case None
    then have "scan_figures pl w now uptime p (t, c) = (t, c)"
      by (auto simp: p owner_of_def scan_figures_def split: list.splits if_splits)
    with Cons.IH [of t c] None show ?thesis by (simp add: split_beta Let_def each_owner_def)
  next
    case (Some uid)
    obtain x c1 where x: "getProcessCPUUsageSimpleWithHandle pl w now pid c = (x, c1)" by (metis surj_pair)
    have cfg: "col_cfg c1 = col_cfg c" using process_cpu_cfg [of pl w now pid c] by (simp add: x)
    have s: "scan_figures pl w now uptime p (t, c) = (at_user uid (figures pl w uptime (p, x)) t, c1)"
      using Some x by (auto simp: p owner_of_def scan_figures_def figures_def [abs_def] split: list.splits if_splits)
    show ?thesis using Some s Cons.IH [of "at_user uid (figures pl w uptime (p, x)) t" c1] x cfg
      by (simp add: split_beta Let_def each_owner_def p)
  qed
qed simp

text \<open>What the figures of a list of processes add up to.\<close>

lemma fold_figures:
  "ud_processCount (fold (figures pl w uptime) pxs d) = ud_processCount d + int (length pxs)"
  "ud_memoryUsage (fold (figures pl w uptime) pxs d) = ud_memoryUsage d +
     sum_list (map (\<lambda>px. case ps_RSS pl (fst (fst px)) w of None \<Rightarrow> 0 | Some rss \<Rightarrow> rss) pxs)"
  "ud_cpuUsage (fold (figures pl w uptime) pxs d) = foldl f64_add (ud_cpuUsage d) (map snd pxs)"
  "io_of (fold (figures pl w uptime) pxs d) = io_of d"
  by (induction pxs arbitrary: d) (simp_all add: figures_def add_figures_def add_average_def io_of_def)

section \<open>The loop over the IO figures\<close>

definition first_uid :: "int \<times> int list \<Rightarrow> int option" where
  "first_uid p = (case snd p of [] \<Rightarrow> None | uid # _ \<Rightarrow> Some uid)"

lemma scan_io_each: "scan_io os w = each_owner first_uid (\<lambda>p. add_io (getProcessIO os w (fst p)))"
  by (auto simp: scan_io_def each_owner_def first_uid_def fun_eq_iff split: list.split prod.split)

lemma merge_io_each:
  "merge_io monitored ioData t =
     fold (each_owner (\<lambda>(uid, d). if monitored uid then Some uid else None) (\<lambda>(uid, d). add_io (io_of d))) ioData t"
  unfolding merge_io_def by (rule fold_cong) (auto simp: each_owner_def fun_eq_iff)

text \<open>Component-wise sums of IO figures.\<close>

definition io_plus :: "u64 \<times> u64 \<times> u64 \<times> u64 \<Rightarrow> u64 \<times> u64 \<times> u64 \<times> u64 \<Rightarrow> u64 \<times> u64 \<times> u64 \<times> u64" where
  "io_plus a b = (case (a, b) of ((a1, a2, a3, a4), (b1, b2, b3, b4)) \<Rightarrow> (a1 + b1, a2 + b2, a3 + b3, a4 + b4))"

definition io_sum :: "(u64 \<times> u64 \<times> u64 \<times> u64) list \<Rightarrow> u64 \<times> u64 \<times> u64 \<times> u64" where
  "io_sum xs = foldr io_plus xs (0, 0, 0, 0)"

lemma io_plus_simps [simp]:
  "io_plus (0, 0, 0, 0) a = a" "io_plus a (0, 0, 0, 0) = a" "io_plus (io_plus a b) d = io_plus a (io_plus b d)"
  by (auto simp: io_plus_def add.assoc split: prod.split)

lemma io_of_add_io [simp]: "io_of (add_io v d) = io_plus (io_of d) v"
  by (auto simp: io_of_def add_io_def io_plus_def split: prod.split)

lemma add_io_rest [simp]:
  "ud_processCount (add_io v d) = ud_processCount d" "ud_memoryUsage (add_io v d) = ud_memoryUsage d"
  "ud_cpuUsage (add_io v d) = ud_cpuUsage d" "ud_cpuUsageAvg (add_io v d) = ud_cpuUsageAvg d"
  by (simp_all add: add_io_def split: prod.split)

lemma io_of_no_data [simp]: "io_of no_data = (0, 0, 0, 0)"
  by (simp add: io_of_def no_data_def)

lemma io_of_fold: "io_of (fold (\<lambda>p. add_io (f p)) ps d) = io_plus (io_of d) (io_sum (map f ps))"
  by (induction ps arbitrary: d) (simp_all add: io_sum_def)

lemma filter_key: "al_wf xs \<Longrightarrow> filter (\<lambda>(k, v). k = u) xs = (case map_of xs u of None \<Rightarrow> [] | Some v \<Rightarrow> [(u, v)])"
proof (induction xs)
  case (Cons p ps)
  obtain k v where p: "p = (k, v)" by (cases p)
  have "map_of ps k = None" using Cons.prems by (simp add: p al_wf_def map_of_None_keys del: set_map)
  with Cons p show ?case by (auto simp: al_wf_def split: option.splits)
qed simp

lemma map_of_merge:
  assumes "al_wf ioData"
  shows "map_of (merge_io monitored ioData t) uid =
    (case map_of ioData uid of
       None \<Rightarrow> map_of t uid
     | Some d \<Rightarrow> if monitored uid
         then Some (add_io (io_of d) (case map_of t uid of None \<Rightarrow> no_data | Some d0 \<Rightarrow> d0)) else map_of t uid)"
proof -
  have "owned_by (\<lambda>(uid, d). if monitored uid then Some uid else None) uid ioData =
      (if monitored uid then filter (\<lambda>(k, v). k = uid) ioData else [])"
    by (auto intro!: filter_cong simp: filter_empty_conv split: if_splits)
  then show ?thesis
    unfolding merge_io_each map_of_fold_each_owner
    by (simp add: filter_key [OF assms] split: option.split)
qed

section \<open>The last loop\<close>

lemma username_cfg [simp]: "col_cfg (snd (getUsername os pl w now uid c)) = col_cfg c"
  by (auto simp: getUsername_def cacheUsername_def evict_username_def Let_def split: option.split)

lemma ema_cfg [simp]: "col_cfg (snd (calculateEMA uid x c)) = col_cfg c"
  by (simp add: calculateEMA_def Let_def)

text \<open>An entry of the result comes from the data of its user, with some name and some average.\<close>

definition from_data :: "regexp_lib \<Rightarrow> config \<Rightarrow> int \<Rightarrow> user_data \<Rightarrow> user_metrics \<Rightarrow> bool" where
  "from_data rx cfg uid d um \<longleftrightarrow>
     UID um = uid \<and> CPUUsage um = ud_cpuUsage d \<and> CPUUsageAverage um = ud_cpuUsageAvg d \<and>
     MemoryUsage um = ud_memoryUsage d \<and> ProcessCount um = ud_processCount d \<and>
     IsLimited um = IsUserWhitelisted rx cfg (Username um) \<and>
     (IOReadBytes um, IOWriteBytes um, IOReadOps um, IOWriteOps um) = io_of d"

lemma make_metrics_from: "from_data rx cfg uid d (make_metrics rx cfg uid n e d)"
  by (simp add: from_data_def make_metrics_def io_of_def)

lemma finish_fold:
  assumes "fold (finish_user rx os pl w now) t (ms, c) = (ms', c')" "al_wf t"
  shows "col_cfg c' = col_cfg c \<and>
    (\<forall>uid. case map_of t uid of
       None \<Rightarrow> map_of ms' uid = map_of ms uid
     | Some d \<Rightarrow> (\<exists>um. map_of ms' uid = Some um \<and> from_data rx (col_cfg c) uid d um))"
  using assms
proof (induction t arbitrary: ms c)
  case (Cons e t)
  obtain u d where e: "e = (u, d)" by (cases e)
  obtain n c1 where n: "getUsername os pl w now u c = (n, c1)" by (metis surj_pair)
  obtain x c2 where x: "calculateEMA u (ud_cpuUsage d) c1 = (x, c2)" by (metis surj_pair)
  have cfg: "col_cfg c2 = col_cfg c"
    using username_cfg [of os pl w now u c] ema_cfg [of u "ud_cpuUsage d" c1] by (simp add: n x)
  have u: "map_of t u = None" "al_wf t"
    using Cons.prems(2) by (simp_all add: e al_wf_def map_of_None_keys del: set_map)
  have "finish_user rx os pl w now e (ms, c) = (al_update u (make_metrics rx (col_cfg c) u n x d) ms, c2)"
    by (simp add: e finish_user_def n x cfg)
  with Cons.prems(1) have "fold (finish_user rx os pl w now) t (al_update u (make_metrics rx (col_cfg c) u n x d) ms, c2) = (ms', c')"
    by simp
  note IH = Cons.IH [OF this u(2)]
  have "case map_of (e # t) uid of
       None \<Rightarrow> map_of ms' uid = map_of ms uid
     | Some d \<Rightarrow> (\<exists>um. map_of ms' uid = Some um \<and> from_data rx (col_cfg c) uid d um)" for uid
    using spec [OF conjunct2 [OF IH], of uid] u(1) make_metrics_from [of rx "col_cfg c" u d n x]
    by (auto simp: e cfg split: option.splits if_splits)
  with IH cfg show ?case by simp
qed auto

section \<open>The CPU figures of one scan\<close>

definition sample_of :: "collector \<Rightarrow> int \<Rightarrow> times_stat option \<times> time option" where
  "sample_of c pid = (map_of (prevProcCPU c) pid, map_of (prevProcTime c) pid)"

lemma process_cpu_depends:
  assumes "col_cfg c = col_cfg c0" "sample_of c pid = sample_of c0 pid"
  shows "fst (getProcessCPUUsageSimpleWithHandle pl w now pid c) = fst (getProcessCPUUsageSimpleWithHandle pl w now pid c0)"
  using assms by (auto simp: getProcessCPUUsageSimpleWithHandle_def sample_of_def split: option.split)

lemma process_cpu_other:
  assumes "length (prevProcCPU c) < MAX_PROC_CACHE_SIZE" "getProcessCPUUsageSimpleWithHandle pl w now pid c = (x, c1)"
  shows "length (prevProcCPU c1) \<le> Suc (length (prevProcCPU c))" "q \<noteq> pid \<Longrightarrow> sample_of c1 q = sample_of c q"
  using assms length_al_update [of pid _ "prevProcCPU c"]
  by (auto simp: getProcessCPUUsageSimpleWithHandle_def store_sample_def evict_process_def sample_of_def
      split: option.splits if_splits)

text \<open>
  While the cache has room, each figure of a scan is the one its process would get first: no process disturbs the
  sample of another.
\<close>

lemma cpu_run_figures:
  assumes "col_cfg c = col_cfg c0" "\<And>p. p \<in> set ps \<Longrightarrow> sample_of c (fst p) = sample_of c0 (fst p)"
    "distinct (map fst ps)" "length (prevProcCPU c) + length ps \<le> MAX_PROC_CACHE_SIZE"
    "(p, x) \<in> set (zip ps (fst (cpu_run pl w now ps c)))" "owner_of (col_cfg c0) p \<noteq> None"
  shows "x = fst (getProcessCPUUsageSimpleWithHandle pl w now (fst p) c0)"
  using assms
proof (induction ps arbitrary: c)
  case (Cons q ps)
  define r where "r = (if owner_of (col_cfg c) q = None then (Fin 0, c)
     else getProcessCPUUsageSimpleWithHandle pl w now (fst q) c)"
  obtain y c1 where y: "r = (y, c1)" by (metis surj_pair)
  have room: "length (prevProcCPU c) < MAX_PROC_CACHE_SIZE" using Cons.prems(4) by simp
  have step: "col_cfg c1 = col_cfg c0" "length (prevProcCPU c1) \<le> Suc (length (prevProcCPU c))"
    "\<And>k. k \<noteq> fst q \<Longrightarrow> sample_of c1 k = sample_of c k"
    using y Cons.prems(1) process_cpu_other [OF room, of pl w now "fst q" y c1]
    by (auto simp: r_def split: if_splits) (metis process_cpu_cfg snd_conv)
  have z: "zip (q # ps) (fst (cpu_run pl w now (q # ps) c)) = (q, y) # zip ps (fst (cpu_run pl w now ps c1))"
    using y by (simp add: r_def split_beta Let_def)
  show ?case
  proof (cases "(p, x) = (q, y)")
    case True
    with Cons.prems(1,6) y have "x = fst (getProcessCPUUsageSimpleWithHandle pl w now (fst q) c)" by (auto simp: r_def split: if_splits)
    with True process_cpu_depends [OF Cons.prems(1) Cons.prems(2) [of q], of pl w now] show ?thesis by simp
  next
    case False
    with Cons.prems(5) have "(p, x) \<in> set (zip ps (fst (cpu_run pl w now ps c1)))" unfolding z by auto
    moreover have "sample_of c1 (fst k) = sample_of c0 (fst k)" if "k \<in> set ps" for k
    proof -
      have "fst k \<noteq> fst q" using that Cons.prems(3) by (auto simp: image_iff)
      with step(3) Cons.prems(2) that show ?thesis by simp
    qed
    ultimately show ?thesis using Cons.IH [of c1] Cons.prems(3,4,6) step by simp
  qed
qed simp

section \<open>The result of a scan\<close>

lemma map_fst_filter_zip: "length xs = length ys \<Longrightarrow> map fst (filter (\<lambda>p. P (fst p)) (zip xs ys)) = filter P xs"
  by (metis (no_types, lifting) comp_apply filter_cong filter_map map_fst_zip)

lemma first_uid_owner: "isMonitoredUserUID cfg uid \<Longrightarrow> first_uid p = Some uid \<longleftrightarrow> owner_of cfg p = Some uid"
  by (auto simp: first_uid_def owner_of_def split: list.split)

lemma owner_monitored: "owner_of cfg p = Some uid \<Longrightarrow> isMonitoredUserUID cfg uid"
  by (auto simp: owner_of_def split: list.splits if_splits)

definition process_memory :: "'w gopsutil \<Rightarrow> 'w \<Rightarrow> int \<times> int list \<Rightarrow> u64" where
  "process_memory pl w p = (case ps_RSS pl (fst p) w of None \<Rightarrow> 0 | Some rss \<Rightarrow> rss)"

text \<open>
  The data of one user after the two loops, from the processes it owns: \<open>usages\<close> are their CPU figures.
\<close>

definition data_of :: "'w os \<Rightarrow> 'w gopsutil \<Rightarrow> 'w \<Rightarrow> (int \<times> int list) list \<Rightarrow> f64 list \<Rightarrow> user_data \<Rightarrow> bool" where
  "data_of os pl w mine usages d \<longleftrightarrow>
     ud_processCount d = int (length mine) \<and> ud_memoryUsage d = sum_list (map (process_memory pl w) mine) \<and>
     ud_cpuUsage d = foldl f64_add (Fin 0) usages \<and> io_of d = io_sum (map (\<lambda>p. getProcessIO os w (fst p)) mine)"

lemma scan_data:
  fixes procs :: "(int \<times> int list) list"
  assumes "fold (scan_figures pl w now uptime) procs ([], c) = (t, c1)"
  defines "own \<equiv> owner_of (col_cfg c)" and "xs \<equiv> fst (cpu_run pl w now procs c)"
  shows "case map_of (merge_io (isMonitoredUserUID (col_cfg c1)) (fold (scan_io os w) procs []) t) uid of
     None \<Rightarrow> owned_by own uid procs = []
   | Some d \<Rightarrow> owned_by own uid procs \<noteq> [] \<and>
       data_of os pl w (owned_by own uid procs) (map snd (owned_by (\<lambda>px. own (fst px)) uid (zip procs xs))) d"
proof -
  let ?mine = "owned_by own uid procs" and ?pxs = "owned_by (\<lambda>px. own (fst px)) uid (zip procs xs)"
  have mine: "map fst ?pxs = ?mine" using map_fst_filter_zip [of procs xs "\<lambda>p. own p = Some uid"] by (simp add: xs_def)
  then have len: "length ?pxs = length ?mine" by (metis length_map)
  have c1: "col_cfg c1 = col_cfg c" using assms(1) by (simp add: scan_figures_fold) (metis cpu_run_cfg)
  have t: "map_of t uid = (if ?mine = [] then None else Some (fold (figures pl w uptime) ?pxs no_data))"
    using assms(1) mine by (auto simp: scan_figures_fold map_of_fold_each_owner own_def xs_def)
  have io: "map_of (fold (scan_io os w) procs []) uid = (if owned_by first_uid uid procs = [] then None
      else Some (fold (\<lambda>p. add_io (getProcessIO os w (fst p))) (owned_by first_uid uid procs) no_data))"
    by (simp add: scan_io_each map_of_fold_each_owner)
  have wf: "al_wf (fold (scan_io os w) procs [])" by (rule fold_keeps) (simp_all add: scan_io_wf)
  have mem: "map (\<lambda>px. case ps_RSS pl (fst (fst px)) w of None \<Rightarrow> 0 | Some rss \<Rightarrow> rss) ?pxs = map (process_memory pl w) ?mine"
    by (simp add: mine [symmetric] process_memory_def)
  show ?thesis
  proof (cases "isMonitoredUserUID (col_cfg c) uid")
    case True
    then have "owned_by first_uid uid procs = ?mine" by (simp add: own_def first_uid_owner)
    with True show ?thesis
      by (simp add: map_of_merge [OF wf] c1 t io io_of_fold data_of_def fold_figures mem len)
        (simp add: no_data_def)
  next
    case False
    then have "?mine = []" by (auto simp: filter_empty_conv own_def dest: owner_monitored)
    with False show ?thesis by (simp add: map_of_merge [OF wf] c1 t split: option.split)
  qed
qed

text \<open>C18: the scan of the processes against a direct definition over the process table.\<close>

theorem user_metrics_sums:
  assumes miss: "getFromCache ''all_user_metrics'' (metricsCacheTTL c) now c = None"
    and procs: "Processes pl w = Some procs"
    and r: "Collector_GetAllUserMetrics rx os pl w now c = (ms, c')"
  shows "al_wf ms \<and>
    (case map_of ms uid of
       None \<Rightarrow> owned_by (owner_of (col_cfg c)) uid procs = []
     | Some um \<Rightarrow>
         (let mine = owned_by (owner_of (col_cfg c)) uid procs in
          mine \<noteq> [] \<and> UID um = uid \<and> ProcessCount um = int (length mine) \<and>
          MemoryUsage um = sum_list (map (process_memory pl w) mine) \<and>
          (IOReadBytes um, IOWriteBytes um, IOReadOps um, IOWriteOps um) = io_sum (map (\<lambda>p. getProcessIO os w (fst p)) mine) \<and>
          IsLimited um = IsUserWhitelisted rx (col_cfg c) (Username um) \<and>
          (distinct (map fst procs) \<and> length (prevProcCPU c) + length procs \<le> MAX_PROC_CACHE_SIZE \<longrightarrow>
             CPUUsage um = foldl f64_add (Fin 0)
               (map (\<lambda>p. fst (getProcessCPUUsageSimpleWithHandle pl w now (fst p) c)) mine))))"
proof -
  let ?own = "owner_of (col_cfg c)" and ?xs = "fst (cpu_run pl w now procs c)"
  obtain t c1 where f: "fold (scan_figures pl w now (getSystemUptimeSeconds os w)) procs ([], c) = (t, c1)"
    by (metis surj_pair)
  let ?t1 = "merge_io (isMonitoredUserUID (col_cfg c1)) (fold (scan_io os w) procs []) t"
  obtain c2 where g: "fold (finish_user rx os pl w now) ?t1 ([], c1) = (ms, c2)"
    using r by (auto simp: Collector_GetAllUserMetrics_def miss procs f split: prod.splits)
  have c1: "col_cfg c1 = col_cfg c" using f by (simp add: scan_figures_fold) (metis cpu_run_cfg)
  have "al_wf t" using f unfolding scan_figures_fold
    by (auto intro!: fold_keeps [of al_wf] simp: each_owner_def split: option.split)
  then have wf: "al_wf ?t1" by (rule merge_io_wf)
  have "al_wf ms"
    using fold_keeps [of "\<lambda>acc. al_wf (fst acc)" "([], c1)" ?t1 "finish_user rx os pl w now"] g
    by (auto simp: finish_user_def split_beta Let_def)
  moreover have usages: "map snd (owned_by (\<lambda>px. ?own (fst px)) uid (zip procs ?xs)) =
      map (\<lambda>p. fst (getProcessCPUUsageSimpleWithHandle pl w now (fst p) c)) (owned_by ?own uid procs)"
    if "distinct (map fst procs)" "length (prevProcCPU c) + length procs \<le> MAX_PROC_CACHE_SIZE"
  proof -
    have "map snd (owned_by (\<lambda>px. ?own (fst px)) uid (zip procs ?xs)) =
        map (\<lambda>px. fst (getProcessCPUUsageSimpleWithHandle pl w now (fst (fst px)) c)) (owned_by (\<lambda>px. ?own (fst px)) uid (zip procs ?xs))"
    proof (intro map_cong refl)
      fix px assume "px \<in> set (owned_by (\<lambda>px. ?own (fst px)) uid (zip procs ?xs))"
      with cpu_run_figures [OF refl refl that, of "fst px" "snd px" pl w now]
      show "snd px = fst (getProcessCPUUsageSimpleWithHandle pl w now (fst (fst px)) c)" by simp
    qed
    also have "\<dots> = map (\<lambda>p. fst (getProcessCPUUsageSimpleWithHandle pl w now (fst p) c))
        (map fst (owned_by (\<lambda>px. ?own (fst px)) uid (zip procs ?xs)))" by simp
    also have "map fst (owned_by (\<lambda>px. ?own (fst px)) uid (zip procs ?xs)) = owned_by ?own uid procs"
      by (rule map_fst_filter_zip) simp
    finally show ?thesis .
  qed
  moreover have e: "case map_of ?t1 uid of None \<Rightarrow> map_of ms uid = None
     | Some d \<Rightarrow> (\<exists>um. map_of ms uid = Some um \<and> from_data rx (col_cfg c) uid d um)"
    using spec [OF conjunct2 [OF finish_fold [OF g wf]], of uid] by (simp add: c1 split: option.splits)
  moreover note d = scan_data [OF f, where os = os and uid = uid]
  ultimately show ?thesis
  proof (cases "map_of ?t1 uid")
    case (Some a)
    then obtain um where um: "map_of ms uid = Some um" "from_data rx (col_cfg c) uid a um" using e by auto
    have "owned_by ?own uid procs \<noteq> []"
      "data_of os pl w (owned_by ?own uid procs) (map snd (owned_by (\<lambda>px. ?own (fst px)) uid (zip procs ?xs))) a"
      using d by (simp_all add: Some)
    with um usages \<open>al_wf ms\<close> show ?thesis by (simp add: from_data_def data_of_def Let_def)
  qed (use e d \<open>al_wf ms\<close> in simp)
qed

end
