(* ===== verification/CollectorBounds.thy ===== *)
theory CollectorBounds
  imports CollectorSums
begin

text \<open>
  Bounds and caching of the collector: percentages stay between 0 and 100, the average of a user never turns into NaN,
  and a scan answers until its time to live has passed.
\<close>

section \<open>The fallback for the CPU usage of the system\<close>

lemma uint_sum_list: "sum_list (map uint ws) < 2 ^ 64 \<Longrightarrow> uint (sum_list ws) = sum_list (map uint (ws :: u64 list))"
proof (induction ws)
  case (Cons w ws)
  have "0 \<le> sum_list (map uint ws)" by (rule sum_list_nonneg) auto
  moreover have n: "0 \<le> uint w" by simp
  moreover have "uint (sum_list ws) = sum_list (map uint ws)"
  proof (rule Cons.IH)
    have "sum_list (map uint ws) \<le> sum_list (map uint (w # ws))" by simp
    then show "sum_list (map uint ws) < 2 ^ 64" using Cons.prems by (rule order.strict_trans1)
  qed
  ultimately show ?case using Cons.prems by (simp add: uint_word_ariths)
qed simp

lemma f64_of_u64_exact: "uint w \<le> 2 ^ 53 \<Longrightarrow> f64_of_u64 w = Fin (of_int (uint w))"
  by (simp add: f64_of_u64_def f64_of_int_exact)

lemma u64_of_f64_exact: "uint w \<le> 2 ^ 53 \<Longrightarrow> u64_of_f64 (f64_of_u64 w) = w"
proof -
  assume w: "uint w \<le> 2 ^ 53"
  have "(of_int (uint w) :: rat) \<le> of_int (2 ^ 53)" using w by (simp only: of_int_le_iff)
  moreover have "(0 :: rat) \<le> of_int (uint w)" by (simp only: of_int_0_le_iff) simp
  moreover from this have low: "(- 9223372036854775808 :: rat) \<le> of_int (uint w)" by (rule order_trans [rotated]) simp
  ultimately show ?thesis
    
    by (simp add: f64_of_u64_exact [OF w] u64_of_f64_def rat_trunc_def word_of_int_uint low del: of_int_uint)
qed

lemma uint_diff: "(u :: u64) \<le> v \<Longrightarrow> uint (v - u) = uint v - uint u"
  by (simp add: uint_minus_simple_alt word_le_def)

lemma uint_le_sum: "w \<in> set ws \<Longrightarrow> uint w \<le> sum_list (map uint (ws :: u64 list))"
  by (intro member_le_sum_list) auto

lemma sum_uint_mono: "list_all2 (\<le>) us vs \<Longrightarrow> sum_list (map uint us) \<le> sum_list (map uint (vs :: u64 list))"
  by (induction rule: list_all2_induct) (auto simp: word_le_def)

text \<open>The share of one counter in the whole grows no faster than the whole.\<close>

lemma sum_uint_gap:
  "list_all2 (\<le>) us vs \<Longrightarrow> i < length us \<Longrightarrow>
     uint (vs ! i) - uint (us ! i) \<le> sum_list (map uint vs) - sum_list (map uint (us :: u64 list))"
proof (induction arbitrary: i rule: list_all2_induct)
  case (Cons u us v vs)
  then show ?case using sum_uint_mono [OF Cons.hyps(2)] by (cases i) (fastforce simp: word_le_def)+
qed simp

lemma times_total_of:
  assumes "length us = 8" "sum_list (map uint us) \<le> 2 ^ 46"
  shows "times_total (times_of us) = sum_list us"
proof -
  have "u64_of_f64 (f64_of_u64 (us ! i)) = us ! i" if "i < 8" for i
    by (rule u64_of_f64_exact) (use uint_le_sum [of "us ! i" us] that assms in simp)
  moreover have "us = [us ! 0, us ! 1, us ! 2, us ! 3, us ! 4, us ! 5, us ! 6, us ! 7]"
    using assms(1) by (auto simp: numeral_eq_Suc length_Suc_conv)
  then have "sum_list us = us ! 0 + us ! 1 + us ! 2 + us ! 3 + us ! 4 + us ! 5 + us ! 6 + us ! 7"
    by (metis (no_types, lifting) add.right_neutral group_cancel.add1 sum_list.Cons sum_list.Nil)
  ultimately show ?thesis by (simp add: times_total_def times_of_def)
qed

text \<open>C34: the CPU usage from /proc/stat is a percentage, for every pair of readings in which no counter decreased.\<close>

theorem fallback_within_100:
  assumes stat: "Option.bind (read_lines os ''/proc/stat'' w) stat_fields = Some vs"
    and prev: "prevCPUStats c = times_of us" "length us = 8"
    and grown: "list_all2 (\<le>) us vs"
    and small: "sum_list (map uint vs) \<le> 2 ^ 46"
  shows "f64_le (Fin 0) (fst (getTotalCPUUsageFallback os w now c)) \<and>
    f64_le (fst (getTotalCPUUsageFallback os w now c)) (Fin 100)"
proof -
  have su: "sum_list (map uint us) \<le> 2 ^ 46" using sum_uint_mono [OF grown] small by simp
  define T where "T = sum_list vs - sum_list us"
  define I where "I = vs ! 3 - us ! 3"
  have le: "sum_list us \<le> sum_list vs"
    using sum_uint_mono [OF grown] uint_sum_list [of us] uint_sum_list [of vs] su small by (simp add: word_le_def)
  have uT: "uint T = sum_list (map uint vs) - sum_list (map uint us)"
    unfolding T_def using uint_diff [OF le] uint_sum_list [of us] uint_sum_list [of vs] su small by simp
  have "us ! 3 \<le> vs ! 3" using grown prev(2) by (simp add: list_all2_conv_all_nth)
  then have uI: "uint I = uint (vs ! 3) - uint (us ! 3)" unfolding I_def by (rule uint_diff)
  have IT: "uint I \<le> uint T" unfolding uI uT using sum_uint_gap [OF grown, of 3] prev(2) by simp
  have idle: "u64_of_f64 (tIdle (times_of us)) = us ! 3"
    using uint_le_sum [of "us ! 3" us] prev(2) su by (simp add: times_of_def u64_of_f64_exact)
  have nn: "0 \<le> sum_list (map uint us)" by (rule sum_list_nonneg) auto
  have T46: "uint T \<le> 2 ^ 46" unfolding uT using small uint_sum_list [of us] nn su by linarith
  define D where "D = T - I"
  have uD: "uint D = uint T - uint I" "0 \<le> uint D" "uint D \<le> uint T"
    unfolding D_def using uint_diff [of I T] IT by (simp_all add: word_le_def)
  have D46: "uint D \<le> 2 ^ 53" using uD(3) T46 by simp
  have m: "f64_mul (f64_of_int 100) (f64_of_u64 D) = Fin (of_int (100 * uint D))"
  proof -
    have "f64_mul (f64_of_int 100) (f64_of_u64 D) = f64_of_int (100 * uint D)"
      unfolding f64_of_u64_exact [OF D46] by (simp add: f64_of_int_exact) (simp add: f64_of_int_def)
    also have "\<dots> = Fin (of_int (100 * uint D))" by (rule f64_of_int_exact) (use uD(2,3) T46 in simp)
    finally show ?thesis .
  qed
  have q: "f64_le (Fin 0) (f64_div (Fin (of_int (100 * uint D))) (f64_of_u64 T)) \<and>
      f64_le (f64_div (Fin (of_int (100 * uint D))) (f64_of_u64 T)) (Fin 100)" if "T \<noteq> 0"
  proof -
    have T0: "0 < uint T" using that by (simp add: uint_0_iff order_less_le)
    have r: "f64_of_rat 0 = Fin 0" "f64_of_rat 100 = Fin 100"
      using f64_of_int_exact [of 0] f64_of_int_exact [of 100] by (simp_all add: f64_of_int_def)
    have pos: "(0 :: rat) < of_int (uint T)" using T0 by (simp only: of_int_0_less_iff)
    have "(of_int (100 * uint D) :: rat) \<le> of_int (100 * uint T)" using uD(3) by (simp only: of_int_le_iff)
    then have "(of_int (100 * uint D) :: rat) / of_int (uint T) \<le> 100"
      using pos by (simp only: pos_divide_le_eq of_int_mult of_int_numeral)
    moreover have "0 \<le> (of_int (100 * uint D) :: rat) / of_int (uint T)" using pos uD(2) by (simp del: of_int_uint)
    ultimately show ?thesis
      using f64_of_rat_mono [of 0 "of_int (100 * uint D) / of_int (uint T)"]
        f64_of_rat_mono [of "of_int (100 * uint D) / of_int (uint T)" 100] pos T46
      by (simp add: f64_of_u64_exact r del: of_int_uint)
  qed
  have "fst (getTotalCPUUsageFallback os w now c) = Fin 0 \<or>
      T \<noteq> 0 \<and> fst (getTotalCPUUsageFallback os w now c) = f64_div (Fin (of_int (100 * uint D))) (f64_of_u64 T)"
    using stat by (auto simp: getTotalCPUUsageFallback_def Let_def prev times_total_of [OF prev(2) su] idle m
        simp flip: T_def I_def D_def)
  with q show ?thesis by auto
qed


text \<open>The average of a process since its start is a percentage of one core by construction.\<close>

lemma process_average_bounds:
  assumes "getProcessCPUAverage pl w pid uptime \<noteq> NaN"
  shows "f64_le (Fin 0) (getProcessCPUAverage pl w pid uptime) \<and> f64_le (getProcessCPUAverage pl w pid uptime) (Fin 100)"
proof -
  have h: "f64_of_int 100 = Fin 100" using f64_of_int_exact [of 100] by simp
  show ?thesis
    using assms f64_not_le_lt [of "Fin 0"] f64_not_le_lt [of _ "Fin 100"]
    by (auto simp: getProcessCPUAverage_def Let_def h f64_gt_def split: option.splits if_splits)
qed

section \<open>Caching\<close>

lemma getFromCache_set:
  "getFromCache key ttl now' (setInCache now key v c) = (if time_Sub now' now > ttl then None else Some v)"
  by (simp add: getFromCache_def setInCache_def Let_def)

lemma setInCache_cfg [simp]: "col_cfg (setInCache now key v c) = col_cfg c"
  by (simp add: setInCache_def evict_cache_def Let_def)

lemma scan_cfg:
  assumes "Processes pl w = Some procs" "getFromCache ''all_user_metrics'' (metricsCacheTTL c) now c = None"
    "Collector_GetAllUserMetrics rx os pl w now c = (ms, c')"
  obtains c2 where "c' = setInCache now ''all_user_metrics'' (CMetrics ms) c2" "col_cfg c2 = col_cfg c"
proof -
  obtain t c1 where f: "fold (scan_figures pl w now (getSystemUptimeSeconds os w)) procs ([], c) = (t, c1)"
    by (metis surj_pair)
  let ?t1 = "merge_io (isMonitoredUserUID (col_cfg c1)) (fold (scan_io os w) procs []) t"
  obtain ms0 c2 where g: "fold (finish_user rx os pl w now) ?t1 ([], c1) = (ms0, c2)" by (metis surj_pair)
  have c': "ms0 = ms" "c' = setInCache now ''all_user_metrics'' (CMetrics ms) c2"
    using assms by (auto simp: Collector_GetAllUserMetrics_def f g)
  have c1: "col_cfg c1 = col_cfg c" using f by (simp add: scan_figures_fold) (metis cpu_run_cfg)
  have "al_wf t" using f unfolding scan_figures_fold
    by (auto intro!: fold_keeps [of al_wf] simp: each_owner_def split: option.split)
  then have "al_wf ?t1" by (rule merge_io_wf)
  from finish_fold [OF g this] c1 c' that show ?thesis by simp
qed

lemma scan_cached:
  assumes "Processes pl w = Some procs" "getFromCache ''all_user_metrics'' (metricsCacheTTL c) now c = None"
    "Collector_GetAllUserMetrics rx os pl w now c = (ms, c')"
  shows "Collector_GetAllUserMetrics rx os' pl' w' now' c' =
     (if time_Sub now' now \<le> metricsCacheTTL c then (ms, c') else Collector_GetAllUserMetrics rx os' pl' w' now' c') \<and>
    (getFromCache ''all_user_metrics'' (metricsCacheTTL (Collector_UpdateConfig cfg c')) now'
       (Collector_UpdateConfig cfg c') = None)"
proof -
  obtain c2 where c': "c' = setInCache now ''all_user_metrics'' (CMetrics ms) c2" "col_cfg c2 = col_cfg c"
    using scan_cfg [OF assms] .
  then have ttl: "metricsCacheTTL c' = metricsCacheTTL c" by (simp add: metricsCacheTTL_def)
  have "Collector_GetAllUserMetrics rx os' pl' w' now' c' = (ms, c')" if "time_Sub now' now \<le> metricsCacheTTL c"
    unfolding Collector_GetAllUserMetrics_def ttl
    using that by (simp add: c'(1) getFromCache_set)
  then show ?thesis by (simp add: Collector_UpdateConfig_def ClearCache_def getFromCache_def)
qed

section \<open>The moving average\<close>

text \<open>Every scan of a user moves its average; nothing but a new scan of the user changes or drops it.\<close>

lemma ema_kept:
  "emaValues (cleanupCache now c) = emaValues c" "emaValues (ClearCache c) = emaValues c"
  "emaValues (Collector_UpdateConfig cfg c) = emaValues c"
  by (simp_all add: cleanupCache_def ClearCache_def Collector_UpdateConfig_def Let_def)

lemma f64_of_rat_nonneg: "0 \<le> x \<Longrightarrow> f64_le (Fin 0) (f64_of_rat x)"
  using f64_of_rat_mono [of 0 x] f64_of_int_exact [of 0] by (simp add: f64_of_int_def)

lemma nonneg_cases: "f64_le (Fin 0) a \<longleftrightarrow> a = PInf \<or> (\<exists>x \<ge> 0. a = Fin x)"
  by (cases a) auto

lemma f64_add_nonneg: "f64_le (Fin 0) a \<Longrightarrow> f64_le (Fin 0) b \<Longrightarrow> f64_le (Fin 0) (f64_add a b)"
  by (auto simp: nonneg_cases [of a] nonneg_cases [of b] f64_of_rat_nonneg)

lemma f64_mul_nonneg: "0 < x \<Longrightarrow> f64_le (Fin 0) b \<Longrightarrow> f64_le (Fin 0) (f64_mul (Fin x) b)"
  by (auto simp: nonneg_cases [of b] f64_of_rat_nonneg f64_inf_def)

lemma ema_nonneg:
  assumes "\<And>e. emaValues c uid = Some e \<Longrightarrow> f64_le (Fin 0) e" "f64_le (Fin 0) x"
  shows "f64_le (Fin 0) (fst (calculateEMA uid x c))"
proof -
  have "f64_of_rat (3 / 10) = Fin (5404319552844595 / 18014398509481984)" by code_simp
  moreover have "f64_of_rat (7 / 10) = Fin (3152519739159347 / 4503599627370496)" by code_simp
  ultimately show ?thesis
    using assms by (auto simp: calculateEMA_def Let_def split: option.split
        intro!: f64_add_nonneg f64_mul_nonneg)
qed

end
