(* ===== verification/AppFrames.thy ===== *)
theory AppFrames
  imports App ManagerSpec CollectorBounds
begin

text \<open>
  What the components leave alone when they run inside the application: no operation of the manager changes its
  configuration, no getter of the collector changes the collector's, and what the collector caches of the users was decided
  under the configuration it holds.
\<close>

section \<open>The configuration of the manager\<close>

lemma same_core_cfg: "same_core m m' \<Longrightarrow> m_cfg m' = m_cfg m"
  by (rule same_core_fields)

lemma m_cfg_blocks [simp]:
  "m_cfg (snd (call f m)) = m_cfg m" "m_cfg (perform f m) = m_cfg m" "m_cfg (emit e m) = m_cfg m"
  "m_cfg (emit_prom e m) = m_cfg m" "m_cfg (run_task ops rx mc t m) = m_cfg m" "m_cfg (unwatch_users uids m) = m_cfg m"
  "m_cfg (spawn ts m) = m_cfg m" "m_cfg (wait_tasks ops rx mc m) = m_cfg m" "m_cfg (watch_user ops uid p m) = m_cfg m"
  "m_cfg (notifyUserLimited cfg uid n s m) = m_cfg m" "m_cfg (snd (readd_users ops p uids m)) = m_cfg m"
  "m_cfg (snd (restore_users ops rx mc cfg uids m)) = m_cfg m" "m_cfg (updatePrometheusMetrics ops mc s m) = m_cfg m"
  "m_cfg (writeDatabaseMetrics mc s m) = m_cfg m"
  by (rule same_core_cfg, simp)+

lemma m_cfg_call_eq: "call f m = (e, m') \<Longrightarrow> m_cfg m' = m_cfg m"
  using m_cfg_blocks(1) [of f m] by simp

lemma m_cfg_ensure_shared [simp]: "m_cfg (snd (ensure_shared ops cfg s m)) = m_cfg m"
  by (auto simp: ensure_shared_def Let_def dest!: m_cfg_call_eq split: prod.split sum.split option.split)

lemma m_cfg_limit_users [simp]: "m_cfg (snd (snd (limit_users ops cfg mc s uids m))) = m_cfg m"
proof (induction uids arbitrary: m)
  case (Cons uid uids)
  then show ?case
    by (auto simp: Let_def split_beta dest!: m_cfg_call_eq split: sum.split)
qed simp

lemma m_cfg_activate [simp]: "m_cfg (snd (activateLimits ops now mc s m)) = m_cfg m"
proof -
  let ?m2 = "(emit_prom IncrementLimitsActivated m)\<lparr>activeUsers := drop_users (filter (\<lambda>uid. uid \<notin> set (keys (UserCPUUsage s)))
     (activeUsers (emit_prom IncrementLimitsActivated m))) (activeUsers (emit_prom IncrementLimitsActivated m))\<rparr>"
  have "m_cfg ?m2 = m_cfg m" by simp
  moreover obtain e m3 where es: "ensure_shared ops (m_cfg m) s ?m2 = (e, m3)" by (metis surj_pair)
  moreover have "m_cfg m3 = m_cfg ?m2" by (metis m_cfg_ensure_shared es snd_conv)
  moreover obtain e' n m4 where lu: "limit_users ops (m_cfg m) mc s (EligibleUsers s) m3 = (e', n, m4)" by (metis surj_pair)
  moreover have "m_cfg m4 = m_cfg m3" by (metis m_cfg_limit_users lu snd_conv)
  ultimately show ?thesis by (simp add: activateLimits_def Let_def split: option.split)
qed

lemma m_cfg_deactivate [simp]: "m_cfg (snd (deactivateLimits ops rx mc m)) = m_cfg m"
  by (simp add: deactivateLimits_def Let_def split_beta)

lemma m_cfg_release [simp]: "m_cfg (releaseIdleUsers ops now s m) = m_cfg m"
  by (simp add: releaseIdleUsers_def Let_def split_beta)

lemma m_cfg_collect [simp]: "m_cfg (snd (collectSystemMetricsWithIOState b now mc m)) = m_cfg m"
  by (simp add: collectSystemMetricsWithIOState_def split: prod.split)

lemma m_cfg_fold: "(\<And>x m. m_cfg (f x m) = m_cfg m) \<Longrightarrow> m_cfg (fold f xs m) = m_cfg m"
  by (induction xs arbitrary: m) simp_all

lemma m_cfg_stages [simp]:
  "m_cfg (stageIORemediation ops cfg now mc m) = m_cfg m" "m_cfg (apply_pattern ops cfg now mc en m) = m_cfg m"
  "m_cfg (revertPSIBoosts ops now m) = m_cfg m" "m_cfg (stageRevertPSIBoosts ops now m) = m_cfg m"
  "m_cfg (recordControlCycle now d r s e m) = m_cfg m"
proof -
  show "m_cfg (stageIORemediation ops cfg now mc m) = m_cfg m" by (simp add: stageIORemediation_def split_beta)
  show "m_cfg (apply_pattern ops cfg now mc en m) = m_cfg m"
    by (simp add: apply_pattern_def Let_def split_beta split: option.split bool.split)
  show 1: "m_cfg (revertPSIBoosts ops now m) = m_cfg m" for m by (simp add: revertPSIBoosts_def Let_def m_cfg_fold)
  show "m_cfg (stageRevertPSIBoosts ops now m) = m_cfg m" by (simp add: stageRevertPSIBoosts_def 1 split: option.split)
  show "m_cfg (recordControlCycle now d r s e m) = m_cfg m" by (simp add: recordControlCycle_def addControlHistoryEntry_def Let_def)
qed

lemma m_cfg_after [simp]: "m_cfg (after_decision ops cfg ck mc m) = m_cfg m"
  by (simp add: after_decision_def stageWorkloadPatternDetection_def Let_def m_cfg_fold)

lemma m_cfg_execute [simp]: "m_cfg (snd (executeDecision ops rx now mc d s m)) = m_cfg m"
  by (cases d) (simp_all add: executeDecision_def)

lemma m_cfg_makeDecision: "makeDecision cfg now mc s m = (d, m') \<Longrightarrow> m_cfg m' = m_cfg (m :: 'c manager)"
  by (auto simp: makeDecision_def decide_active_def decide_inactive_def reset_trackers_def count_samples_def io_window_def Let_def
      split: prod.splits if_splits)

lemma m_cfg_cycle [simp]: "m_cfg (snd (RunControlCycleWithTrigger ops rx ck mc trigger m)) = m_cfg m"
proof -
  let ?m1 = "emit_prom (RecordControlCycleTrigger (if trigger = [] then ''manual'' else trigger)) m"
  obtain s m2 where c: "collectSystemMetricsWithIOState True (ck_now ck) mc ?m1 = (s, m2)" by (metis surj_pair)
  let ?m4 = "writeDatabaseMetrics mc s (updatePrometheusMetrics ops mc s m2)"
  obtain d r m5 where d: "makeDecision (m_cfg ?m4) (ck_now ck) mc s ?m4 = ((d, r), m5)" by (metis surj_pair)
  obtain e m6 where x: "executeDecision ops rx (ck_now ck) mc d s m5 = (e, m6)" by (metis surj_pair)
  have "m_cfg m2 = m_cfg m" using m_cfg_collect [of True "ck_now ck" mc ?m1] by (simp add: c)
  moreover have "m_cfg m5 = m_cfg ?m4" by (rule m_cfg_makeDecision [OF d])
  moreover have "m_cfg m6 = m_cfg m5" using m_cfg_execute [of ops rx "ck_now ck" mc d s m5] by (simp add: x)
  ultimately show ?thesis
    using d by (simp add: RunControlCycleWithTrigger_def Let_def c x split: option.split)
qed

lemma m_cfg_operations [simp]:
  "m_cfg (RunMetricsRefresh ops now mc m) = m_cfg m" "m_cfg (snd (ForceActivateLimits ops now mc m)) = m_cfg m"
  "m_cfg (snd (ForceDeactivateLimits ops rx mc m)) = m_cfg m" "m_cfg (OnUserPSIEvent ops now ev m) = m_cfg m"
  "m_cfg (snd (ManagerCleanup ops rx mc m)) = m_cfg m"
proof -
  obtain s m1 where c: "collectSystemMetricsWithIOState False now mc m = (s, m1)" by (metis surj_pair)
  show "m_cfg (RunMetricsRefresh ops now mc m) = m_cfg m"
    using m_cfg_collect [of False now mc m] by (simp add: RunMetricsRefresh_def c)
  obtain s m1 where c: "collectSystemMetricsWithIOState True now mc m = (s, m1)" by (metis surj_pair)
  show "m_cfg (snd (ForceActivateLimits ops now mc m)) = m_cfg m"
    using m_cfg_collect [of True now mc m] by (simp add: ForceActivateLimits_def c)
  show "m_cfg (snd (ForceDeactivateLimits ops rx mc m)) = m_cfg m"
    using m_cfg_deactivate [of ops rx mc m] by (simp add: ForceDeactivateLimits_def split_beta)
  show "m_cfg (OnUserPSIEvent ops now ev m) = m_cfg m"
    by (auto simp: OnUserPSIEvent_def dest: m_cfg_call_eq split: prod.split option.split)
  obtain e m2 where d: "(if limitsActive (wait_tasks ops rx mc m) then deactivateLimits ops rx mc (wait_tasks ops rx mc m)
      else (None, wait_tasks ops rx mc m)) = (e, m2)" by (metis surj_pair)
  have "m_cfg m2 = m_cfg (snd (if limitsActive (wait_tasks ops rx mc m) then deactivateLimits ops rx mc (wait_tasks ops rx mc m)
      else (None, wait_tasks ops rx mc m)))" by (simp only: d snd_conv)
  then have "m_cfg m2 = m_cfg m" by simp
  then show "m_cfg (snd (ManagerCleanup ops rx mc m)) = m_cfg m"
    by (auto simp: ManagerCleanup_def Let_def d dest: m_cfg_call_eq split: prod.split option.split)
qed

section \<open>What the collector decided of the users\<close>

text \<open>
  Every entry was decided under the configuration \<open>cfg\<close>: a monitored user under a name of his, limited if the filters say so.
  \<open>N uid n\<close>: the user may be called \<open>n\<close>; \<open>name_of\<close> are the names the look-ups of the collector can find.
\<close>

definition name_of :: "'w os \<Rightarrow> 'w gopsutil \<Rightarrow> int \<Rightarrow> string \<Rightarrow> bool" where
  "name_of os pl uid n \<longleftrightarrow>
     LookupId pl (Itoa uid) = Some n \<or> (\<exists>w. getUsernameFromPasswd os w uid = Some n) \<or> n = Itoa uid"

definition admitted :: "(int \<Rightarrow> string \<Rightarrow> bool) \<Rightarrow> regexp_lib \<Rightarrow> config \<Rightarrow> int \<times> user_metrics \<Rightarrow> bool" where
  "admitted N rx cfg en \<longleftrightarrow>
     (case en of (uid, um) \<Rightarrow>
        isMonitoredUserUID cfg uid \<and> UID um = uid \<and> N uid (Username um) \<and> IsLimited um = IsUserWhitelisted rx cfg (Username um))"

definition decided :: "(int \<Rightarrow> string \<Rightarrow> bool) \<Rightarrow> regexp_lib \<Rightarrow> config \<Rightarrow> collector \<Rightarrow> bool" where
  "decided N rx cfg c \<longleftrightarrow> col_cfg c = cfg \<and> list_all (\<lambda>(uid, n). N uid n) (usernameCache c) \<and>
     (\<forall>ms. (''all_user_metrics'', CMetrics ms) \<in> set (cache c) \<longrightarrow> list_all (admitted N rx cfg) ms)"

lemma decided_same:
  "col_cfg c' = col_cfg c \<Longrightarrow> cache c' = cache c \<Longrightarrow> usernameCache c' = usernameCache c \<Longrightarrow> decided N rx cfg c' = decided N rx cfg c"
  by (simp add: decided_def)

lemma decided_less:
  "decided N rx cfg c \<Longrightarrow> col_cfg c' = col_cfg c \<Longrightarrow> set (cache c') \<subseteq> set (cache c) \<Longrightarrow>
   set (usernameCache c') \<subseteq> set (usernameCache c) \<Longrightarrow> decided N rx cfg c'"
  by (auto simp: decided_def list_all_iff)

lemma decided_evict: "decided N rx cfg c \<Longrightarrow> decided N rx cfg (evict_cache now c)"
  by (rule decided_less [of N rx cfg c]) (auto simp: evict_cache_def Let_def al_delete_def)

lemma decided_set:
  assumes "decided N rx cfg c" "\<And>ms. key = ''all_user_metrics'' \<Longrightarrow> v = CMetrics ms \<Longrightarrow> list_all (admitted N rx cfg) ms"
  shows "decided N rx cfg (setInCache now key v c)"
  using decided_evict [OF assms(1), of now] assms(2)
  by (auto simp: decided_def setInCache_def Let_def dest!: al_update_member)

lemma decided_stored:
  "decided N rx cfg c \<Longrightarrow> key \<noteq> ''all_user_metrics'' \<Longrightarrow> decided N rx cfg (snd (stored mk now key v c))"
  by (simp add: stored_def decided_set)

lemma decided_cached_or: "decided N rx cfg c \<Longrightarrow> decided N rx cfg (snd (rest c)) \<Longrightarrow> decided N rx cfg (snd (cached_or as key ttl now rest c))"
  by (simp add: cached_or_def split: option.split)

lemma decided_cores: "decided N rx cfg c \<Longrightarrow> decided N rx cfg (snd (Collector_GetTotalCores os pl w now c))"
  by (simp add: Collector_GetTotalCores_def decided_cached_or decided_stored)

lemma decided_fallback: "decided N rx cfg c \<Longrightarrow> decided N rx cfg (snd (getTotalCPUUsageFallback os w now c))"
proof -
  assume d: "decided N rx cfg c"
  have c1: "decided N rx cfg (c\<lparr>prevCPUStats := x\<rparr>)" for x using d by (subst decided_same) simp_all
  then show ?thesis using d
    by (auto simp: getTotalCPUUsageFallback_def Let_def intro!: decided_set c1 split: option.split)
qed

lemma decided_cpu: "decided N rx cfg c \<Longrightarrow> decided N rx cfg (snd (Collector_GetTotalCPUUsage os pl w now c))"
  using decided_fallback [of N rx cfg c os w now]
  by (auto simp: Collector_GetTotalCPUUsage_def split_beta intro!: decided_cached_or decided_stored split: option.split list.split)

lemma decided_memory:
  assumes "decided N rx cfg c"
  shows "decided N rx cfg (snd (Collector_GetMemoryUsage os pl w now c))"
    "decided N rx cfg (snd (Collector_GetTotalMemoryMB os pl w now c))"
    "decided N rx cfg (snd (Collector_GetCachedMemoryMB os pl w now c))"
  using assms
  by (auto simp: Collector_GetMemoryUsage_def Collector_GetTotalMemoryMB_def Collector_GetCachedMemoryMB_def
      intro!: decided_cached_or decided_stored split: option.split)

lemma decided_load: "decided N rx cfg c \<Longrightarrow> decided N rx cfg (snd (Collector_IsSystemUnderLoad os pl w now c))"
proof -
  assume d: "decided N rx cfg c"
  obtain r c1 where r: "Collector_GetTotalCores os pl w now c = (r, c1)" by (metis surj_pair)
  have "decided N rx cfg c1" using decided_cores [OF d, of os pl w now] by (simp add: r)
  then show ?thesis using d
    by (auto simp: Collector_IsSystemUnderLoad_def r intro!: decided_cached_or decided_stored split: option.split)
qed

section \<open>The scan\<close>

lemma username_cache [simp]: "cache (snd (getUsername os pl w now uid c)) = cache c"
  by (auto simp: getUsername_def cacheUsername_def evict_username_def Let_def split: option.split)

lemma ema_cache [simp]: "cache (snd (calculateEMA uid x c)) = cache c"
  by (simp add: calculateEMA_def Let_def)

lemma ema_names [simp]: "usernameCache (snd (calculateEMA uid x c)) = usernameCache c"
  by (simp add: calculateEMA_def Let_def)

lemma process_cpu_names [simp]: "usernameCache (snd (getProcessCPUUsageSimpleWithHandle pl w now pid c)) = usernameCache c"
  by (auto simp: getProcessCPUUsageSimpleWithHandle_def store_sample_def evict_process_def Let_def
      split: option.split list.split)

lemma process_cpu_cache [simp]: "cache (snd (getProcessCPUUsageSimpleWithHandle pl w now pid c)) = cache c"
  by (auto simp: getProcessCPUUsageSimpleWithHandle_def store_sample_def evict_process_def Let_def
      split: option.split list.split)

text \<open>A look-up answers a name the user may have, and caches no other.\<close>

lemma names_cacheUsername:
  "list_all (\<lambda>(uid, n). N uid n) (usernameCache c) \<Longrightarrow> N uid n \<Longrightarrow>
   list_all (\<lambda>(uid, n). N uid n) (usernameCache (cacheUsername now uid n c))"
  by (auto simp: cacheUsername_def evict_username_def Let_def list_all_iff al_delete_def dest!: al_update_member)

lemma username_named:
  assumes "list_all (\<lambda>(uid, n). name_of os pl uid n) (usernameCache c)"
  shows "name_of os pl uid (fst (getUsername os pl w now uid c)) \<and>
    list_all (\<lambda>(uid, n). name_of os pl uid n) (usernameCache (snd (getUsername os pl w now uid c)))"
proof -
  have cached: "name_of os pl uid n" if "getCachedUsername now uid c = Some n" for n
    using that assms by (auto simp: getCachedUsername_def list_all_iff split: option.splits if_splits dest!: map_of_SomeD)
  have look: "LookupId pl (Itoa uid) = Some n \<Longrightarrow> name_of os pl uid n"
    "getUsernameFromPasswd os w uid = Some n \<Longrightarrow> name_of os pl uid n" "name_of os pl uid (Itoa uid)" for n
    by (auto simp: name_of_def)
  show ?thesis using assms cached look
    by (auto simp: getUsername_def Let_def intro!: names_cacheUsername split: option.split)
qed

lemma decided_username: "decided (name_of os pl) rx cfg c \<Longrightarrow> decided (name_of os pl) rx cfg (snd (getUsername os pl w now uid c))"
  using username_named [of os pl c uid w now] by (simp add: decided_def)

text \<open>The data of monitored users only.\<close>

definition monitored_data :: "config \<Rightarrow> (int \<times> user_data) list \<Rightarrow> bool" where
  "monitored_data cfg t \<longleftrightarrow> (\<forall>uid \<in> set (keys t). isMonitoredUserUID cfg uid)"

lemma monitored_at_user: "monitored_data cfg t \<Longrightarrow> isMonitoredUserUID cfg uid \<Longrightarrow> monitored_data cfg (at_user uid f t)"
  by (auto simp: monitored_data_def at_user_def dest!: al_update_member)

lemma monitored_merge: "monitored_data cfg t \<Longrightarrow> (\<And>uid. uid \<in> set (keys ioData) \<Longrightarrow> keep uid \<Longrightarrow> isMonitoredUserUID cfg uid) \<Longrightarrow>
    monitored_data cfg (merge_io keep ioData t)"
proof (induction ioData arbitrary: t)
  case (Cons x xs)
  then show ?case by (cases x) (auto simp: merge_io_def monitored_at_user)
qed (simp add: merge_io_def)

lemma scan_figures_decided:
  assumes "monitored_data cfg (fst acc) \<and> decided N rx cfg (snd acc)"
  shows "monitored_data cfg (fst (scan_figures pl w now uptime p acc)) \<and> decided N rx cfg (snd (scan_figures pl w now uptime p acc))"
proof -
  obtain t c pid us where [simp]: "acc = (t, c)" "p = (pid, us)" by (metis surj_pair)
  obtain x c1 where x: "getProcessCPUUsageSimpleWithHandle pl w now pid c = (x, c1)" by (metis surj_pair)
  have "decided N rx cfg c1"
    using assms decided_same [of c1 c N rx cfg] process_cpu_cfg [of pl w now pid c] process_cpu_cache [of pl w now pid c]
      process_cpu_names [of pl w now pid c]
    by (simp add: x)
  with assms show ?thesis
    by (auto simp: scan_figures_def x monitored_at_user decided_def split: list.split)
qed

lemma scan_entry_decided:
  assumes "monitored_data cfg (fst (fst acc)) \<and> monitored_data cfg (snd (fst acc)) \<and> decided N rx cfg (snd acc)"
  shows "monitored_data cfg (fst (fst (scan_entry os pl w now uptime e acc))) \<and>
    monitored_data cfg (snd (fst (scan_entry os pl w now uptime e acc))) \<and> decided N rx cfg (snd (scan_entry os pl w now uptime e acc))"
proof -
  obtain t io c name dir where [simp]: "acc = ((t, io), c)" "e = (name, dir)" by (metis surj_pair)
  have d: "decided N rx cfg c1" if "getProcessCPUUsageSimple pl w now pid c = (x, c1)" for pid x c1
  proof (cases "ps_New pl (int32 pid) w")
    case True
    with that have "getProcessCPUUsageSimpleWithHandle pl w now (int32 pid) c = (x, c1)" by (simp add: getProcessCPUUsageSimple_def)
    then have "col_cfg c1 = col_cfg c" "cache c1 = cache c" "usernameCache c1 = usernameCache c"
      using process_cpu_cfg [of pl w now "int32 pid" c] process_cpu_cache [of pl w now "int32 pid" c]
        process_cpu_names [of pl w now "int32 pid" c] by simp_all
    with assms show ?thesis by (simp add: decided_def)
  qed (use that assms in \<open>simp add: getProcessCPUUsageSimple_def\<close>)
  from assms have "col_cfg c = cfg" by (simp add: decided_def)
  with assms d show ?thesis
    by (auto simp: scan_entry_def monitored_at_user split: option.split prod.split)
qed

lemma finish_decided:
  assumes "list_all (admitted (name_of os pl) rx cfg) ms" "decided (name_of os pl) rx cfg c" "monitored_data cfg t"
    "fold (finish_user rx os pl w now) t (ms, c) = (ms', c')"
  shows "list_all (admitted (name_of os pl) rx cfg) ms' \<and> decided (name_of os pl) rx cfg c'"
  using assms
proof (induction t arbitrary: ms c)
  case (Cons e t)
  obtain u d where e: "e = (u, d)" by (cases e)
  obtain n c1 where n: "getUsername os pl w now u c = (n, c1)" by (metis surj_pair)
  obtain x c2 where x: "calculateEMA u (ud_cpuUsage d) c1 = (x, c2)" by (metis surj_pair)
  have "decided (name_of os pl) rx cfg c1" using decided_username [OF Cons.prems(2), of w now u] by (simp add: n)
  then have c2: "decided (name_of os pl) rx cfg c2"
    using decided_same [of c2 c1 "name_of os pl" rx cfg] ema_cfg [of u "ud_cpuUsage d" c1] ema_cache [of u "ud_cpuUsage d" c1]
      ema_names [of u "ud_cpuUsage d" c1] by (simp add: x)
  then have cfg: "col_cfg c2 = cfg" by (simp add: decided_def)
  have "name_of os pl u n" using username_named [of os pl c u w now] Cons.prems(2) by (simp add: n decided_def)
  then have "admitted (name_of os pl) rx cfg (u, make_metrics rx cfg u n x d)"
    using Cons.prems(3) by (simp add: admitted_def make_metrics_def monitored_data_def e)
  then have ms: "list_all (admitted (name_of os pl) rx cfg) (al_update u (make_metrics rx cfg u n x d) ms)"
    using Cons.prems(1) by (auto simp: list_all_iff dest!: al_update_member)
  have "finish_user rx os pl w now e (ms, c) = (al_update u (make_metrics rx cfg u n x d) ms, c2)"
    by (simp add: e finish_user_def n x cfg)
  with Cons.prems(4)
  have "fold (finish_user rx os pl w now) t (al_update u (make_metrics rx cfg u n x d) ms, c2) = (ms', c')" by simp
  with Cons.IH [OF ms c2] Cons.prems(3) show ?case by (simp add: monitored_data_def)
qed simp

text \<open>So every user the collector reports was decided under its configuration, cached or not.\<close>

lemma table_decided:
  assumes "decided (name_of os pl) rx cfg c" "fold (scan_figures pl w now up) procs ([], c) = (t, c1)"
    "fold (finish_user rx os pl w now) (merge_io (isMonitoredUserUID (col_cfg c1)) ioData t) ([], c1) = (ms, c2)"
  shows "list_all (admitted (name_of os pl) rx cfg) ms \<and> decided (name_of os pl) rx cfg c2"
proof -
  have "monitored_data cfg (fst (t, c1)) \<and> decided (name_of os pl) rx cfg (snd (t, c1))"
    unfolding assms(2) [symmetric]
    by (rule fold_keeps [where P = "\<lambda>acc. monitored_data cfg (fst acc) \<and> decided (name_of os pl) rx cfg (snd acc)"])
      (use assms(1) in \<open>simp add: monitored_data_def\<close>, rule scan_figures_decided)
  then have s: "monitored_data cfg t" "decided (name_of os pl) rx cfg c1" by simp_all
  then have "monitored_data cfg (merge_io (isMonitoredUserUID (col_cfg c1)) ioData t)"
    by (intro monitored_merge) (simp_all add: decided_def)
  from finish_decided [OF _ s(2) this assms(3)] show ?thesis by simp
qed

lemma fallback_decided:
  assumes "decided (name_of os pl) rx cfg c" "getAllUserMetricsFallback rx os pl w now c = (ms, c')"
  shows "list_all (admitted (name_of os pl) rx cfg) ms \<and> decided (name_of os pl) rx cfg c'"
proof (cases "ReadDir os ''/proc'' w")
  case (Inr entries)
  obtain t io c1 where f: "fold (scan_entry os pl w now (getSystemUptimeSeconds os w)) entries (([], []), c) = ((t, io), c1)"
    by (metis surj_pair)
  have "monitored_data cfg (fst (fst ((t, io), c1))) \<and> monitored_data cfg (snd (fst ((t, io), c1))) \<and> decided (name_of os pl) rx cfg (snd ((t, io), c1))"
    unfolding f [symmetric]
    by (rule fold_keeps [where P = "\<lambda>acc. monitored_data cfg (fst (fst acc)) \<and> monitored_data cfg (snd (fst acc)) \<and> decided (name_of os pl) rx cfg (snd acc)"])
      (use assms(1) in \<open>simp add: monitored_data_def\<close>, rule scan_entry_decided)
  then have s: "monitored_data cfg t" "monitored_data cfg io" "decided (name_of os pl) rx cfg c1" by simp_all
  then have m: "monitored_data cfg (merge_io (\<lambda>_. True) io t)" by (intro monitored_merge) (auto simp: monitored_data_def)
  have "fold (finish_user rx os pl w now) (merge_io (\<lambda>_. True) io t) ([], c1) = (ms, c')"
    using assms(2) unfolding getAllUserMetricsFallback_def Inr sum.case f prod.case .
  from finish_decided [OF _ s(3) m this] show ?thesis by simp
qed (use assms in \<open>simp add: getAllUserMetricsFallback_def\<close>)

lemma all_decided:
  assumes "decided (name_of os pl) rx cfg c" "Collector_GetAllUserMetrics rx os pl w now c = (ms, c')"
  shows "list_all (admitted (name_of os pl) rx cfg) ms \<and> decided (name_of os pl) rx cfg c'"
proof -
  let ?scan = "case Processes pl w of
       None \<Rightarrow> getAllUserMetricsFallback rx os pl w now c
     | Some procs \<Rightarrow>
         (case fold (scan_figures pl w now (getSystemUptimeSeconds os w)) procs ([], c) of
            (t, c1) \<Rightarrow>
              (let ioData = fold (scan_io os w) procs [];
                   t1 = merge_io (isMonitoredUserUID (col_cfg c1)) ioData t;
                   (ms, c2) = fold (finish_user rx os pl w now) t1 ([], c1)
               in (ms, setInCache now ''all_user_metrics'' (CMetrics ms) c2)))"
  have miss: "list_all (admitted (name_of os pl) rx cfg) ms \<and> decided (name_of os pl) rx cfg c'" if s: "?scan = (ms, c')"
  proof (cases "Processes pl w")
    case None
    with s fallback_decided [OF assms(1)] show ?thesis by simp
  next
    case (Some procs)
    obtain t c1 where f: "fold (scan_figures pl w now (getSystemUptimeSeconds os w)) procs ([], c) = (t, c1)" by (metis surj_pair)
    obtain ms1 c2 where g: "fold (finish_user rx os pl w now)
        (merge_io (isMonitoredUserUID (col_cfg c1)) (fold (scan_io os w) procs []) t) ([], c1) = (ms1, c2)" by (metis surj_pair)
    have "ms1 = ms" "c' = setInCache now ''all_user_metrics'' (CMetrics ms) c2"
      using s unfolding Some option.case f prod.case Let_def g by auto
    with table_decided [OF assms(1) f g] show ?thesis by (auto intro: decided_set)
  qed
  have hit: "list_all (admitted (name_of os pl) rx cfg) ms'" if "getFromCache ''all_user_metrics'' (metricsCacheTTL c) now c = Some (CMetrics ms')" for ms'
    using assms(1) that by (auto simp: getFromCache_def decided_def split: option.splits if_splits dest!: map_of_SomeD)
  show ?thesis
  proof (cases "getFromCache ''all_user_metrics'' (metricsCacheTTL c) now c")
    case None
    show ?thesis by (rule miss) (use assms(2) in \<open>simp only: Collector_GetAllUserMetrics_def None option.case\<close>)
  next
    case (Some v)
    show ?thesis
    proof (cases v)
      case (CMetrics ms')
      with assms(2) Some have "ms' = ms" "c' = c" by (simp_all add: Collector_GetAllUserMetrics_def)
      with hit CMetrics Some assms(1) show ?thesis by simp
    qed (rule miss; use assms(2) Some in \<open>simp only: Collector_GetAllUserMetrics_def option.case cached.case\<close>)+
  qed
qed

lemma decided_from_metrics:
  assumes "decided (name_of os pl) rx cfg c" "key \<noteq> ''all_user_metrics''"
  shows "decided (name_of os pl) rx cfg (snd (from_metrics as mk key f (Collector_GetAllUserMetrics rx os pl w now) now c))"
proof -
  obtain ms c1 where a: "Collector_GetAllUserMetrics rx os pl w now c = (ms, c1)" by (metis surj_pair)
  from all_decided [OF assms(1) a] assms show ?thesis
    by (simp add: from_metrics_def a decided_cached_or decided_stored)
qed

lemma decided_limited: "decided (name_of os pl) rx cfg c \<Longrightarrow> decided (name_of os pl) rx cfg (snd (Collector_GetLimitedUsers rx os pl w now c))"
  by (simp add: Collector_GetLimitedUsers_def decided_from_metrics)

lemma decided_cleanup: "decided N rx cfg c \<Longrightarrow> decided N rx cfg (cleanupCache now c)"
  by (rule decided_less [of N rx cfg c]) (auto simp: cleanupCache_def Let_def drop_keys_def)

lemma decided_reconfigured: "decided N rx cfg c \<Longrightarrow> decided N rx cfg' (Collector_UpdateConfig cfg' c)"
  by (simp add: decided_def Collector_UpdateConfig_def ClearCache_def)

end
