(* ===== verification/AppInv.thy ===== *)
theory AppInv
  imports AppFrames
begin

text \<open>
  The invariant of the application, operation by operation: the collector answers every question, a cycle and a refresh
  return, a reload keeps the manager and the collector on the same validated configuration.
\<close>

section \<open>The collector answers\<close>

definition col_fine :: "('w, 'd) platform \<Rightarrow> config \<Rightarrow> collector \<Rightarrow> bool" where
  "col_fine pf cfg c \<longleftrightarrow> col_ok c \<and> decided (name_of (pf_os pf) (pf_pl pf)) (pf_rx pf) cfg c"

lemma ask_fine:
  assumes "col_fine pf cfg c" "col_ok c \<Longrightarrow> answers (getter c)" "decided (name_of (pf_os pf) (pf_pl pf)) (pf_rx pf) cfg c \<Longrightarrow>
    decided (name_of (pf_os pf) (pf_pl pf)) (pf_rx pf) cfg (snd (getter c))"
  obtains v c1 where "ask getter c = Some (v, c1)" "col_fine pf cfg c1"
proof -
  obtain r c1 where g: "getter c = (r, c1)" by (metis surj_pair)
  with assms obtain v where "r = Some v" "col_fine pf cfg c1" by (auto simp: col_fine_def answers_def)
  with g show ?thesis by (auto simp: ask_def intro: that)
qed

text \<open>The snapshot a cycle gets: every getter answers, and every user in it was decided under the configuration.\<close>

definition sound_answers :: "('w, 'd) platform \<Rightarrow> config \<Rightarrow> metrics_collector \<Rightarrow> bool" where
  "sound_answers pf cfg mc \<longleftrightarrow> al_wf (GetAllUserMetrics mc) \<and> 
     list_all (admitted (name_of (pf_os pf) (pf_pl pf)) (pf_rx pf) cfg) (GetAllUserMetrics mc)"

lemma system_answers_fine:
  assumes "col_fine pf cfg c"
  shows "\<exists>mc c1. system_answers pf w now d c = Some (mc, c1) \<and> sound_answers pf cfg mc \<and> col_fine pf cfg c1"
proof -
  let ?os = "pf_os pf" and ?pl = "pf_pl pf" and ?rx = "pf_rx pf"
  note u = assms
  obtain v1 c1 where 1: "ask (Collector_GetTotalCores ?os ?pl w now) c = Some (v1, c1)" "col_fine pf cfg c1"
    by (rule ask_fine [OF u answers_cores decided_cores])
  obtain v2 c2 where 2: "ask (Collector_GetTotalCPUUsage ?os ?pl w now) c1 = Some (v2, c2)" "col_fine pf cfg c2"
    by (rule ask_fine [OF 1(2) answers_cpu decided_cpu])
  obtain v3 c3 where 3: "ask (Collector_GetMemoryUsage ?os ?pl w now) c2 = Some (v3, c3)" "col_fine pf cfg c3"
    by (rule ask_fine [OF 2(2) answers_memory(1) decided_memory(1)])
  obtain v4 c4 where 4: "ask (Collector_GetTotalMemoryMB ?os ?pl w now) c3 = Some (v4, c4)" "col_fine pf cfg c4"
    by (rule ask_fine [OF 3(2) answers_memory(2) decided_memory(2)])
  obtain v5 c5 where 5: "ask (Collector_GetCachedMemoryMB ?os ?pl w now) c4 = Some (v5, c5)" "col_fine pf cfg c5"
    by (rule ask_fine [OF 4(2) answers_memory(3) decided_memory(3)])
  obtain v6 c6 where 6: "ask (Collector_IsSystemUnderLoad ?os ?pl w now) c5 = Some (v6, c6)" "col_fine pf cfg c6"
    by (rule ask_fine [OF 5(2) answers_load decided_load])
  obtain ms c7 where 7: "Collector_GetAllUserMetrics ?rx ?os ?pl w now c6 = (ms, c7)" by (metis surj_pair)
  have "al_wf ms" "col_ok c7"
    using all_user_metrics_ok [of c6 ?rx ?os ?pl w now] 6(2) by (simp_all add: 7 scan_ok_def col_fine_def)
  moreover have "list_all (admitted (name_of ?os ?pl) ?rx cfg) ms \<and> decided (name_of ?os ?pl) ?rx cfg c7"
    using all_decided [OF _ 7, of cfg] 6(2) by (simp add: col_fine_def)
  ultimately show ?thesis
    by (simp add: system_answers_def 1 2 3 4 5 6 7 sound_answers_def col_fine_def)
qed

lemma limited_fine:
  assumes "col_fine pf cfg c"
  obtains v c1 where "ask (Collector_GetLimitedUsers (pf_rx pf) (pf_os pf) (pf_pl pf) w now) c = Some (v, c1)"
    "col_fine pf cfg c1"
  using assms answers_users(4) decided_limited by (rule ask_fine)

section \<open>The invariant\<close>

text \<open>
  The manager and the provider are in order (\<open>mgr_ok\<close>), so is the collector, which holds the configuration of the manager
  and no decision of another; that configuration passed validation, and so did the watcher's; a watcher that runs can be
  stopped; no cycle is left open; the pressure watcher is in order.
\<close>

definition app_base :: "('w, 'd) platform \<Rightarrow> ('w, 'd) app \<Rightarrow> bool" where
  "app_base pf a \<longleftrightarrow>
     mgr_ok tracked_ok (rt_manager a) \<and> col_fine pf (m_cfg (rt_manager a)) (rt_collector a) \<and>
     config_ok (m_cfg (rt_manager a)) \<and>
     pred_option (\<lambda>w. config_ok (currentConfig w) \<and> (wt_running w \<longrightarrow> \<not> stopClosed w)) (a_watcher a) \<and>
     pred_option watcher_ok (a_psi a)"

definition app_ok :: "('w, 'd) platform \<Rightarrow> ('w, 'd) app \<Rightarrow> bool" where
  "app_ok pf a \<longleftrightarrow> app_base pf a \<and> cycleComplete a"

lemma mgr_ok_emitted [simp]: "mgr_ok I (m\<lparr>emitted := es\<rparr>) = mgr_ok I m"
  by (simp add: mgr_ok_def mgr_base_def)

lemma flush_fields [simp]:
  "rt_manager (flush pf now a) = (rt_manager a)\<lparr>emitted := []\<rparr>" "rt_collector (flush pf now a) = rt_collector a"
  "a_watcher (flush pf now a) = a_watcher a" "cycleComplete (flush pf now a) = cycleComplete a"
  "a_psi (flush pf now a) = a_psi a" "a_cfg (flush pf now a) = a_cfg a" "finished (flush pf now a) = finished a"
  "psiEventDriven (flush pf now a) = psiEventDriven a" "pollingInterval (flush pf now a) = pollingInterval a"
  by (simp_all add: flush_def)

lemma app_base_manager:
  assumes "app_base pf a" "mgr_ok tracked_ok m" "m_cfg m = m_cfg (rt_manager a)" "col_fine pf (m_cfg m) c"
  shows "app_base pf (flush pf now (a\<lparr>rt_manager := m, rt_collector := c\<rparr>))" "app_base pf (a\<lparr>rt_manager := m, rt_collector := c\<rparr>)"
  using assms by (simp_all add: app_base_def)

text \<open>A cycle and a refresh return, and the manager they leave is the one its operations compute.\<close>

lemma app_cycle_result:
  assumes "app_base pf a"
  shows "\<exists>mc c1. sound_answers pf (m_cfg (rt_manager a)) mc \<and> col_fine pf (m_cfg (rt_manager a)) c1 \<and>
    app_cycle pf ck trigger a = Some (flush pf (ck_now ck) (a\<lparr>rt_manager :=
      snd (RunControlCycleWithTrigger (pf_ops pf) (pf_rx pf) ck mc trigger (rt_manager a)), rt_collector := c1\<rparr>))"
proof -
  let ?cfg = "m_cfg (rt_manager a)" and ?w = "world_of a" and ?now = "ck_now ck"
  from assms have u: "col_fine pf ?cfg (rt_collector a)" by (simp add: app_base_def)
  show ?thesis
  proof (cases "IsInBlackout ?cfg (ck_day ck) (ck_hour ck)")
    case True
    have "sound_answers pf ?cfg (names_only pf ?w ?now (rt_collector a))"
      by (simp add: sound_answers_def names_only_def)
    moreover have "a\<lparr>rt_manager := m, rt_collector := rt_collector a\<rparr> = a\<lparr>rt_manager := m\<rparr>" for m by simp
    ultimately show ?thesis using True u by (fastforce simp: app_cycle_def Let_def)
  next
    case False
    obtain mc c1 where s: "system_answers pf ?w ?now (due ?now a) (rt_collector a) = Some (mc, c1)"
      "sound_answers pf ?cfg mc" "col_fine pf ?cfg c1"
      using system_answers_fine [OF u] by blast
    obtain v c2 where l: "ask (Collector_GetLimitedUsers (pf_rx pf) (pf_os pf) (pf_pl pf) ?w ?now) c1 = Some (v, c2)"
      "col_fine pf ?cfg c2" by (rule limited_fine [OF s(3)])
    have "sound_answers pf ?cfg (mc\<lparr>GetLimitedUsers := v\<rparr>)" using s(2) by (simp add: sound_answers_def)
    then show ?thesis using False s l
      by (auto simp: app_cycle_def Let_def split_beta intro!: exI [of _ "mc\<lparr>GetLimitedUsers := v\<rparr>"])
  qed
qed

lemma app_cycle_ok:
  assumes "app_base pf a"
  obtains a' where "app_cycle pf ck trigger a = Some a'" "app_base pf a'"
proof -
  obtain mc c1 where c: "col_fine pf (m_cfg (rt_manager a)) c1"
    "app_cycle pf ck trigger a = Some (flush pf (ck_now ck) (a\<lparr>rt_manager :=
      snd (RunControlCycleWithTrigger (pf_ops pf) (pf_rx pf) ck mc trigger (rt_manager a)), rt_collector := c1\<rparr>))"
    using app_cycle_result [OF assms] by blast
  have "mgr_ok tracked_ok (snd (RunControlCycleWithTrigger (pf_ops pf) (pf_rx pf) ck mc trigger (rt_manager a)))"
    using assms by (simp add: app_base_def pf_ops_def real.ok_RunControlCycle)
  with c that show ?thesis by (simp add: app_base_manager [OF assms])
qed

lemma app_refresh_ok:
  assumes "app_base pf a"
  obtains a' where "app_refresh pf now a = Some a'" "app_base pf a'"
proof -
  from assms have u: "col_fine pf (m_cfg (rt_manager a)) (rt_collector a)" by (simp add: app_base_def)
  obtain mc c1 where s: "system_answers pf (world_of a) now (due now a) (rt_collector a) = Some (mc, c1)"
    "col_fine pf (m_cfg (rt_manager a)) c1"
    using system_answers_fine [OF u] by blast
  have "mgr_ok tracked_ok (RunMetricsRefresh (pf_ops pf) now mc (rt_manager a))"
    using assms by (simp add: app_base_def pf_ops_def real.ok_RunMetricsRefresh)
  with s that show ?thesis by (simp add: app_refresh_def app_base_manager [OF assms])
qed

text \<open>The operations around a cycle.\<close>

lemma app_base_frame [simp]:
  "app_base pf (a\<lparr>cycleComplete := b\<rparr>) = app_base pf a" "app_base pf (a\<lparr>pollingInterval := n\<rparr>) = app_base pf a"
  "app_base pf (a\<lparr>refreshInterval := n\<rparr>) = app_base pf a" "app_base pf (a\<lparr>rt_exporter := e\<rparr>) = app_base pf a"
  "app_base pf (a\<lparr>cancelled := b\<rparr>) = app_base pf a" "app_base pf (a\<lparr>finished := b\<rparr>) = app_base pf a"
  "app_base pf (a\<lparr>psiEventDriven := b\<rparr>) = app_base pf a" "app_base pf (a\<lparr>a_db := d\<rparr>) = app_base pf a"
  by (simp_all add: app_base_def)

lemma guarded_cycle_ok:
  assumes "app_base pf a" "cycleComplete a"
  obtains a' where "guarded_cycle pf ck trigger a = Some a'" "app_ok pf a'"
proof -
  from assms(1) have "app_base pf (a\<lparr>cycleComplete := False\<rparr>)" by simp
  then obtain a1 where "app_cycle pf ck trigger (a\<lparr>cycleComplete := False\<rparr>) = Some a1" "app_base pf a1"
    by (rule app_cycle_ok)
  with assms(2) that show ?thesis by (simp add: guarded_cycle_def acquireCycleSlot_def app_ok_def)
qed

lemma handleTickerCycle_ok: "app_ok pf a \<Longrightarrow> handleTickerCycle pf ck a = Some a' \<Longrightarrow> app_ok pf a'"
  by (rule guarded_cycle_ok [of pf "a\<lparr>pollingInterval := controlCycleInterval a\<rparr>" ck "''ticker''"])
    (auto simp: app_ok_def handleTickerCycle_def Let_def split: if_splits)

lemma refreshMetricsTicker_ok: "app_ok pf a \<Longrightarrow> refreshMetricsTicker a = Some a' \<Longrightarrow> app_ok pf a'"
  by (auto simp: refreshMetricsTicker_def Let_def app_ok_def split: if_splits)

lemma app_base_event: "app_base pf a \<Longrightarrow> app_base pf (a\<lparr>rt_manager := OnUserPSIEvent (pf_ops pf) now ev (rt_manager a)\<rparr>)"
  by (simp add: app_base_def pf_ops_def real.ok_OnUserPSIEvent)

lemma handlePSIEvent_ok:
  assumes "app_ok pf a"
  obtains a' where "handlePSIEvent pf ck ev a = Some a'" "app_ok pf a'"
proof -
  let ?scope = "if ev_UID ev > 0 then ''user'' else ''system''"
  let ?a1 = "if ev_UID ev > 0 then a\<lparr>rt_manager := OnUserPSIEvent (pf_ops pf) (ck_now ck) ev (rt_manager a)\<rparr> else a"
  let ?a2 = "?a1\<lparr>rt_exporter := map_option (RecordPSIEvent (ck_now ck) (ev_Type ev) ?scope (ev_Timestamp ev)) (rt_exporter ?a1)\<rparr>"
  have "app_base pf ?a2" "cycleComplete ?a2" using assms by (auto simp: app_ok_def app_base_event)
  then obtain a' where "guarded_cycle pf ck (''psi_'' @ ?scope @ ''_'' @ ev_Type ev) ?a2 = Some a'" "app_ok pf a'"
    by (rule guarded_cycle_ok)
  then show ?thesis by (auto simp: handlePSIEvent_def Let_def intro: that)
qed

lemma watcher_ok_events: "watcher_ok w \<Longrightarrow> events w = ev # evs \<Longrightarrow> watcher_ok (w\<lparr>events := evs\<rparr>)"
  by (simp add: watcher_ok_def)

lemma mgr_ok_watcher: "mgr_ok I m \<Longrightarrow> pred_option watcher_ok wo \<Longrightarrow> mgr_ok I (m\<lparr>psiWatcher := wo\<rparr>)"
  by (simp add: mgr_ok_def mgr_base_def)

lemma mgr_ok_psi: "mgr_ok I m \<Longrightarrow> pred_option watcher_ok (psiWatcher m)"
  by (simp add: mgr_ok_def mgr_base_def)

lemma take_event_ok: "app_ok pf a \<Longrightarrow> take_event a = Some (ev, a') \<Longrightarrow> app_ok pf a'"
  using mgr_ok_psi [of tracked_ok "rt_manager a"]
  by (auto simp: take_event_def app_ok_def app_base_def mgr_ok_watcher watcher_ok_events split: option.splits list.splits)

text \<open>A reload changes the configuration of the manager and of the collector together.\<close>

definition with_runtime :: "'w cgroup runtime \<Rightarrow> ('w, 'd) app \<Rightarrow> ('w, 'd) app" where
  "with_runtime rt a = a\<lparr>rt_manager := rt_manager rt, rt_collector := rt_collector rt, rt_exporter := rt_exporter rt\<rparr>"

definition runtime_ok :: "('w, 'd) platform \<Rightarrow> watcher \<times> 'w cgroup runtime \<Rightarrow> bool" where
  "runtime_ok pf s \<longleftrightarrow>
     (case s of (w, rt) \<Rightarrow>
        mgr_ok tracked_ok (rt_manager rt) \<and> col_fine pf (m_cfg (rt_manager rt)) (rt_collector rt) \<and>
        config_ok (m_cfg (rt_manager rt)) \<and> config_ok (currentConfig w) \<and> (wt_running w \<longrightarrow> \<not> stopClosed w))"

lemma runtime_ok_frame [simp]:
  "runtime_ok pf (w\<lparr>lastModTime := t\<rparr>, rt) = runtime_ok pf (w, rt)" "runtime_ok pf (w\<lparr>lastFileSize := n\<rparr>, rt) = runtime_ok pf (w, rt)"
  "runtime_ok pf (w\<lparr>looping := b\<rparr>, rt) = runtime_ok pf (w, rt)" "runtime_ok pf (w\<lparr>pendingReload := b\<rparr>, rt) = runtime_ok pf (w, rt)"
  "runtime_ok pf (w\<lparr>debounceDue := d\<rparr>, rt) = runtime_ok pf (w, rt)"
  by (simp_all add: runtime_ok_def)

lemma runtime_ok_applied:
  assumes "runtime_ok pf (w, rt)" "OnConfigChange held cfg rt = Some (err, rt1)" "config_ok cfg"
  shows "runtime_ok pf (w, rt1)" "runtime_ok pf (w\<lparr>currentConfig := cfg\<rparr>, rt1)"
  using assms
  by (auto simp: runtime_ok_def OnConfigChange_def UpdateConfig_def col_fine_def col_ok_UpdateConfig Let_def
      intro: decided_reconfigured split: if_splits prod.splits)

lemma runtime_ok_reload: "runtime_ok pf s \<Longrightarrow> runtime_ok pf (snd (handleConfigChange env st file s))"
proof -
  assume s: "runtime_ok pf s"
  obtain w rt where [simp]: "s = (w, rt)" by (cases s)
  have ok: "config_ok cfg" if "load_config env p file = Inr (cfg, ws)" for cfg ws p
    using that LoadAndValidate_config_ok by (auto simp: load_config_def)
  show ?thesis using s
    by (auto simp: handleConfigChange_def split: sum.split option.split intro: runtime_ok_applied dest: ok)
qed

lemma runtime_ok_check: "runtime_ok pf s \<Longrightarrow> runtime_ok pf (snd (checkConfigChange env st st' file s))"
  by (auto simp: checkConfigChange_def runtime_ok_reload split: sum.split)

lemma runtime_ok_turn: "runtime_ok pf s \<Longrightarrow> runtime_ok pf (snd (watch_turn env now st st' file ev s))"
proof -
  assume s: "runtime_ok pf s"
  obtain w rt where [simp]: "s = (w, rt)" by (cases s)
  have "runtime_ok pf (snd (handleConfigChange env st file (w\<lparr>debounceDue := None, pendingReload := False\<rparr>, rt)))"
    using s by (intro runtime_ok_reload) simp
  with s runtime_ok_check [OF s] show ?thesis
    by (auto simp: watch_turn_def split_beta split: loop_event.split option.split)
qed

section \<open>The slot of the cycle\<close>

lemma app_refresh_complete: "app_refresh pf now a = Some a' \<Longrightarrow> cycleComplete a' = cycleComplete a"
  by (auto simp: app_refresh_def split: bind_splits)

lemma app_cycle_complete: "app_cycle pf ck trigger a = Some a' \<Longrightarrow> cycleComplete a' = cycleComplete a"
  by (auto simp: app_cycle_def Let_def split: bind_splits if_splits prod.splits)

end
