(* ===== verification/MCP.thy ===== *)
theory MCP
  imports App
begin

text \<open>
  The MCP server: its configuration (\<open>mcp/config.go\<close>), the HTTP authentication and the prompts (\<open>mcp/server.go\<close>), the tools
  (\<open>mcp/tools.go\<close>) and the resources (\<open>mcp/resources.go\<close>), over the application. JSON decoding and encoding, the transport
  and the rendering of numbers and times in reports are the library's: a handler gets decoded arguments and its result is
  the value it encodes.
\<close>

section \<open>Configuration\<close>

record mcp_config =
  mc_Enabled :: bool
  mc_Transport :: string
  mc_HTTPPort :: int
  mc_HTTPHost :: string
  mc_LogLevel :: string
  mc_AuthToken :: string
  mc_AllowWriteOps :: bool

definition MCP_DefaultConfig :: mcp_config where
  "MCP_DefaultConfig =
     \<lparr>mc_Enabled = False, mc_Transport = ''stdio'', mc_HTTPPort = 8080, mc_HTTPHost = ''127.0.0.1'', mc_LogLevel = ''INFO'',
      mc_AuthToken = '''', mc_AllowWriteOps = False\<rparr>"

definition LoadFromParentConfig :: "config option \<Rightarrow> mcp_config" where
  "LoadFromParentConfig cfg =
     (case cfg of
        None \<Rightarrow> MCP_DefaultConfig
      | Some c \<Rightarrow>
          \<lparr>mc_Enabled = MCPEnabled c, mc_Transport = MCPTransport c, mc_HTTPPort = MCPHTTPPort c, mc_HTTPHost = MCPHTTPHost c,
           mc_LogLevel = MCPLogLevel c, mc_AuthToken = MCPAuthToken c, mc_AllowWriteOps = MCPAllowWriteOps c\<rparr>)"

datatype mcp_config_error = BadTransport string | BadHTTPPort string | BadPortRange int | BadLogLevel string

definition env_flag :: "string \<Rightarrow> bool" where
  "env_flag val \<longleftrightarrow> ToLower val = ''true'' \<or> val = ''1''"

text \<open>The transport is stored before it is checked.\<close>

definition MCP_LoadFromEnv :: "(string \<Rightarrow> string) \<Rightarrow> mcp_config \<Rightarrow> mcp_config_error option \<times> mcp_config" where
  "MCP_LoadFromEnv getenv c =
     (let get = (\<lambda>k f c. if getenv k \<noteq> '''' then f (getenv k) c else c);
          c1 = get ''MCP_ENABLED'' (\<lambda>v c. c\<lparr>mc_Enabled := env_flag v\<rparr>) c;
          c2 = get ''MCP_TRANSPORT'' (\<lambda>v c. c\<lparr>mc_Transport := ToLower v\<rparr>) c1;
          port = getenv ''MCP_HTTP_PORT''
      in
      if getenv ''MCP_TRANSPORT'' \<noteq> '''' \<and> mc_Transport c2 \<notin> {''stdio'', ''http''} then (Some (BadTransport (mc_Transport c2)), c2)
      else
        (case (if port = '''' then Inr c2
               else (case Atoi port of
                       None \<Rightarrow> Inl (BadHTTPPort port)
                     | Some n \<Rightarrow> if n < 1 \<or> n > 65535 then Inl (BadPortRange n) else Inr (c2\<lparr>mc_HTTPPort := n\<rparr>))) of
           Inl e \<Rightarrow> (Some e, c2)
         | Inr c3 \<Rightarrow>
             (None,
              get ''MCP_ALLOW_WRITE_OPS'' (\<lambda>v c. c\<lparr>mc_AllowWriteOps := env_flag v\<rparr>)
                (get ''MCP_AUTH_TOKEN'' (\<lambda>v c. c\<lparr>mc_AuthToken := v\<rparr>)
                  (get ''MCP_LOG_LEVEL'' (\<lambda>v c. c\<lparr>mc_LogLevel := ToUpper v\<rparr>)
                    (get ''MCP_HTTP_HOST'' (\<lambda>v c. c\<lparr>mc_HTTPHost := v\<rparr>) c3))))))"

definition MCP_Validate :: "mcp_config \<Rightarrow> mcp_config_error option" where
  "MCP_Validate c =
     (if \<not> mc_Enabled c then None
      else if mc_Transport c \<notin> {''stdio'', ''http''} then Some (BadTransport (mc_Transport c))
      else if mc_Transport c = ''http'' \<and> (mc_HTTPPort c < 1 \<or> mc_HTTPPort c > 65535) then Some (BadPortRange (mc_HTTPPort c))
      else if mc_LogLevel c \<notin> {''DEBUG'', ''INFO'', ''WARN'', ''ERROR''} then Some (BadLogLevel (mc_LogLevel c))
      else None)"

definition NewServer :: "config \<Rightarrow> mcp_config_error + mcp_config" where
  "NewServer parentCfg =
     (let c = LoadFromParentConfig (Some parentCfg) in case MCP_Validate c of Some e \<Rightarrow> Inl e | None \<Rightarrow> Inr c)"

section \<open>HTTP\<close>

datatype http_answer = MissingHeader | BadFormat | BadToken | Reached

definition MCP_authMiddleware :: "mcp_config \<Rightarrow> string \<Rightarrow> http_answer" where
  "MCP_authMiddleware c authHeader =
     (if mc_AuthToken c = '''' then Reached
      else if authHeader = '''' then MissingHeader
      else if \<not> HasPrefix authHeader ''Bearer '' then BadFormat
      else if TrimPrefix authHeader ''Bearer '' \<noteq> mc_AuthToken c then BadToken
      else Reached)"

text \<open>The routes: only one of them is behind the authentication.\<close>

datatype http_route = Handled http_answer | Healthy string | NotFound

definition route :: "mcp_config \<Rightarrow> string \<Rightarrow> string \<Rightarrow> http_route" where
  "route c path authHeader =
     (if path = ''/mcp'' then Handled (MCP_authMiddleware c authHeader)
      else if path = ''/health'' then Healthy (mc_Transport c)
      else NotFound)"

section \<open>Values of a map\<close>

text \<open>What a Go map from strings to any value holds here, and the accessors with their defaults.\<close>

datatype any = AFloat f64 | AInt int | AU64 u64 | ABool bool | AStr string | AInts "int list" | AMap "(int \<times> f64) list"

definition getFloatMetric :: "(string \<times> any) list \<Rightarrow> string \<Rightarrow> f64 \<Rightarrow> f64" where
  "getFloatMetric m key d = (case map_of m key of Some (AFloat f) \<Rightarrow> f | _ \<Rightarrow> d)"

definition getIntMetric :: "(string \<times> any) list \<Rightarrow> string \<Rightarrow> int \<Rightarrow> int" where
  "getIntMetric m key d = (case map_of m key of Some (AFloat f) \<Rightarrow> int_of_f64 f | Some (AInt i) \<Rightarrow> i | _ \<Rightarrow> d)"

definition getBoolMetric :: "(string \<times> any) list \<Rightarrow> string \<Rightarrow> bool \<Rightarrow> bool" where
  "getBoolMetric m key d = (case map_of m key of Some (ABool b) \<Rightarrow> b | _ \<Rightarrow> d)"

definition getBool :: "(string \<times> any) list \<Rightarrow> string \<Rightarrow> bool \<Rightarrow> bool" where
  "getBool m key d = (case map_of m key of Some (ABool b) \<Rightarrow> b | _ \<Rightarrow> d)"

definition getString :: "(string \<times> any) list \<Rightarrow> string \<Rightarrow> string \<Rightarrow> string" where
  "getString m key d = (case map_of m key of Some (AStr s) \<Rightarrow> s | _ \<Rightarrow> d)"

definition getInt :: "(string \<times> any) list \<Rightarrow> string \<Rightarrow> int \<Rightarrow> int" where
  "getInt m key d = (case map_of m key of Some (AFloat f) \<Rightarrow> int_of_f64 f | Some (AInt i) \<Rightarrow> i | _ \<Rightarrow> d)"

definition getIntSlice :: "(string \<times> any) list \<Rightarrow> string \<Rightarrow> int list \<Rightarrow> int list" where
  "getIntSlice m key d = (case map_of m key of Some (AInts is) \<Rightarrow> is | _ \<Rightarrow> d)"

text \<open>The map \<open>GetStatus\<close> returns; \<open>rfc\<close> renders an instant.\<close>

definition status_map :: "(time \<Rightarrow> string) \<Rightarrow> manager_status \<Rightarrow> (string \<times> any) list" where
  "status_map rfc st =
     [(''limits_active'', ABool (st_limits_active st)), (''limits_applied_time'', AStr (rfc (st_limits_applied_time st))),
      (''active_users_count'', AInt (st_active_users_count st)), (''active_users'', AInts (st_active_users st)),
      (''shared_cgroup_path'', AStr (st_shared_cgroup_path st)), (''shared_cgroup_active'', ABool (st_shared_cgroup_active st))] @
     (case st_shared_cgroup_quota st of None \<Rightarrow> [] | Some q \<Rightarrow> [(''shared_cgroup_quota'', AStr q)]) @
     (case st_shared_cgroup_user_count st of None \<Rightarrow> [] | Some n \<Rightarrow> [(''shared_cgroup_user_count'', AInt n)])"

text \<open>\<open>GetDetailedMetrics\<close> of the collector, its calls in order.\<close>

fun ask_each :: "(int \<Rightarrow> collector \<Rightarrow> f64 option \<times> collector) \<Rightarrow> int list \<Rightarrow> collector \<Rightarrow> ((int \<times> f64) list \<times> collector) option" where
  "ask_each getter [] c = Some ([], c)"
| "ask_each getter (uid # uids) c =
     Option.bind (ask (getter uid) c) (\<lambda>(v, c1). map_option (\<lambda>(vs, c2). ((uid, v) # vs, c2)) (ask_each getter uids c1))"

definition GetDetailedMetrics ::
  "('w, 'd) platform \<Rightarrow> 'w \<Rightarrow> time \<Rightarrow> collector \<Rightarrow> ((string \<times> any) list \<times> collector) option" where
  "GetDetailedMetrics pf w now c =
     (let rx = pf_rx pf; os = pf_os pf; pl = pf_pl pf in
      Option.bind (ask (Collector_GetTotalCores os pl w now) c) (\<lambda>(cores, c1).
      Option.bind (ask (Collector_GetTotalCPUUsage os pl w now) c1) (\<lambda>(cpu, c2).
      Option.bind (ask (Collector_GetAllUsersCPUUsage rx os pl w now) c2) (\<lambda>(allCPU, c3).
      Option.bind (ask (Collector_GetAllUsersMemoryUsage rx os pl w now) c3) (\<lambda>(allMem, c4).
      Option.bind (ask (Collector_GetAllUsers rx os pl w now) c4) (\<lambda>(allUsers, c5).
      Option.bind (ask (Collector_GetLimitedUsersCPUUsage rx os pl w now) c5) (\<lambda>(limCPU, c6).
      Option.bind (ask (Collector_GetLimitedUsersMemoryUsage rx os pl w now) c6) (\<lambda>(limMem, c7).
      Option.bind (ask (Collector_GetLimitedUsers rx os pl w now) c7) (\<lambda>(limited, c8).
      Option.bind (ask (Collector_GetMemoryUsage os pl w now) c8) (\<lambda>(mem, c9).
      Option.bind (ask (Collector_GetTotalMemoryMB os pl w now) c9) (\<lambda>(memMB, c10).
      Option.bind (ask (Collector_GetCachedMemoryMB os pl w now) c10) (\<lambda>(cachedMB, c11).
      Option.bind (ask (Collector_IsSystemUnderLoad os pl w now) c11) (\<lambda>(load, c12).
      Option.bind (ask_each (\<lambda>uid. Collector_GetUserCPUUsage rx os pl w now uid) allUsers c12) (\<lambda>(userCPU, c13).
        Some
          ([(''total_cores'', AInt cores), (''total_cpu_usage'', AFloat cpu), (''all_users_cpu_usage'', AFloat allCPU),
            (''all_users_memory_usage'', AU64 allMem), (''all_users_count'', AInt (int (length allUsers))),
            (''limited_users_cpu_usage'', AFloat limCPU), (''limited_users_memory_usage'', AU64 limMem),
            (''limited_users_count'', AInt (int (length limited))), (''memory_usage_mb'', AFloat mem),
            (''total_memory_mb'', AFloat memMB), (''cached_memory_mb'', AFloat cachedMB), (''system_under_load'', ABool load),
            (''user_cpu_usage'', AMap userCPU), (''cache_size'', AInt (int (length (cache c13))))], c13)))))))))))))))"

end
