(* ===== verification/MCPTools.thy ===== *)
theory MCPTools
  imports MCP ConfigUse
begin

text \<open>
  The tools of the MCP server (\<open>mcp/tools.go\<close>). A handler gets the application and returns its answer and the application
  afterwards; \<open>None\<close> is a panic. \<open>serve\<close>, in \<open>MCPServer\<close>, is the server's dispatch.
\<close>

section \<open>The surroundings\<close>

text \<open>The rendering and parsing of instants, the calendar, the host, the time stamp of a backup, the file of the database.\<close>

record mcp_env =
  me_rfc :: "time \<Rightarrow> string"
  me_parse :: "string \<Rightarrow> time option"
  me_parse_day :: "string \<Rightarrow> (int \<times> int \<times> int) option"
  me_cal :: calendar
  me_hostname :: "string option"
  me_stamp :: string
  me_dbPath :: string
  me_dbSize :: "int option"

definition getHostname :: "mcp_env \<Rightarrow> string" where
  "getHostname ev = (case me_hostname ev of None \<Rightarrow> ''unknown'' | Some h \<Rightarrow> h)"

definition mcp_status :: "('w, 'd) platform \<Rightarrow> mcp_env \<Rightarrow> ('w, 'd) app \<Rightarrow> (string \<times> any) list" where
  "mcp_status pf ev a = status_map (me_rfc ev) (GetStatus (pf_ops pf) (rt_manager a))"

definition host_and_role :: "mcp_env \<Rightarrow> ('w, 'd) app \<Rightarrow> (string \<times> any) list" where
  "host_and_role ev a = [(''hostname'', AStr (getHostname ev)), (''server_role'', AStr (ServerRole (m_cfg (rt_manager a))))]"

definition with_metrics ::
  "('w, 'd) platform \<Rightarrow> time \<Rightarrow> ((string \<times> any) list \<Rightarrow> 'a) \<Rightarrow> ('w, 'd) app \<Rightarrow> ('a \<times> ('w, 'd) app) option" where
  "with_metrics pf now f a =
     Option.bind (GetDetailedMetrics pf (world_of a) now (rt_collector a)) (\<lambda>(metrics, c). Some (f metrics, a\<lparr>rt_collector := c\<rparr>))"

definition all_users :: "('w, 'd) platform \<Rightarrow> time \<Rightarrow> ('w, 'd) app \<Rightarrow> (int \<times> user_metrics) list \<times> ('w, 'd) app" where
  "all_users pf now a =
     (case Collector_GetAllUserMetrics (pf_rx pf) (pf_os pf) (pf_pl pf) (world_of a) now (rt_collector a) of
        (ms, c) \<Rightarrow> (ms, a\<lparr>rt_collector := c\<rparr>))"

section \<open>Reading tools\<close>

definition system_fields :: "(string \<times> any) list \<Rightarrow> (string \<times> any) list \<Rightarrow> (string \<times> any) list" where
  "system_fields metrics status =
     [(''total_cpu_usage'', AFloat (getFloatMetric metrics ''total_cpu_usage'' (Fin 0))),
      (''user_cpu_usage'', AFloat (getFloatMetric metrics ''total_user_cpu_usage'' (Fin 0))),
      (''memory_usage_mb'', AFloat (getFloatMetric metrics ''memory_usage_mb'' (Fin 0))),
      (''active_users_count'', AInt (getIntMetric metrics ''active_users_count'' 0)),
      (''total_cores'', AInt (getIntMetric metrics ''total_cores'' 0)),
      (''system_under_load'', ABool (getBoolMetric metrics ''system_under_load'' False)),
      (''limits_active'', ABool (getBool status ''limits_active'' False)),
      (''limits_applied_time'', AStr (getString status ''limits_applied_time'' ''''))]"

definition shared_field :: "(string \<times> any) list \<Rightarrow> string \<times> any" where
  "shared_field status = (''shared_cgroup_active'', ABool (getBool status ''shared_cgroup_active'' False))"

definition handleGetSystemStatus ::
  "('w, 'd) platform \<Rightarrow> mcp_env \<Rightarrow> time \<Rightarrow> ('w, 'd) app \<Rightarrow> ((string \<times> any) list \<times> ('w, 'd) app) option" where
  "handleGetSystemStatus pf ev now a =
     (let status = mcp_status pf ev a in with_metrics pf now (\<lambda>metrics. system_fields metrics status @ [shared_field status]) a)"

definition tool_get_system_status ::
  "('w, 'd) platform \<Rightarrow> mcp_env \<Rightarrow> time \<Rightarrow> ('w, 'd) app \<Rightarrow> ((string \<times> any) list \<times> ('w, 'd) app) option" where
  "tool_get_system_status pf ev now a =
     (let status = mcp_status pf ev a in
      with_metrics pf now (\<lambda>metrics. host_and_role ev a @ system_fields metrics status @ [shared_field status]) a)"

record user_metric =
  tm_UID :: int
  tm_Username :: string
  tm_CPUUsage :: f64
  tm_MemoryUsage :: u64
  tm_ProcessCount :: int
  tm_IsLimited :: bool
  tm_MemoryMaxBytes :: u64
  tm_MemoryHighEvents :: u64
  tm_IO :: io_stats

definition tool_user :: "'w os \<Rightarrow> 'w cgroup \<Rightarrow> int \<times> user_metrics \<Rightarrow> user_metric" where
  "tool_user os c en =
     (case en of (uid, um) \<Rightarrow>
        \<lparr>tm_UID = uid, tm_Username = Username um, tm_CPUUsage = CPUUsage um, tm_MemoryUsage = MemoryUsage um,
         tm_ProcessCount = ProcessCount um, tm_IsLimited = IsLimited um,
         tm_MemoryMaxBytes = (case GetCgroupRAMUsage os uid c of Inr n \<Rightarrow> n | Inl _ \<Rightarrow> 0),
         tm_MemoryHighEvents = (case GetMemoryHighEvents os uid c of Inr n \<Rightarrow> n | Inl _ \<Rightarrow> 0),
         tm_IO = (case GetIOStats os uid c of Inr st \<Rightarrow> st | Inl _ \<Rightarrow> no_io)\<rparr>)"

definition handleGetUserMetrics ::
  "('w, 'd) platform \<Rightarrow> time \<Rightarrow> int list \<Rightarrow> string \<Rightarrow> ('w, 'd) app \<Rightarrow> user_metric list \<times> ('w, 'd) app" where
  "handleGetUserMetrics pf now uids username a =
     (case all_users pf now a of (ms, a1) \<Rightarrow>
        (map (tool_user (pf_os pf) (cgroups (rt_manager a)))
           (filter (\<lambda>(uid, um). (uids = [] \<or> uid \<in> set uids) \<and> (username = '''' \<or> Username um = username)) ms), a1))"

definition tool_get_active_users ::
  "('w, 'd) platform \<Rightarrow> time \<Rightarrow> ('w, 'd) app \<Rightarrow> ((int \<times> string) list \<times> ('w, 'd) app) option" where
  "tool_get_active_users pf now a =
     Option.bind (ask (Collector_GetAllUsers (pf_rx pf) (pf_os pf) (pf_pl pf) (world_of a) now) (rt_collector a)) (\<lambda>(uids, c1).
       (case all_users pf now (a\<lparr>rt_collector := c1\<rparr>) of (ms, a1) \<Rightarrow>
          Some (map (\<lambda>uid. (uid, case map_of ms uid of
                                   Some um \<Rightarrow> if Username um \<noteq> '''' then Username um else Itoa uid
                                 | None \<Rightarrow> Itoa uid)) uids, a1)))"

definition limits_fields :: "(string \<times> any) list \<Rightarrow> (string \<times> any) list" where
  "limits_fields status =
     [(''limits_active'', ABool (getBool status ''limits_active'' False)),
      (''limits_applied_time'', AStr (getString status ''limits_applied_time'' '''')),
      (''active_users_count'', AInt (getInt status ''active_users_count'' 0)),
      (''active_users'', AInts (getIntSlice status ''active_users'' [])),
      (''shared_cgroup_path'', AStr (getString status ''shared_cgroup_path'' '''')), shared_field status]"

definition quota_fields :: "(string \<times> any) list \<Rightarrow> (string \<times> any) list" where
  "quota_fields status =
     [(''shared_cgroup_quota'', AStr (getString status ''shared_cgroup_quota'' '''')),
      (''shared_cgroup_user_count'', AInt (getInt status ''shared_cgroup_user_count'' 0))]"

definition tool_get_limits_status :: "('w, 'd) platform \<Rightarrow> mcp_env \<Rightarrow> ('w, 'd) app \<Rightarrow> (string \<times> any) list" where
  "tool_get_limits_status pf ev a =
     (let status = mcp_status pf ev a in host_and_role ev a @ limits_fields status @ quota_fields status)"

text \<open>\<open>show_ratio\<close> renders a float with one digit after the point.\<close>

definition handleGetLimitsStatus ::
  "(f64 \<Rightarrow> string) \<Rightarrow> ('w, 'd) platform \<Rightarrow> mcp_env \<Rightarrow> ('w, 'd) app \<Rightarrow> (string \<times> any) list" where
  "handleGetLimitsStatus show_ratio pf ev a =
     (let status = mcp_status pf ev a; cfg = m_cfg (rt_manager a) in
      limits_fields status @ quota_fields status @
      [(''ram_limits_active'', ABool (RAMEnabled cfg)), (''ram_quota_per_user'', AStr (RAMQuotaPerUser cfg)),
       (''ram_high_ratio'', AStr (show_ratio (RAMHighRatio cfg))), (''io_limits_active'', ABool (IOEnabled cfg)),
       (''io_read_bps'', AStr (IOReadBPS cfg)), (''io_write_bps'', AStr (IOWriteBPS cfg)),
       (''io_read_iops'', AInt (IOReadIOPS cfg)), (''io_write_iops'', AInt (IOWriteIOPS cfg))])"

text \<open>The first line of io.max that names a device's limits.\<close>

definition io_max_field :: "string \<Rightarrow> (string \<times> string) list \<Rightarrow> (string \<times> string) list" where
  "io_max_field f r =
     (case find (\<lambda>(p, k). HasPrefix f p)
             [(''rbps='', ''io_read_bps''), (''wbps='', ''io_write_bps''), (''riops='', ''io_read_iops''), (''wiops='', ''io_write_iops'')] of
        None \<Rightarrow> r | Some (p, k) \<Rightarrow> al_update k (TrimPrefix f p) r)"

definition io_max_fields :: "string \<Rightarrow> (string \<times> string) list" where
  "io_max_fields content =
     (case find (\<lambda>line. HasPrefix line ''default '' \<or> Contains line ''rbps='') (Split (TrimSpace content) newline) of
        None \<Rightarrow> [] | Some line \<Rightarrow> fold io_max_field (Fields line) [])"

datatype cgroup_info_error = UidRequired | InfoFailed cg_error

definition handleGetCgroupInfo :: "'w os \<Rightarrow> int \<Rightarrow> 'w cgroup \<Rightarrow> cgroup_info_error + (string \<times> string) list" where
  "handleGetCgroupInfo os uid c =
     (if uid = 0 then Inl UidRequired
      else (case GetCgroupInfo os uid c of
              Inl e \<Rightarrow> Inl (InfoFailed e)
            | Inr info \<Rightarrow>
                (let get = (\<lambda>k. case info k of Some v \<Rightarrow> v | None \<Rightarrow> ''''); p = get ''path'';
                     trimmed = (\<lambda>k f. case cg_read os (p @ f) c of Inr d \<Rightarrow> [(k, TrimSpace d)] | Inl _ \<Rightarrow> [])
                 in Inr ([(''path'', p), (''cpu_max'', get ''cpu.max''), (''cpu_weight'', get ''cpu.weight'')] @
                      (if p = '''' then []
                       else trimmed ''memory_max'' ''/memory.max'' @ trimmed ''memory_high'' ''/memory.high'' @
                         (case cg_read os (p @ ''/io.max'') c of Inr d \<Rightarrow> io_max_fields d | Inl _ \<Rightarrow> []))))))"

definition config_fields :: "config \<Rightarrow> (string \<times> any) list" where
  "config_fields cfg =
     [(''cpu_threshold'', AInt (CPUThreshold cfg)), (''cpu_release_threshold'', AInt (CPUReleaseThreshold cfg)),
      (''polling_interval'', AInt (PollingInterval cfg)), (''min_system_cores'', AInt (MinSystemCores cfg)),
      (''cpu_quota_normal'', AStr (CPUQuotaNormal cfg)), (''cpu_quota_limited'', AStr (CPUQuotaLimited cfg)),
      (''enable_prometheus'', ABool (EnablePrometheus cfg)), (''prometheus_port'', AInt (PrometheusMetricsBindPort cfg)),
      (''ignore_system_load'', ABool (IgnoreSystemLoad cfg)), (''system_uid_min'', AInt (SystemUIDMin cfg)),
      (''system_uid_max'', AInt (SystemUIDMax cfg))]"

definition handleGetConfiguration :: "('w, 'd) app \<Rightarrow> (string \<times> any) list" where
  "handleGetConfiguration a = config_fields (m_cfg (rt_manager a))"

definition tool_get_configuration :: "mcp_env \<Rightarrow> ('w, 'd) app \<Rightarrow> (string \<times> any) list" where
  "tool_get_configuration ev a = host_and_role ev a @ config_fields (m_cfg (rt_manager a))"

definition handleGetControlHistory :: "int \<Rightarrow> ('w, 'd) app \<Rightarrow> history_entry list" where
  "handleGetControlHistory limit a = GetControlHistory (if limit \<le> 0 then 10 else limit) (rt_manager a)"

section \<open>Reports\<close>

text \<open>The figures of a report and the users it marks as limited.\<close>

record 'n report =
  rp_users :: "(string \<times> 'n \<times> bool) list"
  rp_total :: f64
  rp_average :: 'n
  rp_peak :: 'n
  rp_active :: int
  rp_limited :: int
  rp_limits_active :: bool

definition marked :: "(string \<times> any) list \<Rightarrow> int \<Rightarrow> bool" where
  "marked status uid \<longleftrightarrow> uid \<in> set (getIntSlice status ''active_users'' [])"

text \<open>\<open>cpu_available\<close> is the line "Totale CPU disponibile".\<close>

definition cpu_available :: "(string \<times> any) list \<Rightarrow> f64" where
  "cpu_available metrics = f64_mul (getFloatMetric metrics ''total_cores'' (Fin 0)) (f64_of_int 100)"

definition tool_get_cpu_report ::
  "('w, 'd) platform \<Rightarrow> mcp_env \<Rightarrow> time \<Rightarrow> ('w, 'd) app \<Rightarrow> ((f64 \<times> f64 report) \<times> ('w, 'd) app) option" where
  "tool_get_cpu_report pf ev now a =
     Option.bind (with_metrics pf now id a) (\<lambda>(metrics, a1).
       (let status = mcp_status pf ev a1; (ms, a2) = all_users pf now a1;
            average = (if ms = [] then Fin 0
                       else f64_div (fold (\<lambda>(_, um) s. f64_add s (CPUUsage um)) ms (Fin 0)) (f64_of_int (int (length ms))))
        in Some ((cpu_available metrics,
             \<lparr>rp_users = map (\<lambda>(uid, um). (Username um, CPUUsage um, marked status uid)) ms,
              rp_total = getFloatMetric metrics ''total_cpu_usage'' (Fin 0), rp_average = average,
              rp_peak = fold (\<lambda>(_, um) p. if f64_gt (CPUUsage um) p then CPUUsage um else p) ms (Fin 0),
              rp_active = int (length ms), rp_limited = int (length (filter (\<lambda>(uid, _). marked status uid) ms)),
              rp_limits_active = getBool status ''limits_active'' False\<rparr>), a2)))"

text \<open>Bytes here; the sum of the average is a 64-bit one.\<close>

definition tool_get_mem_report ::
  "('w, 'd) platform \<Rightarrow> mcp_env \<Rightarrow> time \<Rightarrow> ('w, 'd) app \<Rightarrow> (u64 report \<times> ('w, 'd) app) option" where
  "tool_get_mem_report pf ev now a =
     Option.bind (with_metrics pf now id a) (\<lambda>(metrics, a1).
       (let status = mcp_status pf ev a1; (ms, a2) = all_users pf now a1 in
        Some (\<lparr>rp_users = map (\<lambda>(uid, um). (Username um, MemoryUsage um, marked status uid)) ms,
               rp_total = getFloatMetric metrics ''memory_usage_mb'' (Fin 0),
               rp_average = (if ms = [] then 0 else sum_list (map (\<lambda>(_, um). MemoryUsage um) ms) div of_nat (length ms)),
               rp_peak = fold (\<lambda>(_, um) p. if MemoryUsage um > p then MemoryUsage um else p) ms 0,
               rp_active = int (length ms), rp_limited = int (length (filter (\<lambda>(uid, _). marked status uid) ms)),
               rp_limits_active = getBool status ''limits_active'' False\<rparr>, a2)))"

end
