(* ===== verification/MCPServer.thy ===== *)
theory MCPServer
  imports MCPTools
begin

text \<open>
  The MCP server, continued: the tools that change something, the history, the prompts and the resources, and the dispatch of
  a call.
\<close>

section \<open>Writing tools\<close>

datatype write_answer = NotAllowed | AlreadyActive | Done | Failed cg_error

definition answer_of :: "cg_error option \<Rightarrow> write_answer" where
  "answer_of err = (case err of None \<Rightarrow> Done | Some e \<Rightarrow> Failed e)"

text \<open>The message of a call that succeeded says that the limits were activated, whatever the cycle decided.\<close>

definition write_success :: "write_answer \<Rightarrow> bool" where
  "write_success r \<longleftrightarrow> r = Done"

definition force_on :: "('w, 'd) platform \<Rightarrow> time \<Rightarrow> ('w, 'd) app \<Rightarrow> (cg_error option \<times> ('w, 'd) app) option" where
  "force_on pf now a =
     Option.bind (system_answers pf (world_of a) now (due now a) (rt_collector a)) (\<lambda>(mc, c1).
       (case ForceActivateLimits (pf_ops pf) now mc (rt_manager a) of
          (err, m) \<Rightarrow> Some (err, flush pf now (a\<lparr>rt_manager := m, rt_collector := c1\<rparr>))))"

definition force_off :: "('w, 'd) platform \<Rightarrow> time \<Rightarrow> ('w, 'd) app \<Rightarrow> cg_error option \<times> ('w, 'd) app" where
  "force_off pf now a =
     (case ForceDeactivateLimits (pf_ops pf) (pf_rx pf) (names_only pf (world_of a) now (rt_collector a)) (rt_manager a) of
        (err, m) \<Rightarrow> (err, flush pf now (a\<lparr>rt_manager := m\<rparr>)))"

text \<open>The result of \<open>RunControlCycle\<close> is the error of its last stage; \<open>cycle_error\<close> computes it beside \<open>app_cycle\<close>.\<close>

definition cycle_error :: "('w, 'd) platform \<Rightarrow> clock \<Rightarrow> string \<Rightarrow> ('w, 'd) app \<Rightarrow> cg_error option" where
  "cycle_error pf ck trigger a =
     (let m = rt_manager a; w = world_of a; now = ck_now ck; c = rt_collector a in
      if IsInBlackout (m_cfg m) (ck_day ck) (ck_hour ck) then None
      else (case system_answers pf w now (due now a) c of
              None \<Rightarrow> None
            | Some (mc, c1) \<Rightarrow>
                (case ask (Collector_GetLimitedUsers (pf_rx pf) (pf_os pf) (pf_pl pf) w now) c1 of
                   None \<Rightarrow> None
                 | Some (limited, _) \<Rightarrow>
                     fst (RunControlCycleWithTrigger (pf_ops pf) (pf_rx pf) ck (mc\<lparr>GetLimitedUsers := limited\<rparr>) trigger m))))"

definition handleActivateLimits ::
  "('w, 'd) platform \<Rightarrow> mcp_env \<Rightarrow> mcp_config \<Rightarrow> clock \<Rightarrow> bool \<Rightarrow> ('w, 'd) app \<Rightarrow> (write_answer \<times> ('w, 'd) app) option" where
  "handleActivateLimits pf ev sc ck force a =
     (if \<not> mc_AllowWriteOps sc then Some (NotAllowed, a)
      else if force then map_option (\<lambda>(err, a1). (answer_of err, a1)) (force_on pf (ck_now ck) a)
      else if getBool (mcp_status pf ev a) ''limits_active'' False then Some (AlreadyActive, a)
      else map_option (\<lambda>a1. (answer_of (cycle_error pf ck ''manual'' a), a1)) (app_cycle pf ck ''manual'' a))"

definition handleDeactivateLimits ::
  "('w, 'd) platform \<Rightarrow> mcp_config \<Rightarrow> time \<Rightarrow> ('w, 'd) app \<Rightarrow> write_answer \<times> ('w, 'd) app" where
  "handleDeactivateLimits pf sc now a =
     (if \<not> mc_AllowWriteOps sc then (NotAllowed, a)
      else (case force_off pf now a of (err, a1) \<Rightarrow> (answer_of err, a1)))"

definition tool_deactivate_limits :: "('w, 'd) platform \<Rightarrow> time \<Rightarrow> ('w, 'd) app \<Rightarrow> write_answer \<times> ('w, 'd) app" where
  "tool_deactivate_limits pf now a = (case force_off pf now a of (err, a1) \<Rightarrow> (answer_of err, a1))"

text \<open>Decoded arguments: \<open>None\<close> when they are not a JSON object.\<close>

datatype json = JNull | JBool bool | JNum f64 | JStr string | JArr "json list" | JObj "(string \<times> json) list"

type_synonym json_args = "(string \<times> json) list option"

datatype args_error = InvalidParameters | InvalidPatterns | PatternNotString | WriteNotAllowed | InvalidPattern

fun json_strings :: "json list \<Rightarrow> string list option" where
  "json_strings [] = Some []"
| "json_strings (JStr s # js) = map_option ((#) s) (json_strings js)"
| "json_strings (j # js) = None"

definition list_args :: "json_args \<Rightarrow> args_error + string list \<times> bool" where
  "list_args args =
     (case args of
        None \<Rightarrow> Inl InvalidParameters
      | Some m \<Rightarrow>
          (case map_of m ''patterns'' of
             Some (JArr js) \<Rightarrow>
               (case json_strings js of
                  None \<Rightarrow> Inl PatternNotString
                | Some patterns \<Rightarrow> Inr (patterns, case map_of m ''reload'' of Some (JBool b) \<Rightarrow> b | _ \<Rightarrow> True))
           | _ \<Rightarrow> Inl InvalidPatterns))"

text \<open>
  The previous list, and the new list or the error of the save. The configuration changed is the object the manager and the
  collector share; nobody else reads the lists.
\<close>

datatype list_answer = ArgsError args_error | NotSaved config_error "string list" | ListSet "string list" "string list" bool

definition share_lists :: "config \<Rightarrow> 'w \<Rightarrow> ('w, 'd) app \<Rightarrow> ('w, 'd) app" where
  "share_lists cfg w a =
     a\<lparr>rt_manager := (rt_manager a)\<lparr>m_cfg := cfg, cgroups := (cgroups (rt_manager a))\<lparr>world := w\<rparr>\<rparr>,
       rt_collector := (rt_collector a)\<lparr>col_cfg := cfg\<rparr>\<rparr>"

definition tool_set_user_exclude_list ::
  "('w, 'd) platform \<Rightarrow> mcp_env \<Rightarrow> mcp_config \<Rightarrow> json_args \<Rightarrow> ('w, 'd) app \<Rightarrow> list_answer \<times> ('w, 'd) app" where
  "tool_set_user_exclude_list pf ev sc args a =
     (case list_args args of
        Inl e \<Rightarrow> (ArgsError e, a)
      | Inr (patterns, reload) \<Rightarrow>
          (if \<not> mc_AllowWriteOps sc then (ArgsError WriteNotAllowed, a)
           else
             (let cfg = m_cfg (rt_manager a) in
              case SetUserExcludeList (pf_rx pf) (pf_os pf) cfg patterns (ConfigFile cfg) (me_stamp ev) (world_of a) of
                (Inl e, cfg1, w1) \<Rightarrow> (NotSaved e (UserExcludeList cfg), share_lists cfg1 w1 a)
              | (Inr _, cfg1, w1) \<Rightarrow> (ListSet (UserExcludeList cfg) patterns reload, share_lists cfg1 w1 a))))"

definition tool_set_user_include_list ::
  "('w, 'd) platform \<Rightarrow> mcp_env \<Rightarrow> mcp_config \<Rightarrow> json_args \<Rightarrow> ('w, 'd) app \<Rightarrow> list_answer \<times> ('w, 'd) app" where
  "tool_set_user_include_list pf ev sc args a =
     (case list_args args of
        Inl e \<Rightarrow> (ArgsError e, a)
      | Inr (patterns, reload) \<Rightarrow>
          (if \<not> mc_AllowWriteOps sc then (ArgsError WriteNotAllowed, a)
           else
             (let cfg = m_cfg (rt_manager a) in
              case SetUserIncludeList (pf_rx pf) (pf_os pf) cfg patterns (ConfigFile cfg) (me_stamp ev) (world_of a) of
                (Inl e, cfg1, w1) \<Rightarrow> (NotSaved e (UserIncludeList cfg), share_lists cfg1 w1 a)
              | (Inr _, cfg1, w1) \<Rightarrow> (ListSet (UserIncludeList cfg) patterns reload, share_lists cfg1 w1 a))))"

definition tool_get_user_filters :: "('w, 'd) app \<Rightarrow> string list \<times> string list \<times> string" where
  "tool_get_user_filters a =
     (let cfg = m_cfg (rt_manager a) in (UserIncludeList cfg, UserExcludeList cfg, ConfigFile cfg))"

definition testUsers :: "string list" where
  "testUsers = [''francesco'', ''www-data'', ''mysql'', ''nobody'', ''root'', ''test-user'', ''dev-web'', ''app-prod'', ''svc-db'',
     ''admin'']"

datatype pattern_answer = PatternArgs args_error | PatternInvalid | PatternValid string string "string list"

definition tool_validate_user_filter_pattern :: "regexp_lib \<Rightarrow> json_args \<Rightarrow> pattern_answer" where
  "tool_validate_user_filter_pattern rx args =
     (case args of
        None \<Rightarrow> PatternArgs InvalidParameters
      | Some m \<Rightarrow>
          (case map_of m ''pattern'' of
             Some (JStr pattern) \<Rightarrow>
               (let filterType = (case map_of m ''type'' of Some (JStr t) \<Rightarrow> t | _ \<Rightarrow> ''unspecified'') in
                case rx pattern of
                  None \<Rightarrow> PatternInvalid
                | Some match \<Rightarrow> PatternValid pattern filterType (filter match testUsers))
           | _ \<Rightarrow> PatternArgs InvalidPattern))"

section \<open>History\<close>

record history_args =
  ha_UID :: "int option"
  ha_Username :: string
  ha_StartTime :: string
  ha_EndTime :: string
  ha_Period :: string
  ha_Hours :: int
  ha_Limit :: int

datatype history_error = NoDatabase | BadPeriod | UserNotFound string | NoUser | QueryFailed | NoData int | InfoError info_error

text \<open>The range the arguments describe; an explicit instant that does not parse is passed over.\<close>

definition time_window :: "mcp_env \<Rightarrow> time \<Rightarrow> history_args \<Rightarrow> (time \<times> time) option" where
  "time_window ev now ha =
     (let parsed = ParseTimeRange (me_cal ev) (me_parse ev) (me_parse_day ev) (ha_Period ha) now;
          (s, e) = (case parsed of None \<Rightarrow> (zero_time, zero_time) | Some r \<Rightarrow> r)
      in
      if parsed = None \<and> ha_Period ha \<noteq> '''' then None
      else Some (case me_parse ev (ha_StartTime ha) of Some t \<Rightarrow> if ha_StartTime ha \<noteq> '''' then t else s | None \<Rightarrow> s,
                 case me_parse ev (ha_EndTime ha) of Some t \<Rightarrow> if ha_EndTime ha \<noteq> '''' then t else e | None \<Rightarrow> e))"

definition hours_window :: "time \<Rightarrow> history_args \<Rightarrow> time \<times> time \<Rightarrow> time \<times> time" where
  "hours_window now ha r = (if ha_Hours ha > 0 then (now + wrap64 (wrap64 (- ha_Hours ha) * hour), snd r) else r)"

definition history_limit :: "history_args \<Rightarrow> int" where
  "history_limit ha = (if ha_Limit ha \<le> 0 then 100 else ha_Limit ha)"

text \<open>The user: an id, or a name looked up among the users of the collector.\<close>

definition history_user ::
  "('w, 'd) platform \<Rightarrow> time \<Rightarrow> history_args \<Rightarrow> ('w, 'd) app \<Rightarrow> (history_error + int) \<times> ('w, 'd) app" where
  "history_user pf now ha a =
     (case ha_UID ha of
        Some uid \<Rightarrow> (if uid = 0 then Inl NoUser else Inr uid, a)
      | None \<Rightarrow>
          (if ha_Username ha = '''' then (Inl NoUser, a)
           else (case all_users pf now a of (ms, a1) \<Rightarrow>
             (let uid = GetUIDFromUsername ((names_only pf (world_of a) now (rt_collector a))\<lparr>GetAllUserMetrics := ms\<rparr>) (ha_Username ha)
              in (if uid = 0 then Inl (UserNotFound (ha_Username ha)) else Inr uid, a1)))))"

definition handleGetUserHistory ::
  "('w, 'd) platform \<Rightarrow> mcp_env \<Rightarrow> time \<Rightarrow> history_args \<Rightarrow> ('w, 'd) app \<Rightarrow>
   (history_error + user_record list \<times> time \<times> time) \<times> ('w, 'd) app" where
  "handleGetUserHistory pf ev now ha a =
     (case a_db a of
        None \<Rightarrow> (Inl NoDatabase, a)
      | Some (_, d) \<Rightarrow>
          (case time_window ev now ha of
             None \<Rightarrow> (Inl BadPeriod, a)
           | Some r \<Rightarrow>
               (case (hours_window now ha r, history_user pf now ha a) of
                  (_, (Inl e, a1)) \<Rightarrow> (Inl e, a1)
                | ((s, e), (Inr uid, a1)) \<Rightarrow>
                    (case GetUserHistory (pf_sq pf) uid s e (history_limit ha) d of
                       None \<Rightarrow> (Inl QueryFailed, a1)
                     | Some records \<Rightarrow> (Inr (records, s, e), a1)))))"

definition handleGetSystemHistory ::
  "('w, 'd) platform \<Rightarrow> mcp_env \<Rightarrow> time \<Rightarrow> history_args \<Rightarrow> ('w, 'd) app \<Rightarrow> history_error + system_record list \<times> time \<times> time" where
  "handleGetSystemHistory pf ev now ha a =
     (case a_db a of
        None \<Rightarrow> Inl NoDatabase
      | Some (_, d) \<Rightarrow>
          (case time_window ev now ha of
             None \<Rightarrow> Inl BadPeriod
           | Some r \<Rightarrow>
               (case hours_window now ha r of
                  (s, e) \<Rightarrow>
                    (case GetSystemHistory (pf_sq pf) s e (history_limit ha) d of
                       None \<Rightarrow> Inl QueryFailed
                     | Some records \<Rightarrow> Inr (records, s, e)))))"

definition handleGetUserSummary ::
  "('w, 'd) platform \<Rightarrow> mcp_env \<Rightarrow> time \<Rightarrow> history_args \<Rightarrow> ('w, 'd) app \<Rightarrow> (history_error + user_summary) \<times> ('w, 'd) app" where
  "handleGetUserSummary pf ev now ha a =
     (case a_db a of
        None \<Rightarrow> (Inl NoDatabase, a)
      | Some (_, d) \<Rightarrow>
          (case time_window ev now ha of
             None \<Rightarrow> (Inl BadPeriod, a)
           | Some (s, e) \<Rightarrow>
               (case history_user pf now ha a of
                  (Inl er, a1) \<Rightarrow> (Inl er, a1)
                | (Inr uid, a1) \<Rightarrow>
                    (case GetUserSummary (pf_sq pf) uid s e d of
                       None \<Rightarrow> (Inl QueryFailed, a1)
                     | Some None \<Rightarrow> (Inl (NoData uid), a1)
                     | Some (Some r) \<Rightarrow> (Inr r, a1)))))"

definition handleGetMetricsDatabaseInfo ::
  "('w, 'd) platform \<Rightarrow> mcp_env \<Rightarrow> ('w, 'd) app \<Rightarrow> history_error + database_info" where
  "handleGetMetricsDatabaseInfo pf ev a =
     (case a_db a of
        None \<Rightarrow> Inl NoDatabase
      | Some (_, d) \<Rightarrow>
          (let retention = (if MetricsDBRetentionDays (a_cfg a) > 0 then MetricsDBRetentionDays (a_cfg a) else 30) in
           case GetDatabaseInfo (pf_sq pf) (me_dbPath ev) (me_dbSize ev) retention d of
             Inl e \<Rightarrow> Inl (InfoError e) | Inr info \<Rightarrow> Inr info))"

section \<open>Prompts\<close>

text \<open>The verdict of the health check.\<close>

definition assessment :: "(string \<times> any) list \<Rightarrow> string" where
  "assessment metrics =
     (let user = getFloatMetric metrics ''total_user_cpu_usage'' (Fin 0) in
      if f64_gt user (f64_of_int 70) then ''**HIGH CPU USAGE** - Consider activating CPU limits''
      else if f64_lt user (f64_of_int 30) then ''**LOW CPU USAGE** - System is running smoothly''
      else ''**MODERATE CPU USAGE** - System is operating normally'')"

definition health_fields :: "(string \<times> any) list \<Rightarrow> (string \<times> any) list \<Rightarrow> (string \<times> any) list" where
  "health_fields metrics status =
     [(''Total CPU'', AFloat (getFloatMetric metrics ''total_cpu_usage'' (Fin 0))),
      (''User CPU'', AFloat (getFloatMetric metrics ''total_user_cpu_usage'' (Fin 0))),
      (''Total Cores'', AInt (getIntMetric metrics ''total_cores'' 0)),
      (''Usage'', AFloat (getFloatMetric metrics ''memory_usage_mb'' (Fin 0))),
      (''Active Users'', AInt (getIntMetric metrics ''active_users_count'' 0)),
      (''Limits Active'', ABool (getBool status ''limits_active'' False)),
      (''System Under Load'', ABool (getBoolMetric metrics ''system_under_load'' False))]"

definition handleSystemHealthPrompt ::
  "('w, 'd) platform \<Rightarrow> mcp_env \<Rightarrow> time \<Rightarrow> ('w, 'd) app \<Rightarrow> (((string \<times> any) list \<times> string) \<times> ('w, 'd) app) option" where
  "handleSystemHealthPrompt pf ev now a =
     (let status = mcp_status pf ev a in with_metrics pf now (\<lambda>metrics. (health_fields metrics status, assessment metrics)) a)"

text \<open>The rows of the table, the memory in megabytes.\<close>

definition handleUserAnalysisPrompt ::
  "('w, 'd) platform \<Rightarrow> time \<Rightarrow> ('w, 'd) app \<Rightarrow> (int \<times> string \<times> f64 \<times> f64 \<times> int) list \<times> ('w, 'd) app" where
  "handleUserAnalysisPrompt pf now a =
     (case all_users pf now a of (ms, a1) \<Rightarrow>
        (map (\<lambda>(uid, um). (uid, Username um, CPUUsage um,
                f64_div (f64_div (f64_of_u64 (MemoryUsage um)) (f64_of_int 1024)) (f64_of_int 1024), ProcessCount um)) ms, a1))"

text \<open>The status and the diagnostic steps.\<close>

definition trouble_fields :: "(string \<times> any) list \<Rightarrow> (string \<times> any) list \<Rightarrow> (string \<times> any) list" where
  "trouble_fields metrics status =
     [(''Limits Active'', ABool (getBool status ''limits_active'' False)),
      (''Total CPU Usage'', AFloat (getFloatMetric metrics ''total_cpu_usage'' (Fin 0))),
      (''User CPU Usage'', AFloat (getFloatMetric metrics ''total_user_cpu_usage'' (Fin 0))),
      (''Active Users'', AInt (getIntMetric metrics ''active_users_count'' 0))]"

definition cpu_step :: "(string \<times> any) list \<Rightarrow> string list" where
  "cpu_step metrics =
     (if f64_gt (getFloatMetric metrics ''total_user_cpu_usage'' (Fin 0)) (f64_of_int 70)
      then [''1. **HIGH CPU USAGE DETECTED**'', ''   - Check which users are consuming the most CPU'',
            ''   - Consider running `activate_limits` if not already active'']
      else [''1. **CPU Usage Normal** - No immediate action needed''])"

definition limits_step :: "(string \<times> any) list \<Rightarrow> string list" where
  "limits_step status =
     (if getBool status ''limits_active'' False
      then ''2. **CPU Limits Active** - Limits are being enforced'' #
           (let n = getInt status ''active_users_count'' 0 in
            if n > 0 then [''   - '' @ Itoa n @ '' users currently limited''] else [])
      else [''2. **CPU Limits Inactive** - No limits currently enforced''])"

definition handleTroubleshootingPrompt ::
  "('w, 'd) platform \<Rightarrow> mcp_env \<Rightarrow> time \<Rightarrow> ('w, 'd) app \<Rightarrow>
   (((string \<times> any) list \<times> string list) \<times> ('w, 'd) app) option" where
  "handleTroubleshootingPrompt pf ev now a =
     (let status = mcp_status pf ev a in
      with_metrics pf now (\<lambda>metrics. (trouble_fields metrics status, cpu_step metrics @ limits_step status)) a)"

section \<open>Resources\<close>

text \<open>The part after the first part that is \<open>name\<close>, as a number.\<close>

fun uid_after :: "string \<Rightarrow> string list \<Rightarrow> int option" where
  "uid_after name (part # next # parts) = (if part = name then Atoi next else uid_after name (next # parts))"
| "uid_after name parts = None"

definition extractUIDFromURI :: "string \<Rightarrow> int option" where
  "extractUIDFromURI uri =
     (if Contains uri ''/users/'' then uid_after ''users'' (Split uri (CHR ''/''))
      else if Contains uri ''/cgroups/'' then uid_after ''cgroups'' (Split uri (CHR ''/''))
      else None)"

definition handleSystemStatusResource ::
  "('w, 'd) platform \<Rightarrow> mcp_env \<Rightarrow> time \<Rightarrow> ('w, 'd) app \<Rightarrow> ((string \<times> any) list \<times> ('w, 'd) app) option" where
  "handleSystemStatusResource pf ev now a =
     (let status = mcp_status pf ev a in with_metrics pf now (\<lambda>metrics. system_fields metrics status) a)"

definition handleActiveUsersResource ::
  "('w, 'd) platform \<Rightarrow> time \<Rightarrow> ('w, 'd) app \<Rightarrow> (int list \<times> ('w, 'd) app) option" where
  "handleActiveUsersResource pf now a =
     map_option (\<lambda>(uids, c1). (uids, a\<lparr>rt_collector := c1\<rparr>))
       (ask (Collector_GetAllUsers (pf_rx pf) (pf_os pf) (pf_pl pf) (world_of a) now) (rt_collector a))"

definition handleLimitsStatusResource :: "('w, 'd) platform \<Rightarrow> mcp_env \<Rightarrow> ('w, 'd) app \<Rightarrow> (string \<times> any) list" where
  "handleLimitsStatusResource pf ev a = limits_fields (mcp_status pf ev a)"

definition handleConfigResource :: "('w, 'd) app \<Rightarrow> (string \<times> any) list" where
  "handleConfigResource a =
     (let cfg = m_cfg (rt_manager a) in
      (''cpu_threshold_duration'', AInt (CPUThresholdDuration cfg)) # config_fields cfg @
      [(''ram_enabled'', ABool (RAMEnabled cfg)), (''ram_threshold'', AInt (RAMThreshold cfg)),
       (''ram_release_threshold'', AInt (RAMReleaseThreshold cfg)), (''ram_quota_limited'', AStr (RAMQuotaLimited cfg)),
       (''ram_quota_per_user'', AStr (RAMQuotaPerUser cfg)), (''disable_swap'', ABool (DisableSwap cfg)),
       (''ram_high_ratio'', AFloat (RAMHighRatio cfg)), (''io_enabled'', ABool (IOEnabled cfg)),
       (''io_threshold'', AInt (IOThreshold cfg)), (''io_release_threshold'', AInt (IOReleaseThreshold cfg)),
       (''io_threshold_duration'', AInt (IOThresholdDuration cfg)), (''io_read_bps'', AStr (IOReadBPS cfg)),
       (''io_write_bps'', AStr (IOWriteBPS cfg)), (''io_read_iops'', AInt (IOReadIOPS cfg)),
       (''io_write_iops'', AInt (IOWriteIOPS cfg)), (''io_device_filter'', AStr (IODeviceFilter cfg))])"

datatype resource_error = InvalidURI | NoMetrics int | CgroupInfoFailed cg_error

definition handleUserMetricsResource ::
  "('w, 'd) platform \<Rightarrow> time \<Rightarrow> string \<Rightarrow> ('w, 'd) app \<Rightarrow> (resource_error + (string \<times> any) list) \<times> ('w, 'd) app" where
  "handleUserMetricsResource pf now uri a =
     (case extractUIDFromURI uri of
        None \<Rightarrow> (Inl InvalidURI, a)
      | Some uid \<Rightarrow>
          (case all_users pf now a of (ms, a1) \<Rightarrow>
             (case map_of ms uid of
                None \<Rightarrow> Inl (NoMetrics uid)
              | Some um \<Rightarrow>
                  Inr ([(''uid'', AInt uid), (''username'', AStr (Username um)), (''cpu_usage'', AFloat (CPUUsage um)),
                        (''memory_usage'', AU64 (MemoryUsage um)), (''process_count'', AInt (ProcessCount um)),
                        (''is_limited'', ABool (IsLimited um))] @
                    (case GetCgroupRAMUsage (pf_os pf) uid (cgroups (rt_manager a)) of
                       Inr n \<Rightarrow> [(''ram_usage_bytes'', AU64 n)] | Inl _ \<Rightarrow> []) @
                    (case GetMemoryHighEvents (pf_os pf) uid (cgroups (rt_manager a)) of
                       Inr n \<Rightarrow> [(''memory_high_events'', AU64 n)] | Inl _ \<Rightarrow> []) @
                    (case GetIOStats (pf_os pf) uid (cgroups (rt_manager a)) of
                       Inr st \<Rightarrow> [(''io_read_bytes'', AU64 (io_rbytes st)), (''io_write_bytes'', AU64 (io_wbytes st)),
                                  (''io_read_ops'', AU64 (io_rios st)), (''io_write_ops'', AU64 (io_wios st))]
                     | Inl _ \<Rightarrow> [])), a1)))"

definition handleCgroupResource :: "'w os \<Rightarrow> string \<Rightarrow> 'w cgroup \<Rightarrow> resource_error + (string \<rightharpoonup> string)" where
  "handleCgroupResource os uri c =
     (case extractUIDFromURI uri of
        None \<Rightarrow> Inl InvalidURI
      | Some uid \<Rightarrow> (case GetCgroupInfo os uid c of Inl e \<Rightarrow> Inl (CgroupInfoFailed e) | Inr info \<Rightarrow> Inr info))"

section \<open>The calls of a client\<close>

text \<open>What a client may ask for. The two tools that switch the limits are registered only when writing is allowed.\<close>

datatype mcp_request =
    SystemStatus
  | UserMetricsOf "int list" string
  | ActiveUsersList
  | LimitsStatus
  | CgroupOf int
  | ShowConfiguration
  | CPUReport
  | MemReport
  | ControlHistory int
  | ActivateLimits bool
  | DeactivateLimits
  | SetExcludeList json_args
  | SetIncludeList json_args
  | ShowFilters
  | ValidatePattern json_args
  | UserHistory history_args
  | SystemHistory history_args
  | UserSummary history_args
  | DatabaseInfo
  | HealthPrompt
  | AnalysisPrompt
  | TroubleshootingPrompt
  | SystemStatusResource
  | ActiveUsersResource
  | LimitsStatusResource
  | ConfigResource
  | UserMetricsResource string
  | CgroupResource string

definition offered :: "mcp_config \<Rightarrow> mcp_request \<Rightarrow> bool" where
  "offered sc rq \<longleftrightarrow> (case rq of ActivateLimits _ \<Rightarrow> mc_AllowWriteOps sc | DeactivateLimits \<Rightarrow> mc_AllowWriteOps sc | _ \<Rightarrow> True)"

text \<open>The application after a request; a tool that is not offered is refused by the library.\<close>

definition serve ::
  "('w, 'd) platform \<Rightarrow> mcp_env \<Rightarrow> mcp_config \<Rightarrow> clock \<Rightarrow> mcp_request \<Rightarrow> ('w, 'd) app \<Rightarrow> ('w, 'd) app option" where
  "serve pf ev sc ck rq a =
     (let now = ck_now ck in
      if \<not> offered sc rq then Some a
      else
        (case rq of
           SystemStatus \<Rightarrow> map_option snd (tool_get_system_status pf ev now a)
         | UserMetricsOf uids username \<Rightarrow> Some (snd (handleGetUserMetrics pf now uids username a))
         | ActiveUsersList \<Rightarrow> map_option snd (tool_get_active_users pf now a)
         | CPUReport \<Rightarrow> map_option snd (tool_get_cpu_report pf ev now a)
         | MemReport \<Rightarrow> map_option snd (tool_get_mem_report pf ev now a)
         | ActivateLimits force \<Rightarrow> map_option snd (handleActivateLimits pf ev sc ck force a)
         | DeactivateLimits \<Rightarrow> Some (snd (tool_deactivate_limits pf now a))
         | SetExcludeList args \<Rightarrow> Some (snd (tool_set_user_exclude_list pf ev sc args a))
         | SetIncludeList args \<Rightarrow> Some (snd (tool_set_user_include_list pf ev sc args a))
         | UserHistory ha \<Rightarrow> Some (snd (handleGetUserHistory pf ev now ha a))
         | UserSummary ha \<Rightarrow> Some (snd (handleGetUserSummary pf ev now ha a))
         | HealthPrompt \<Rightarrow> map_option snd (handleSystemHealthPrompt pf ev now a)
         | AnalysisPrompt \<Rightarrow> Some (snd (handleUserAnalysisPrompt pf now a))
         | TroubleshootingPrompt \<Rightarrow> map_option snd (handleTroubleshootingPrompt pf ev now a)
         | SystemStatusResource \<Rightarrow> map_option snd (handleSystemStatusResource pf ev now a)
         | ActiveUsersResource \<Rightarrow> map_option snd (handleActiveUsersResource pf now a)
         | UserMetricsResource uri \<Rightarrow> Some (snd (handleUserMetricsResource pf now uri a))
         | _ \<Rightarrow> Some a))"

end
