(* ===== verification/DatabaseProps.thy ===== *)
theory DatabaseProps
  imports Database
begin

text \<open>
  What the database keeps. The locale \<open>sqlite_store\<close> states what the statements of the code mean for the rows of the two
  tables; it is interpreted on an in-memory store. Then the spacing of the writes, and the time ranges.
\<close>

section \<open>The statements\<close>

text \<open>\<open>ORDER BY timestamp DESC LIMIT n\<close>: the newest rows, ties in any order; a negative limit is none.\<close>

definition newest :: "('r \<Rightarrow> time) \<Rightarrow> int \<Rightarrow> 'r list \<Rightarrow> 'r list \<Rightarrow> bool" where
  "newest ts n rows rs \<longleftrightarrow>
     sorted_wrt (\<lambda>a b. ts b \<le> ts a) rs \<and> mset rs \<subseteq># mset rows \<and>
     length rs = (if n < 0 then length rows else min (nat n) (length rows)) \<and>
     (\<forall>x \<in># mset rows - mset rs. \<forall>r \<in> set rs. ts x \<le> ts r)"

definition in_range :: "time \<Rightarrow> time \<Rightarrow> time \<Rightarrow> bool" where
  "in_range s e t \<longleftrightarrow> s \<le> t \<and> t \<le> e"

locale sqlite_store =
  fixes sq :: "'d sqlite" and users :: "'d \<Rightarrow> user_record list" and systems :: "'d \<Rightarrow> system_record list"
  assumes inserted_user: "insert_user sq r d = (ok, d') \<Longrightarrow> users d' = (if ok then users d @ [r] else users d) \<and> systems d' = systems d"
    and inserted_system:
      "insert_system sq x d = (ok, d') \<Longrightarrow> systems d' = (if ok then systems d @ [x] else systems d) \<and> users d' = users d"
    and selected_user:
      "select_user sq uid s e n d = Some rs \<Longrightarrow>
       newest ur_Timestamp n (filter (\<lambda>r. ur_UID r = uid \<and> in_range s e (ur_Timestamp r)) (users d)) rs"
    and selected_system:
      "select_system sq s e n d = Some xs \<Longrightarrow> newest sr_Timestamp n (filter (\<lambda>x. in_range s e (sr_Timestamp x)) (systems d)) xs"
    and deleted_user:
      "delete_user_before sq t d = (deleted, d') \<Longrightarrow>
       users d' = (case deleted of None \<Rightarrow> users d | Some _ \<Rightarrow> filter (\<lambda>r. t \<le> ur_Timestamp r) (users d)) \<and> systems d' = systems d"
    and deleted_system:
      "delete_system_before sq t d = (ok, d') \<Longrightarrow>
       systems d' = (if ok then filter (\<lambda>x. t \<le> sr_Timestamp x) (systems d) else systems d) \<and> users d' = users d"
    and vacuumed: "users (snd (vacuum sq d)) = users d" "systems (snd (vacuum sq d)) = systems d"

section \<open>An in-memory store\<close>

record mem_db =
  mem_users :: "user_record list"
  mem_systems :: "system_record list"

definition take_newest :: "('r \<Rightarrow> time) \<Rightarrow> int \<Rightarrow> 'r list \<Rightarrow> 'r list" where
  "take_newest ts n rows = (let s = rev (sort_key ts rows) in if n < 0 then s else take (nat n) s)"

lemma newest_take: "newest ts n rows (take_newest ts n rows)"
proof -
  let ?s = "rev (sort_key ts rows)"
  have srt: "sorted_wrt (\<lambda>a b. ts b \<le> ts a) ?s"
    using sorted_sort_key [of ts rows] by (simp add: sorted_wrt_rev sorted_map)
  have m: "mset ?s = mset rows" by simp
  have t: "newest ts n rows (take k ?s)" if "length (take k ?s) = (if n < 0 then length rows else min (nat n) (length rows))" for k
  proof -
    have split: "mset rows = mset (take k ?s) + mset (drop k ?s)"
      using m by (metis append_take_drop_id mset_append)
    have rest: "mset rows - mset (take k ?s) = mset (drop k ?s)" by (simp add: split)
    have "sorted_wrt (\<lambda>a b. ts b \<le> ts a) (take k ?s @ drop k ?s)" using srt by (simp only: append_take_drop_id)
    then have "sorted_wrt (\<lambda>a b. ts b \<le> ts a) (take k ?s)" "\<forall>x \<in> set (take k ?s). \<forall>y \<in> set (drop k ?s). ts y \<le> ts x"
      unfolding sorted_wrt_append by blast+
    with that show ?thesis unfolding newest_def rest by (simp add: split)
  qed
  show ?thesis
    using t [of "length rows"] t [of "nat n"] by (cases "n < 0") (simp_all add: take_newest_def min.commute)
qed

definition mem_sqlite :: "mem_db sqlite" where
  "mem_sqlite =
     \<lparr>create_schema = (\<lambda>d. (True, d)),
      insert_user = (\<lambda>r d. (True, d\<lparr>mem_users := mem_users d @ [r]\<rparr>)),
      insert_system = (\<lambda>x d. (True, d\<lparr>mem_systems := mem_systems d @ [x]\<rparr>)),
      select_user = (\<lambda>uid s e n d. Some (take_newest ur_Timestamp n
         (filter (\<lambda>r. ur_UID r = uid \<and> in_range s e (ur_Timestamp r)) (mem_users d)))),
      select_system = (\<lambda>s e n d. Some (take_newest sr_Timestamp n (filter (\<lambda>x. in_range s e (sr_Timestamp x)) (mem_systems d)))),
      select_summary = (\<lambda>uid s e d. Some None),
      count_user = (\<lambda>d. Some (int (length (mem_users d)))),
      count_system = (\<lambda>d. Some (int (length (mem_systems d)))),
      min_timestamp = (\<lambda>d. Some None), max_timestamp = (\<lambda>d. Some None),
      count_uids = (\<lambda>d. Some (int (length (remdups (map ur_UID (mem_users d)))))),
      delete_user_before = (\<lambda>t d. (Some (int (length (filter (\<lambda>r. ur_Timestamp r < t) (mem_users d)))),
         d\<lparr>mem_users := filter (\<lambda>r. t \<le> ur_Timestamp r) (mem_users d)\<rparr>)),
      delete_system_before = (\<lambda>t d. (True, d\<lparr>mem_systems := filter (\<lambda>x. t \<le> sr_Timestamp x) (mem_systems d)\<rparr>)),
      vacuum = (\<lambda>d. (True, d))\<rparr>"

interpretation mem_store: sqlite_store mem_sqlite mem_users mem_systems
  by unfold_locales (auto simp: mem_sqlite_def newest_take)

section \<open>What a cycle stores\<close>

text \<open>The row of a user, as the collector hands it to the writer.\<close>

definition stored_row :: "time \<Rightarrow> int \<times> user_metrics \<Rightarrow> user_record" where
  "stored_row now en =
     (case en of (uid, um) \<Rightarrow>
        \<lparr>ur_UID = uid, ur_Username = Username um, ur_CPUUsagePercent = CPUUsage um, ur_MemoryUsageBytes = sint (MemoryUsage um),
         ur_ProcessCount = ProcessCount um, ur_CgroupPath = '''', ur_CPUQuota = '''', ur_IsLimited = False,
         ur_Timestamp = now\<rparr>)"

context sqlite_store begin

lemma write_user:
  "enabled w \<Longrightarrow> users (DBWriter_WriteUserMetrics sq now uid n c m p l g q w d) =
     (if fst (insert_user sq \<lparr>ur_UID = uid, ur_Username = n, ur_CPUUsagePercent = c, ur_MemoryUsageBytes = sint m,
         ur_ProcessCount = p, ur_CgroupPath = g, ur_CPUQuota = q, ur_IsLimited = l, ur_Timestamp = now\<rparr> d)
      then users d @ [\<lparr>ur_UID = uid, ur_Username = n, ur_CPUUsagePercent = c, ur_MemoryUsageBytes = sint m,
         ur_ProcessCount = p, ur_CgroupPath = g, ur_CPUQuota = q, ur_IsLimited = l, ur_Timestamp = now\<rparr>] else users d)"
  unfolding DBWriter_WriteUserMetrics_def WriteUserMetrics_def using inserted_user [OF surjective_pairing] by simp

lemma write_system: "users (DBWriter_WriteSystemMetrics sq now c n l a u w d) = users d"
  unfolding DBWriter_WriteSystemMetrics_def WriteSystemMetrics_def using inserted_system [OF surjective_pairing] by simp

lemma rows_of_fold:
  assumes "enabled w"
  shows "\<exists>rs. set rs \<subseteq> set ums \<and>
    users (fold (\<lambda>(uid, um). DBWriter_WriteUserMetrics sq now uid (Username um) (CPUUsage um) (MemoryUsage um)
      (ProcessCount um) False '''' '''' w) ums d) = users d @ map (stored_row now) rs"
proof (induction ums arbitrary: d)
  case Nil
  show ?case by (intro exI [of _ "[]"]) simp
next
  case (Cons en ums)
  obtain uid um where en: "en = (uid, um)" by (cases en)
  let ?d = "DBWriter_WriteUserMetrics sq now uid (Username um) (CPUUsage um) (MemoryUsage um) (ProcessCount um) False '''' '''' w d"
  obtain rs where rs: "set rs \<subseteq> set ums" "users (fold (\<lambda>(uid, um). DBWriter_WriteUserMetrics sq now uid (Username um)
      (CPUUsage um) (MemoryUsage um) (ProcessCount um) False '''' '''' w) ums ?d) = users ?d @ map (stored_row now) rs"
    using Cons [of ?d] by blast
  have "users ?d = users d @ map (stored_row now) [en] \<or> users ?d = users d"
    using write_user [OF assms] by (simp add: en stored_row_def)
  then show ?case
  proof
    assume "users ?d = users d @ map (stored_row now) [en]"
    with rs show ?case by (intro exI [of _ "en # rs"]) (auto simp: en)
  next
    assume "users ?d = users d"
    with rs show ?case by (intro exI [of _ rs]) (auto simp: en)
  qed
qed

lemma stored:
  assumes "Collector_WriteMetricsToDatabase sq now ums cpu cores load limits limitedUsers (w, d) = (w', d')"
  shows "\<exists>rs. set rs \<subseteq> set ums \<and> users d' = users d @ map (stored_row now) rs"
proof (cases "enabled w")
  case True
  from rows_of_fold [OF this, of ums now "DBWriter_WriteSystemMetrics sq now cpu cores load limits limitedUsers w d"] assms
  show ?thesis by (simp add: Collector_WriteMetricsToDatabase_def write_system)
next
  case False
  have "fold (\<lambda>(uid, um). DBWriter_WriteUserMetrics sq now uid (Username um) (CPUUsage um) (MemoryUsage um)
      (ProcessCount um) False '''' '''' w) ums d = d" for d
    using False by (induction ums arbitrary: d) (auto simp: DBWriter_WriteUserMetrics_def)
  with False assms show ?thesis
    by (intro exI [of _ "[]"]) (simp add: Collector_WriteMetricsToDatabase_def DBWriter_WriteSystemMetrics_def)
qed

lemma cleaned:
  assumes "CleanupOldData cal sq now days d = (Some n, d')"
  shows "users d' = filter (\<lambda>r. cal_days cal (- days) now \<le> ur_Timestamp r) (users d) \<and>
    systems d' = filter (\<lambda>x. cal_days cal (- days) now \<le> sr_Timestamp x) (systems d)"
proof -
  obtain k d1 d2 where s: "delete_user_before sq (cal_days cal (- days) now) d = (Some k, d1)"
    "delete_system_before sq (cal_days cal (- days) now) d1 = (True, d2)" "d' = snd (vacuum sq d2)"
    using assms by (auto simp: CleanupOldData_def Let_def split: prod.splits option.splits bool.splits if_splits)
  from deleted_user [OF s(1)] deleted_system [OF s(2)] show ?thesis by (simp add: s(3) vacuumed)
qed

end

lemma stored_rows_not_limited:
  assumes "sqlite_store sq users systems"
    and "Collector_WriteMetricsToDatabase sq now ums cpu cores load limits limitedUsers (w, d) = (w', d')"
  shows "\<exists>rs. set rs \<subseteq> set ums \<and> users d' = users d @ map (stored_row now) rs \<and>
    list_all (\<lambda>r. \<not> ur_IsLimited r \<and> ur_CgroupPath r = '''' \<and> ur_CPUQuota r = '''') (map (stored_row now) rs)"
  using sqlite_store.stored [OF assms] by (auto simp: stored_row_def list_all_iff)

lemma cleanup_keeps_recent:
  assumes "sqlite_store sq users systems" "CleanupOldData cal sq now days d = (Some n, d')"
    and "GetUserHistory sq uid s e limit d' = Some rs"
  shows "newest ur_Timestamp limit (filter (\<lambda>r. ur_UID r = uid \<and> in_range s e (ur_Timestamp r) \<and>
    cal_days cal (- days) now \<le> ur_Timestamp r) (users d)) rs"
proof -
  have u: "users d' = filter (\<lambda>r. cal_days cal (- days) now \<le> ur_Timestamp r) (users d)"
    using sqlite_store.cleaned [OF assms(1,2)] by simp
  from sqlite_store.selected_user [OF assms(1) assms(3) [unfolded GetUserHistory_def]] show ?thesis
    unfolding u filter_filter by (simp add: conj_ac)
qed

section \<open>How often\<close>

text \<open>The instants, among those of a list of control cycles, at which a writer writes.\<close>

fun write_times :: "db_writer \<Rightarrow> time list \<Rightarrow> time list" where
  "write_times w [] = []"
| "write_times w (t # ts) = (if ShouldWrite t w then t # write_times (MarkWritten t w) ts else write_times w ts)"

lemma write_times_after:
  "sorted ts \<Longrightarrow> \<forall>t \<in> set ts. lastWriteTime w \<le> t \<and> t - lastWriteTime w < 2 ^ 63 \<Longrightarrow>
   successively (\<lambda>a b. writeInterval w \<le> b - a) (lastWriteTime w # write_times w ts)"
proof (induction w ts rule: write_times.induct)
  case (2 w t ts)
  show ?case
  proof (cases "ShouldWrite t w")
    case True
    have "successively (\<lambda>a b. writeInterval w \<le> b - a) (t # write_times (MarkWritten t w) ts)"
      using 2(1) [OF True] 2(3,4) by (fastforce simp: MarkWritten_def)
    moreover have "writeInterval w \<le> t - lastWriteTime w"
      using True 2(4) by (simp add: ShouldWrite_def time_Sub_eq)
    ultimately show ?thesis using True by simp
  next
    case False
    with 2 show ?thesis by simp
  qed
qed simp

lemma write_times_cover:
  "sorted ts \<Longrightarrow> \<forall>t \<in> set ts. lastWriteTime w \<le> t \<and> t - lastWriteTime w < 2 ^ 63 \<Longrightarrow> enabled w \<Longrightarrow>
   0 \<le> writeInterval w \<Longrightarrow>
   \<forall>t \<in> set ts. \<exists>u \<in> set (lastWriteTime w # write_times w ts). u \<le> t \<and> t - u \<le> writeInterval w"
proof (induction w ts rule: write_times.induct)
  case (2 w t ts)
  show ?case
  proof (cases "ShouldWrite t w")
    case True
    have "\<forall>t' \<in> set ts. \<exists>u \<in> set (t # write_times (MarkWritten t w) ts). u \<le> t' \<and> t' - u \<le> writeInterval w"
      using 2(1) [OF True] 2(3-6) by (fastforce simp: MarkWritten_def)
    with True 2(6) show ?thesis by auto
  next
    case False
    then have "t - lastWriteTime w \<le> writeInterval w" using 2(4,5) by (auto simp: ShouldWrite_def time_Sub_eq)
    with False 2 show ?thesis by auto
  qed
qed simp

lemma writes_spaced:
  assumes "sorted ts" "\<forall>t \<in> set ts. lastWriteTime w \<le> t \<and> t - lastWriteTime w < 2 ^ 63" "enabled w" "0 \<le> writeInterval w"
  shows "successively (\<lambda>a b. writeInterval w \<le> b - a) (lastWriteTime w # write_times w ts) \<and>
    (\<forall>t \<in> set ts. \<exists>u \<in> set (lastWriteTime w # write_times w ts). u \<le> t \<and> t - u \<le> writeInterval w)"
  using write_times_after [OF assms(1,2)] write_times_cover [OF assms] by blast

section \<open>Time ranges\<close>

lemma wrap64_nested: "wrap64 (wrap64 a * b) = wrap64 (a * b)"
  unfolding wrap64_def by (metis signed_take_bit_mult signed_take_bit_signed_take_bit min.idem)

lemma Itoa_digits: "0 \<le> n \<Longrightarrow> list_all is_digit (Itoa n) \<and> Itoa n \<noteq> []"
  by (simp add: Itoa_def show_digits_correct show_digits_nonempty)

lemma ParseDuration_days: "0 \<le> n \<Longrightarrow> in_int64 n \<Longrightarrow> ParseDuration (Itoa n @ ''d'') = Some (wrap64 (n * 24 * hour))"
proof -
  assume "0 \<le> n" "in_int64 n"
  moreover have "Itoa n \<noteq> []" using Itoa_digits [OF \<open>0 \<le> n\<close>] by simp
  moreover from this have "2 \<le> length (Itoa n @ ''d'')" by (cases "Itoa n") simp_all
  ultimately show ?thesis by (simp add: ParseDuration_def wrap64_nested)
qed

lemma ParseTimeRange_days:
  assumes "0 \<le> n" "in_int64 n"
  shows "ParseTimeRange cal rfc day (''now-'' @ Itoa n @ ''d'') defaultEnd =
     Some (defaultEnd + wrap64 (- wrap64 (n * 24 * hour)), defaultEnd) \<and>
    (n * 24 * hour < 2 ^ 63 \<longrightarrow> defaultEnd + wrap64 (- wrap64 (n * 24 * hour)) = defaultEnd - n * 24 * hour)"
proof
  have "relative_format (''now-'' @ Itoa n @ ''d'')"
    using Itoa_digits [OF assms(1)] by (cases "Itoa n") (auto simp: relative_format_def butlast_append HasPrefix_def)
  then show "ParseTimeRange cal rfc day (''now-'' @ Itoa n @ ''d'') defaultEnd =
     Some (defaultEnd + wrap64 (- wrap64 (n * 24 * hour)), defaultEnd)"
    using ParseDuration_days [OF assms] by (simp add: ParseTimeRange_def ToLower_def to_lower_def split: prod.split)
  have "wrap64 (n * 24 * hour) = n * 24 * hour" "wrap64 (- (n * 24 * hour)) = - (n * 24 * hour)" if "n * 24 * hour < 2 ^ 63"
    using that assms(1) by (auto simp: in_int64_def hour_def intro!: wrap64_id)
  then show "n * 24 * hour < 2 ^ 63 \<longrightarrow> defaultEnd + wrap64 (- wrap64 (n * 24 * hour)) = defaultEnd - n * 24 * hour"
    by simp
qed

end
