(* ===== verification/MCPProps.thy ===== *)
theory MCPProps
  imports AppInv MCPServer DatabaseProps
begin

text \<open>
  What a request to the MCP server may change, who reaches the server over HTTP, what the history tools return, and which
  figures the server reports.
\<close>

section \<open>The collector answers the server\<close>

lemma ask_each_fine:
  assumes "\<And>uid c. col_fine pf cfg c \<Longrightarrow> \<exists>v c1. ask (getter uid) c = Some (v, c1) \<and> col_fine pf cfg c1" "col_fine pf cfg c"
  shows "\<exists>vs c1. ask_each getter uids c = Some (vs, c1) \<and> col_fine pf cfg c1"
  using assms(2)
proof (induction uids arbitrary: c)
  case (Cons uid uids)
  obtain v c1 where 1: "ask (getter uid) c = Some (v, c1)" "col_fine pf cfg c1" using assms(1) [OF Cons.prems] by blast
  from Cons.IH [OF 1(2)] 1(1) show ?case by auto
qed simp

lemma decided_users:
  assumes "decided (name_of os pl) rx cfg c"
  shows "decided (name_of os pl) rx cfg (snd (Collector_GetAllUsersCPUUsage rx os pl w now c))"
    "decided (name_of os pl) rx cfg (snd (Collector_GetLimitedUsersCPUUsage rx os pl w now c))"
    "decided (name_of os pl) rx cfg (snd (Collector_GetAllUsers rx os pl w now c))"
    "decided (name_of os pl) rx cfg (snd (Collector_GetLimitedUsers rx os pl w now c))"
    "decided (name_of os pl) rx cfg (snd (Collector_GetAllUsersMemoryUsage rx os pl w now c))"
    "decided (name_of os pl) rx cfg (snd (Collector_GetLimitedUsersMemoryUsage rx os pl w now c))"
    "decided (name_of os pl) rx cfg (snd (Collector_GetUserCPUUsage rx os pl w now uid c))"
  unfolding getter_defs using assms by (auto intro!: decided_from_metrics)

lemma detailed_fine:
  assumes "col_fine pf cfg c"
  shows "\<exists>m c1. GetDetailedMetrics pf w now c = Some (m, c1) \<and> col_fine pf cfg c1 \<and>
    map_of m ''total_user_cpu_usage'' = None \<and> map_of m ''active_users_count'' = None \<and> (\<exists>n. map_of m ''total_cores'' = Some (AInt n))"
proof -
  let ?os = "pf_os pf" and ?pl = "pf_pl pf" and ?rx = "pf_rx pf"
  obtain v1 c1 where 1: "ask (Collector_GetTotalCores ?os ?pl w now) c = Some (v1, c1)" "col_fine pf cfg c1"
    by (rule ask_fine [OF assms answers_cores decided_cores])
  obtain v2 c2 where 2: "ask (Collector_GetTotalCPUUsage ?os ?pl w now) c1 = Some (v2, c2)" "col_fine pf cfg c2"
    by (rule ask_fine [OF 1(2) answers_cpu decided_cpu])
  obtain v3 c3 where 3: "ask (Collector_GetAllUsersCPUUsage ?rx ?os ?pl w now) c2 = Some (v3, c3)" "col_fine pf cfg c3"
    by (rule ask_fine [OF 2(2) answers_users(1) decided_users(1)])
  obtain v4 c4 where 4: "ask (Collector_GetAllUsersMemoryUsage ?rx ?os ?pl w now) c3 = Some (v4, c4)" "col_fine pf cfg c4"
    by (rule ask_fine [OF 3(2) answers_users(5) decided_users(5)])
  obtain v5 c5 where 5: "ask (Collector_GetAllUsers ?rx ?os ?pl w now) c4 = Some (v5, c5)" "col_fine pf cfg c5"
    by (rule ask_fine [OF 4(2) answers_users(3) decided_users(3)])
  obtain v6 c6 where 6: "ask (Collector_GetLimitedUsersCPUUsage ?rx ?os ?pl w now) c5 = Some (v6, c6)" "col_fine pf cfg c6"
    by (rule ask_fine [OF 5(2) answers_users(2) decided_users(2)])
  obtain v7 c7 where 7: "ask (Collector_GetLimitedUsersMemoryUsage ?rx ?os ?pl w now) c6 = Some (v7, c7)" "col_fine pf cfg c7"
    by (rule ask_fine [OF 6(2) answers_users(6) decided_users(6)])
  obtain v8 c8 where 8: "ask (Collector_GetLimitedUsers ?rx ?os ?pl w now) c7 = Some (v8, c8)" "col_fine pf cfg c8"
    by (rule ask_fine [OF 7(2) answers_users(4) decided_users(4)])
  obtain v9 c9 where 9: "ask (Collector_GetMemoryUsage ?os ?pl w now) c8 = Some (v9, c9)" "col_fine pf cfg c9"
    by (rule ask_fine [OF 8(2) answers_memory(1) decided_memory(1)])
  obtain va ca where a: "ask (Collector_GetTotalMemoryMB ?os ?pl w now) c9 = Some (va, ca)" "col_fine pf cfg ca"
    by (rule ask_fine [OF 9(2) answers_memory(2) decided_memory(2)])
  obtain vb cb where b: "ask (Collector_GetCachedMemoryMB ?os ?pl w now) ca = Some (vb, cb)" "col_fine pf cfg cb"
    by (rule ask_fine [OF a(2) answers_memory(3) decided_memory(3)])
  obtain vc cc where c: "ask (Collector_IsSystemUnderLoad ?os ?pl w now) cb = Some (vc, cc)" "col_fine pf cfg cc"
    by (rule ask_fine [OF b(2) answers_load decided_load])
  have g: "\<exists>v c1. ask (Collector_GetUserCPUUsage ?rx ?os ?pl w now uid) c = Some (v, c1) \<and> col_fine pf cfg c1"
    if "col_fine pf cfg c" for uid c
    by (rule ask_fine [of pf cfg c "Collector_GetUserCPUUsage ?rx ?os ?pl w now uid", OF that answers_users(7) decided_users(7)]) blast+
  obtain vd cd where d: "ask_each (\<lambda>uid. Collector_GetUserCPUUsage ?rx ?os ?pl w now uid) v5 cc = Some (vd, cd)" "col_fine pf cfg cd"
    using ask_each_fine [of pf cfg "\<lambda>uid. Collector_GetUserCPUUsage ?rx ?os ?pl w now uid", OF g c(2)] by blast
  show ?thesis
    unfolding GetDetailedMetrics_def Let_def 1 2 3 4 5 6 7 8 9 a b c d Option.bind.bind_lunit prod.case
    using d(2) by simp
qed

lemma all_users_fine:
  assumes "col_fine pf (m_cfg (rt_manager a)) (rt_collector a)"
  shows "\<exists>ms c. all_users pf now a = (ms, a\<lparr>rt_collector := c\<rparr>) \<and> col_fine pf (m_cfg (rt_manager a)) c"
proof -
  obtain ms c where r: "Collector_GetAllUserMetrics (pf_rx pf) (pf_os pf) (pf_pl pf) (world_of a) now (rt_collector a) = (ms, c)"
    by (metis surj_pair)
  from assms have "col_ok (rt_collector a)" "decided (name_of (pf_os pf) (pf_pl pf)) (pf_rx pf) (m_cfg (rt_manager a)) (rt_collector a)"
    by (simp_all add: col_fine_def)
  with all_user_metrics_ok [of "rt_collector a" "pf_rx pf" "pf_os pf" "pf_pl pf" "world_of a" now] all_decided [OF _ r]
  have "col_fine pf (m_cfg (rt_manager a)) c" by (simp add: r scan_ok_def col_fine_def)
  moreover from r have "all_users pf now a = (ms, a\<lparr>rt_collector := c\<rparr>)" by (simp add: all_users_def)
  ultimately show ?thesis by blast
qed

section \<open>Reading changes nothing but the collector\<close>

text \<open>What a reading request may do: the collector answers, and stays in order.\<close>

definition only_reads :: "('w, 'd) platform \<Rightarrow> ('w, 'd) app \<Rightarrow> ('w, 'd) app option \<Rightarrow> bool" where
  "only_reads pf a r \<longleftrightarrow> (\<exists>c. r = Some (a\<lparr>rt_collector := c\<rparr>) \<and> col_fine pf (m_cfg (rt_manager a)) c)"

lemma only_reads_same [simp]: "col_fine pf (m_cfg (rt_manager a)) (rt_collector a) \<Longrightarrow> only_reads pf a (Some a)"
  by (auto simp: only_reads_def intro!: exI [of _ "rt_collector a"])

lemma only_reads_metrics:
  assumes "col_fine pf (m_cfg (rt_manager a)) (rt_collector a)"
  shows "only_reads pf a (map_option snd (with_metrics pf now f a))"
  using detailed_fine [OF assms, of "world_of a" now] by (auto simp: with_metrics_def only_reads_def)

lemma only_reads_users:
  assumes "col_fine pf (m_cfg (rt_manager a)) (rt_collector a)"
  shows "only_reads pf a (Some (snd (all_users pf now a)))"
  using all_users_fine [OF assms, of now] by (auto simp: only_reads_def)

lemma only_reads_trans:
  "only_reads pf a (Some b) \<Longrightarrow> only_reads pf b r \<Longrightarrow> only_reads pf a r"
  by (auto simp: only_reads_def)

lemma only_reads_fine: "only_reads pf a (Some b) \<Longrightarrow> col_fine pf (m_cfg (rt_manager b)) (rt_collector b)"
  by (auto simp: only_reads_def)

lemma only_reads_report:
  assumes "col_fine pf (m_cfg (rt_manager a)) (rt_collector a)"
  shows "only_reads pf a (map_option snd (Option.bind (with_metrics pf now id a) (\<lambda>(metrics, a1).
    (case all_users pf now a1 of (ms, a2) \<Rightarrow> Some (f metrics a1 ms, a2)))))"
proof -
  obtain m a1 where 1: "with_metrics pf now id a = Some (m, a1)" "only_reads pf a (Some a1)"
    using only_reads_metrics [OF assms, of now id] by (auto simp: only_reads_def)
  obtain ms a2 where 2: "all_users pf now a1 = (ms, a2)" by (metis surj_pair)
  have "only_reads pf a1 (Some a2)" using only_reads_users [OF only_reads_fine [OF 1(2)], of now] by (simp add: 2)
  with 1 2 show ?thesis by (auto intro: only_reads_trans)
qed

lemma only_reads_listing:
  assumes "col_fine pf (m_cfg (rt_manager a)) (rt_collector a)"
  shows "only_reads pf a (map_option snd (tool_get_active_users pf now a))"
proof -
  obtain v c1 where c: "ask (Collector_GetAllUsers (pf_rx pf) (pf_os pf) (pf_pl pf) (world_of a) now) (rt_collector a) = Some (v, c1)"
    "col_fine pf (m_cfg (rt_manager a)) c1"
    by (rule ask_fine [OF assms answers_users(3) decided_users(3)])
  let ?a1 = "a\<lparr>rt_collector := c1\<rparr>"
  obtain ms a2 where 2: "all_users pf now ?a1 = (ms, a2)" by (metis surj_pair)
  have "only_reads pf ?a1 (Some a2)" using only_reads_users [of pf ?a1 now] c(2) by (simp add: 2)
  moreover have "only_reads pf a (Some ?a1)" using c(2) by (auto simp: only_reads_def)
  ultimately show ?thesis using c(1) 2 by (auto simp: tool_get_active_users_def intro: only_reads_trans)
qed

lemma only_reads_uids:
  assumes "col_fine pf (m_cfg (rt_manager a)) (rt_collector a)"
  shows "only_reads pf a (map_option snd (handleActiveUsersResource pf now a))"
proof -
  obtain v c1 where c: "ask (Collector_GetAllUsers (pf_rx pf) (pf_os pf) (pf_pl pf) (world_of a) now) (rt_collector a) = Some (v, c1)"
    "col_fine pf (m_cfg (rt_manager a)) c1"
    by (rule ask_fine [OF assms answers_users(3) decided_users(3)])
  then show ?thesis by (auto simp: handleActiveUsersResource_def only_reads_def)
qed

lemma only_reads_history:
  assumes "col_fine pf (m_cfg (rt_manager a)) (rt_collector a)"
  shows "only_reads pf a (Some (snd (history_user pf now ha a)))" "only_reads pf a (Some (snd (handleGetUserHistory pf ev now ha a)))"
    "only_reads pf a (Some (snd (handleGetUserSummary pf ev now ha a)))"
proof -
  show u: "only_reads pf a (Some (snd (history_user pf now ha a)))"
    using only_reads_users [OF assms, of now] assms
    by (simp add: history_user_def split_beta Let_def split: option.split)
  obtain r a1 where h: "history_user pf now ha a = (r, a1)" by (metis surj_pair)
  with u have "only_reads pf a (Some a1)" by simp
  then show "only_reads pf a (Some (snd (handleGetUserHistory pf ev now ha a)))"
    "only_reads pf a (Some (snd (handleGetUserSummary pf ev now ha a)))"
    using assms by (auto simp: handleGetUserHistory_def handleGetUserSummary_def h split_beta split: option.split sum.split)
qed

definition writes :: "mcp_request \<Rightarrow> bool" where
  "writes rq \<longleftrightarrow> (case rq of ActivateLimits _ \<Rightarrow> True | DeactivateLimits \<Rightarrow> True | SetExcludeList _ \<Rightarrow> True | SetIncludeList _ \<Rightarrow> True | _ \<Rightarrow> False)"

lemma reading_request:
  assumes fine: "col_fine pf (m_cfg (rt_manager a)) (rt_collector a)" and w: "\<not> writes rq \<or> \<not> mc_AllowWriteOps sc"
  shows "only_reads pf a (serve pf ev sc ck rq a)"
proof -
  note r = only_reads_metrics [OF fine] only_reads_users [OF fine] only_reads_same [OF fine]
  have list: "snd (tool_set_user_exclude_list pf ev sc args a) = a" "snd (tool_set_user_include_list pf ev sc args a) = a"
    if "\<not> mc_AllowWriteOps sc" for args
    using that by (simp_all add: tool_set_user_exclude_list_def tool_set_user_include_list_def split: sum.split)
  have users: "snd (handleGetUserMetrics pf now uids n a) = snd (all_users pf now a)"
    "snd (handleUserAnalysisPrompt pf now a) = snd (all_users pf now a)" for now uids n
    by (simp_all add: handleGetUserMetrics_def handleUserAnalysisPrompt_def split_beta)
  have uri: "only_reads pf a (Some (snd (handleUserMetricsResource pf now u a)))" for now u
    using r by (simp add: handleUserMetricsResource_def split_beta split: option.split)
  show ?thesis
  proof (cases rq)
    case SystemStatus
    then show ?thesis using r by (simp add: serve_def offered_def tool_get_system_status_def Let_def)
  next
    case CPUReport
    then show ?thesis using only_reads_report [OF fine] by (simp add: serve_def offered_def tool_get_cpu_report_def Let_def)
  next
    case MemReport
    then show ?thesis using only_reads_report [OF fine] by (simp add: serve_def offered_def tool_get_mem_report_def Let_def)
  qed (use w r in \<open>simp_all add: serve_def offered_def writes_def Let_def list users uri only_reads_listing [OF fine] only_reads_uids [OF fine]
      only_reads_history [OF fine] handleSystemHealthPrompt_def handleTroubleshootingPrompt_def handleSystemStatusResource_def\<close>)
qed

section \<open>Requests keep the invariant\<close>

definition sets_lists :: "mcp_request \<Rightarrow> bool" where
  "sets_lists rq \<longleftrightarrow> (case rq of SetExcludeList _ \<Rightarrow> True | SetIncludeList _ \<Rightarrow> True | _ \<Rightarrow> False)"

lemma force_on_ok:
  assumes "app_base pf a"
  obtains err a' where "force_on pf now a = Some (err, a')" "app_base pf a'" "cycleComplete a' = cycleComplete a"
proof -
  from assms have u: "col_fine pf (m_cfg (rt_manager a)) (rt_collector a)" by (simp add: app_base_def)
  obtain mc c1 where s: "system_answers pf (world_of a) now (due now a) (rt_collector a) = Some (mc, c1)"
    "col_fine pf (m_cfg (rt_manager a)) c1" using system_answers_fine [OF u] by blast
  obtain err m where f: "ForceActivateLimits (pf_ops pf) now mc (rt_manager a) = (err, m)" by (metis surj_pair)
  have "mgr_ok tracked_ok (snd (ForceActivateLimits (pf_ops pf) now mc (rt_manager a)))"
    using assms by (simp add: app_base_def pf_ops_def real.ok_ForceActivate)
  moreover have "m_cfg (snd (ForceActivateLimits (pf_ops pf) now mc (rt_manager a))) = m_cfg (rt_manager a)" by simp
  ultimately have m: "mgr_ok tracked_ok m" "m_cfg m = m_cfg (rt_manager a)" by (simp_all add: f)
  show ?thesis
    by (rule that [of err "flush pf now (a\<lparr>rt_manager := m, rt_collector := c1\<rparr>)"])
      (use s f m in \<open>simp_all add: force_on_def app_base_manager [OF assms]\<close>)
qed

lemma force_off_ok: "app_base pf a \<Longrightarrow> app_base pf (snd (force_off pf now a)) \<and> cycleComplete (snd (force_off pf now a)) = cycleComplete a"
proof -
  assume a: "app_base pf a"
  let ?r = "ForceDeactivateLimits (pf_ops pf) (pf_rx pf) (names_only pf (world_of a) now (rt_collector a)) (rt_manager a)"
  obtain err m where f: "?r = (err, m)" by (metis surj_pair)
  have "mgr_ok tracked_ok (snd ?r)" using a by (simp add: app_base_def pf_ops_def real.ok_ForceDeactivate)
  moreover have "m_cfg (snd ?r) = m_cfg (rt_manager a)" by simp
  ultimately have m: "mgr_ok tracked_ok m" "m_cfg m = m_cfg (rt_manager a)" by (simp_all only: f snd_conv)
  have "a\<lparr>rt_manager := m\<rparr> = a\<lparr>rt_manager := m, rt_collector := rt_collector a\<rparr>" by simp
  with m a app_base_manager(1) [OF a m(1,2), of "rt_collector a" now] show ?thesis
    by (simp add: force_off_def f app_base_def)
qed

lemma serve_ok:
  assumes a: "app_base pf a" and n: "\<not> sets_lists rq"
  shows "\<exists>a'. serve pf ev sc ck rq a = Some a' \<and> app_base pf a' \<and> cycleComplete a' = cycleComplete a"
proof (cases "\<not> writes rq \<or> \<not> mc_AllowWriteOps sc")
  case True
  from a have "col_fine pf (m_cfg (rt_manager a)) (rt_collector a)" by (simp add: app_base_def)
  from reading_request [OF this True, of ev ck] a show ?thesis by (auto simp: only_reads_def app_base_def)
next
  case False
  then consider force where "rq = ActivateLimits force" | "rq = DeactivateLimits"
    using n by (cases rq) (auto simp: writes_def sets_lists_def)
  then show ?thesis
  proof cases
    case 1
    obtain e1 a1 where f: "force_on pf (ck_now ck) a = Some (e1, a1)" "app_base pf a1" "cycleComplete a1 = cycleComplete a"
      by (rule force_on_ok [OF a])
    obtain a2 where c: "app_cycle pf ck ''manual'' a = Some a2" "app_base pf a2" by (rule app_cycle_ok [OF a])
    have "cycleComplete a2 = cycleComplete a" by (rule app_cycle_complete [OF c(1)])
    with 1 False a f c show ?thesis by (auto simp: serve_def offered_def Let_def handleActivateLimits_def)
  next
    case 2
    with False force_off_ok [OF a, of "ck_now ck"] show ?thesis
      by (simp add: serve_def offered_def Let_def tool_deactivate_limits_def split_beta)
  qed
qed

section \<open>Access over HTTP\<close>

lemma mcp_http_access:
  "route sc path h = Handled Reached \<longleftrightarrow>
     path = ''/mcp'' \<and> (mc_AuthToken sc = '''' \<or> h = ''Bearer '' @ mc_AuthToken sc)"
proof -
  have "HasPrefix h b \<and> TrimPrefix h b = tok \<longleftrightarrow> h = b @ tok" for b tok
    by (auto simp: HasPrefix_iff)
  from this [of "''Bearer ''" "mc_AuthToken sc"] show ?thesis by (auto simp: route_def MCP_authMiddleware_def)
qed

section \<open>Resources\<close>

lemma Split_append_sep: "Split (p @ c # t) c = Split p c @ Split t c"
proof (induction p)
  case (Cons x p)
  obtain y ys where "split_by (\<lambda>x. x = c) p = y # ys" by (metis list.exhaust split_by_nonempty)
  with Cons show ?case by (simp add: Split_def)
qed (simp add: Split_def)

lemma Split_part: "c \<notin> set m \<Longrightarrow> m \<in> set (Split (p @ c # m @ c # q) c)"
proof -
  assume "c \<notin> set m"
  then have "Split m c = [m]" unfolding Split_def by (intro split_by_no_sep) auto
  then show ?thesis by (simp add: Split_append_sep)
qed

lemma extractUID_roundtrip:
  assumes "in_int64 n"
  shows "extractUIDFromURI (''resman://users/'' @ Itoa n @ ''/metrics'') = Some n \<and>
    extractUIDFromURI (''resman://cgroups/'' @ Itoa n) = Some n"
proof -
  have u: "''resman://users/'' @ Itoa n @ ''/metrics'' = Join [''resman:'', '''', ''users'', Itoa n, ''metrics''] ''/''"
    and c: "''resman://cgroups/'' @ Itoa n = Join [''resman:'', '''', ''cgroups'', Itoa n] ''/''" by simp_all
  have su: "Split (''resman://users/'' @ Itoa n @ ''/metrics'') (CHR ''/'') = [''resman:'', '''', ''users'', Itoa n, ''metrics'']"
    unfolding u by (rule Split_Join) (simp_all add: Itoa_no_slash)
  have sc: "Split (''resman://cgroups/'' @ Itoa n) (CHR ''/'') = [''resman:'', '''', ''cgroups'', Itoa n]"
    unfolding c by (rule Split_Join) (simp_all add: Itoa_no_slash)
  have c1: "Contains (''resman://users/'' @ Itoa n @ ''/metrics'') ''/users/''"
    unfolding Contains_iff by (rule exI [of _ "''resman:/''"]) simp
  have c2: "Contains (''resman://cgroups/'' @ Itoa n) ''/cgroups/''"
    unfolding Contains_iff by (rule exI [of _ "''resman:/''"]) simp
  have c3: "\<not> Contains (''resman://cgroups/'' @ Itoa n) ''/users/''"
  proof
    assume "Contains (''resman://cgroups/'' @ Itoa n) ''/users/''"
    then obtain p q where "''resman://cgroups/'' @ Itoa n = p @ CHR ''/'' # ''users'' @ CHR ''/'' # q" by (auto simp: Contains_iff)
    then have "''users'' \<in> set (Split (''resman://cgroups/'' @ Itoa n) (CHR ''/''))"
      using Split_part [of "CHR ''/''" "''users''" p q] by simp
    then have "''users'' = Itoa n" unfolding sc by simp
    moreover have "CHR ''u'' \<in> set ''users''" by simp
    ultimately have "CHR ''u'' \<in> set (Itoa n)" by (simp only:)
    from Itoa_chars [OF this] show False by (simp add: is_digit_def digit_val_def)
  qed
  have "extractUIDFromURI (''resman://users/'' @ Itoa n @ ''/metrics'') = uid_after ''users'' [''resman:'', '''', ''users'', Itoa n, ''metrics'']"
    "extractUIDFromURI (''resman://cgroups/'' @ Itoa n) = uid_after ''cgroups'' [''resman:'', '''', ''cgroups'', Itoa n]"
    by (simp_all only: extractUIDFromURI_def su sc c1 c2 c3 if_True if_False)
  with assms show ?thesis by simp
qed

section \<open>What the reports say\<close>

text \<open>Three figures are asked for under keys, or as a type, that the collector does not provide.\<close>

lemma missing_figures:
  assumes "GetDetailedMetrics pf w now c = Some (m, c1)"
  shows "getFloatMetric m ''total_user_cpu_usage'' d = d \<and> getIntMetric m ''active_users_count'' n = n \<and> cpu_available m = Fin 0 \<and>
    assessment m = ''**LOW CPU USAGE** - System is running smoothly'' \<and>
    cpu_step m = [''1. **CPU Usage Normal** - No immediate action needed'']"
proof -
  have k: "map_of m ''total_user_cpu_usage'' = None" "map_of m ''active_users_count'' = None"
    "\<exists>i. map_of m ''total_cores'' = Some (AInt i)"
    using assms by (auto simp: GetDetailedMetrics_def Let_def split: bind_splits)
  then have u: "getFloatMetric m ''total_user_cpu_usage'' d = d" "getFloatMetric m ''total_cores'' d = d" for d
    by (auto simp: getFloatMetric_def)
  have z: "f64_mul (Fin 0) (f64_of_int 100) = Fin 0" "\<not> f64_gt (Fin 0) (f64_of_int 70)" "f64_lt (Fin 0) (f64_of_int 30)"
    by code_simp+
  show ?thesis using k u z by (simp add: getIntMetric_def cpu_available_def assessment_def cpu_step_def Let_def)
qed

text \<open>A request to activate the limits reports success when the cycle it runs returns, whatever the cycle decides.\<close>

lemma activation_reported:
  assumes "mc_AllowWriteOps sc" "\<not> limitsActive (rt_manager a)" "IsInBlackout (m_cfg (rt_manager a)) (ck_day ck) (ck_hour ck)"
  shows "\<exists>a'. handleActivateLimits pf ev sc ck False a = Some (Done, a') \<and> write_success Done \<and> \<not> limitsActive (rt_manager a')"
proof -
  have s: "\<not> getBool (mcp_status pf ev a) ''limits_active'' False"
    using assms(2) by (simp add: mcp_status_def getBool_def status_map_def GetStatus_def Let_def)
  have "cycle_error pf ck ''manual'' a = None" using assms(3) by (simp add: cycle_error_def Let_def)
  with s assms show ?thesis
    by (simp add: handleActivateLimits_def app_cycle_def Let_def answer_of_def write_success_def
        RunControlCycleWithTrigger_def emit_prom_def emit_def)
qed

section \<open>History\<close>


text \<open>C28: requests to the MCP server are read-only unless writing is allowed: nothing but the cache of the
  collector changes.\<close>

theorem serve_reads:
  assumes "col_fine pf (m_cfg (rt_manager a)) (rt_collector a)" "\<not> writes rq \<or> \<not> mc_AllowWriteOps sc"
  shows "only_reads pf a (serve pf ev sc ck rq a)"
  using assms by (rule reading_request)

end
