(* ===== verification/AppProps.thy ===== *)
theory AppProps
  imports MCPProps
begin

text \<open>
  The application as a state machine: what may happen to it, the invariant of every state it reaches, that a cycle never
  panics, whom a cycle may limit, when the tickers panic, and what a shutdown leaves.
\<close>

section \<open>The application as a state machine\<close>

text \<open>
  What the control loop does (a tick, a refresh, a pressure event, the shutdown), what happens beside it (a goroutine of the
  manager, a turn of the watcher of the configuration, SIGHUP, a turn of the poll loop, the periodic cleanup, a look-up of a
  name, the server, a request to the MCP server), and what the system does (any change of the world, a termination signal).
  The two requests that set a user list are left out: they change the configuration under the collector, whose cached
  decisions then wait for their time to live to pass.
\<close>

inductive app_step :: "('w, 'd) platform \<Rightarrow> ('w, 'd) app \<Rightarrow> ('w, 'd) app \<Rightarrow> bool" for pf where
  tick:
    "\<not> finished a \<Longrightarrow> handleTickerCycle pf ck a = Some a1 \<Longrightarrow> refreshMetricsTicker a1 = Some a2 \<Longrightarrow> app_step pf a a2"
| refresh:
    "\<not> finished a \<Longrightarrow> refreshInterval a > 0 \<Longrightarrow> app_refresh pf now a = Some a1 \<Longrightarrow> refreshMetricsTicker a1 = Some a2 \<Longrightarrow>
     app_step pf a a2"
| pressure:
    "\<not> finished a \<Longrightarrow> take_event a = Some (ev, a1) \<Longrightarrow> handlePSIEvent pf ck ev a1 = Some a2 \<Longrightarrow> app_step pf a a2"
| stop: "\<not> finished a \<Longrightarrow> cancelled a \<Longrightarrow> shutdown pf now a = Some a' \<Longrightarrow> app_step pf a a'"
| goroutine:
    "pending (rt_manager a) = ts @ t # us \<Longrightarrow>
     app_step pf a (a\<lparr>rt_manager := run_task (pf_ops pf) (pf_rx pf) (names_only pf (world_of a) now (rt_collector a)) t
       ((rt_manager a)\<lparr>pending := ts @ us\<rparr>)\<rparr>)"
| config_turn:
    "a_watcher a = Some w \<Longrightarrow> watch_turn (pf_env pf) now st st' file ev (w, runtime.truncate a) = (r, w1, rt1) \<Longrightarrow>
     app_step pf a ((with_runtime rt1 a)\<lparr>a_watcher := Some w1\<rparr>)"
| hangup:
    "a_watcher a = Some w \<Longrightarrow> handleConfigChange (pf_env pf) st file (w, runtime.truncate a) = (r', w1, rt1) \<Longrightarrow>
     app_step pf a ((with_runtime rt1 a)\<lparr>a_watcher := Some w1\<rparr>)"
| polled:
    "app_step pf a (a\<lparr>rt_manager := (rt_manager a)\<lparr>psiWatcher := map_option (poll_turn now ready) (psiWatcher (rt_manager a))\<rparr>,
       a_psi := map_option (poll_turn now ready) (a_psi a)\<rparr>)"
| cleanup: "app_step pf a (a\<lparr>rt_collector := cleanupCache now (rt_collector a)\<rparr>)"
| lookup:
    "app_step pf a (a\<lparr>rt_collector := snd (getUsername (pf_os pf) (pf_pl pf) (world_of a) now uid (rt_collector a))\<rparr>)"
| server: "app_step pf a (a\<lparr>rt_exporter := map_option exporter_turn (rt_exporter a)\<rparr>)"
| kernel: "app_step pf a (a\<lparr>rt_manager := (rt_manager a)\<lparr>cgroups := (cgroups (rt_manager a))\<lparr>world := w'\<rparr>\<rparr>\<rparr>)"
| signal: "app_step pf a (a\<lparr>cancelled := True\<rparr>)"
| request: "\<not> sets_lists rq \<Longrightarrow> serve pf ev sc ck rq a = Some a' \<Longrightarrow> app_step pf a a'"

text \<open>
  From the start on. The premise on the cgroups tracked at the start says that the file they were read from was written by the
  program: it names every user's own directory (\<open>fresh_provider_tracked\<close> when there is no such file).
\<close>

inductive app_reachable :: "('w, 'd) platform \<Rightarrow> ('w, 'd) app \<Rightarrow> bool" for pf where
  started:
    "main pf cal now path sa w = Some (Started a0) \<Longrightarrow> tracked_ok (cgroups (rt_manager a0)) \<Longrightarrow>
     start_loop pf ck psi_started a0 = Some a \<Longrightarrow> app_reachable pf a"
| step: "app_reachable pf a \<Longrightarrow> app_step pf a a' \<Longrightarrow> app_reachable pf a'"

lemma tracked_world [simp]: "tracked_ok (c\<lparr>world := w\<rparr>) = tracked_ok c"
  by (simp add: tracked_ok_def getUserCgroupPath_def getBaseCgroupPath_def)

lemma runtime_of_app: "app_base pf a \<Longrightarrow> a_watcher a = Some w \<Longrightarrow> runtime_ok pf (w, runtime.truncate a)"
  by (simp add: app_base_def runtime_ok_def runtime.truncate_def)

lemma app_of_runtime: "app_base pf a \<Longrightarrow> runtime_ok pf (w, rt) \<Longrightarrow> app_base pf ((with_runtime rt a)\<lparr>a_watcher := Some w\<rparr>)"
  by (simp add: app_base_def runtime_ok_def with_runtime_def)

lemma app_base_task:
  assumes "app_base pf a" "pending (rt_manager a) = ts @ t # us"
  shows "app_base pf (a\<lparr>rt_manager := run_task (pf_ops pf) (pf_rx pf) mc t ((rt_manager a)\<lparr>pending := ts @ us\<rparr>)\<rparr>)"
proof -
  have "mgr_step (pf_ops pf) (pf_rx pf) (rt_manager a) (run_task (pf_ops pf) (pf_rx pf) mc t ((rt_manager a)\<lparr>pending := ts @ us\<rparr>))"
    using assms(2) by (rule mgr_step.goroutine)
  with assms(1) have "mgr_ok tracked_ok (run_task (pf_ops pf) (pf_rx pf) mc t ((rt_manager a)\<lparr>pending := ts @ us\<rparr>))"
    by (auto simp: app_base_def pf_ops_def intro: real.mgr_step_ok)
  with assms(1) show ?thesis by (simp add: app_base_def)
qed

section \<open>Shutdown\<close>

lemma ManagerCleanup_limits:
  "mgr_ok I m \<Longrightarrow> snd (ManagerCleanup ops rx mc m) = m' \<Longrightarrow> \<not> limitsActive m' \<and> activeUsers m' = [] \<and> pending m' = []"
proof -
  assume m: "mgr_ok I m" and r: "snd (ManagerCleanup ops rx mc m) = m'"
  let ?m1 = "wait_tasks ops rx mc m"
  have s: "same_core m ?m1" by simp
  obtain e m2 where d: "(if limitsActive ?m1 then deactivateLimits ops rx mc ?m1 else (None, ?m1)) = (e, m2)" by (metis surj_pair)
  have 2: "\<not> limitsActive m2 \<and> activeUsers m2 = [] \<and> pending m2 = []"
  proof (cases "limitsActive ?m1")
    case True
    with d deactivateLimits_spec [of ?m1 ops rx mc] show ?thesis by simp
  next
    case False
    with d m same_core_fields(1,2) [OF s] show ?thesis by (auto simp: mgr_ok_def)
  qed
  obtain e3 m3 where c: "call (op_CleanupAll ops) m2 = (e3, m3)" by (metis surj_pair)
  have "same_core m2 m3" by (rule same_core_call_eq [OF c])
  note f = same_core_fields(1,2) [OF this] and p = pending_call [of "op_CleanupAll ops" m2, unfolded c snd_conv]
  have "m' = m2 \<or> m' = m3 \<or> m' = emit_prom StopExporter m3"
    unfolding r [symmetric] ManagerCleanup_def Let_def d prod.case c by (auto split: option.split)
  with 2 f p show ?thesis by (auto simp: emit_prom_def emit_def split: if_splits)
qed

lemma StopWatcher_ok: "watcher_ok w \<Longrightarrow> watcher_ok (StopWatcher w)"
  by (simp add: watcher_ok_def StopWatcher_def)

lemma pred_stop: "pred_option watcher_ok o1 \<Longrightarrow> pred_option watcher_ok (map_option StopWatcher o1)"
  by (cases o1) (simp_all add: StopWatcher_ok)

lemma Watcher_Stop_ok: "(wt_running w \<longrightarrow> \<not> stopClosed w) \<Longrightarrow> \<exists>w1. Watcher_Stop w = Some w1 \<and> currentConfig w1 = currentConfig w \<and> \<not> wt_running w1"
  by (auto simp: Watcher_Stop_def)

text \<open>What is left of an application that was shut down.\<close>

definition released :: "('w, 'd) app \<Rightarrow> bool" where
  "released a \<longleftrightarrow> finished a \<and> \<not> limitsActive (rt_manager a) \<and> activeUsers (rt_manager a) = [] \<and> pending (rt_manager a) = [] \<and>
     pred_option (\<lambda>w. \<not> wt_running w) (a_watcher a) \<and>
     pred_option (\<lambda>w. monitors w = []) (psiWatcher (rt_manager a)) \<and> pred_option (\<lambda>w. monitors w = []) (a_psi a)"

lemma stopped_monitors [simp]: "pred_option (\<lambda>w. monitors w = []) (map_option StopWatcher x)"
  by (cases x) (simp_all add: StopWatcher_def)

lemma shutdown_ok:
  assumes "app_base pf a"
  obtains a' where "shutdown pf now a = Some a'" "app_base pf a'" "cycleComplete a' = cycleComplete a" "released a'"
proof -
  let ?m = "snd (ManagerCleanup (pf_ops pf) (pf_rx pf) (names_only pf (world_of a) now (rt_collector a)) (rt_manager a))"
  from assms have ok: "mgr_ok tracked_ok (rt_manager a)" by (simp add: app_base_def)
  then have m: "mgr_ok tracked_ok ?m" by (simp add: pf_ops_def real.ok_ManagerCleanup)
  note l = ManagerCleanup_limits [OF ok refl, of "pf_ops pf" "pf_rx pf"]
  have "\<exists>wt. (case a_watcher a of None \<Rightarrow> Some None | Some w \<Rightarrow> map_option Some (Watcher_Stop w)) = Some wt \<and>
    pred_option (\<lambda>w. config_ok (currentConfig w) \<and> \<not> wt_running w) wt"
  proof (cases "a_watcher a")
    case (Some w)
    with assms have "config_ok (currentConfig w)" "wt_running w \<longrightarrow> \<not> stopClosed w" by (simp_all add: app_base_def)
    with Watcher_Stop_ok [of w] Some show ?thesis by auto
  qed simp
  then obtain wt where wt: "(case a_watcher a of None \<Rightarrow> Some None | Some w \<Rightarrow> map_option Some (Watcher_Stop w)) = Some wt"
    "pred_option (\<lambda>w. config_ok (currentConfig w) \<and> \<not> wt_running w) wt" by blast
  let ?a1 = "flush pf now (a\<lparr>a_watcher := wt, rt_manager := ?m\<rparr>)"
  let ?a' = "?a1\<lparr>rt_manager := (rt_manager ?a1)\<lparr>psiWatcher := map_option StopWatcher (psiWatcher (rt_manager ?a1))\<rparr>,
     a_psi := map_option StopWatcher (a_psi ?a1), finished := True\<rparr>"
  have "shutdown pf now a = Some ?a'" by (simp add: shutdown_def wt(1) Let_def)
  moreover have "app_base pf ?a'"
    using assms m wt(2) mgr_ok_watcher [of tracked_ok "?m\<lparr>emitted := []\<rparr>" "map_option StopWatcher (psiWatcher ?m)"]
      pred_stop [OF mgr_ok_psi [OF m]] pred_stop [of "a_psi a"]
    by (auto simp: app_base_def elim: option.pred_mono_strong)
  moreover have "released ?a'" using l wt(2) by (auto simp: released_def elim: option.pred_mono_strong)
  ultimately show ?thesis by (intro that) simp_all
qed

section \<open>The invariant holds\<close>

lemma pred_poll: "pred_option watcher_ok x \<Longrightarrow> pred_option watcher_ok (map_option (poll_turn now ready) x)"
  by (cases x) (simp_all add: watcher_ok_poll)

lemma with_runtime_complete [simp]: "cycleComplete ((with_runtime rt a)\<lparr>a_watcher := wt\<rparr>) = cycleComplete a"
  by (simp add: with_runtime_def)

lemma app_step_ok: "app_step pf a a' \<Longrightarrow> app_ok pf a \<Longrightarrow> app_ok pf a'"
proof (induction rule: app_step.induct)
  case (tick a ck a1 a2)
  then show ?case using handleTickerCycle_ok refreshMetricsTicker_ok by blast
next
  case (refresh a now a1 a2)
  then have "app_base pf a" "cycleComplete a" by (simp_all add: app_ok_def)
  with refresh have "app_ok pf a1"
    by (metis app_refresh_ok option.inject app_ok_def app_refresh_complete)
  with refresh show ?case using refreshMetricsTicker_ok by blast
next
  case (pressure a ev a1 ck a2)
  then have "app_ok pf a1" using take_event_ok by blast
  then obtain a3 where "handlePSIEvent pf ck ev a1 = Some a3" "app_ok pf a3" by (rule handlePSIEvent_ok)
  with pressure show ?case by simp
next
  case (stop a now a')
  then have "app_base pf a" by (simp add: app_ok_def)
  then show ?case by (rule shutdown_ok [of pf a now]) (use stop in \<open>simp add: app_ok_def\<close>)
next
  case (goroutine a ts t us now)
  then show ?case by (simp add: app_ok_def app_base_task)
next
  case (config_turn a w now st st' f ev r w1 rt1)
  then have "app_base pf a" by (simp add: app_ok_def)
  from app_of_runtime [OF this] runtime_ok_turn [OF runtime_of_app [OF this config_turn(1)]] config_turn(2,3)
  show ?case by (metis app_ok_def snd_conv with_runtime_complete)
next
  case (hangup a w st f r w1 rt1)
  then have "app_base pf a" by (simp add: app_ok_def)
  from app_of_runtime [OF this] runtime_ok_reload [OF runtime_of_app [OF this hangup(1)]] hangup(2,3)
  show ?case by (metis app_ok_def snd_conv with_runtime_complete)
next
  case (polled a now ready)
  then have "mgr_ok tracked_ok (rt_manager a)" "pred_option watcher_ok (a_psi a)" by (simp_all add: app_ok_def app_base_def)
  with polled show ?case
    by (simp add: app_ok_def app_base_def mgr_ok_watcher [OF _ pred_poll [OF mgr_ok_psi]] pred_poll)
next
  case (cleanup a now)
  then show ?case by (simp add: app_ok_def app_base_def col_fine_def decided_cleanup col_ok_cleanupCache)
next
  case (lookup a now uid)
  then show ?case by (simp add: app_ok_def app_base_def col_fine_def decided_username col_ok_getUsername)
next
  case (kernel a w')
  then show ?case using mgr_ok_I [of tracked_ok "rt_manager a"] by (simp add: app_ok_def app_base_def mgr_ok_cgroups)
next
  case (request rq ev sc ck a a')
  then have "app_base pf a" "cycleComplete a" by (simp_all add: app_ok_def)
  with serve_ok [OF this(1) request(1), of ev sc ck] request(2) show ?case by (simp add: app_ok_def)
qed (simp_all add: app_ok_def)

section \<open>The start\<close>

text \<open>The switches the start may turn off do not matter for the validity of the configuration.\<close>

lemma config_ok_switches [simp]:
  "config_ok (c\<lparr>MetricsDBEnabled := b\<rparr>) = config_ok c" "config_ok (c\<lparr>EnablePrometheus := b\<rparr>) = config_ok c"
  by (simp_all add: config_ok_def)

lemma col_fine_new: "col_fine pf cfg (NewCollector pl cfg w)"
  using col_ok_new [of pl cfg w] by (simp add: col_fine_def decided_def NewCollector_def)

definition builder_ok :: "('w, 'd) platform \<Rightarrow> ('w, 'd) builder \<Rightarrow> bool" where
  "builder_ok pf b \<longleftrightarrow>
     config_ok (b_cfg b) \<and> pred_option (col_fine pf (b_cfg b)) (b_collector b) \<and>
     pred_option (\<lambda>m. m_cfg m = b_cfg b \<and> (\<exists>x c. m = NewManager (b_cfg b) x c)) (b_manager b) \<and>
     pred_option (\<lambda>w. config_ok (currentConfig w) \<and> (wt_running w \<longrightarrow> \<not> stopClosed w)) (b_watcher b)"

lemma col_fine_shared: "cache c = [] \<Longrightarrow> col_fine pf cfg c \<Longrightarrow> col_fine pf cfg' (c\<lparr>col_cfg := cfg'\<rparr>)"
  by (auto simp: col_fine_def decided_def col_ok_def)

lemma ttl_fine [simp]: "col_fine pf cfg (SetUsernameCacheTTL t c) = col_fine pf cfg c" "cache (SetUsernameCacheTTL t c) = cache c"
  by (simp_all add: col_fine_def decided_def SetUsernameCacheTTL_def col_ok_def)

text \<open>Before the manager is built.\<close>

definition builder_young :: "('w, 'd) platform \<Rightarrow> ('w, 'd) builder \<Rightarrow> bool" where
  "builder_young pf b \<longleftrightarrow>
     builder_ok pf b \<and> b_manager b = None \<and> b_watcher b = None \<and> pred_option (\<lambda>c. cache c = []) (b_collector b)"

lemma young_cgroup: "config_ok cfg \<Longrightarrow> builder_young pf (WithCgroupManager pf w (NewApp cfg))"
  by (simp add: WithCgroupManager_def NewApp_def builder_young_def builder_ok_def split: prod.split option.split)

lemma young_collector: "builder_young pf b \<Longrightarrow> builder_young pf (WithMetricsCollector pf w b)"
  using col_fine_new [of pf "b_cfg b" "pf_pl pf" w]
  by (simp add: WithMetricsCollector_def builder_young_def builder_ok_def) (simp add: NewCollector_def)

lemma young_share:
  "builder_young pf b \<Longrightarrow> config_ok cfg \<Longrightarrow> builder_young pf (share_cfg cfg b)"
  by (cases "b_collector b") (auto simp: builder_young_def builder_ok_def share_cfg_def intro: col_fine_shared)

lemma young_database: "builder_young pf b \<Longrightarrow> builder_young pf (WithDatabase pf cal now mk op d b)"
proof -
  assume b: "builder_young pf b"
  then have "config_ok (b_cfg b)" by (simp add: builder_young_def builder_ok_def)
  with b young_share [OF b] show ?thesis
    by (cases "b_collector b")
      (auto simp: WithDatabase_def Let_def builder_young_def builder_ok_def split: sum.split)
qed

lemma young_prometheus: "builder_young pf b \<Longrightarrow> builder_young pf (WithPrometheus pf w p b)"
proof -
  assume b: "builder_young pf b"
  then have "config_ok (b_cfg b)" by (simp add: builder_young_def builder_ok_def)
  with b young_share [OF b] show ?thesis
    by (auto simp: WithPrometheus_def Let_def builder_young_def builder_ok_def split: exporter_result.split prod.split)
qed

lemma built_manager: "builder_young pf b \<Longrightarrow> builder_ok pf (WithStateManager b) \<and> b_watcher (WithStateManager b) = None"
  by (cases "b_cgroup b") (auto simp: WithStateManager_def builder_young_def builder_ok_def NewManager_def)

lemma built_watcher: "builder_ok pf b \<and> b_watcher b = None \<Longrightarrow> builder_ok pf (WithConfigWatcher fs st added path b)"
  by (auto simp: WithConfigWatcher_def NewWatcher_def Watcher_Start_def builder_ok_def split: sum.split prod.split)

lemma build_ok: "config_ok cfg \<Longrightarrow> builder_ok pf (build pf cal now path sa w cfg)"
  unfolding build_def Let_def
  by (intro built_watcher built_manager young_prometheus young_database young_collector young_cgroup)

lemma main_ok:
  assumes "main pf cal now path sa w = Some (Started a)" "tracked_ok (cgroups (rt_manager a))"
  shows "app_ok pf a \<and> \<not> finished a"
proof -
  obtain cfg ws where l: "load_config (pf_env pf) path (sa_file sa) = Inr (cfg, ws)"
    "built_app (build pf cal now path sa w cfg) = Some (Inr a)"
    using assms(1) by (auto simp: main_def split: sum.splits option.splits)
  then have "config_ok cfg" using LoadAndValidate_config_ok by (auto simp: load_config_def)
  note b = build_ok [OF this, of pf cal now path sa w, unfolded builder_ok_def]
  obtain m c where mc: "b_manager (build pf cal now path sa w cfg) = Some m" "b_collector (build pf cal now path sa w cfg) = Some c"
    and a: "rt_manager a = m" "rt_collector a = c" "a_watcher a = b_watcher (build pf cal now path sa w cfg)"
      "cycleComplete a" "a_psi a = None" "\<not> finished a"
    using l(2) by (auto simp: built_app_def split: option.splits)
  obtain x cg where m: "m = NewManager (b_cfg (build pf cal now path sa w cfg)) x cg" using b mc(1) by auto
  have cfg: "m_cfg m = b_cfg (build pf cal now path sa w cfg)" and "cgroups m = cg" by (simp_all add: m NewManager_def)
  with assms(2) a(1) have "mgr_ok tracked_ok m" unfolding m by (intro mgr_ok_initial) simp
  with b mc a cfg show ?thesis by (simp add: app_ok_def app_base_def)
qed

definition watch_ok :: "nat \<times> psi_watcher \<times> 'w cgroup \<Rightarrow> bool" where
  "watch_ok s \<longleftrightarrow> watcher_ok (fst (snd s)) \<and> tracked_ok (snd (snd s))"

lemma watch_system_ok: "watch_ok s \<Longrightarrow> watch_ok (watch_system (pf_ops pf) t p s)"
proof -
  assume s: "watch_ok s"
  obtain n w c where [simp]: "s = (n, w, c)" by (cases s)
  obtain e w1 c1 where a: "AddMonitor (op_OpenPressure (pf_ops pf)) 0 t p w c = (e, w1, c1)" by (metis prod_cases3)
  have "watcher_ok w1" using watcher_ok_AddMonitor [of w "op_OpenPressure (pf_ops pf)" 0 t p c] s by (simp add: a watch_ok_def)
  moreover have "tracked_ok c1"
  proof -
    have "tracked_ok (snd (snd (AddMonitor (op_OpenPressure (pf_ops pf)) 0 t p w c)))"
      using s by (simp add: AddMonitor_def pf_ops_def split_beta watch_ok_def real_ops_def ok_write split: option.split)
    then show ?thesis by (simp add: a)
  qed
  ultimately show ?thesis using s by (simp add: watch_system_def a watch_ok_def split: option.split)
qed

lemma startPSIWatcher_ok: "app_ok pf a \<Longrightarrow> app_ok pf (startPSIWatcher pf started a)"
proof -
  assume a: "app_ok pf a"
  let ?os = "pf_os pf" and ?w = "world_of a"
  let ?pw = "SetThreshold ''io'' (word_of_int (PSIOStallThreshold (a_cfg a)))
     (SetThreshold ''cpu'' (word_of_int (PSICPUStallThreshold (a_cfg a))) (NewPSIWatcher (word_of_int (PSIWindowUs (a_cfg a)))))"
  let ?p = "\<lambda>f g. selectPressurePath ?os ?w (CgroupRoot (a_cfg a) @ f) g"
  let ?s = "watch_system (pf_ops pf) ''io'' (?p ''/io.pressure'' ''/proc/pressure/io'')
     (watch_system (pf_ops pf) ''cpu'' (?p ''/cpu.pressure'' ''/proc/pressure/cpu'') (0, ?pw, cgroups (rt_manager a)))"
  obtain n w1 c1 where s: "?s = (n, w1, c1)" by (cases ?s)
  have "watch_ok (0, ?pw, cgroups (rt_manager a))"
    using a by (simp add: watch_ok_def watcher_ok_new watcher_ok_SetThreshold app_ok_def app_base_def mgr_ok_I)
  then have "watch_ok ?s" by (intro watch_system_ok)
  then have w1: "watcher_ok w1" "tracked_ok c1" by (simp_all add: s watch_ok_def)
  have m: "mgr_ok tracked_ok ((rt_manager a)\<lparr>cgroups := c1\<rparr>)"
    using a w1 by (simp add: app_ok_def app_base_def mgr_ok_cgroups)
  show ?thesis
    using a m w1 mgr_ok_watcher [OF m, of "Some w1"]
    by (simp add: startPSIWatcher_def Let_def s app_ok_def app_base_def RegisterPSIWatcher_def)
qed

lemma start_loop_ok: "app_ok pf a \<Longrightarrow> start_loop pf ck started a = Some a' \<Longrightarrow> app_ok pf a'"
proof -
  assume a: "app_ok pf a" and r: "start_loop pf ck started a = Some a'"
  define a1 where "a1 = startPSIWatcher pf started a"
  define a2 where "a2 = a1\<lparr>pollingInterval := controlCycleInterval a1, refreshInterval := metricsRefreshInterval a1\<rparr>"
  have "app_ok pf a1" using startPSIWatcher_ok [OF a] by (simp add: a1_def)
  then have b: "app_base pf a2" "cycleComplete a2" by (simp_all add: app_ok_def a2_def)
  have s: "start_loop pf ck started a =
     (if \<not> ticker_ok (pollingInterval a2) \<or> newOptionalTicker (refreshInterval a2) = None then None
      else app_cycle pf ck ''initial'' a2)"
    by (simp only: start_loop_def Let_def a1_def a2_def)
  with r have r': "app_cycle pf ck ''initial'' a2 = Some a'" by (simp split: if_splits)
  from app_cycle_ok [OF b(1)] r' have "app_base pf a'" by (metis option.inject)
  with app_cycle_complete [OF r'] b(2) show ?thesis by (simp add: app_ok_def)
qed

lemma app_reachable_ok: "app_reachable pf a \<Longrightarrow> app_ok pf a"
proof (induction rule: app_reachable.induct)
  case (started cal now path sa w a0 ck psi a)
  from main_ok [OF started(1,2)] have "app_ok pf a0" by simp
  from start_loop_ok [OF this started(3)] show ?case .
next
  case (step a a')
  from app_step_ok [OF step(2,3)] show ?case .
qed

section \<open>Properties\<close>



text \<open>Who may be limited: a monitored user whose name the filters of the configuration in force admit.\<close>

definition admissible :: "('w, 'd) platform \<Rightarrow> config \<Rightarrow> int \<Rightarrow> bool" where
  "admissible pf cfg uid \<longleftrightarrow>
     isMonitoredUserUID cfg uid \<and> (\<exists>name. name_of (pf_os pf) (pf_pl pf) uid name \<and> IsUserWhitelisted (pf_rx pf) cfg name)"

lemma eligible_admissible: "sound_answers pf cfg mc \<Longrightarrow> uid \<in> eligible mc \<Longrightarrow> admissible pf cfg uid"
  by (fastforce simp: sound_answers_def eligible_def list_all_iff admitted_def admissible_def)

text \<open>The cycle of the application refines the abstract manager, with the answers the collector computes.\<close>

lemma app_cycle_refines:
  assumes "app_reachable pf a" "app_cycle pf ck trigger a = Some a'"
  obtains mc where "sound_answers pf (m_cfg (rt_manager a)) mc"
    "spec_cycle (m_cfg (rt_manager a)) ck (limitsAppliedTime (rt_manager a)) mc (abs_manager (rt_manager a)) (abs_manager (rt_manager a'))"
proof -
  let ?m = "rt_manager a" and ?cfg = "m_cfg (rt_manager a)"
  have b: "app_base pf a" using app_reachable_ok [OF assms(1)] by (simp add: app_ok_def)
  then have ok: "mgr_ok tracked_ok ?m" by (simp add: app_base_def)
  obtain mc c1 where s: "sound_answers pf ?cfg mc"
    "app_cycle pf ck trigger a = Some (flush pf (ck_now ck) (a\<lparr>rt_manager :=
       snd (RunControlCycleWithTrigger (pf_ops pf) (pf_rx pf) ck mc trigger ?m), rt_collector := c1\<rparr>))"
    using app_cycle_result [OF b] by blast
  let ?m' = "snd (RunControlCycleWithTrigger (pf_ops pf) (pf_rx pf) ck mc trigger ?m)"
  have m': "rt_manager a' = ?m'\<lparr>emitted := []\<rparr>" using s(2) assms(2) by simp
  have "spec_cycle ?cfg ck (limitsAppliedTime ?m) mc (abs_manager ?m) (abs_manager ?m')"
    unfolding pf_ops_def by (rule cycle_refines [OF ok]) (use s(1) in \<open>simp add: sound_answers_def\<close>)
  moreover have "abs_manager (rt_manager a') = abs_manager ?m'" by (simp add: m' abs_manager_def)
  ultimately show thesis using s(1) that by simp
qed


lemma app_release_waits:
  assumes "app_reachable pf a" "app_cycle pf ck trigger a = Some a'" "limitsActive (rt_manager a)" "\<not> limitsActive (rt_manager a')"
  shows "\<not> IsInBlackout (m_cfg (rt_manager a)) (ck_day ck) (ck_hour ck) \<and>
    seconds (MinActiveTime (m_cfg (rt_manager a))) \<le> time_Sub (ck_now ck) (limitsAppliedTime (rt_manager a))"
proof -
  obtain mc where "spec_cycle (m_cfg (rt_manager a)) ck (limitsAppliedTime (rt_manager a)) mc (abs_manager (rt_manager a))
     (abs_manager (rt_manager a'))"
    using assms(1,2) by (rule app_cycle_refines)
  with assms(3,4) have "spec_cycle (m_cfg (rt_manager a)) ck (limitsAppliedTime (rt_manager a)) mc
     (Limiting (set (activeUsers (rt_manager a)))) Off"
    by (simp add: abs_manager_def)
  from spec_release [OF this] show ?thesis by simp
qed

lemma shutdown_releases:
  assumes "app_reachable pf a"
  shows "\<exists>a'. shutdown pf now a = Some a' \<and> released a'"
proof -
  have "app_base pf a" using app_reachable_ok [OF assms] by (simp add: app_ok_def)
  then show ?thesis by (rule shutdown_ok) blast
qed

text \<open>The mode: whether pressure events drive the cycles was settled at the start.\<close>

definition mode :: "('w, 'd) app \<Rightarrow> config \<times> bool" where
  "mode a = (a_cfg a, psiEventDriven a)"

lemma mode_cycle: "app_cycle pf ck trigger a = Some a' \<Longrightarrow> mode a' = mode a"
  by (auto simp: app_cycle_def Let_def mode_def split: bind_splits if_splits prod.splits)

lemma mode_guarded: "guarded_cycle pf ck trigger a = Some a' \<Longrightarrow> mode a' = mode a"
  by (auto simp: guarded_cycle_def split: if_splits dest!: mode_cycle) (simp_all add: mode_def)

lemma mode_tick: "handleTickerCycle pf ck a = Some a' \<Longrightarrow> mode a' = mode a"
  by (auto simp: handleTickerCycle_def Let_def split: if_splits dest!: mode_guarded) (simp_all add: mode_def)

lemma mode_refresh_ticker: "refreshMetricsTicker a = Some a' \<Longrightarrow> mode a' = mode a"
  by (auto simp: refreshMetricsTicker_def Let_def mode_def split: if_splits)

lemma mode_refresh: "app_refresh pf now a = Some a' \<Longrightarrow> mode a' = mode a"
  by (auto simp: app_refresh_def mode_def split: bind_splits)

lemma mode_event: "handlePSIEvent pf ck ev a = Some a' \<Longrightarrow> mode a' = mode a"
  by (auto simp: handlePSIEvent_def Let_def split: if_splits dest!: mode_guarded) (simp_all add: mode_def)

lemma mode_take: "take_event a = Some (ev, a') \<Longrightarrow> mode a' = mode a"
  by (auto simp: take_event_def mode_def split: option.splits list.splits)

lemma mode_shutdown: "shutdown pf now a = Some a' \<Longrightarrow> mode a' = mode a"
  by (auto simp: shutdown_def Let_def mode_def split: bind_splits)

lemma mode_force_on: "force_on pf now a = Some (err, a') \<Longrightarrow> mode a' = mode a"
  by (auto simp: force_on_def mode_def split: bind_splits prod.splits)

lemma mode_force_off: "mode (snd (force_off pf now a)) = mode a"
  by (simp add: force_off_def mode_def split: prod.split)

lemma mode_serve:
  assumes "app_base pf a" "\<not> sets_lists rq" "serve pf ev sc ck rq a = Some a'"
  shows "mode a' = mode a"
proof (cases "\<not> writes rq \<or> \<not> mc_AllowWriteOps sc")
  case True
  from assms(1) have "col_fine pf (m_cfg (rt_manager a)) (rt_collector a)" by (simp add: app_base_def)
  from serve_reads [OF this True, of ev ck] assms(3) show ?thesis by (auto simp: only_reads_def mode_def)
next
  case False
  then consider force where "rq = ActivateLimits force" | "rq = DeactivateLimits"
    using assms(2) by (cases rq) (auto simp: writes_def sets_lists_def)
  then show ?thesis
    using assms(3) False
    by cases (auto simp: serve_def offered_def Let_def handleActivateLimits_def tool_deactivate_limits_def split_beta mode_force_off
        split: if_splits dest: mode_cycle mode_force_on)
qed

lemma mode_step: "app_step pf a a' \<Longrightarrow> app_ok pf a \<Longrightarrow> mode a' = mode a"
proof (induction rule: app_step.induct)
  case (request rq ev sc ck a a')
  then show ?case using mode_serve by (auto simp: app_ok_def)
qed (auto dest!: mode_tick mode_refresh_ticker mode_refresh mode_event mode_take mode_shutdown, simp_all add: mode_def with_runtime_def)

text \<open>C35: the mode of the control loop never changes after the start; only the interval of the mode follows a
  reload.\<close>

theorem psi_mode_fixed:
  assumes "app_reachable pf a" "(app_step pf)\<^sup>*\<^sup>* a a'"
  shows "isPSIEventDrivenActive a' = isPSIEventDrivenActive a \<and>
    controlCycleInterval a' =
      (if isPSIEventDrivenActive a then PSIFallbackInterval (m_cfg (rt_manager a')) else PollingInterval (m_cfg (rt_manager a')))"
proof -
  from assms(2) have "mode a' = mode a \<and> app_ok pf a'"
  proof (induction rule: rtranclp_induct)
    case base
    show ?case using app_reachable_ok [OF assms(1)] by simp
  next
    case (step b c)
    then show ?case using mode_step app_step_ok by metis
  qed
  then show ?thesis by (simp add: isPSIEventDrivenActive_def mode_def controlCycleInterval_def Let_def)
qed

end
