(* ===== verification/ReloadProps.thy ===== *)
theory ReloadProps
  imports Reload ConfigLoadProps
begin

text \<open>
  What a change of the configuration file does to the components, when it is noticed, and what the second entry of the
  reloader does.
\<close>

section \<open>The outcomes of a reload\<close>

text \<open>A configuration in force: the manager and the collector hold it, and the collector has forgotten its answers.\<close>

definition in_force :: "config \<Rightarrow> 'c runtime \<Rightarrow> bool" where
  "in_force cfg rt \<longleftrightarrow> m_cfg (rt_manager rt) = cfg \<and> col_cfg (rt_collector rt) = cfg \<and> cache (rt_collector rt) = []"

definition stamp :: "watcher \<Rightarrow> time \<times> int" where
  "stamp w = (lastModTime w, lastFileSize w)"

lemma applied_in_force: "OnConfigChange held cfg rt = Some (err, rt1) \<Longrightarrow> in_force cfg rt1"
  by (auto simp: OnConfigChange_def Let_def in_force_def UpdateConfig_def Collector_UpdateConfig_def ClearCache_def
      split: if_splits prod.splits)

lemma reload_never_blocks: "\<exists>err rt1. OnConfigChange False cfg rt = Some (err, rt1)"
  by (auto simp: OnConfigChange_def Let_def split: prod.split)

text \<open>The configuration a reload reads.\<close>

definition reread :: "load_env \<Rightarrow> watcher \<Rightarrow> file_read \<Rightarrow> config_error + config" where
  "reread env w file = map_sum id fst (load_config env (wt_path w) file)"

lemma reload_cases:
  assumes "handleConfigChange env st file (w, rt) = (r, w', rt')"
  shows "(case r of
      ConfigApplied \<Rightarrow> (\<exists>cfg. reread env w file = Inr cfg \<and> config_ok cfg \<and> in_force cfg rt' \<and> currentConfig w' = cfg \<and> st = Inr (stamp w'))
    | ApplyFailed e \<Rightarrow> (\<exists>cfg. reread env w file = Inr cfg \<and> config_ok cfg \<and> in_force cfg rt' \<and> w' = w \<and> st \<noteq> Inr (stamp w'))
    | ReloadFailed e \<Rightarrow> reread env w file = Inl e \<and> w' = w \<and> rt' = rt
    | NotChanged \<Rightarrow> st = Inr (stamp w) \<and> w' = w \<and> rt' = rt
    | ReloadBlocked \<Rightarrow> False
    | _ \<Rightarrow> w' = w \<and> rt' = rt)"
proof (cases st)
  case (Inl e)
  with assms show ?thesis by (auto simp: handleConfigChange_def split: if_splits)
next
  case (Inr s)
  obtain modTime len where s: "s = (modTime, len)" by (cases s)
  show ?thesis
  proof (cases "s = stamp w")
    case True
    with assms Inr s show ?thesis by (auto simp: handleConfigChange_def stamp_def)
  next
    case False
    then have d: "\<not> (modTime = lastModTime w \<and> len = lastFileSize w)" by (simp add: s stamp_def)
    show ?thesis
    proof (cases "load_config env (wt_path w) file")
      case (Inl e)
      with assms Inr s d show ?thesis by (auto simp: handleConfigChange_def reread_def)
    next
      case (Inr p)
      obtain cfg ws where p: "p = (cfg, ws)" by (cases p)
      have c: "config_ok cfg" "reread env w file = Inr cfg"
        using Inr p LoadAndValidate_config_ok by (auto simp: load_config_def reread_def)
      obtain err rt1 where o: "OnConfigChange False cfg rt = Some (err, rt1)" using reload_never_blocks by blast
      note f = applied_in_force [OF o]
      show ?thesis
      proof (cases err)
        case None
        then have "r = ConfigApplied \<and> w' = w\<lparr>currentConfig := cfg, lastModTime := modTime, lastFileSize := len\<rparr> \<and> rt' = rt1"
          using assms d Inr p o by (auto simp: handleConfigChange_def \<open>st = Inr s\<close> s)
        with c f show ?thesis by (simp add: \<open>st = Inr s\<close> s stamp_def)
      next
        case (Some e)
        then have "r = ApplyFailed e \<and> w' = w \<and> rt' = rt1"
          using assms d Inr p o by (auto simp: handleConfigChange_def \<open>st = Inr s\<close> s)
        with c f False show ?thesis by (simp add: \<open>st = Inr s\<close>)
      qed
    qed
  qed
qed

text \<open>The same file again: nothing to do after a reload that was applied, the same refusal after one the exporter refused.\<close>

lemma refused_again:
  assumes "OnConfigChange False cfg rt = Some (Some e, rt1)" "e \<noteq> StopFailed"
  shows "\<exists>rt2. OnConfigChange False cfg rt1 = Some (Some e, rt2)"
  using assms
  by (auto simp: OnConfigChange_def Let_def handlePrometheusConfigChange_def Exporter_Stop_def
      split: if_splits prod.splits option.splits)

lemma reload_again:
  assumes "handleConfigChange env st file (w, rt) = (r, w1, rt1)"
  shows "(r = ConfigApplied \<longrightarrow> handleConfigChange env st file' (w1, rt1) = (NotChanged, w1, rt1)) \<and>
    (r = ApplyFailed EnablingNeedsRestart \<or> r = ApplyFailed BindNeedsRestart \<longrightarrow>
       fst (handleConfigChange env st file (w1, rt1)) = r)"
proof -
  have again: "fst (handleConfigChange env st file (w1, rt1)) = ApplyFailed e" if r: "r = ApplyFailed e" and e: "e \<noteq> StopFailed" for e
  proof -
    obtain modTime len cfg ws where c: "st = Inr (modTime, len)" "\<not> (modTime = lastModTime w \<and> len = lastFileSize w)"
      "load_config env (wt_path w) file = Inr (cfg, ws)" "OnConfigChange False cfg rt = Some (Some e, rt1)" "w1 = w"
      using assms r by (auto simp: handleConfigChange_def split: sum.splits if_splits option.splits prod.splits)
    with refused_again [OF c(4) e] show ?thesis by (auto simp: handleConfigChange_def)
  qed
  have "handleConfigChange env st file' (w1, rt1) = (NotChanged, w1, rt1)" if "r = ConfigApplied"
    using reload_cases [OF assms] that by (auto simp: handleConfigChange_def stamp_def)
  with again show ?thesis by auto
qed

section \<open>A burst of changes\<close>

text \<open>One turn of the loop: the instant, the answers to the calls it makes, the event.\<close>

record turn =
  tn_now :: time
  tn_stat :: file_stat
  tn_stat' :: file_stat
  tn_file :: file_read
  tn_event :: loop_event

definition take_turn :: "load_env \<Rightarrow> turn \<Rightarrow> reload_result list \<times> watcher \<times> 'c runtime \<Rightarrow> reload_result list \<times> watcher \<times> 'c runtime" where
  "take_turn env tn acc =
     (case acc of (rs, s) \<Rightarrow>
        (case watch_turn env (tn_now tn) (tn_stat tn) (tn_stat' tn) (tn_file tn) (tn_event tn) s of
           (None, s1) \<Rightarrow> (rs, s1) | (Some r, s1) \<Rightarrow> (rs @ [r], s1)))"

definition file_event :: "turn \<Rightarrow> bool" where
  "file_event tn \<longleftrightarrow> (\<exists>ops name. tn_event tn = FsEvent ops name)"

definition changes :: "watcher \<Rightarrow> turn \<Rightarrow> bool" where
  "changes w tn \<longleftrightarrow> (case tn_event tn of FsEvent ops name \<Rightarrow> relevant w ops name | _ \<Rightarrow> False)"

lemma burst_pending:
  "list_all file_event tns \<Longrightarrow> looping w \<Longrightarrow> pendingReload w \<Longrightarrow> fold (take_turn env) tns (rs, w, rt) = (rs, w, rt)"
  by (induction tns) (auto simp: take_turn_def watch_turn_def file_event_def)

lemma burst_waits:
  "list_all file_event tns \<Longrightarrow> looping w \<Longrightarrow> \<not> pendingReload w \<Longrightarrow>
   fold (take_turn env) tns (rs, w, rt) =
     (case filter (changes w) tns of
        [] \<Rightarrow> (rs, w, rt)
      | tn # _ \<Rightarrow> (rs, w\<lparr>pendingReload := True, debounceDue := Some (tn_now tn + seconds 2)\<rparr>, rt))"
proof (induction tns)
  case (Cons tn tns)
  then obtain ops name where e: "tn_event tn = FsEvent ops name" by (auto simp: file_event_def)
  show ?case
  proof (cases "relevant w ops name")
    case True
    have "take_turn env tn (rs, w, rt) = (rs, w\<lparr>pendingReload := True, debounceDue := Some (tn_now tn + seconds 2)\<rparr>, rt)"
      using Cons.prems True e by (simp add: take_turn_def watch_turn_def)
    with Cons.prems True e burst_pending [of tns "w\<lparr>pendingReload := True, debounceDue := Some (tn_now tn + seconds 2)\<rparr>"]
    show ?thesis by (simp add: changes_def)
  next
    case False
    then have "take_turn env tn (rs, w, rt) = (rs, w, rt)" using Cons.prems e by (simp add: take_turn_def watch_turn_def)
    with Cons False e show ?thesis by (simp add: changes_def)
  qed
qed simp

text \<open>C22: debouncing. However many events arrive, the file is reloaded once, two seconds after the first event that
  concerns it.\<close>

theorem burst_reloads_once:
  assumes "list_all file_event tns" "looping w" "\<not> pendingReload w" "debounceDue w = None" "filter (changes w) tns = first # later"
    "tn_event tn = DebounceFired"
  shows "case fold (take_turn env) (tns @ [tn]) ([], w, rt) of (rs, w', rt') \<Rightarrow>
    if tn_now tn < tn_now first + seconds 2 then rs = [] \<and> rt' = rt \<and> debounceDue w' = Some (tn_now first + seconds 2)
    else handleConfigChange env (tn_stat tn) (tn_file tn) (w, rt) = (hd rs, w', rt') \<and> length rs = 1 \<and>
      \<not> pendingReload w' \<and> debounceDue w' = None"
proof -
  let ?w1 = "w\<lparr>pendingReload := True, debounceDue := Some (tn_now first + seconds 2)\<rparr>"
  have f: "fold (take_turn env) (tns @ [tn]) ([], w, rt) = take_turn env tn ([], ?w1, rt)"
    using burst_waits [OF assms(1-3), of env "[]" rt] assms(5) by simp
  have w: "w\<lparr>debounceDue := None, pendingReload := False\<rparr> = w" using assms(3,4) by (cases w) simp
  obtain r w' rt' where h: "handleConfigChange env (tn_stat tn) (tn_file tn) (w, rt) = (r, w', rt')" by (metis prod_cases3)
  have "pendingReload w' = pendingReload w \<and> debounceDue w' = debounceDue w"
    using h by (auto simp: handleConfigChange_def split: sum.splits if_splits option.splits prod.splits)
  moreover have "handleConfigChange env (tn_stat tn) (tn_file tn) (w\<lparr>debounceDue := None, pendingReload := False\<rparr>, rt) = (r, w', rt')"
    by (simp only: w h)
  ultimately show ?thesis unfolding f using assms(2-4,6) h by (simp add: take_turn_def watch_turn_def)
qed

section \<open>The other entry of the reloader\<close>

lemma SafeConfigUpdate_blocks:
  "SafeConfigUpdate f rt = None \<longleftrightarrow> rt_exporter rt \<noteq> None \<and> f (m_cfg (rt_manager rt)) \<noteq> None"
  by (auto simp: SafeConfigUpdate_def OnConfigChange_def Let_def split: option.split prod.split)

section \<open>The outcomes, in summary\<close>


end
