(* ===== verification/ExporterProps.thy ===== *)
theory ExporterProps
  imports Exporter CollectorBounds
begin

text \<open>
  The exporter: who may read the metrics, what its counters count, and what it forgets of a user that left.
\<close>

section \<open>Access\<close>

text \<open>The password the exporter compares with: empty when the file is not set or cannot be read.\<close>

definition effective_password :: "'w os \<Rightarrow> config \<Rightarrow> 'w \<Rightarrow> string" where
  "effective_password os cfg w =
     (if PrometheusAuthPasswordFile cfg = '''' then ''''
      else (case ReadFile os (PrometheusAuthPasswordFile cfg) w of Inl _ \<Rightarrow> '''' | Inr d \<Rightarrow> TrimSpace d))"

lemma load_secret_keeps [simp]:
  "exp_cfg (snd (load_secret os w e)) = exp_cfg e" "basicAuthPassword (snd (load_secret os w e)) = basicAuthPassword e"
  by (simp_all add: load_secret_def Let_def split: sum.split)

lemma load_tls_file_keeps:
  assumes "\<And>e. exp_cfg (upd e) = exp_cfg e \<and> basicAuthPassword (upd e) = basicAuthPassword e \<and> jwtSecret (upd e) = jwtSecret e"
  shows "exp_cfg (snd (load_tls_file os w f err upd e)) = exp_cfg e \<and>
    basicAuthPassword (snd (load_tls_file os w f err upd e)) = basicAuthPassword e \<and>
    jwtSecret (snd (load_tls_file os w f err upd e)) = jwtSecret e"
  using assms by (simp add: load_tls_file_def)

lemma load_tls_keeps:
  "exp_cfg (snd (load_tls os w e)) = exp_cfg e \<and> basicAuthPassword (snd (load_tls os w e)) = basicAuthPassword e \<and>
   jwtSecret (snd (load_tls os w e)) = jwtSecret e"
  by (auto simp: load_tls_def Let_def load_tls_file_def)

lemma loaded_credentials:
  assumes "basicAuthPassword e = ''''"
  shows "exp_cfg (snd (loadCredentials os w e)) = exp_cfg e"
    "PrometheusAuthType (exp_cfg e) = ''basic'' \<or> PrometheusAuthType (exp_cfg e) = ''both'' \<Longrightarrow>
       basicAuthPassword (snd (loadCredentials os w e)) = effective_password os (exp_cfg e) w"
proof -
  have p: "exp_cfg (snd (load_password os w e)) = exp_cfg e"
    "PrometheusAuthType (exp_cfg e) = ''basic'' \<or> PrometheusAuthType (exp_cfg e) = ''both'' \<Longrightarrow>
       basicAuthPassword (snd (load_password os w e)) = effective_password os (exp_cfg e) w"
    using assms by (auto simp: load_password_def effective_password_def Let_def split: sum.split)
  have l: "exp_cfg (snd (loadCredentials os w e)) = exp_cfg (snd (load_password os w e)) \<and>
      basicAuthPassword (snd (loadCredentials os w e)) = basicAuthPassword (snd (load_password os w e))"
    using load_secret_keeps [of os w "snd (load_password os w e)"]
      load_tls_keeps [of os w "snd (load_secret os w (snd (load_password os w e)))"]
    by (cases "load_password os w e"; cases "load_secret os w (snd (load_password os w e))")
      (auto simp: loadCredentials_def simp del: load_secret_keeps split: option.split prod.split)
  from l p show "exp_cfg (snd (loadCredentials os w e)) = exp_cfg e"
    "PrometheusAuthType (exp_cfg e) = ''basic'' \<or> PrometheusAuthType (exp_cfg e) = ''both'' \<Longrightarrow>
       basicAuthPassword (snd (loadCredentials os w e)) = effective_password os (exp_cfg e) w" by simp_all
qed

text \<open>C29: who may read the metrics, for every configuration. A password file that is not set or cannot be read
  leaves the empty password, which is accepted.\<close>

theorem metrics_access:
  assumes "NewPrometheusExporter os cfg w = ExporterCreated e"
  shows "authMiddleware jwt e r \<longleftrightarrow>
    (if PrometheusAuthType cfg = ''none'' \<or> PrometheusAuthType cfg = '''' then True
     else if PrometheusAuthType cfg = ''basic'' then
       req_basic r = Some (PrometheusAuthUsername cfg, effective_password os cfg w)
     else if PrometheusAuthType cfg = ''jwt'' then checkJWTAuth jwt e r
     else if PrometheusAuthType cfg = ''both'' then
       req_basic r = Some (PrometheusAuthUsername cfg, effective_password os cfg w) \<or> checkJWTAuth jwt e r
     else False)"
proof -
  obtain e0 where e0: "e = snd (loadCredentials os w e0)" "exp_cfg e0 = cfg" "basicAuthPassword e0 = ''''"
  proof (rule that)
    let ?e0 = "\<lparr>exp_cfg = cfg, series_of = Map.empty, activeUserMetrics = [], prevMemoryHighEvents = Map.empty,
         prevIOStats = Map.empty, prevUserPatterns = Map.empty, lastUpdate = zero_time, isRunning = False,
         serving = False, stopPending = False, basicAuthPassword = '''', jwtSecret = '''', tlsCertFile = '''',
         tlsKeyFile = '''', tlsCAFile = ''''\<rparr>"
    show "e = snd (loadCredentials os w ?e0)" using assms by (simp add: NewPrometheusExporter_def split: if_splits)
    show "exp_cfg ?e0 = cfg" "basicAuthPassword ?e0 = ''''" by simp_all
  qed
  have c: "exp_cfg e = cfg"
    "PrometheusAuthType cfg = ''basic'' \<or> PrometheusAuthType cfg = ''both'' \<Longrightarrow> basicAuthPassword e = effective_password os cfg w"
    using loaded_credentials [OF e0(3), of os w] by (simp_all add: e0(1,2))
  then show ?thesis
    by (auto simp: authMiddleware_def checkBasicAuth_def Let_def split: option.splits)
qed

section \<open>Counters\<close>

text \<open>What a counter should have counted after a list of readings: every growth, nothing for a reading that fell.\<close>

fun growth :: "u64 \<Rightarrow> u64 list \<Rightarrow> int" where
  "growth prev [] = 0"
| "growth prev (v # vs) = (if v \<ge> prev then uint v - uint prev else 0) + growth v vs"

lemma growth_nonneg: "0 \<le> growth prev vs"
  by (induction prev vs rule: growth.induct) (auto simp: word_le_def)

lemma growth_monotone: "sorted_wrt (\<le>) (prev # vs) \<Longrightarrow> growth prev vs = uint (last (prev # vs)) - uint prev"
  by (induction prev vs rule: growth.induct) auto

text \<open>One reading of a user, with everything the update is told besides the bytes read.\<close>

record reading =
  rd_um :: user_metrics
  rd_limited :: bool
  rd_path :: string
  rd_quota :: string
  rd_high :: u64
  rd_rB :: u64
  rd_wB :: u64
  rd_rO :: u64
  rd_wO :: u64

definition apply_reading :: "'w os \<Rightarrow> 'w \<Rightarrow> int \<Rightarrow> string \<Rightarrow> reading \<Rightarrow> exporter \<Rightarrow> exporter" where
  "apply_reading os w uid name x e =
     Exporter_UpdateUserMetrics os w uid name (rd_um x) (rd_limited x) (rd_path x) (rd_quota x) (rd_high x)
       (rd_rB x) (rd_wB x) (rd_rO x) (rd_wO x) e"

definition previous_read :: "exporter \<Rightarrow> string \<Rightarrow> u64" where
  "previous_read e k = (case prevIOStats e k of None \<Rightarrow> 0 | Some s \<Rightarrow> ReadBytes s)"

definition counter_value :: "exporter \<Rightarrow> metric \<Rightarrow> string list \<Rightarrow> f64" where
  "counter_value e x ls = (case series_of e (x, ls) of None \<Rightarrow> Fin 0 | Some v \<Rightarrow> v)"

lemma set_series_other: "x \<noteq> y \<Longrightarrow> set_series x ls v s (y, ks) = s (y, ks)"
  by (simp add: set_series_def)

lemma add_growth_other: "x \<noteq> y \<Longrightarrow> add_growth x ls p n s (y, ks) = s (y, ks)"
  by (simp add: add_growth_def add_series_def)

lemma cgroup_series_other:
  "y \<noteq> cgroupCPUQuota \<Longrightarrow> y \<noteq> cgroupCPUPeriod \<Longrightarrow> y \<noteq> cgroupMemoryUsage \<Longrightarrow> cgroup_series os w u p q s (y, ks) = s (y, ks)"
  by (auto simp: cgroup_series_def Let_def set_series_def split: prod.split)

text \<open>The labels and the key of a user, as the exporter forms them.\<close>

definition labels_of :: "'w os \<Rightarrow> 'w \<Rightarrow> int \<Rightarrow> string \<Rightarrow> string list" where
  "labels_of os w uid name = [Itoa uid, label_name os w (Itoa uid) name]"

definition key_of :: "'w os \<Rightarrow> 'w \<Rightarrow> int \<Rightarrow> string \<Rightarrow> string" where
  "key_of os w uid name = user_key (Itoa uid) (label_name os w (Itoa uid) name)"

lemma reading_counts:
  fixes os :: "'w os" and w :: 'w and uid :: int and name :: string
  defines "k \<equiv> key_of os w uid name" and "ls \<equiv> labels_of os w uid name"
  shows "counter_value (apply_reading os w uid name x e) userIOReadBytes ls =
      (if rd_rB x \<ge> previous_read e k
       then f64_add (counter_value e userIOReadBytes ls) (f64_of_u64 (rd_rB x - previous_read e k))
       else counter_value e userIOReadBytes ls)"
    and "previous_read (apply_reading os w uid name x e) k = rd_rB x"
proof -
  have p: "ReadBytes (case prevIOStats e k of None \<Rightarrow> no_snapshot | Some s \<Rightarrow> s) = previous_read e k"
    by (simp add: previous_read_def no_snapshot_def split: option.split)
  show "counter_value (apply_reading os w uid name x e) userIOReadBytes ls =
      (if rd_rB x \<ge> previous_read e k
       then f64_add (counter_value e userIOReadBytes ls) (f64_of_u64 (rd_rB x - previous_read e k))
       else counter_value e userIOReadBytes ls)"
    using p
    by (simp add: counter_value_def apply_reading_def Exporter_UpdateUserMetrics_def Let_def cgroup_series_other add_growth_other
        set_series_other k_def ls_def key_of_def labels_of_def)
      (simp add: add_growth_def add_series_def set_series_other)
  show "previous_read (apply_reading os w uid name x e) k = rd_rB x"
    by (simp add: previous_read_def apply_reading_def Exporter_UpdateUserMetrics_def Let_def k_def key_of_def)
qed


section \<open>Users that left\<close>

lemma underscore_Itoa: "CHR ''_'' \<notin> set (Itoa uid)"
  using Itoa_chars [of "CHR ''_''" uid] by (auto simp: is_digit_def digit_val_def)

lemma split_user_key [simp]: "SplitN2 (user_key (Itoa uid) n) CHR ''_'' = [Itoa uid, n]"
  using SplitN2_app [OF underscore_Itoa] by (simp add: user_key_def)

lemma user_key_inj: "user_key (Itoa u) n = user_key (Itoa v) m \<longleftrightarrow> u = v \<and> n = m"
proof
  assume "user_key (Itoa u) n = user_key (Itoa v) m"
  then have "[Itoa u, n] = [Itoa v, m]" by (metis split_user_key)
  then show "u = v \<and> n = m" by (simp add: Itoa_inj)
qed simp

lemma fold_delete: "fold (\<lambda>x. delete_series x ls) xs s (y, ks) = (if y \<in> set xs \<and> ks = ls then None else s (y, ks))"
  by (induction xs arbitrary: s) (auto simp: delete_series_def)

text \<open>Cleaning one key touches the series of its labels only, and only of the metrics it knows.\<close>

lemma cleanup_user_series:
  assumes "y \<noteq> userWorkloadPattern"
  shows "series_of (cleanup_user act k e) (y, ks) =
    (case SplitN2 k CHR ''_'' of
       [u, n] \<Rightarrow> (case Atoi u of
           None \<Rightarrow> series_of e (y, ks)
         | Some uid \<Rightarrow> if uid \<notin> set act \<and> y \<in> set cleaned_metrics \<and> ks = [u, n] then None else series_of e (y, ks))
     | _ \<Rightarrow> series_of e (y, ks))"
  using assms by (auto simp: cleanup_user_def Let_def fold_delete delete_series_def [of userWorkloadPattern]
      split: list.split option.split)

lemma cleanup_fold_keeps:
  assumes "y \<noteq> userWorkloadPattern" "y \<notin> set cleaned_metrics"
  shows "series_of (fold (cleanup_user act) kys e) (y, ks) = series_of e (y, ks)"
  using assms by (induction kys arbitrary: e)
    (auto simp: cleanup_user_series split: list.split option.split)

lemma cleanup_fold_None:
  assumes "y \<noteq> userWorkloadPattern" "series_of e (y, ks) = None"
  shows "series_of (fold (cleanup_user act) kys e) (y, ks) = None"
  using assms(2) by (induction kys arbitrary: e)
    (auto simp: cleanup_user_series [OF assms(1)] split: list.split option.split)

lemma cleanup_fold_drops:
  assumes "in_int64 uid" "uid \<notin> set act" "y \<in> set cleaned_metrics" "user_key (Itoa uid) n \<in> set kys"
  shows "series_of (fold (cleanup_user act) kys e) (y, [Itoa uid, n]) = None"
  using assms(4)
proof (induction kys arbitrary: e)
  case (Cons k kys)
  have y: "y \<noteq> userWorkloadPattern" using assms(3) by (auto simp: cleaned_metrics_def)
  show ?case
  proof (cases "k = user_key (Itoa uid) n")
    case True
    have "series_of (cleanup_user act k e) (y, [Itoa uid, n]) = None"
      unfolding cleanup_user_series [OF y] using assms(1-3) by (simp add: True)
    from cleanup_fold_None [where act = act, OF y this] show ?thesis by simp
  next
    case False
    with Cons show ?thesis by simp
  qed
qed simp

lemma cleanup_user_leaves:
  assumes "in_int64 uid" "user_key (Itoa uid) n \<in> set (activeUserMetrics e)" "uid \<notin> set act"
  shows "(\<forall>x \<in> set cleaned_metrics. series_of (Exporter_CleanupUserMetrics act e) (x, [Itoa uid, n]) = None) \<and>
    (\<forall>x \<in> {userCPUUsageAverage, userCPUUsageEMA, cgroupCPUQuota, cgroupCPUPeriod, cgroupMemoryUsage}.
       \<forall>ks. series_of (Exporter_CleanupUserMetrics act e) (x, ks) = series_of e (x, ks))"
proof (intro conjI ballI allI)
  fix x assume "x \<in> set cleaned_metrics"
  from cleanup_fold_drops [OF assms(1,3) this assms(2)]
  show "series_of (Exporter_CleanupUserMetrics act e) (x, [Itoa uid, n]) = None"
    by (simp add: Exporter_CleanupUserMetrics_def)
next
  fix x ks assume "x \<in> {userCPUUsageAverage, userCPUUsageEMA, cgroupCPUQuota, cgroupCPUPeriod, cgroupMemoryUsage}"
  then have "x \<noteq> userWorkloadPattern" "x \<notin> set cleaned_metrics" by (auto simp: cleaned_metrics_def)
  then show "series_of (Exporter_CleanupUserMetrics act e) (x, ks) = series_of e (x, ks)"
    by (simp add: Exporter_CleanupUserMetrics_def cleanup_fold_keeps)
qed

end
