(* ===== verification/AppSamples.thy ===== *)
theory AppSamples
  imports Samples AppProps ReloadProps ExporterProps
begin

text \<open>
  The start of the whole program on an in-memory machine: the configuration is read, the components are built, the first
  cycle finds nobody; then a process fills the memory. The theorems on the application and the collector applied to it.
\<close>

section \<open>A machine\<close>

text \<open>Alice's process runs as soon as its directory under /proc is there.\<close>

definition machine_procs :: "mem_fs gopsutil" where
  "machine_procs =
     \<lparr>Processes = (\<lambda>w. Some (if ''/proc/4242'' \<in> set (dirs w) then [(4242, [1000])] else [])), LookupId = (\<lambda>_. Some ''alice''),
      in_time = (\<lambda>_ _. True), cpu_Counts = (\<lambda>_. Some 4), cpu_Times = (\<lambda>_. None), cpu_Percent = (\<lambda>_. Some [Fin 10]),
      mem_VirtualMemory = (\<lambda>_. Some (8 * 1024 * 1024 * 1024, 1024 * 1024, 0)), host_BootTime = (\<lambda>_. None),
      ps_New = (\<lambda>_ _. True), ps_Status = (\<lambda>_ _. Some [''R'']), ps_Times = (\<lambda>_ _. None), ps_CreateTime = (\<lambda>_ _. None),
      ps_RSS = (\<lambda>_ _. Some (7 * 1024 * 1024 * 1024))\<rparr>"

definition machine_env :: load_env where
  "machine_env = \<lparr>le_rx = any_regex, le_url = no_url, le_pidMax = 4194304, le_getenv = no_env\<rparr>"

definition machine :: "(mem_fs, mem_db) platform" where
  "machine = \<lparr>pf_os = mem_os, pf_pl = machine_procs, pf_env = machine_env, pf_sq = mem_sqlite\<rparr>"

definition plain_calendar :: calendar where
  "plain_calendar = \<lparr>cal_days = (\<lambda>n t. t + n * (24 * hour)), cal_date = (\<lambda>t. (1, 1, 1)), cal_weekday = (\<lambda>t. 1),
     cal_at = (\<lambda>y mo d h mi s. 0)\<rparr>"

definition mcp_surroundings :: mcp_env where
  "mcp_surroundings = \<lparr>me_rfc = (\<lambda>t. ''''), me_parse = (\<lambda>s. None), me_parse_day = (\<lambda>s. None), me_cal = plain_calendar,
     me_hostname = None, me_stamp = ''t'', me_dbPath = '''', me_dbSize = None\<rparr>"

definition boot_fs :: mem_fs where
  "boot_fs = \<lparr>files = [''/sys/fs/cgroup/cgroup.controllers'' \<mapsto> ''cpuset cpu io memory'',
      ''/sys/fs/cgroup/cgroup.subtree_control'' \<mapsto> ''cpuset cpu'',
      ''/sys/fs/cgroup/resman/cgroup.subtree_control'' \<mapsto> ''cpuset cpu''], dirs = [''/sys/fs/cgroup'']\<rparr>"

definition start_answers :: "mem_db start_answers" where
  "start_answers = \<lparr>sa_file = FileData ''RAM_LIMIT_ENABLED=true'', sa_stat = Inl NotExist, sa_fsnotify = False, sa_added = False,
     sa_port = True, sa_mkdir = True, sa_opened = True, sa_database = \<lparr>mem_users = [], mem_systems = []\<rparr>\<rparr>"

definition boot_clock :: clock where
  "boot_clock = \<lparr>ck_now = 1000 * second, ck_day = 3, ck_hour = 12, ck_elapsed = 1000000\<rparr>"

definition ram_cfg :: config where
  "ram_cfg = (DefaultConfig 4194304)\<lparr>RAMEnabled := True\<rparr>"

lemma load_ram_cfg: "load_config machine_env path (FileData ''RAM_LIMIT_ENABLED=true'') = Inr (ram_cfg, [])"
proof -
  have sp: "Split ''RAM_LIMIT_ENABLED=true'' newline = [''RAM_LIMIT_ENABLED=true'']" by code_simp
  have ln: "TrimSpace ''RAM_LIMIT_ENABLED=true'' = ''RAM_LIMIT_ENABLED=true''" by code_simp
  have kv: "SplitN2 ''RAM_LIMIT_ENABLED=true'' CHR ''='' = [''RAM_LIMIT_ENABLED'', ''true'']" by code_simp
  have k: "TrimSpace ''RAM_LIMIT_ENABLED'' = ''RAM_LIMIT_ENABLED''" "clean_value ''true'' = ''true''" "TrimSpace ''true'' = ''true''"
    by code_simp+
  have b: "ToLower ''true'' \<in> set ConfigLoad.truthy" by code_simp
  have "setConfigField any_regex (DefaultConfig 4194304) ''RAM_LIMIT_ENABLED'' ''true'' = Inr ram_cfg"
    by (simp add: setConfigField_def configFieldHandlers_def setBool_def Let_def k b ram_cfg_def)
  then have "loadFromFile any_regex (FileData ''RAM_LIMIT_ENABLED=true'') (DefaultConfig 4194304) = Inr ram_cfg"
    by (simp add: loadFromFile_def sp ln kv k HasPrefix_def Let_def)
  moreover have "config_errors no_url ram_cfg = []" by code_simp
  ultimately show ?thesis
    by (simp add: load_config_def machine_env_def LoadAndValidate_def loadFromEnvironment_def env_loop_none validateConfig_def)
qed

definition built :: "(mem_fs, mem_db) app" where
  "built = (case built_app (build machine plain_calendar 0 '''' start_answers boot_fs ram_cfg) of Some (Inr a) \<Rightarrow> a)"

lemma built_facts:
  "built_app (build machine plain_calendar 0 '''' start_answers boot_fs ram_cfg) = Some (Inr built) \<and>
   createdCgroups (cgroups (rt_manager built)) = [] \<and> \<not> psiEventDriven built \<and> PollingInterval (m_cfg (rt_manager built)) = 30"
proof -
  have "case built_app (build machine plain_calendar 0 '''' start_answers boot_fs ram_cfg) of
      Some (Inr a) \<Rightarrow> createdCgroups (cgroups (rt_manager a)) = [] \<and> \<not> psiEventDriven a \<and> PollingInterval (m_cfg (rt_manager a)) = 30
    | _ \<Rightarrow> False"
    by code_simp
  then show ?thesis by (auto simp: built_def split: option.splits sum.splits)
qed

lemma built_main: "main machine plain_calendar 0 '''' start_answers boot_fs = Some (Started built)"
proof -
  have "load_config (pf_env machine) '''' (sa_file start_answers) = Inr (ram_cfg, [])"
    by (simp add: machine_def start_answers_def load_ram_cfg)
  with built_facts show ?thesis by (simp add: main_def)
qed

lemma built_tracked: "tracked_ok (cgroups (rt_manager built))"
  using built_facts by (simp add: tracked_ok_def)

text \<open>The first cycle finds nobody.\<close>

definition idle_app :: "(mem_fs, mem_db) app" where
  "idle_app = the (start_loop machine boot_clock False built)"

lemma idle_start: "start_loop machine boot_clock False built = Some idle_app"
proof -
  let ?a = "built\<lparr>pollingInterval := controlCycleInterval built, refreshInterval := metricsRefreshInterval built\<rparr>"
  have off: "\<not> isPSIEventDrivenActive built" using built_facts by (simp add: isPSIEventDrivenActive_def)
  have "0 < seconds 30" by code_simp
  then have ticks: "ticker_ok (controlCycleInterval built)" "newOptionalTicker (metricsRefreshInterval built) \<noteq> None"
    using off built_facts by (simp_all add: ticker_ok_def controlCycleInterval_def metricsRefreshInterval_def newOptionalTicker_def)
  have s: "start_loop machine boot_clock False built = app_cycle machine boot_clock ''initial'' ?a"
    using ticks by (auto simp: start_loop_def startPSIWatcher_def Let_def)
  have "app_base machine ?a" using main_ok [OF built_main built_tracked] by (simp add: app_ok_def)
  from app_cycle_ok [OF this] have "\<exists>a. start_loop machine boot_clock False built = Some a" by (metis s)
  then show ?thesis by (auto simp: idle_app_def)
qed

lemma idle_reachable: "app_reachable machine idle_app"
  by (rule app_reachable.started [OF built_main built_tracked idle_start])

text \<open>Alice's process appears, and fills the memory.\<close>

definition busy_app :: "(mem_fs, mem_db) app" where
  "busy_app = idle_app\<lparr>rt_manager := (rt_manager idle_app)\<lparr>cgroups := (cgroups (rt_manager idle_app))\<lparr>world :=
     (world_of idle_app)\<lparr>dirs := ''/proc/4242'' # dirs (world_of idle_app)\<rparr>\<rparr>\<rparr>\<rparr>"

lemma busy_reachable: "app_reachable machine busy_app"
  unfolding busy_app_def by (rule app_reachable.step [OF idle_reachable kernel])

definition later_clock :: clock where
  "later_clock = \<lparr>ck_now = 1030 * second, ck_day = 3, ck_hour = 12, ck_elapsed = 1000000\<rparr>"

definition limiting_app :: "(mem_fs, mem_db) app" where
  "limiting_app = the (app_cycle machine later_clock ''ticker'' busy_app)"

lemma busy_cycles:
  obtains a where "app_cycle machine later_clock ''ticker'' busy_app = Some a"
proof -
  have "app_base machine busy_app" using app_reachable_ok [OF busy_reachable] by (simp add: app_ok_def)
  then show ?thesis by (rule app_cycle_ok) (rule that)
qed

lemma idle_to_busy: "(app_step machine)\<^sup>*\<^sup>* idle_app busy_app"
  unfolding busy_app_def by (rule r_into_rtranclp) (rule kernel)

section \<open>The application\<close>




lemma shutdown_releases_witness: "\<exists>a. shutdown machine (1060 * second) busy_app = Some a \<and> released a"
  using shutdown_releases [OF busy_reachable] .

lemma psi_mode_fixed_witness: "isPSIEventDrivenActive busy_app = isPSIEventDrivenActive idle_app"
  using psi_mode_fixed [OF idle_reachable idle_to_busy] by simp

lemma serve_reads_witness:
  "only_reads machine busy_app (serve machine mcp_surroundings (MCP_DefaultConfig\<lparr>mc_Enabled := True\<rparr>) later_clock (ActivateLimits True) busy_app)"
proof (rule serve_reads)
  show "col_fine machine (m_cfg (rt_manager busy_app)) (rt_collector busy_app)"
    using app_reachable_ok [OF busy_reachable] by (simp add: app_ok_def app_base_def)
qed (simp add: MCP_DefaultConfig_def)

section \<open>The collector\<close>

lemma collector_never_panics_witness:
  "getters_safe any_regex mem_os machine_procs boot_fs 0 1000 (NewCollector machine_procs ram_cfg boot_fs)"
  by (rule collector_never_panics) (rule collector_reachable.new)

definition busy_fs :: mem_fs where
  "busy_fs = boot_fs\<lparr>dirs := [''/proc/4242'']\<rparr>"

lemma user_metrics_sums_witness:
  "\<exists>ms c um. Collector_GetAllUserMetrics any_regex mem_os machine_procs busy_fs 0 (NewCollector machine_procs ram_cfg busy_fs) = (ms, c) \<and>
     map_of ms 1000 = Some um \<and> ProcessCount um = 1 \<and> MemoryUsage um = 7 * 1024 * 1024 * 1024"
proof -
  let ?c = "NewCollector machine_procs ram_cfg busy_fs"
  obtain ms c where r: "Collector_GetAllUserMetrics any_regex mem_os machine_procs busy_fs 0 ?c = (ms, c)" by (metis surj_pair)
  have miss: "getFromCache ''all_user_metrics'' (metricsCacheTTL ?c) 0 ?c = None" by (simp add: getFromCache_def NewCollector_def)
  have procs: "Processes machine_procs busy_fs = Some [(4242, [1000])]" by (simp add: machine_procs_def busy_fs_def)
  have mine: "owned_by (owner_of (col_cfg ?c)) 1000 [(4242, [1000])] = [(4242, [1000])]" by code_simp
  have rss: "process_memory machine_procs busy_fs (4242, [1000]) = 7 * 1024 * 1024 * 1024"
    by (simp add: process_memory_def machine_procs_def)
  note sums = user_metrics_sums [OF miss procs r, of 1000, unfolded mine]
  then obtain um where "map_of ms 1000 = Some um" by (cases "map_of ms 1000") simp_all
  with sums r show ?thesis by (auto simp: rss Let_def)
qed

definition stat_fs :: mem_fs where
  "stat_fs = \<lparr>files = [''/proc/stat'' \<mapsto> ''cpu  150 0 50 900 0 0 0 0 0 0''], dirs = []\<rparr>"

lemma fallback_within_100_witness:
  "f64_le (fst (getTotalCPUUsageFallback mem_os stat_fs 0
     ((NewCollector machine_procs ram_cfg stat_fs)\<lparr>prevCPUStats := times_of [100, 0, 50, 800, 0, 0, 0, 0]\<rparr>))) (Fin 100)"
proof -
  have stat: "Option.bind (read_lines mem_os ''/proc/stat'' stat_fs) stat_fields = Some [150, 0, 50, 900, 0, 0, 0, 0]" by code_simp
  show ?thesis by (rule conjunct2 [OF fallback_within_100 [OF stat, where us = "[100, 0, 50, 800, 0, 0, 0, 0]"]]) (simp, code_simp+)
qed

end
