(* ===== verification/ComponentSamples.thy ===== *)
theory ComponentSamples
  imports AppSamples
begin

text \<open>
  The theorems on the exporter, the database, the reloader and the MCP server applied to concrete states.
\<close>

section \<open>The exporter\<close>

definition prom_cfg :: config where
  "prom_cfg = (DefaultConfig 4194304)\<lparr>EnablePrometheus := True, PrometheusAuthType := ''basic'',
     PrometheusAuthUsername := ''metrics'', PrometheusAuthPasswordFile := ''/etc/resman/pw''\<rparr>"

definition prom_fs :: mem_fs where
  "prom_fs = \<lparr>files = [''/etc/resman/pw'' \<mapsto> ''secret'' @ [newline]], dirs = []\<rparr>"

definition prom_exporter :: exporter where
  "prom_exporter = (case NewPrometheusExporter mem_os prom_cfg prom_fs of ExporterCreated e \<Rightarrow> e)"

lemma prom_created: "NewPrometheusExporter mem_os prom_cfg prom_fs = ExporterCreated prom_exporter"
proof -
  have "EnablePrometheus prom_cfg" "0 < PrometheusMetricsBindPort prom_cfg" "PrometheusMetricsBindPort prom_cfg \<le> 65535"
    by (simp_all add: prom_cfg_def DefaultConfig_def)
  then show ?thesis by (simp add: prom_exporter_def NewPrometheusExporter_def)
qed

lemma metrics_access_witness:
  "authMiddleware (\<lambda>secret token. None) prom_exporter \<lparr>req_basic = Some (''metrics'', ''secret''), req_authorization = ''''\<rparr> \<and>
   \<not> authMiddleware (\<lambda>secret token. None) prom_exporter \<lparr>req_basic = Some (''metrics'', ''guess''), req_authorization = ''''\<rparr> \<and>
   \<not> authMiddleware (\<lambda>secret token. None) prom_exporter \<lparr>req_basic = None, req_authorization = ''Bearer x''\<rparr>"
proof -
  have "effective_password mem_os prom_cfg prom_fs = ''secret''" by code_simp
  moreover have "PrometheusAuthType prom_cfg = ''basic''" "PrometheusAuthUsername prom_cfg = ''metrics''"
    by (simp_all add: prom_cfg_def)
  ultimately show ?thesis by (simp add: metrics_access [OF prom_created])
qed

text \<open>A user reads 100 bytes, then 250; the counter of the kernel starts again, and reaches 30.\<close>

definition reading_of :: "u64 \<Rightarrow> reading" where
  "reading_of n = \<lparr>rd_um = \<lparr>UID = 1000, Username = ''alice'', CPUUsage = Fin 0, CPUUsageAverage = Fin 0, CPUUsageEMA = Fin 0,
       MemoryUsage = 0, ProcessCount = 1, IsLimited = False, IOReadBytes = n, IOWriteBytes = 0, IOReadOps = 0, IOWriteOps = 0\<rparr>,
     rd_limited = False, rd_path = '''', rd_quota = '''', rd_high = 0, rd_rB = n, rd_wB = 0, rd_rO = 0, rd_wO = 0\<rparr>"

definition quiet_exporter :: exporter where
  "quiet_exporter = prom_exporter\<lparr>series_of := Map.empty, prevIOStats := Map.empty\<rparr>"


section \<open>The database\<close>

definition stored_row_at :: "time \<Rightarrow> user_record" where
  "stored_row_at t = \<lparr>ur_UID = 1000, ur_Username = ''alice'', ur_CPUUsagePercent = Fin 5, ur_MemoryUsageBytes = 0, ur_ProcessCount = 1,
     ur_CgroupPath = '''', ur_CPUQuota = '''', ur_IsLimited = False, ur_Timestamp = t\<rparr>"

definition history_app :: "(mem_fs, mem_db) app" where
  "history_app = busy_app\<lparr>a_db := Some (NewDBWriter 30,
     \<lparr>mem_users = map stored_row_at [100 * hour, 101 * hour, 102 * hour], mem_systems = []\<rparr>)\<rparr>"

definition two_hours :: history_args where
  "two_hours = \<lparr>ha_UID = Some 1000, ha_Username = '''', ha_StartTime = '''', ha_EndTime = '''', ha_Period = '''', ha_Hours = 2,
     ha_Limit = 1\<rparr>"


section \<open>The reloader\<close>

definition ram_watcher :: watcher where
  "ram_watcher = \<lparr>wt_path = ''/etc/resman.conf'', currentConfig = default_cfg, wt_running = True, stopClosed = False, looping = True,
     lastModTime = 10, lastFileSize = 0, pendingReload = False, debounceDue = None\<rparr>"

definition bare_runtime :: "mem_fs cgroup runtime" where
  "bare_runtime = \<lparr>rt_manager = fresh_manager, rt_collector = NewCollector machine_procs default_cfg boot_fs, rt_exporter = None\<rparr>"

definition ram_file :: file_read where
  "ram_file = FileData ''RAM_LIMIT_ENABLED=true''"

lemma ram_reload:
  obtains w rt where "handleConfigChange machine_env (Inr (20, 22)) ram_file (ram_watcher, bare_runtime) = (ConfigApplied, w, rt)"
proof -
  have "load_config machine_env (wt_path ram_watcher) ram_file = Inr (ram_cfg, [])" by (simp add: ram_file_def load_ram_cfg)
  then have "\<exists>w rt. handleConfigChange machine_env (Inr (20, 22)) ram_file (ram_watcher, bare_runtime) = (ConfigApplied, w, rt)"
    by (simp add: handleConfigChange_def OnConfigChange_def bare_runtime_def Let_def) (simp add: ram_watcher_def)
  with that show thesis by blast
qed


definition burst :: "turn list" where
  "burst = map (\<lambda>(t, ev). \<lparr>tn_now = t, tn_stat = Inr (20, 22), tn_stat' = Inr (20, 22), tn_file = ram_file, tn_event = ev\<rparr>)
     [(100 * second, FsEvent [OpWrite] ''/etc/resman.conf''), (101 * second, FsEvent [OpChmod] ''/etc/resman.conf''),
      (101 * second, FsEvent [OpWrite] ''/etc/resman.conf'')]"

definition fires :: turn where
  "fires = \<lparr>tn_now = 102 * second, tn_stat = Inr (20, 22), tn_stat' = Inr (20, 22), tn_file = ram_file, tn_event = DebounceFired\<rparr>"

lemma burst_reloads_once_witness:
  "\<exists>r w rt. fold (take_turn machine_env) (burst @ [fires]) ([], ram_watcher, bare_runtime) = ([r], w, rt) \<and>
     handleConfigChange machine_env (Inr (20, 22)) ram_file (ram_watcher, bare_runtime) = (r, w, rt)"
proof -
  have b: "list_all file_event burst" by (simp add: burst_def file_event_def)
  have w: "looping ram_watcher" "\<not> pendingReload ram_watcher" "debounceDue ram_watcher = None" by (simp_all add: ram_watcher_def)
  have c: "filter (changes ram_watcher) burst = hd burst # [last burst]"
    by (simp add: burst_def changes_def relevant_def ram_watcher_def)
  have f: "tn_event fires = DebounceFired" "\<not> tn_now fires < tn_now (hd burst) + seconds 2"
    "tn_stat fires = Inr (20, 22)" "tn_file fires = ram_file"
    by (simp add: fires_def, code_simp, simp_all add: fires_def)
  from burst_reloads_once [OF b w c f(1), where env = machine_env and rt = bare_runtime] f(2-)
  show ?thesis by (auto split: prod.splits simp: length_Suc_conv)
qed

end
