(* ===== verification/ExporterRegistry.thy ===== *)
theory ExporterRegistry
  imports ExporterProps
begin

text \<open>
  What the exporter registers, \<open>registerMetrics\<close> of \<open>metrics/prometheus.go\<close>, and what its server answers. Of the client
  library the documented behaviour is used: a name is registered once, a series is addressed with as many label values as
  the metric has labels, a counter never takes a negative amount; the opposite panics.
\<close>

section \<open>The metrics\<close>

datatype instrument = Series metric | ControlCycleDuration | MetricsCollectionDuration

datatype metric_kind = Gauge | Counter | Histogram

record metric_desc =
  md_instrument :: instrument
  md_name :: string
  md_kind :: metric_kind
  md_static :: bool
  md_labels :: "string list"

text \<open>A gauge or a counter with the labels \<open>hostname\<close> and \<open>server_role\<close>, one without, and a histogram.\<close>

definition static_metric :: "metric \<Rightarrow> metric_kind \<Rightarrow> string \<Rightarrow> string list \<Rightarrow> metric_desc" where
  "static_metric x k n ls = \<lparr>md_instrument = Series x, md_name = n, md_kind = k, md_static = True, md_labels = ls\<rparr>"

definition plain_metric :: "metric \<Rightarrow> metric_kind \<Rightarrow> string \<Rightarrow> string list \<Rightarrow> metric_desc" where
  "plain_metric x k n ls = \<lparr>md_instrument = Series x, md_name = n, md_kind = k, md_static = False, md_labels = ls\<rparr>"

definition histogram_metric :: "instrument \<Rightarrow> string \<Rightarrow> metric_desc" where
  "histogram_metric x n = \<lparr>md_instrument = x, md_name = n, md_kind = Histogram, md_static = False, md_labels = []\<rparr>"

definition user_labels :: "string list" where "user_labels = [''uid'', ''username'']"

definition gauge_metrics :: "metric_desc list" where
  "gauge_metrics =
     [static_metric cpuTotalUsage Gauge ''cpu_total_usage_percent'' [],
      static_metric memoryUsage Gauge ''memory_usage_megabytes'' [],
      static_metric totalMemoryMB Gauge ''memory_total_megabytes'' [],
      static_metric cachedMemoryMB Gauge ''memory_cached_megabytes'' [],
      static_metric limitedUsers Gauge ''limited_users_count'' [],
      static_metric allUsersCPUUsage Gauge ''all_users_cpu_usage_percent'' [],
      static_metric allUsersMemoryUsage Gauge ''all_users_memory_usage_bytes'' [],
      static_metric allUsersCount Gauge ''all_users_count'' [],
      static_metric limitedUsersCPUUsage Gauge ''limited_users_cpu_usage_percent'' [],
      static_metric limitedUsersMemoryUsage Gauge ''limited_users_memory_usage_bytes'' [],
      static_metric limitedUsersCount Gauge ''limited_users_count_filtered'' [],
      static_metric limits_Active Gauge ''limits_active'' [],
      static_metric systemLoad Gauge ''system_load_average'' [],
      static_metric totalCores Gauge ''cpu_total_cores'' [],
      static_metric actionCores Gauge ''cpu_action_cores'' []]"

definition user_metrics_table :: "metric_desc list" where
  "user_metrics_table =
     [static_metric userCPUUsage Gauge ''user_cpu_usage_percent'' user_labels,
      static_metric userCPUUsageAverage Gauge ''user_cpu_usage_average_percent'' user_labels,
      static_metric userCPUUsageEMA Gauge ''user_cpu_usage_ema_percent'' user_labels,
      static_metric userMemoryUsage Gauge ''user_memory_usage_bytes'' user_labels,
      static_metric userProcessCount Gauge ''user_process_count'' user_labels,
      static_metric userLimited Gauge ''user_cpu_limited'' user_labels,
      static_metric userMemoryHighEvents Counter ''user_memory_high_breaches_total'' user_labels,
      static_metric userIOReadBytes Counter ''user_io_read_bytes_total'' user_labels,
      static_metric userIOWriteBytes Counter ''user_io_write_bytes_total'' user_labels,
      static_metric userIOReadOps Counter ''user_io_read_ops_total'' user_labels,
      static_metric userIOWriteOps Counter ''user_io_write_ops_total'' user_labels,
      static_metric userWorkloadPattern Gauge ''user_workload_pattern_confidence'' [''uid'', ''username'', ''pattern''],
      plain_metric cgroupCPUQuota Gauge ''cgroup_cpu_quota_microseconds'' [''uid'', ''cgroup_path''],
      plain_metric cgroupCPUPeriod Gauge ''cgroup_cpu_period_microseconds'' [''uid'', ''cgroup_path''],
      plain_metric cgroupMemoryUsage Gauge ''cgroup_memory_usage_bytes'' [''uid'', ''cgroup_path'']]"

definition counter_metrics :: "metric_desc list" where
  "counter_metrics =
     [plain_metric limitsActivatedTotal Counter ''limits_activated_total'' [],
      plain_metric limitsDeactivatedTotal Counter ''limits_deactivated_total'' [],
      plain_metric controlCyclesTotal Counter ''control_cycles_total'' [],
      static_metric controlCycleTriggers Counter ''control_cycle_triggers_total'' [''trigger''],
      static_metric psiEventsTotal Counter ''psi_events_total'' [''type'', ''scope''],
      static_metric psiLastEventTimestamp Gauge ''psi_last_event_timestamp_seconds'' [''type'', ''scope''],
      plain_metric errorsTotal Counter ''errors_total'' [''component'', ''error_type''],
      histogram_metric ControlCycleDuration ''control_cycle_duration_seconds'',
      histogram_metric MetricsCollectionDuration ''metrics_collection_duration_seconds'']"

definition registered_metrics :: "metric_desc list" where
  "registered_metrics = gauge_metrics @ user_metrics_table @ counter_metrics"

text \<open>Registering, as the library does it: a full name that is invalid or taken panics.\<close>

definition full_name :: "string \<Rightarrow> string" where
  "full_name n = ''resman_'' @ n"

definition is_letter :: "char \<Rightarrow> bool" where
  "is_letter ch \<longleftrightarrow> (let n = (of_char ch :: nat) in 65 \<le> n \<and> n \<le> 90 \<or> 97 \<le> n \<and> n \<le> 122)"

definition valid_metric_name :: "string \<Rightarrow> bool" where
  "valid_metric_name n \<longleftrightarrow> n \<noteq> [] \<and> \<not> is_digit (hd n) \<and>
     list_all (\<lambda>ch. is_digit ch \<or> is_letter ch \<or> ch = CHR ''_'' \<or> ch = CHR '':'') n"

definition constant_labels :: "metric_desc \<Rightarrow> string list" where
  "constant_labels d = (if md_static d then [''hostname'', ''server_role''] else [])"

definition register :: "metric_desc \<Rightarrow> string list \<Rightarrow> string list option" where
  "register d taken =
     (let n = full_name (md_name d) in
      if valid_metric_name n \<and> n \<notin> set taken \<and> distinct (constant_labels d @ md_labels d) then Some (n # taken) else None)"

primrec register_all :: "metric_desc list \<Rightarrow> string list \<Rightarrow> string list option" where
  "register_all [] taken = Some taken"
| "register_all (d # ds) taken = Option.bind (register d taken) (register_all ds)"

definition registerMetrics :: "string list option" where
  "registerMetrics = register_all registered_metrics []"

definition desc_of :: "metric \<Rightarrow> metric_desc option" where
  "desc_of x = map_of (map (\<lambda>d. (md_instrument d, d)) registered_metrics) (Series x)"

definition arity :: "metric \<Rightarrow> nat" where
  "arity x = (case desc_of x of None \<Rightarrow> 0 | Some d \<Rightarrow> length (md_labels d))"

definition is_counter :: "metric \<Rightarrow> bool" where
  "is_counter x = (case desc_of x of None \<Rightarrow> False | Some d \<Rightarrow> md_kind d = Counter)"

section \<open>The operations not used by the cycle\<close>

definition Exporter_IncrementLimitsActivated :: "exporter \<Rightarrow> exporter" where
  "Exporter_IncrementLimitsActivated e = e\<lparr>series_of := inc limitsActivatedTotal [] (series_of e)\<rparr>"

definition Exporter_IncrementLimitsDeactivated :: "exporter \<Rightarrow> exporter" where
  "Exporter_IncrementLimitsDeactivated e = e\<lparr>series_of := inc limitsDeactivatedTotal [] (series_of e)\<rparr>"

definition RecordError :: "string \<Rightarrow> string \<Rightarrow> exporter \<Rightarrow> exporter" where
  "RecordError component errorType e = e\<lparr>series_of := inc errorsTotal [component, errorType] (series_of e)\<rparr>"

text \<open>The observations of the two histograms, in seconds, and the cumulative counts a scrape reports for them.\<close>

record durations =
  cycle_durations :: "f64 list"
  collection_durations :: "f64 list"

definition RecordControlCycleDuration :: "duration \<Rightarrow> durations \<Rightarrow> durations" where
  "RecordControlCycleDuration d h = h\<lparr>cycle_durations := cycle_durations h @ [duration_seconds d]\<rparr>"

definition RecordMetricsCollectionDuration :: "duration \<Rightarrow> durations \<Rightarrow> durations" where
  "RecordMetricsCollectionDuration d h = h\<lparr>collection_durations := collection_durations h @ [duration_seconds d]\<rparr>"

section \<open>The server\<close>

datatype answer = Scrape | Unauthorized | NotFound | Page string string

definition auth_enabled :: "exporter \<Rightarrow> bool" where
  "auth_enabled e \<longleftrightarrow> PrometheusAuthType (exp_cfg e) \<noteq> ''none'' \<and> PrometheusAuthType (exp_cfg e) \<noteq> ''''"

text \<open>\<open>rfc3339\<close> is the formatted time.\<close>

definition healthHandler :: "string \<Rightarrow> exporter \<Rightarrow> answer" where
  "healthHandler rfc3339 e =
     Page ''application/json''
       (''{\"status\": \"healthy\", \"timestamp\": \"'' @ rfc3339 @ ''\", \"auth_enabled\": \"'' @
        PrometheusAuthType (exp_cfg e) @ ''\"}'')"

definition rootHandler :: "string \<Rightarrow> exporter \<Rightarrow> answer" where
  "rootHandler path e =
     (if path \<noteq> ''/'' then NotFound
      else Page ''text/html''
        (''<html><body><h1>Resource Manager Metrics'' @
         (if auth_enabled e then '' (Authentication: '' @ PrometheusAuthType (exp_cfg e) @ '')'' else '''') @
         ''</h1><p><a href=\"/metrics\">Metrics</a></p><p><a href=\"/health\">Health</a></p></body></html>''))"

text \<open>The routes of \<open>Start\<close>; a cleaned path that is neither /metrics nor /health goes to the root handler.\<close>

definition serve_path :: "jwt_lib \<Rightarrow> string \<Rightarrow> exporter \<Rightarrow> string \<Rightarrow> request \<Rightarrow> answer" where
  "serve_path jwt rfc3339 e path r =
     (if path = ''/metrics'' then (if authMiddleware jwt e r then Scrape else Unauthorized)
      else if path = ''/health'' then healthHandler rfc3339 e
      else rootHandler path e)"

text \<open>
  The goroutine that listens. \<open>bound\<close>: the address could be bound and, with TLS, the pair of files loaded. Its error reaches
  the goroutine that waits, like the end of the context and the signal of \<open>Stop\<close>.
\<close>

definition listens :: "bool \<Rightarrow> exporter \<Rightarrow> bool" where
  "listens bound e \<longleftrightarrow>
     bound \<and> (PrometheusTLSEnabled (exp_cfg e) \<longrightarrow> tlsCertFile e \<noteq> '''' \<and> tlsKeyFile e \<noteq> '''')"

datatype wake_reason = ContextDone | ListenError | StopSignal

definition Exporter_shutdown :: "exporter \<Rightarrow> exporter" where
  "Exporter_shutdown e = (if isRunning e then e\<lparr>isRunning := False\<rparr> else e)"

definition waiter_turn :: "wake_reason \<Rightarrow> exporter \<Rightarrow> exporter" where
  "waiter_turn r e =
     (if \<not> serving e \<or> r = StopSignal \<and> \<not> stopPending e then e
      else Exporter_shutdown (e\<lparr>serving := False, stopPending := stopPending e \<and> r \<noteq> StopSignal\<rparr>))"

lemma exporter_turn_is_waiter: "isRunning e \<Longrightarrow> exporter_turn e = waiter_turn StopSignal e"
  by (simp add: exporter_turn_def waiter_turn_def Exporter_shutdown_def)

text \<open>A server that does not listen ends with its waiter; a second \<open>Stop\<close> after that fails, for the signal is never taken.\<close>

lemma stop_after_the_end:
  "\<not> serving e \<Longrightarrow> \<not> stopPending e \<Longrightarrow>
   fst (Exporter_Stop e) \<and> \<not> fst (Exporter_Stop (waiter_turn r (snd (Exporter_Stop e))))"
  by (simp add: Exporter_Stop_def waiter_turn_def)

lemma open_without_credentials:
  "serve_path jwt t e path r \<in> {Unauthorized, Scrape} \<longleftrightarrow> path = ''/metrics''"
  by (auto simp: serve_path_def healthHandler_def rootHandler_def)

section \<open>Registration never panics\<close>

lemmas registered_defs =
  registered_metrics_def gauge_metrics_def user_metrics_table_def counter_metrics_def static_metric_def plain_metric_def
  histogram_metric_def

lemma distinct_names: "distinct (map md_name registered_metrics)"
  by (simp add: registered_defs)

lemma valid_names: "list_all (\<lambda>d. valid_metric_name (full_name (md_name d))) registered_metrics"
  by (simp add: registered_defs full_name_def valid_metric_name_def is_letter_def is_digit_def digit_val_def)

lemma distinct_labels: "list_all (\<lambda>d. distinct (constant_labels d @ md_labels d)) registered_metrics"
  by (simp add: registered_defs constant_labels_def user_labels_def)

lemma full_name_inj: "full_name m = full_name n \<longleftrightarrow> m = n"
  by (simp add: full_name_def)

lemma register_all_ok:
  "list_all (\<lambda>d. valid_metric_name (full_name (md_name d))) ds \<Longrightarrow>
   list_all (\<lambda>d. distinct (constant_labels d @ md_labels d)) ds \<Longrightarrow> distinct (map md_name ds) \<Longrightarrow>
   \<forall>d \<in> set ds. full_name (md_name d) \<notin> set taken \<Longrightarrow> register_all ds taken \<noteq> None"
proof (induction ds arbitrary: taken)
  case (Cons d ds)
  then have r: "register d taken = Some (full_name (md_name d) # taken)" by (simp add: register_def)
  have "register_all ds (full_name (md_name d) # taken) \<noteq> None"
    using Cons.prems by (intro Cons.IH) (auto simp: full_name_inj image_iff)
  with r show ?case by simp
qed simp

lemma registration_succeeds: "registerMetrics \<noteq> None"
  unfolding registerMetrics_def by (rule register_all_ok [OF valid_names distinct_labels distinct_names]) simp

section \<open>Series are addressed as they were registered\<close>

text \<open>What the table says of the number of labels, and whether a metric counts.\<close>

definition shape :: "metric_desc \<Rightarrow> nat \<times> bool" where
  "shape d = (length (md_labels d), md_kind d = Counter)"

lemma shapes:
  "map (\<lambda>d. (md_instrument d, shape d)) registered_metrics =
     [(Series cpuTotalUsage, 0, False),
      (Series memoryUsage, 0, False),
      (Series totalMemoryMB, 0, False),
      (Series cachedMemoryMB, 0, False),
      (Series limitedUsers, 0, False),
      (Series allUsersCPUUsage, 0, False),
      (Series allUsersMemoryUsage, 0, False),
      (Series allUsersCount, 0, False),
      (Series limitedUsersCPUUsage, 0, False),
      (Series limitedUsersMemoryUsage, 0, False),
      (Series limitedUsersCount, 0, False),
      (Series limits_Active, 0, False),
      (Series systemLoad, 0, False),
      (Series totalCores, 0, False),
      (Series actionCores, 0, False),
      (Series userCPUUsage, 2, False),
      (Series userCPUUsageAverage, 2, False),
      (Series userCPUUsageEMA, 2, False),
      (Series userMemoryUsage, 2, False),
      (Series userProcessCount, 2, False),
      (Series userLimited, 2, False),
      (Series userMemoryHighEvents, 2, True),
      (Series userIOReadBytes, 2, True),
      (Series userIOWriteBytes, 2, True),
      (Series userIOReadOps, 2, True),
      (Series userIOWriteOps, 2, True),
      (Series userWorkloadPattern, 3, False),
      (Series cgroupCPUQuota, 2, False),
      (Series cgroupCPUPeriod, 2, False),
      (Series cgroupMemoryUsage, 2, False),
      (Series limitsActivatedTotal, 0, True),
      (Series limitsDeactivatedTotal, 0, True),
      (Series controlCyclesTotal, 0, True),
      (Series controlCycleTriggers, 1, True),
      (Series psiEventsTotal, 2, True),
      (Series psiLastEventTimestamp, 2, False),
      (Series errorsTotal, 2, True),
      (ControlCycleDuration, 0, False),
      (MetricsCollectionDuration, 0, False)]"
  by (simp add: registered_metrics_def gauge_metrics_def user_metrics_table_def counter_metrics_def static_metric_def
      plain_metric_def histogram_metric_def user_labels_def shape_def)

lemma shape_eq:
  "map_option shape (desc_of x) = Some (case x of userCPUUsage \<Rightarrow> (2, False) | userCPUUsageAverage \<Rightarrow> (2, False)
     | userCPUUsageEMA \<Rightarrow> (2, False) | userMemoryUsage \<Rightarrow> (2, False) | userProcessCount \<Rightarrow> (2, False)
     | userLimited \<Rightarrow> (2, False) | userMemoryHighEvents \<Rightarrow> (2, True) | userIOReadBytes \<Rightarrow> (2, True)
     | userIOWriteBytes \<Rightarrow> (2, True) | userIOReadOps \<Rightarrow> (2, True) | userIOWriteOps \<Rightarrow> (2, True)
     | userWorkloadPattern \<Rightarrow> (3, False) | cgroupCPUQuota \<Rightarrow> (2, False) | cgroupCPUPeriod \<Rightarrow> (2, False)
     | cgroupMemoryUsage \<Rightarrow> (2, False) | limitsActivatedTotal \<Rightarrow> (0, True) | limitsDeactivatedTotal \<Rightarrow> (0, True)
     | controlCyclesTotal \<Rightarrow> (0, True) | controlCycleTriggers \<Rightarrow> (1, True) | psiEventsTotal \<Rightarrow> (2, True)
     | psiLastEventTimestamp \<Rightarrow> (2, False) | errorsTotal \<Rightarrow> (2, True) | _ \<Rightarrow> (0, False))"
proof -
  have "map_option shape (map_of (map (\<lambda>d. (md_instrument d, d)) ds) k) = map_of (map (\<lambda>d. (md_instrument d, shape d)) ds) k"
    for ds k by (induction ds) simp_all
  then have "map_option shape (desc_of x) = map_of (map (\<lambda>d. (md_instrument d, shape d)) registered_metrics) (Series x)"
    by (simp add: desc_of_def)
  then show ?thesis unfolding shapes by (cases x) simp_all
qed

lemma all_metrics_registered: "desc_of x \<noteq> None"
  using shape_eq [of x] by auto

lemma arity_shape: "arity x = fst (the (map_option shape (desc_of x)))"
  using all_metrics_registered [of x] by (auto simp: arity_def shape_def)

lemma counter_shape: "is_counter x = snd (the (map_option shape (desc_of x)))"
  using all_metrics_registered [of x] by (auto simp: is_counter_def shape_def)

lemmas arity_eq = arity_shape [unfolded shape_eq option.sel]

lemmas is_counter_eq = counter_shape [unfolded shape_eq option.sel]

definition series_ok :: "series \<Rightarrow> bool" where
  "series_ok s \<longleftrightarrow>
     (\<forall>x ls v. s (x, ls) = Some v \<longrightarrow> length ls = arity x \<and> (is_counter x \<longrightarrow> f64_le (Fin 0) v))"

lemma series_ok_empty [inv_intros]: "series_ok Map.empty"
  by (simp add: series_ok_def)

lemma series_ok_set [inv_intros]:
  "length ls = arity x \<Longrightarrow> \<not> is_counter x \<Longrightarrow> series_ok s \<Longrightarrow> series_ok (set_series x ls v s)"
  by (simp add: series_ok_def set_series_def)

lemma series_ok_add [inv_intros]:
  assumes "length ls = arity x" "f64_le (Fin 0) v" "series_ok s" shows "series_ok (add_series x ls v s)"
proof -
  have "f64_le (Fin 0) (f64_add (case s (x, ls) of None \<Rightarrow> Fin 0 | Some old \<Rightarrow> old) v)" if "is_counter x"
    using assms that by (auto simp: series_ok_def intro!: f64_add_nonneg split: option.split)
  with assms show ?thesis by (simp add: series_ok_def add_series_def)
qed

lemma series_ok_inc [inv_intros]: "length ls = arity x \<Longrightarrow> series_ok s \<Longrightarrow> series_ok (inc x ls s)"
  unfolding inc_def by (rule series_ok_add) simp_all

lemma series_ok_delete [inv_intros]: "series_ok s \<Longrightarrow> series_ok (delete_series x ls s)"
  by (simp add: series_ok_def delete_series_def)

lemma f64_of_u64_nonneg: "f64_le (Fin 0) (f64_of_u64 v)"
  using f64_of_int_mono [of 0 "uint v"] f64_of_int_exact [of 0] by (simp add: f64_of_u64_def)

lemma series_ok_growth [inv_intros]: "length ls = arity x \<Longrightarrow> series_ok s \<Longrightarrow> series_ok (add_growth x ls p n s)"
  by (simp add: add_growth_def series_ok_add f64_of_u64_nonneg)

lemma series_ok_fold [inv_intros]: "(\<And>y s. y \<in> set ys \<Longrightarrow> series_ok s \<Longrightarrow> series_ok (f y s)) \<Longrightarrow> series_ok s \<Longrightarrow> series_ok (fold f ys s)"
  by (rule fold_keeps [where P = series_ok])

lemma series_ok_cgroup_metric:
  "arity x = 2 \<Longrightarrow> \<not> is_counter x \<Longrightarrow> series_ok s \<Longrightarrow> series_ok (updateCgroupMetric key v x s)"
  by (auto simp: updateCgroupMetric_def Let_def intro!: inv_intros)

lemma basic_metric_plain: "map_of basic_metrics key = Some x \<Longrightarrow> arity x = 0 \<and> \<not> is_counter x"
proof -
  assume "map_of basic_metrics key = Some x"
  then have "x \<in> snd ` set basic_metrics" by (force dest: map_of_SomeD)
  then show ?thesis by (auto simp: basic_metrics_def arity_eq is_counter_eq)
qed

lemma series_ok_metric: "series_ok s \<Longrightarrow> series_ok (update_metric os w kv s)"
  using basic_metric_plain [of "fst kv"]
  by (auto simp: update_metric_def Let_def arity_eq is_counter_eq intro!: inv_intros series_ok_cgroup_metric
      split: prod.split option.split)

lemma series_ok_cgroup_series: "series_ok s \<Longrightarrow> series_ok (cgroup_series os w u p q s)"
  by (auto simp: cgroup_series_def Let_def arity_eq is_counter_eq intro!: inv_intros split: prod.split)

text \<open>The operations of the exporter.\<close>

datatype exporter_op =
    ExpUpdate time "(string \<times> f64) list"
  | ExpUser int string user_metrics bool string string u64 u64 u64 u64 u64
  | ExpCleanup "int list" | ExpSystem int int f64 | ExpPattern int string pattern f64 | ExpTrigger string
  | ExpPSI time string string time | ExpActivated | ExpDeactivated | ExpError string string
  | ExpStart | ExpStop | ExpWaiter wake_reason

fun exporter_run :: "'w os \<Rightarrow> 'w \<Rightarrow> exporter_op \<Rightarrow> exporter \<Rightarrow> exporter" where
  "exporter_run os w (ExpUpdate now ms) e = Exporter_UpdateMetrics os w now ms e"
| "exporter_run os w (ExpUser uid name um limited path quota high rB wB rO wO) e =
     Exporter_UpdateUserMetrics os w uid name um limited path quota high rB wB rO wO e"
| "exporter_run os w (ExpCleanup uids) e = Exporter_CleanupUserMetrics uids e"
| "exporter_run os w (ExpSystem cores action load) e = Exporter_UpdateSystemMetrics cores action load e"
| "exporter_run os w (ExpPattern uid name p c) e = Exporter_UpdateUserWorkloadPattern os w uid name p c e"
| "exporter_run os w (ExpTrigger t) e = Exporter_RecordControlCycleTrigger t e"
| "exporter_run os w (ExpPSI now t scope stamp) e = RecordPSIEvent now t scope stamp e"
| "exporter_run os w ExpActivated e = Exporter_IncrementLimitsActivated e"
| "exporter_run os w ExpDeactivated e = Exporter_IncrementLimitsDeactivated e"
| "exporter_run os w (ExpError c t) e = RecordError c t e"
| "exporter_run os w ExpStart e = snd (Exporter_Start e)"
| "exporter_run os w ExpStop e = snd (Exporter_Stop e)"
| "exporter_run os w (ExpWaiter r) e = waiter_turn r e"

lemma series_ok_user:
  "series_ok (series_of e) \<Longrightarrow> series_ok (series_of (Exporter_UpdateUserMetrics os w uid n um l p q h rB wB rO wO e))"
  by (auto simp: Exporter_UpdateUserMetrics_def Let_def arity_eq is_counter_eq f64_of_u64_nonneg
      intro!: inv_intros series_ok_cgroup_series)

lemma series_ok_cleanup_user: "series_ok (series_of e) \<Longrightarrow> series_ok (series_of (cleanup_user uids k e))"
  by (auto simp: cleanup_user_def Let_def intro!: inv_intros split: list.split option.split)

lemma series_ok_cleanup: "series_ok (series_of e) \<Longrightarrow> series_ok (series_of (Exporter_CleanupUserMetrics uids e))"
  unfolding Exporter_CleanupUserMetrics_def
  by (rule fold_keeps [where P = "\<lambda>e. series_ok (series_of e)"]) (simp_all add: series_ok_cleanup_user)

lemma series_ok_pattern:
  "series_ok (series_of e) \<Longrightarrow> series_ok (series_of (Exporter_UpdateUserWorkloadPattern os w uid n p c e))"
  by (auto simp: Exporter_UpdateUserWorkloadPattern_def Let_def arity_eq is_counter_eq intro!: inv_intros split: option.split)

lemma series_ok_run: "series_ok (series_of e) \<Longrightarrow> series_ok (series_of (exporter_run os w x e))"
proof (cases x)
  case ExpUpdate
  then show "series_ok (series_of e) \<Longrightarrow> ?thesis"
    by (auto simp: Exporter_UpdateMetrics_def arity_eq intro!: inv_intros series_ok_metric)
next
  case ExpUser
  then show "series_ok (series_of e) \<Longrightarrow> ?thesis" by (simp add: series_ok_user)
next
  case ExpCleanup
  then show "series_ok (series_of e) \<Longrightarrow> ?thesis" by (simp add: series_ok_cleanup)
next
  case ExpSystem
  then show "series_ok (series_of e) \<Longrightarrow> ?thesis"
    by (auto simp: Exporter_UpdateSystemMetrics_def arity_eq is_counter_eq intro!: inv_intros)
next
  case ExpPattern
  then show "series_ok (series_of e) \<Longrightarrow> ?thesis" by (simp add: series_ok_pattern)
next
  case ExpPSI
  then show "series_ok (series_of e) \<Longrightarrow> ?thesis"
    by (auto simp: RecordPSIEvent_def Let_def arity_eq is_counter_eq intro!: inv_intros)
qed (auto simp: Exporter_RecordControlCycleTrigger_def Exporter_IncrementLimitsActivated_def
    Exporter_IncrementLimitsDeactivated_def RecordError_def Exporter_Start_def Exporter_Stop_def waiter_turn_def
    Exporter_shutdown_def arity_eq intro!: inv_intros)

text \<open>What an exporter is after any operations, each in a system of its own.\<close>

definition run_ops :: "'w os \<Rightarrow> ('w \<times> exporter_op) list \<Rightarrow> exporter \<Rightarrow> exporter" where
  "run_ops os xs e = fold (\<lambda>(w, x). exporter_run os w x) xs e"

lemma loaded_series [simp]: "series_of (snd (loadCredentials os w e)) = series_of e"
proof -
  have 1: "series_of (snd (load_password os w e)) = series_of e" for e
    by (simp add: load_password_def Let_def split: sum.split)
  have 2: "series_of (snd (load_secret os w e)) = series_of e" for e
    by (simp add: load_secret_def Let_def split: sum.split)
  have 3: "series_of (snd (load_tls os w e)) = series_of e" for e
    by (auto simp: load_tls_def Let_def load_tls_file_def)
  show ?thesis
    using 1 [of e] 2 [of "snd (load_password os w e)"] 3 [of "snd (load_secret os w (snd (load_password os w e)))"]
    by (cases "load_password os w e"; cases "load_secret os w (snd (load_password os w e))")
      (auto simp: loadCredentials_def split: option.split prod.split)
qed

lemma created_series: "NewPrometheusExporter os cfg w = ExporterCreated e \<Longrightarrow> series_of e = Map.empty"
  by (auto simp: NewPrometheusExporter_def split: if_splits)

text \<open>C33: the exporter and the client library agree. Registration succeeds, and whatever operations run, no series
  is addressed with the wrong number of labels and no counter goes below 0, both of which panic in the
  library.\<close>

theorem exporter_series_typed:
  assumes "NewPrometheusExporter os cfg w = ExporterCreated e"
  shows "registerMetrics \<noteq> None \<and>
    (\<forall>x ls v. series_of (run_ops os xs e) (x, ls) = Some v \<longrightarrow>
       (\<exists>d. desc_of x = Some d \<and> length ls = length (md_labels d) \<and> (md_kind d = Counter \<longrightarrow> f64_le (Fin 0) v)))"
proof -
  have "series_ok (series_of (run_ops os xs e))"
    unfolding run_ops_def
    by (rule fold_keeps [where P = "\<lambda>e. series_ok (series_of e)"])
      (auto simp: created_series [OF assms] series_ok_run series_ok_empty)
  then have "\<exists>d. desc_of x = Some d \<and> length ls = length (md_labels d) \<and> (md_kind d = Counter \<longrightarrow> f64_le (Fin 0) v)"
    if "series_of (run_ops os xs e) (x, ls) = Some v" for x ls v
    using that all_metrics_registered [of x] by (auto simp: series_ok_def arity_def is_counter_def)
  with registration_succeeds show ?thesis by blast
qed

end
