(* ===== verification/Lifecycle.thy ===== *)
theory Lifecycle
  imports AppProps MCPServer
begin

text \<open>
  The life of the daemon around the control loop: the start and the stop of the MCP server (\<open>mcp/server.go\<close>,
  \<open>WithMCPServer\<close> of \<open>internal/app/app_bootstrap.go\<close>), the signals and the shutdown in its own order
  (\<open>internal/app/app_shutdown.go\<close>). A goroutine is a flag that says whether it lives; a call that waits for one that
  does not end is an outcome of its own.
\<close>

section \<open>The MCP server\<close>

text \<open>
  \<open>ms_http\<close>: an HTTP server was made; \<open>ms_serving\<close>: the goroutine in the wait group lives; \<open>ms_stopped\<close>: the channel
  \<open>shutdownChan\<close> is closed.
\<close>

record mcp_server =
  ms_cfg :: mcp_config
  ms_http :: bool
  ms_serving :: bool
  ms_stopped :: bool

datatype mcp_start_error = UnsupportedTransport string | BindFailed

definition new_mcp_server :: "config \<Rightarrow> mcp_config_error + mcp_server" where
  "new_mcp_server parentCfg =
     (case NewServer parentCfg of
        Inl e \<Rightarrow> Inl e
      | Inr c \<Rightarrow> Inr \<lparr>ms_cfg = c, ms_http = False, ms_serving = False, ms_stopped = False\<rparr>)"

definition startStdioTransport :: "mcp_server \<Rightarrow> mcp_server" where
  "startStdioTransport s = s\<lparr>ms_serving := True\<rparr>"

definition startHTTPTransport :: "bool \<Rightarrow> mcp_server \<Rightarrow> mcp_start_error option \<times> mcp_server" where
  "startHTTPTransport bound s = (if \<not> bound then (Some BindFailed, s) else (None, s\<lparr>ms_http := True, ms_serving := True\<rparr>))"

definition MCP_Start :: "bool \<Rightarrow> mcp_server \<Rightarrow> mcp_start_error option \<times> mcp_server" where
  "MCP_Start bound s =
     (if \<not> mc_Enabled (ms_cfg s) then (None, s)
      else if mc_Transport (ms_cfg s) = ''stdio'' then (None, startStdioTransport s)
      else if mc_Transport (ms_cfg s) = ''http'' then startHTTPTransport bound s
      else (Some (UnsupportedTransport (mc_Transport (ms_cfg s))), s))"

definition WithMCPServer :: "config \<Rightarrow> bool \<Rightarrow> mcp_server option" where
  "WithMCPServer cfg bound =
     (if \<not> MCPEnabled cfg then None
      else (case new_mcp_server cfg of
              Inl _ \<Rightarrow> None
            | Inr s \<Rightarrow> (case MCP_Start bound s of (None, s1) \<Rightarrow> Some s1 | (Some _, _) \<Rightarrow> None)))"

text \<open>
  \<open>Stop\<close>: closing a closed channel panics. \<open>drained\<close>: the open connections became drained within the five seconds of \<open>Shutdown\<close>;
  the server has stopped to listen in either case. The transport over standard input ends with the context or the input.
\<close>

datatype stop_result = StopPanics | StopError mcp_server | StopHangs | StopDone mcp_server

definition MCP_Stop :: "bool \<Rightarrow> bool \<Rightarrow> bool \<Rightarrow> mcp_server \<Rightarrow> stop_result" where
  "MCP_Stop ctx_done eof drained s =
     (if ms_stopped s then StopPanics
      else if ms_http s then
        (let s1 = s\<lparr>ms_stopped := True, ms_serving := False\<rparr> in if drained then StopDone s1 else StopError s1)
      else if ms_serving s \<and> \<not> ctx_done \<and> \<not> eof then StopHangs
      else StopDone (s\<lparr>ms_stopped := True, ms_serving := False\<rparr>))"

text \<open>The port is taken when something answers on it; an address that cannot be dialled counts as free.\<close>

datatype dial_answer = Connected | NoConnection

definition checkPortAvailable :: "dial_answer \<Rightarrow> bool" where
  "checkPortAvailable d = (case d of NoConnection \<Rightarrow> True | Connected \<Rightarrow> False)"

section \<open>Signals\<close>

datatype signal = SIGHUP | SIGINT | SIGTERM

text \<open>The goroutine of \<open>startSignalHandler\<close>, the reloads it has put off and the instants at which it will kill the process.\<close>

record signal_handler =
  sh_running :: bool
  sh_cancelled :: bool
  sh_reloads :: "time list"
  sh_kills :: "time list"

definition started_handler :: signal_handler where
  "started_handler = \<lparr>sh_running = True, sh_cancelled = False, sh_reloads = [], sh_kills = []\<rparr>"

text \<open>A sleep of a time that is not positive ends at once.\<close>

definition kill_delay :: "config \<Rightarrow> duration" where
  "kill_delay cfg = max 0 (seconds (wrap64 (MCPShutdownTimeout cfg * 2)))"

definition handle_signal :: "config \<Rightarrow> bool \<Rightarrow> time \<Rightarrow> signal \<Rightarrow> signal_handler \<Rightarrow> signal_handler" where
  "handle_signal cfg watcher now sig h =
     (if \<not> sh_running h then h
      else if sig = SIGHUP then (if watcher then h\<lparr>sh_reloads := sh_reloads h @ [now + 100000000]\<rparr> else h)
      else h\<lparr>sh_cancelled := True, sh_kills := sh_kills h @ [now + kill_delay cfg]\<rparr>)"

definition handler_leaves :: "signal_handler \<Rightarrow> signal_handler" where
  "handler_leaves h = (if sh_cancelled h then h\<lparr>sh_running := False\<rparr> else h)"

text \<open>How the process ends: \<open>fin\<close> is the instant at which \<open>main\<close> returns, if it does.\<close>

datatype ending = Returned time | Killed time | StillRunning

definition process_end :: "time option \<Rightarrow> signal_handler \<Rightarrow> ending" where
  "process_end fin h =
     (if sh_kills h = [] then (case fin of None \<Rightarrow> StillRunning | Some t \<Rightarrow> Returned t)
      else (let k = Min (set (sh_kills h))
            in case fin of None \<Rightarrow> Killed k | Some t \<Rightarrow> if t < k then Returned t else Killed k))"

fun ended_by :: "time \<Rightarrow> ending \<Rightarrow> bool" where
  "ended_by t (Returned t') \<longleftrightarrow> t' \<le> t"
| "ended_by t (Killed t') \<longleftrightarrow> t' \<le> t"
| "ended_by t StillRunning \<longleftrightarrow> False"

text \<open>However the shutdown goes, a termination signal bounds the life of the process.\<close>

lemma termination_signal_bounds:
  assumes "sh_running h" "sig \<noteq> SIGHUP"
  shows "ended_by (now + kill_delay cfg) (process_end fin (handle_signal cfg watcher now sig h)) \<and>
    sh_cancelled (handle_signal cfg watcher now sig h)"
proof -
  let ?h = "handle_signal cfg watcher now sig h"
  have h: "sh_kills ?h = sh_kills h @ [now + kill_delay cfg]" "sh_cancelled ?h" using assms by (simp_all add: handle_signal_def)
  then have "Min (set (sh_kills ?h)) \<le> now + kill_delay cfg" "sh_kills ?h \<noteq> []" by (auto intro: Min_le)
  then have "ended_by (now + kill_delay cfg) (process_end fin ?h)"
    by (auto simp: process_end_def Let_def simp del: Min_gr_iff split: option.split)
  with h(2) show ?thesis by blast
qed

text \<open>Nothing checks the configured time: when it is not positive the process is killed at the signal, before any cleanup.\<close>

lemma no_time_to_clean_up:
  assumes "sh_running h" "sig \<noteq> SIGHUP" "sh_kills h = []" "MCPShutdownTimeout cfg = 0" "now \<le> t"
  shows "process_end (Some t) (handle_signal cfg watcher now sig h) = Killed now"
  using assms by (simp add: process_end_def handle_signal_def kill_delay_def seconds_def wrap64_def)

section \<open>The shutdown\<close>

text \<open>The daemon: the application with its MCP server, its database connection and the goroutine that cleans the caches.\<close>

record ('w, 'd) daemon =
  d_app :: "('w, 'd) app"
  d_mcp :: "mcp_server option"
  d_db_open :: bool
  d_cleaning :: bool

definition daemon_of :: "config \<Rightarrow> bool \<Rightarrow> ('w, 'd) app \<Rightarrow> ('w, 'd) daemon" where
  "daemon_of cfg bound a =
     \<lparr>d_app = a, d_mcp = WithMCPServer cfg bound, d_db_open = (a_db a \<noteq> None), d_cleaning = True\<rparr>"

datatype shutdown_phase = StopConfigWatcher | CleanupManager | StopMCP | CloseDatabase | StopCollector | StopPSIWatcher

definition shutdown_phases :: "shutdown_phase list" where
  "shutdown_phases = [StopConfigWatcher, CleanupManager, StopMCP, CloseDatabase, StopCollector, StopPSIWatcher]"

text \<open>\<open>None\<close>: the phase panics or does not return. The last phase also returns from \<open>shutdown\<close>.\<close>

definition stop_mcp :: "bool \<Rightarrow> bool \<Rightarrow> ('w, 'd) daemon \<Rightarrow> ('w, 'd) daemon option" where
  "stop_mcp eof drained d =
     (case d_mcp d of
        None \<Rightarrow> Some d
      | Some s \<Rightarrow>
          (case MCP_Stop (cancelled (d_app d)) eof drained s of
             StopPanics \<Rightarrow> None
           | StopHangs \<Rightarrow> None
           | StopError s1 \<Rightarrow> Some (d\<lparr>d_mcp := Some s1\<rparr>)
           | StopDone s1 \<Rightarrow> Some (d\<lparr>d_mcp := Some s1\<rparr>)))"

definition Collector_Stop :: "time \<Rightarrow> ('w, 'd) daemon \<Rightarrow> ('w, 'd) daemon option" where
  "Collector_Stop now d =
     (if \<not> d_cleaning d then None
      else Some (d\<lparr>d_app := (d_app d)\<lparr>rt_collector := cleanupCache now (rt_collector (d_app d))\<rparr>, d_cleaning := False\<rparr>))"

fun run_phase :: "('w, 'd) platform \<Rightarrow> time \<Rightarrow> bool \<Rightarrow> bool \<Rightarrow> shutdown_phase \<Rightarrow> ('w, 'd) daemon \<Rightarrow> ('w, 'd) daemon option" where
  "run_phase pf now eof drained StopConfigWatcher d =
     map_option (\<lambda>wt. d\<lparr>d_app := (d_app d)\<lparr>a_watcher := wt\<rparr>\<rparr>)
       (case a_watcher (d_app d) of None \<Rightarrow> Some None | Some w \<Rightarrow> map_option Some (Watcher_Stop w))"
| "run_phase pf now eof drained CleanupManager d =
     (let a = d_app d;
          m = snd (ManagerCleanup (pf_ops pf) (pf_rx pf) (names_only pf (world_of a) now (rt_collector a)) (rt_manager a))
      in Some (d\<lparr>d_app := flush pf now (a\<lparr>rt_manager := m\<rparr>)\<rparr>))"
| "run_phase pf now eof drained StopMCP d = stop_mcp eof drained d"
| "run_phase pf now eof drained CloseDatabase d = Some (d\<lparr>d_db_open := False\<rparr>)"
| "run_phase pf now eof drained StopCollector d = Collector_Stop now d"
| "run_phase pf now eof drained StopPSIWatcher d =
     (let a = d_app d
      in Some (d\<lparr>d_app := a\<lparr>rt_manager := (rt_manager a)\<lparr>psiWatcher := map_option StopWatcher (psiWatcher (rt_manager a))\<rparr>,
           a_psi := map_option StopWatcher (a_psi a), finished := True\<rparr>\<rparr>))"

primrec run_phases ::
  "('w, 'd) platform \<Rightarrow> time \<Rightarrow> bool \<Rightarrow> bool \<Rightarrow> shutdown_phase list \<Rightarrow> ('w, 'd) daemon \<Rightarrow> ('w, 'd) daemon option" where
  "run_phases pf now eof drained [] d = Some d"
| "run_phases pf now eof drained (p # ps) d = Option.bind (run_phase pf now eof drained p d) (run_phases pf now eof drained ps)"

text \<open>A request of a client, as long as the server takes requests.\<close>

definition serve_client ::
  "('w, 'd) platform \<Rightarrow> mcp_env \<Rightarrow> clock \<Rightarrow> mcp_request \<Rightarrow> ('w, 'd) daemon \<Rightarrow> ('w, 'd) daemon option" where
  "serve_client pf ev ck rq d =
     (case d_mcp d of
        None \<Rightarrow> Some d
      | Some s \<Rightarrow> if \<not> ms_serving s then Some d
                  else map_option (\<lambda>a. d\<lparr>d_app := a\<rparr>) (serve pf ev (ms_cfg s) ck rq (d_app d)))"

section \<open>The shutdown releases what was limited\<close>

definition server_fresh :: "mcp_server option \<Rightarrow> bool" where
  "server_fresh s \<longleftrightarrow> pred_option (\<lambda>s. \<not> ms_stopped s \<and> (ms_http s \<longrightarrow> ms_serving s)) s"

lemma WithMCPServer_fresh: "server_fresh (WithMCPServer cfg bound)"
  by (auto simp: server_fresh_def WithMCPServer_def new_mcp_server_def MCP_Start_def startStdioTransport_def
      startHTTPTransport_def split: sum.split)

lemma stop_mcp_fresh:
  assumes "server_fresh (d_mcp d)" "cancelled (d_app d)"
  obtains s where "stop_mcp eof drained d = Some (d\<lparr>d_mcp := s\<rparr>)" "pred_option (\<lambda>s. ms_stopped s \<and> \<not> ms_serving s) s"
proof (cases "d_mcp d")
  case None
  then show ?thesis using that [of None] by (simp add: stop_mcp_def)
next
  case (Some s)
  with assms that [of "Some (s\<lparr>ms_stopped := True, ms_serving := False\<rparr>)"] show ?thesis
    by (simp add: stop_mcp_def server_fresh_def MCP_Stop_def Let_def)
qed

text \<open>The phases are the shutdown of the application, and what it leaves out.\<close>

lemma phases_shutdown:
  assumes "shutdown pf now (d_app d) = Some a'" "server_fresh (d_mcp d)" "cancelled (d_app d)" "d_cleaning d"
  obtains s where "run_phases pf now eof drained shutdown_phases d =
      Some (d\<lparr>d_app := a'\<lparr>rt_collector := cleanupCache now (rt_collector a')\<rparr>, d_mcp := s, d_db_open := False, d_cleaning := False\<rparr>)"
    "pred_option (\<lambda>s. ms_stopped s \<and> \<not> ms_serving s) s"
proof -
  obtain wt where wt: "(case a_watcher (d_app d) of None \<Rightarrow> Some None | Some w \<Rightarrow> map_option Some (Watcher_Stop w)) = Some wt"
    using assms(1) by (auto simp: shutdown_def split: bind_splits)
  let ?a = "(d_app d)\<lparr>a_watcher := wt\<rparr>"
  let ?m = "snd (ManagerCleanup (pf_ops pf) (pf_rx pf) (names_only pf (world_of ?a) now (rt_collector ?a)) (rt_manager ?a))"
  let ?a1 = "flush pf now (?a\<lparr>rt_manager := ?m\<rparr>)"
  let ?d1 = "d\<lparr>d_app := ?a1\<rparr>"
  have "server_fresh (d_mcp ?d1)" "cancelled (d_app ?d1)" using assms(2,3) by (simp_all add: flush_def)
  then obtain s where s: "stop_mcp eof drained ?d1 = Some (?d1\<lparr>d_mcp := s\<rparr>)" "pred_option (\<lambda>s. ms_stopped s \<and> \<not> ms_serving s) s"
    by (rule stop_mcp_fresh)
  have a': "a' = ?a1\<lparr>rt_manager := (rt_manager ?a1)\<lparr>psiWatcher := map_option StopWatcher (psiWatcher (rt_manager ?a1))\<rparr>,
      a_psi := map_option StopWatcher (a_psi ?a1), finished := True\<rparr>"
    using assms(1) by (simp add: shutdown_def wt Let_def)
  have "run_phases pf now eof drained shutdown_phases d =
      Some (d\<lparr>d_app := a'\<lparr>rt_collector := cleanupCache now (rt_collector a')\<rparr>, d_mcp := s, d_db_open := False, d_cleaning := False\<rparr>)"
    using assms(4) s(1) unfolding a' by (simp add: shutdown_phases_def wt Let_def Collector_Stop_def)
  with s(2) show ?thesis by (rule that [rotated])
qed


text \<open>
  The limits are released before the MCP server stops. A client that may write and gets its request in between puts them into
  force again, and no later phase takes them back.
\<close>

lemma late_request_survives:
  assumes "d_mcp d = Some s" "ms_http s" "ms_serving s" "\<not> ms_stopped s" "mc_AllowWriteOps (ms_cfg s)" "d_cleaning d"
    and "force_on pf (ck_now ck) (d_app d) = Some (err, a)"
  shows "\<exists>d'. Option.bind (serve_client pf ev ck (ActivateLimits True) d)
        (run_phases pf now eof drained [StopMCP, CloseDatabase, StopCollector, StopPSIWatcher]) = Some d' \<and>
      finished (d_app d') \<and> limitsActive (rt_manager (d_app d')) = limitsActive (rt_manager a) \<and>
      activeUsers (rt_manager (d_app d')) = activeUsers (rt_manager a)"
proof -
  have "serve_client pf ev ck (ActivateLimits True) d = Some (d\<lparr>d_app := a\<rparr>)"
    using assms by (simp add: serve_client_def serve_def offered_def handleActivateLimits_def)
  with assms show ?thesis by (simp add: stop_mcp_def MCP_Stop_def Collector_Stop_def Let_def)
qed

text \<open>A second \<open>Stop\<close> of the MCP server panics, and a server over standard input that is stopped before the context hangs.\<close>

lemma MCP_Stop_once:
  "MCP_Stop c e i s = StopDone s1 \<or> MCP_Stop c e i s = StopError s1 \<Longrightarrow> MCP_Stop c' e' i' s1 = StopPanics"
  by (auto simp: MCP_Stop_def Let_def split: if_splits)

lemma MCP_Stop_hangs_iff:
  "MCP_Stop c e i s = StopHangs \<longleftrightarrow> \<not> ms_stopped s \<and> \<not> ms_http s \<and> ms_serving s \<and> \<not> c \<and> \<not> e"
  by (auto simp: MCP_Stop_def Let_def)

end
