(* ===== verification/LimitHook.thy ===== *)
theory LimitHook
  imports StateManager
begin

text \<open>
  The notification of a newly limited user, \<open>state/limit_hook.go\<close>: a script with the event in its environment and a
  request to an endpoint with the event as its body. Running a program and sending a request are the parameter
  \<open>hook_lib\<close>; the formatting of a time by RFC 3339 is the parameter \<open>rfc3339\<close>, with the fraction of the second, as the
  encoder of JSON writes it, \<open>rfc3339nano\<close>.
\<close>

section \<open>The event\<close>

record limit_hook_event =
  he_UID :: int
  he_Username :: string
  he_CPUUsage :: f64
  he_LimitedUsers :: int
  he_SharedCgroup :: string
  he_Timestamp :: time
  he_ServerRole :: string
  he_Source :: string

text \<open>The event of a call \<open>notifyUserLimited\<close> has made.\<close>

fun hook_event :: "time \<Rightarrow> emitted_call \<Rightarrow> limit_hook_event option" where
  "hook_event now (LimitHook uid username cpu limited shared role) =
     Some \<lparr>he_UID = uid, he_Username = username, he_CPUUsage = cpu, he_LimitedUsers = limited, he_SharedCgroup = shared,
       he_Timestamp = now, he_ServerRole = role, he_Source = ''resman''\<rparr>"
| "hook_event now _ = None"

text \<open>\<open>FormatFloat\<close> with two decimals: the nearest, and of two the even one.\<close>

definition two_digits :: "int \<Rightarrow> string" where
  "two_digits n = (if n < 10 then ''0'' else '''') @ Itoa n"

fun FormatFixed2 :: "f64 \<Rightarrow> string" where
  "FormatFixed2 NaN = ''NaN''"
| "FormatFixed2 PInf = ''+Inf''"
| "FormatFixed2 NInf = ''-Inf''"
| "FormatFixed2 (Fin q) =
     (let n = round_even (\<bar>q\<bar> * 100)
      in (if q < 0 then ''-'' else '''') @ Itoa (n div 100) @ ''.'' @ two_digits (n mod 100))"

definition hook_env :: "(time \<Rightarrow> string) \<Rightarrow> limit_hook_event \<Rightarrow> string list" where
  "hook_env rfc3339 ev =
     [''RESMAN_LIMIT_UID='' @ Itoa (he_UID ev),
      ''RESMAN_LIMIT_USERNAME='' @ he_Username ev,
      ''RESMAN_LIMIT_CPU_USAGE='' @ FormatFixed2 (he_CPUUsage ev),
      ''RESMAN_LIMIT_LIMITED_USERS='' @ Itoa (he_LimitedUsers ev),
      ''RESMAN_LIMIT_SHARED_CGROUP='' @ he_SharedCgroup ev,
      ''RESMAN_LIMIT_TIMESTAMP='' @ rfc3339 (he_Timestamp ev),
      ''RESMAN_LIMIT_SERVER_ROLE='' @ he_ServerRole ev]"

text \<open>The body: an object whose fields carry the names of the tags; an empty role is left out; a number must be finite.\<close>

datatype hook_value = HInt int | HNum rat | HStr string

definition hook_body :: "(time \<Rightarrow> string) \<Rightarrow> limit_hook_event \<Rightarrow> (string \<times> hook_value) list option" where
  "hook_body rfc3339nano ev =
     (case he_CPUUsage ev of
        Fin cpu \<Rightarrow>
          Some ([(''uid'', HInt (he_UID ev)), (''username'', HStr (he_Username ev)), (''cpu_usage'', HNum cpu),
             (''limited_users'', HInt (he_LimitedUsers ev)), (''shared_cgroup'', HStr (he_SharedCgroup ev)),
             (''timestamp'', HStr (rfc3339nano (he_Timestamp ev)))] @
             (if he_ServerRole ev = '''' then [] else [(''server_role'', HStr (he_ServerRole ev))]) @
             [(''source'', HStr (he_Source ev))])
      | _ \<Rightarrow> None)"

section \<open>Running the hook\<close>

text \<open>
  \<open>hl_script script env left w\<close>: the program is given \<open>left\<close> nanoseconds and is killed at their end; the answer is whether it
  succeeded, the time it took and the system after it. \<open>hl_post\<close> is the same for a request, with the status of the response.
\<close>

record 'w hook_lib =
  hl_environ :: "string list"
  hl_script :: "string \<Rightarrow> string list \<Rightarrow> duration \<Rightarrow> 'w \<Rightarrow> bool \<times> duration \<times> 'w"
  hl_valid_url :: "string \<Rightarrow> bool"
  hl_post :: "string \<Rightarrow> (string \<times> string) list \<Rightarrow> (string \<times> hook_value) list \<Rightarrow> duration \<Rightarrow> 'w \<Rightarrow> int option \<times> 'w"

datatype hook_error = ScriptFailed | MarshalFailed | RequestInvalid | RequestFailed | BadStatus int

definition runLimitHookScript ::
  "'w hook_lib \<Rightarrow> (time \<Rightarrow> string) \<Rightarrow> duration \<Rightarrow> string \<Rightarrow> limit_hook_event \<Rightarrow> 'w \<Rightarrow> hook_error option \<times> duration \<times> 'w" where
  "runLimitHookScript hl rfc3339 left script ev w =
     (if left \<le> 0 then (Some ScriptFailed, 0, w)
      else (case hl_script hl script (hl_environ hl @ hook_env rfc3339 ev) left w of
              (ok, used, w1) \<Rightarrow> (if ok then None else Some ScriptFailed, used, w1)))"

definition hook_headers :: "(string \<times> string) list" where
  "hook_headers = [(''Content-Type'', ''application/json''), (''User-Agent'', ''resman-limit-hook'')]"

definition postLimitHook ::
  "'w hook_lib \<Rightarrow> (time \<Rightarrow> string) \<Rightarrow> duration \<Rightarrow> string \<Rightarrow> limit_hook_event \<Rightarrow> 'w \<Rightarrow> hook_error option \<times> 'w" where
  "postLimitHook hl rfc3339nano left endpoint ev w =
     (case hook_body rfc3339nano ev of
        None \<Rightarrow> (Some MarshalFailed, w)
      | Some body \<Rightarrow>
          if \<not> hl_valid_url hl endpoint then (Some RequestInvalid, w)
          else if left \<le> 0 then (Some RequestFailed, w)
          else (case hl_post hl endpoint hook_headers body left w of
                  (None, w1) \<Rightarrow> (Some RequestFailed, w1)
                | (Some status, w1) \<Rightarrow> (if status < 200 \<or> status \<ge> 300 then Some (BadStatus status) else None, w1)))"

text \<open>
  \<open>runLimitHook\<close>: both parts share one deadline. The result lists how each part that is configured ended; the program only
  logs the errors.
\<close>

definition runLimitHook ::
  "'w hook_lib \<Rightarrow> (time \<Rightarrow> string) \<Rightarrow> (time \<Rightarrow> string) \<Rightarrow> config \<Rightarrow> limit_hook_event \<Rightarrow> 'w \<Rightarrow> hook_error option list \<times> 'w" where
  "runLimitHook hl rfc3339 rfc3339nano cfg ev w =
     (let timeout = seconds (LimitHookTimeout cfg);
          (r1, used, w1) =
            (if LimitHookScript cfg = '''' then ([], 0, w)
             else (case runLimitHookScript hl rfc3339 timeout (LimitHookScript cfg) ev w of (e, d, w') \<Rightarrow> ([e], d, w')));
          (r2, w2) =
            (if LimitHookURL cfg = '''' then ([], w1)
             else (case postLimitHook hl rfc3339nano (timeout - used) (LimitHookURL cfg) ev w1 of (e, w') \<Rightarrow> ([e], w')))
      in (r1 @ r2, w2))"

section \<open>What it does\<close>

text \<open>Every configured part is tried, the request also when the script has failed.\<close>

lemma runLimitHook_tries:
  "length (fst (runLimitHook hl rfc3339 rfc3339nano cfg ev w)) =
     (if LimitHookScript cfg = '''' then 0 else 1) + (if LimitHookURL cfg = '''' then 0 else 1)"
  by (auto simp: runLimitHook_def Let_def split: prod.split)

text \<open>
  A script that fails at once does not keep the request from being sent; one that takes the whole time does: the request
  then fails without having been sent.
\<close>

lemma script_then_request:
  assumes "LimitHookScript cfg \<noteq> ''''" "LimitHookURL cfg \<noteq> ''''" "0 < seconds (LimitHookTimeout cfg)"
    "hl_script hl (LimitHookScript cfg) (hl_environ hl @ hook_env rfc3339 ev) (seconds (LimitHookTimeout cfg)) w = (ok, used, w1)"
  shows "runLimitHook hl rfc3339 rfc3339nano cfg ev w =
    (let (e, w2) = postLimitHook hl rfc3339nano (seconds (LimitHookTimeout cfg) - used) (LimitHookURL cfg) ev w1
     in ([if ok then None else Some ScriptFailed, e], w2))"
  using assms by (simp add: runLimitHook_def runLimitHookScript_def Let_def split: prod.split)

lemma slow_script_starves_request:
  assumes "LimitHookScript cfg \<noteq> ''''" "LimitHookURL cfg \<noteq> ''''" "0 < seconds (LimitHookTimeout cfg)"
    "hl_script hl (LimitHookScript cfg) (hl_environ hl @ hook_env rfc3339 ev) (seconds (LimitHookTimeout cfg)) w = (ok, used, w1)"
    "seconds (LimitHookTimeout cfg) \<le> used" "hl_valid_url hl (LimitHookURL cfg)" "he_CPUUsage ev = Fin q"
  shows "runLimitHook hl rfc3339 rfc3339nano cfg ev w = ([if ok then None else Some ScriptFailed, Some RequestFailed], w1)"
  using assms(5-7) unfolding script_then_request [OF assms(1-4)] by (simp add: postLimitHook_def hook_body_def)

text \<open>What counts as delivered.\<close>

lemma postLimitHook_ok:
  "fst (postLimitHook hl rfc3339nano left endpoint ev w) = None \<longleftrightarrow>
     (\<exists>body status. hook_body rfc3339nano ev = Some body \<and> hl_valid_url hl endpoint \<and> 0 < left \<and>
        fst (hl_post hl endpoint hook_headers body left w) = Some status \<and> 200 \<le> status \<and> status < 300)"
  by (auto simp: postLimitHook_def split: option.split prod.split)

text \<open>The text of a number with two decimals.\<close>

lemma FormatFixed2_samples:
  "FormatFixed2 (Fin (25 / 2)) = ''12.50''" "FormatFixed2 (Fin (-1 / 8)) = ''-0.12''" "FormatFixed2 (Fin 100) = ''100.00''"
  by code_simp+

end
