(* ===== verification/LimitTargets.thy ===== *)
theory LimitTargets
  imports ManagerProps
begin

text \<open>
  Which files the cgroup manager writes limits to. The operating system is wrapped so that it remembers every write, the
  model of package \<open>cgroup\<close> is run on it, and the contract \<open>cgroup_provider\<close> carries a statement on the writes through every
  operation of the state manager: the limits of a user go to its cgroup below the base cgroup, while the processes of a
  limited user are in its sub-cgroup of the shared one.
\<close>

section \<open>A system that remembers the writes\<close>

type_synonym write_log = "(string \<times> string) list"

definition noted :: "string \<Rightarrow> string \<Rightarrow> ('w \<Rightarrow> 'e \<times> 'w) \<Rightarrow> 'w \<times> write_log \<Rightarrow> 'e \<times> 'w \<times> write_log" where
  "noted p c f s = (case f (fst s) of (e, w) \<Rightarrow> (e, w, (p, c) # snd s))"

definition unnoted :: "('w \<Rightarrow> 'e \<times> 'w) \<Rightarrow> 'w \<times> write_log \<Rightarrow> 'e \<times> 'w \<times> write_log" where
  "unnoted f s = (case f (fst s) of (e, w) \<Rightarrow> (e, w, snd s))"

definition recording :: "'w os \<Rightarrow> ('w \<times> write_log) os" where
  "recording os =
     \<lparr>ReadFile = (\<lambda>p s. ReadFile os p (fst s)),
      WriteFile = (\<lambda>p c. noted p c (WriteFile os p c)),
      AppendFile = (\<lambda>p c. noted p c (AppendFile os p c)),
      Stat = (\<lambda>p s. Stat os p (fst s)),
      Chmod = (\<lambda>p. unnoted (Chmod os p)),
      Mkdir = (\<lambda>p. unnoted (Mkdir os p)),
      MkdirAll = (\<lambda>p. unnoted (MkdirAll os p)),
      Remove = (\<lambda>p. unnoted (Remove os p)),
      RemoveAll = (\<lambda>p. unnoted (RemoveAll os p)),
      Rename = (\<lambda>p q. noted q '''' (Rename os p q)),
      ReadDir = (\<lambda>p s. ReadDir os p (fst s))\<rparr>"

text \<open>The files that hold the limits of memory and I/O. A weight of 100 is the kernel's default.\<close>

definition limit_files :: "string list" where
  "limit_files = [''memory.max'', ''memory.high'', ''memory.swap.max'', ''io.max'']"

definition limits_below :: "string \<Rightarrow> string \<times> string \<Rightarrow> bool" where
  "limits_below dir entry \<longleftrightarrow>
     (case entry of (p, content) \<Rightarrow>
        HasPrefix p (dir @ ''/'') \<and>
        (path_base p \<in> set limit_files \<or> path_base p = ''cpu.weight'' \<and> content \<noteq> ''100''))"

section \<open>Paths that are spared\<close>

definition watched_names :: "string list" where
  "watched_names = ''cpu.weight'' # limit_files"

lemma other_name: "path_base p \<notin> set watched_names \<Longrightarrow> \<not> limits_below dir (p, c)"
  by (auto simp: limits_below_def watched_names_def)

lemma default_weight [simp]: "path_base p \<notin> set limit_files \<Longrightarrow> \<not> limits_below dir (p, ''100'')"
  by (simp add: limits_below_def)

lemma plain_user_dir [simp]: "plain_name (user_dir uid)"
  using Itoa_no_slash [of uid] by (auto simp: plain_name_def user_dir_def)

lemma path_join_nil: "plain_name f \<Longrightarrow> path_join [] f = f"
proof -
  assume f: "plain_name f"
  then have s: "Split f CHR ''/'' = [f]" using split_by_no_sep [of f "\<lambda>y. y = CHR ''/''"] by (auto simp: Split_def plain_name_def)
  have "\<not> HasPrefix f ''/''" using f by (cases f) (auto simp: HasPrefix_def plain_name_def)
  with f s clean_fold_plain [of "[f]" False "[]"] show ?thesis by (simp add: path_join_def Clean_def plain_name_def)
qed

text \<open>What is written for a user below the base cgroup is not below the shared one.\<close>

lemma user_path_spared:
  assumes "clean_abs b" "plain_name f"
  shows "\<not> limits_below (path_join b ''limited'') (path_join (path_join b (user_dir uid)) f, c)"
proof -
  have "path_join b ''limited'' = b @ ''/limited''"
    using path_join_plain [OF assms(1), of "''limited''"] by (simp add: plain_name_def)
  moreover have "path_join (path_join b (user_dir uid)) f = b @ ''/user_'' @ Itoa uid @ ''/'' @ f"
    using path_join_plain [OF assms(1) plain_user_dir [of uid]] path_join_plain [of "path_join b (user_dir uid)" f] assms(2)
    by (simp add: user_dir_def)
  ultimately show ?thesis by (auto simp: limits_below_def HasPrefix_iff)
qed

lemma relative_spared:
  assumes "clean_abs b" "plain_name f"
  shows "\<not> limits_below (path_join b ''limited'') (path_join [] f, c)"
proof -
  have "path_join b ''limited'' = b @ ''/limited''"
    using path_join_plain [OF assms(1), of "''limited''"] by (simp add: plain_name_def)
  moreover obtain x where "b = CHR ''/'' # x" using assms(1) by (auto simp: clean_abs_def)
  moreover have "f = [] \<or> hd f \<noteq> CHR ''/''" using assms(2) by (cases f) (auto simp: plain_name_def)
  ultimately show ?thesis using assms(2) by (auto simp: path_join_nil limits_below_def HasPrefix_iff)
qed

section \<open>No operation writes a limit below the shared cgroup\<close>

text \<open>\<open>b\<close> is the base cgroup, \<open>tf\<close> the tracking file.\<close>

definition limits_spared :: "string \<Rightarrow> string \<Rightarrow> ('w \<times> write_log) cgroup \<Rightarrow> bool" where
  "limits_spared b tf s \<longleftrightarrow>
     tracked_ok s \<and> getBaseCgroupPath s = b \<and> createdCgroupsFile s = tf \<and> clean_abs b \<and>
     path_base tf \<notin> set watched_names \<and> \<not> list_ex (limits_below (path_join b ''limited'')) (snd (world s))"

lemma spared_base: "limits_spared b tf s \<Longrightarrow> getBaseCgroupPath s = b \<and> createdCgroupsFile s = tf \<and> clean_abs b"
  by (simp add: limits_spared_def)

lemma spared_user_path: "limits_spared b tf s \<Longrightarrow> getUserCgroupPath uid s = path_join b (user_dir uid)"
  by (simp add: limits_spared_def getUserCgroupPath_def)

lemma spared_tracked: "limits_spared b tf s \<Longrightarrow> getCgroupPath uid s = Some p \<Longrightarrow> p = path_join b (user_dir uid)"
  by (auto simp: limits_spared_def getCgroupPath_def getUserCgroupPath_def tracked_ok_def dest!: map_of_SomeD)

lemma spared_write:
  "limits_spared b tf s \<Longrightarrow> \<not> limits_below (path_join b ''limited'') (p, c) \<Longrightarrow>
   limits_spared b tf (snd (cg_write (recording os) p c s))"
  using ok_write [of s "recording os" p c]
  by (auto simp: limits_spared_def cg_write_def recording_def noted_def getBaseCgroupPath_def split_beta)

definition leaves_log :: "('w \<times> write_log \<Rightarrow> os_error option \<times> 'w \<times> write_log) \<Rightarrow> bool" where
  "leaves_log f \<longleftrightarrow> (\<forall>s. snd (snd (f s)) = snd s)"

lemma leaves_log_recording [simp]:
  "leaves_log (MkdirAll (recording os) p)" "leaves_log (Mkdir (recording os) p)" "leaves_log (Remove (recording os) p)"
  "leaves_log (RemoveAll (recording os) p)" "leaves_log (Chmod (recording os) p)"
  by (simp_all add: leaves_log_def recording_def unnoted_def split_beta)

lemma spared_do: "leaves_log f \<Longrightarrow> limits_spared b tf s \<Longrightarrow> limits_spared b tf (snd (cg_do f s))"
  using ok_do [of s f] by (cases "world s") (auto simp: limits_spared_def cg_do_def leaves_log_def getBaseCgroupPath_def split_beta)

lemma spared_named:
  "limits_spared b tf s \<Longrightarrow> path_base p \<notin> set watched_names \<Longrightarrow> limits_spared b tf (snd (cg_write (recording os) p c s))"
  by (simp add: spared_write other_name)

lemma spared_user_write:
  "limits_spared b tf s \<Longrightarrow> plain_name f \<Longrightarrow>
   limits_spared b tf (snd (cg_write (recording os) (path_join (path_join b (user_dir uid)) f) c s))"
  using spared_base [of b tf s] by (simp add: spared_write user_path_spared)

lemma spared_save: "limits_spared b tf s \<Longrightarrow> limits_spared b tf (snd (saveCgroupToFile (recording os) uid p s))"
  using ok_save [of s "recording os" uid p]
  by (auto simp: limits_spared_def saveCgroupToFile_def cg_do_def recording_def noted_def getBaseCgroupPath_def split_beta
      other_name)

lemma names [simp]:
  "path_base (path_join p ''cgroup.procs'') \<notin> set watched_names" "path_base (path_join p ''cpu.max'') \<notin> set watched_names"
  "path_base (path_join p ''cgroup.subtree_control'') \<notin> set watched_names" "path_base (root_procs s) \<notin> set watched_names"
  "path_base (path_join p ''cpu.weight'') \<notin> set limit_files"
  by (simp_all add: root_procs_def path_base_join plain_name_def watched_names_def limit_files_def)

lemma pressure_name [simp]: "pressure_path p \<Longrightarrow> path_base p \<notin> set watched_names"
  by (auto simp: pressure_path_def watched_names_def limit_files_def)

lemma plain_files [simp]:
  "plain_name ''memory.max''" "plain_name ''memory.high''" "plain_name ''memory.swap.max''" "plain_name ''io.max''"
  "plain_name ''cpu.weight''"
  by (simp_all add: plain_name_def)

lemma spared_CreateUserCgroup: "limits_spared b tf s \<Longrightarrow> limits_spared b tf (snd (CreateUserCgroup (recording os) uid s))"
proof -
  assume s: "limits_spared b tf s"
  have upd: "limits_spared b tf (t\<lparr>createdCgroups := al_update uid (getUserCgroupPath uid s) (createdCgroups t)\<rparr>)"
    if "limits_spared b tf t" for t
  proof -
    have "p = getUserCgroupPath u t" if "(u, p) \<in> set (al_update uid (getUserCgroupPath uid s) (createdCgroups t))" for u p
      using al_update_member [OF that] \<open>limits_spared b tf t\<close> s
      by (auto simp: limits_spared_def tracked_ok_def getUserCgroupPath_def)
    with that show ?thesis by (auto simp: limits_spared_def tracked_ok_def getUserCgroupPath_def getBaseCgroupPath_def)
  qed
  have m: "limits_spared b tf (snd (cg_do (MkdirAll (recording os) p) s))" for p by (rule spared_do [OF _ s]) simp
  show ?thesis
    using s by (auto simp: CreateUserCgroup_def Let_def split_beta m intro!: spared_save upd split: option.split)
qed

lemmas spared_blocks = spared_named spared_user_write spared_do spared_CreateUserCgroup spared_save spared_user_path

lemma spared_tracked_path:
  assumes "limits_spared b tf s"
  shows "limits_spared b tf (snd (tracked_path (recording os) uid s)) \<and>
    (fst (tracked_path (recording os) uid s) = Inr p \<longrightarrow> p = [] \<or> p = path_join b (user_dir uid))"
  using assms spared_CreateUserCgroup [OF assms, of os uid]
  by (auto simp: tracked_path_def split_beta dest: spared_tracked split: option.splits)

lemma spared_limit_write:
  "limits_spared b tf s \<Longrightarrow> plain_name f \<Longrightarrow> p = [] \<or> p = path_join b (user_dir uid) \<Longrightarrow>
   limits_spared b tf (snd (cg_write (recording os) (path_join p f) c s))"
  using spared_base [of b tf s] relative_spared [of b f c] by (metis spared_user_write spared_write)

lemma spared_write_limit: "limits_spared b tf s \<Longrightarrow> plain_name f \<Longrightarrow> limits_spared b tf (snd (write_limit (recording os) f m uid v s))"
  using spared_tracked_path [of b tf s os uid]
  by (auto simp: write_limit_def split_beta intro!: spared_limit_write [where uid = uid] split: option.split sum.split)

lemma spared_disable_swap: "limits_spared b tf s \<Longrightarrow> limits_spared b tf (snd (disable_swap (recording os) uid s))"
  by (auto simp: disable_swap_def Let_def split_beta dest: spared_tracked intro!: spared_limit_write [where uid = uid]
      split: option.split)

lemma spared_ApplyRAMLimit: "limits_spared b tf s \<Longrightarrow> limits_spared b tf (snd (ApplyRAMLimit (recording os) uid l s))"
  by (simp add: ApplyRAMLimit_def spared_write_limit)

lemma spared_ApplyRAMLimitWithHigh:
  "limits_spared b tf s \<Longrightarrow> limits_spared b tf (snd (ApplyRAMLimitWithHigh (recording os) uid l h s))"
  by (simp add: ApplyRAMLimitWithHigh_def ApplyRAMHigh_def split_beta spared_write_limit spared_ApplyRAMLimit split: option.split)

lemma spared_ApplyRAMLimitWithHighAndSwapDisabled:
  "limits_spared b tf s \<Longrightarrow> limits_spared b tf (snd (ApplyRAMLimitWithHighAndSwapDisabled (recording os) uid l h s))"
  by (simp add: ApplyRAMLimitWithHighAndSwapDisabled_def split_beta spared_ApplyRAMLimitWithHigh spared_disable_swap
      split: option.split)

lemma spared_RemoveRAMHigh: "limits_spared b tf s \<Longrightarrow> limits_spared b tf (snd (RemoveRAMHigh (recording os) uid s))"
  using spared_tracked [of b tf s uid] by (auto simp: RemoveRAMHigh_def split_beta intro!: spared_limit_write [where uid = uid] split: option.split)

lemma spared_RemoveIOLimit: "limits_spared b tf s \<Longrightarrow> limits_spared b tf (snd (RemoveIOLimit (recording os) uid s))"
  using spared_tracked [of b tf s uid] by (auto simp: RemoveIOLimit_def split_beta intro!: spared_limit_write [where uid = uid] split: option.split)

lemma spared_ApplyIOLimit: "limits_spared b tf s \<Longrightarrow> limits_spared b tf (snd (ApplyIOLimit (recording os) uid r wr ri wi d s))"
  by (simp add: ApplyIOLimit_def spared_write_limit)

lemma spared_ApplyCPUWeight: "limits_spared b tf s \<Longrightarrow> limits_spared b tf (snd (ApplyCPUWeight (recording os) uid w s))"
  by (simp add: ApplyCPUWeight_def Let_def split_beta spared_blocks split: option.split)

text \<open>The moves, the shared cgroup and the cleanup write no limits but the weight of 100 of a new sub-cgroup.\<close>

lemma spared_move_each:
  assumes "\<And>pid s. limits_spared b tf s \<Longrightarrow> limits_spared b tf (snd (move pid s))"
  shows "limits_spared b tf s \<Longrightarrow> limits_spared b tf (snd (move_each rx os pl move pids s))"
  by (induction pids arbitrary: s) (simp_all add: split_beta Let_def assms)

lemma spared_move_all:
  assumes "\<And>pid s. limits_spared b tf s \<Longrightarrow> limits_spared b tf (snd (move pid s))" "limits_spared b tf s"
  shows "limits_spared b tf (snd (move_all rx os pl move uid s))"
  using assms(2) by (simp add: move_all_def split_beta spared_move_each [of b tf move, OF assms(1)] split: option.split)

lemma spared_MoveAllUserProcesses:
  "limits_spared b tf s \<Longrightarrow> limits_spared b tf (snd (MoveAllUserProcesses rx (recording os) pl uid s))"
  unfolding MoveAllUserProcesses_def
  by (auto intro!: spared_move_all simp: MoveProcessToCgroup_def split_beta spared_named split: option.split)

lemma spared_ApplyCPULimit: "limits_spared b tf s \<Longrightarrow> limits_spared b tf (snd (ApplyCPULimit rx (recording os) pl uid q s))"
  by (simp add: ApplyCPULimit_def Let_def split_beta write_quota_def verify_quota_def spared_blocks spared_MoveAllUserProcesses
      split: option.split sum.split)

lemma spared_CreateUserSub: "limits_spared b tf s \<Longrightarrow> limits_spared b tf (snd (CreateUserSubCgroup (recording os) uid p s))"
  by (auto simp: CreateUserSubCgroup_def Let_def split_beta spared_do intro!: spared_write split: option.split)

lemma spared_MoveAllShared:
  "limits_spared b tf s \<Longrightarrow> limits_spared b tf (snd (MoveAllUserProcessesToSharedCgroup rx (recording os) pl uid p s))"
  unfolding MoveAllUserProcessesToSharedCgroup_def
  by (rule spared_move_all)
    (auto simp: MoveProcessToSharedCgroup_def Let_def split_beta spared_named spared_CreateUserSub split: option.split sum.split)

lemma spared_ApplyShared: "limits_spared b tf s \<Longrightarrow> limits_spared b tf (snd (ApplySharedCPULimit (recording os) p q s))"
  by (simp add: ApplySharedCPULimit_def split_beta spared_named split: option.split)

lemma spared_controller:
  "limits_spared b tf s \<Longrightarrow> limits_spared b tf (snd (writeControllerIfMissing (recording os) (path_join p ''cgroup.subtree_control'') c s))"
  by (simp add: writeControllerIfMissing_def spared_named split: sum.split)

lemma spared_writePids:
  "limits_spared b tf s \<Longrightarrow> path_base f \<notin> set watched_names \<Longrightarrow> limits_spared b tf (snd (writePidsBatch (recording os) f pids s))"
  by (simp add: writePidsBatch_def spared_named)

lemma spared_evict_batch: "limits_spared b tf s \<Longrightarrow> limits_spared b tf (evict_batch (recording os) f s)"
  by (simp add: evict_batch_def spared_writePids split: sum.split)

lemma spared_clear_shared: "limits_spared b tf s \<Longrightarrow> limits_spared b tf (clear_shared (recording os) p s)"
proof -
  have "limits_spared b tf s \<Longrightarrow> limits_spared b tf (fold (evict_one (recording os)) pids s)" for pids and s :: "('a \<times> write_log) cgroup"
    by (induction pids arbitrary: s) (simp_all add: evict_one_def spared_named)
  then show "limits_spared b tf s \<Longrightarrow> ?thesis" by (simp add: clear_shared_def Let_def spared_do split: sum.split)
qed

lemma spared_CreateShared: "limits_spared b tf s \<Longrightarrow> limits_spared b tf (snd (CreateSharedCgroup (recording os) s))"
  by (simp add: CreateSharedCgroup_def Let_def split_beta spared_do spared_clear_shared spared_controller split: option.split)

lemma spared_Release: "limits_spared b tf s \<Longrightarrow> limits_spared b tf (snd (ReleaseUserFromSharedCgroup (recording os) uid p s))"
  by (simp add: ReleaseUserFromSharedCgroup_def Let_def split_beta spared_do spared_writePids split: option.split sum.split)

lemma spared_tracking_file:
  "limits_spared b tf s \<Longrightarrow> limits_spared b tf (snd (removeCgroupFromFile (recording os) uid s))"
  using spared_named [of b tf s "createdCgroupsFile s" os]
  by (auto simp: removeCgroupFromFile_def limits_spared_def [of _ _ s] split: sum.split)

lemma spared_delete: "limits_spared b tf s \<Longrightarrow> limits_spared b tf (s\<lparr>createdCgroups := al_delete uid (createdCgroups s)\<rparr>)"
  using ok_delete [of s uid] by (simp add: limits_spared_def getBaseCgroupPath_def)

lemma spared_CleanupUserCgroup: "limits_spared b tf s \<Longrightarrow> limits_spared b tf (snd (CleanupUserCgroup (recording os) uid s))"
  by (simp add: CleanupUserCgroup_def Let_def split_beta spared_do spared_tracking_file spared_delete split: option.split)

lemma spared_cleanup_users: "limits_spared b tf s \<Longrightarrow> limits_spared b tf (snd (cleanup_users (recording os) uids s))"
  by (induction uids arbitrary: s) (simp_all add: split_beta Let_def spared_CleanupUserCgroup)

lemma spared_remove_subgroups: "limits_spared b tf s \<Longrightarrow> limits_spared b tf (snd (remove_subgroups (recording os) p es s))"
  by (induction es arbitrary: s) (simp_all add: split_paired_all split_beta Let_def spared_do spared_evict_batch)

lemma spared_CleanupAll: "limits_spared b tf s \<Longrightarrow> limits_spared b tf (snd (CleanupAll (recording os) s))"
  by (simp add: CleanupAll_def cleanup_shared_def Let_def split_beta spared_do spared_cleanup_users spared_evict_batch
      spared_remove_subgroups split: sum.split)

interpretation rec: cgroup_provider "real_ops rx (recording os) pl" "limits_spared b tf"
  by unfold_locales
    (simp_all add: real_ops_def RemoveRAMLimit_def spared_ApplyCPULimit spared_ApplyCPUWeight spared_ApplyRAMLimit
      spared_ApplyRAMLimitWithHigh spared_ApplyRAMLimitWithHighAndSwapDisabled spared_RemoveRAMHigh spared_ApplyIOLimit
      spared_RemoveIOLimit spared_MoveAllShared spared_Release spared_CreateShared spared_ApplyShared spared_CreateUserSub
      spared_CleanupAll spared_do spared_named shared_path_nonempty)

section \<open>What it means for the limited users\<close>


end
