(* ===== verification/Locks.thy ===== *)
theory Locks
  imports Prelude
begin

text \<open>
  Read-write mutexes as \<open>sync.RWMutex\<close> documents them, threads that run lists of lock operations, and every interleaving of
  their steps. A thread that calls \<open>Lock\<close> first announces itself: from then on no reader gets in, and it has the lock once
  the readers before it have left. A \<open>sync.Mutex\<close> is a lock that is never read-locked.
\<close>

section \<open>Threads\<close>

datatype mode = Shared | Exclusive

datatype 'l lock_op = RLock 'l | RUnlock 'l | WLock 'l | WUnlock 'l

text \<open>What a thread holds, whether it has announced the \<open>Lock\<close> it is at, and what it still has to do.\<close>

record 'l thread =
  held :: "('l \<times> mode) list"
  announced :: bool
  todo :: "'l lock_op list"

definition new_thread :: "'l lock_op list \<Rightarrow> 'l thread" where
  "new_thread ops = \<lparr>held = [], announced = False, todo = ops\<rparr>"

definition wants :: "'l \<Rightarrow> 'l thread \<Rightarrow> bool" where
  "wants l t \<longleftrightarrow> announced t \<and> (case todo t of WLock k # _ \<Rightarrow> k = l | _ \<Rightarrow> False)"

definition write_blocked :: "'l \<Rightarrow> 'l thread list \<Rightarrow> bool" where
  "write_blocked l s \<longleftrightarrow> (\<exists>t \<in> set s. (l, Exclusive) \<in> set (held t) \<or> wants l t)"

definition read_blocked :: "'l \<Rightarrow> 'l thread list \<Rightarrow> bool" where
  "read_blocked l s \<longleftrightarrow> (\<exists>t \<in> set s. (l, Shared) \<in> set (held t))"

definition take_lock :: "'l \<times> mode \<Rightarrow> 'l lock_op list \<Rightarrow> 'l thread \<Rightarrow> 'l thread" where
  "take_lock x ops t = t\<lparr>held := x # held t, announced := False, todo := ops\<rparr>"

definition drop_lock :: "'l \<times> mode \<Rightarrow> 'l lock_op list \<Rightarrow> 'l thread \<Rightarrow> 'l thread option" where
  "drop_lock x ops t = (if x \<in> set (held t) then Some (t\<lparr>held := remove1 x (held t), todo := ops\<rparr>) else None)"

text \<open>The next step of a thread, when it has one: it waits otherwise. Giving up a lock it does not hold is no step.\<close>

definition thread_step :: "'l thread list \<Rightarrow> 'l thread \<Rightarrow> 'l thread option" where
  "thread_step s t =
     (case todo t of
        [] \<Rightarrow> None
      | RLock l # ops \<Rightarrow> if write_blocked l s then None else Some (take_lock (l, Shared) ops t)
      | WLock l # ops \<Rightarrow>
          if announced t then (if read_blocked l s then None else Some (take_lock (l, Exclusive) ops t))
          else if write_blocked l s then None else Some (t\<lparr>announced := True\<rparr>)
      | RUnlock l # ops \<Rightarrow> drop_lock (l, Shared) ops t
      | WUnlock l # ops \<Rightarrow> drop_lock (l, Exclusive) ops t)"

definition fire :: "nat \<Rightarrow> 'l thread list \<Rightarrow> 'l thread list option" where
  "fire i s = (if i < length s then map_option (\<lambda>t. s[i := t]) (thread_step s (s ! i)) else None)"

text \<open>A schedule is the list of the threads that make the steps.\<close>

fun run_schedule :: "nat list \<Rightarrow> 'l thread list \<Rightarrow> 'l thread list option" where
  "run_schedule [] s = Some s"
| "run_schedule (i # is) s = Option.bind (fire i s) (run_schedule is)"

definition all_done :: "'l thread list \<Rightarrow> bool" where
  "all_done s \<longleftrightarrow> (\<forall>t \<in> set s. todo t = [])"

definition deadlocked :: "'l thread list \<Rightarrow> bool" where
  "deadlocked s \<longleftrightarrow> \<not> all_done s \<and> (\<forall>i < length s. fire i s = None)"

section \<open>Sections\<close>

definition shared :: "'l \<Rightarrow> 'l lock_op list \<Rightarrow> 'l lock_op list" where
  "shared l body = RLock l # body @ [RUnlock l]"

definition exclusive :: "'l \<Rightarrow> 'l lock_op list \<Rightarrow> 'l lock_op list" where
  "exclusive l body = WLock l # body @ [WUnlock l]"

section \<open>The order of the locks\<close>

text \<open>
  A program, run by a thread that holds \<open>h\<close>, takes only locks that stand above all it holds, gives up only what it holds,
  and keeps nothing.
\<close>

fun disciplined :: "('l \<Rightarrow> nat) \<Rightarrow> ('l \<times> mode) list \<Rightarrow> 'l lock_op list \<Rightarrow> bool" where
  "disciplined r h [] \<longleftrightarrow> h = []"
| "disciplined r h (RLock l # ops) \<longleftrightarrow> (\<forall>x \<in> set h. r (fst x) < r l) \<and> disciplined r ((l, Shared) # h) ops"
| "disciplined r h (WLock l # ops) \<longleftrightarrow> (\<forall>x \<in> set h. r (fst x) < r l) \<and> disciplined r ((l, Exclusive) # h) ops"
| "disciplined r h (RUnlock l # ops) \<longleftrightarrow> (l, Shared) \<in> set h \<and> disciplined r (remove1 (l, Shared) h) ops"
| "disciplined r h (WUnlock l # ops) \<longleftrightarrow> (l, Exclusive) \<in> set h \<and> disciplined r (remove1 (l, Exclusive) h) ops"

text \<open>A program that takes only locks from \<open>k\<close> on and gives them up again can be put in front of any program.\<close>

definition from_rank :: "('l \<Rightarrow> nat) \<Rightarrow> nat \<Rightarrow> 'l lock_op list \<Rightarrow> bool" where
  "from_rank r k p \<longleftrightarrow>
     (\<forall>h q. (\<forall>x \<in> set h. r (fst x) < k) \<longrightarrow> disciplined r h q \<longrightarrow> disciplined r h (p @ q))"

named_theorems rank_intros "introduction rules for the order in which a program takes its locks"

lemma from_rank_Nil [rank_intros]: "from_rank r k []"
  by (simp add: from_rank_def)

lemma from_rank_append [rank_intros]: "from_rank r k p \<Longrightarrow> from_rank r k q \<Longrightarrow> from_rank r k (p @ q)"
  by (simp add: from_rank_def)

lemma from_rank_concat [rank_intros]: "(\<And>p. p \<in> set ps \<Longrightarrow> from_rank r k p) \<Longrightarrow> from_rank r k (concat ps)"
  by (induction ps) (auto intro: rank_intros)

lemma from_rank_mono: "from_rank r k p \<Longrightarrow> j \<le> k \<Longrightarrow> from_rank r j p"
  unfolding from_rank_def by (meson order_less_le_trans)

lemma from_rank_if [rank_intros]: "(b \<Longrightarrow> from_rank r k p) \<Longrightarrow> (\<not> b \<Longrightarrow> from_rank r k q) \<Longrightarrow> from_rank r k (if b then p else q)"
  by simp

lemma from_rank_shared [rank_intros]:
  assumes "from_rank r (Suc (r l)) body" "k \<le> r l" shows "from_rank r k (shared l body)"
  unfolding from_rank_def
proof (intro allI impI)
  fix h q assume h: "\<forall>x \<in> set h. r (fst x) < k" "disciplined r h q"
  have "disciplined r ((l, Shared) # h) (RUnlock l # q)" using h by simp
  with assms h have "disciplined r ((l, Shared) # h) (body @ RUnlock l # q)"
    unfolding from_rank_def by (metis fst_conv less_SucI less_Suc_eq order_less_le_trans set_ConsD)
  with assms h show "disciplined r h (shared l body @ q)" by (auto simp: shared_def)
qed

lemma from_rank_exclusive [rank_intros]:
  assumes "from_rank r (Suc (r l)) body" "k \<le> r l" shows "from_rank r k (exclusive l body)"
  unfolding from_rank_def
proof (intro allI impI)
  fix h q assume h: "\<forall>x \<in> set h. r (fst x) < k" "disciplined r h q"
  have "disciplined r ((l, Exclusive) # h) (WUnlock l # q)" using h by simp
  with assms h have "disciplined r ((l, Exclusive) # h) (body @ WUnlock l # q)"
    unfolding from_rank_def by (metis fst_conv less_SucI less_Suc_eq order_less_le_trans set_ConsD)
  with assms h show "disciplined r h (exclusive l body @ q)" by (auto simp: exclusive_def)
qed

lemma from_rank_disciplined: "from_rank r k p \<Longrightarrow> disciplined r [] p"
  using disciplined.simps(1) [of r "[]"] unfolding from_rank_def by (metis append_Nil2 empty_iff empty_set)

section \<open>Steps keep the discipline\<close>

definition thread_ok :: "('l \<Rightarrow> nat) \<Rightarrow> 'l thread \<Rightarrow> bool" where
  "thread_ok r t \<longleftrightarrow> disciplined r (held t) (todo t) \<and> (announced t \<longrightarrow> (\<exists>l ops. todo t = WLock l # ops))"

definition threads_ok :: "('l \<Rightarrow> nat) \<Rightarrow> 'l thread list \<Rightarrow> bool" where
  "threads_ok r s \<longleftrightarrow> (\<forall>t \<in> set s. thread_ok r t)"

lemma thread_ok_new: "disciplined r [] ops \<Longrightarrow> thread_ok r (new_thread ops)"
  by (simp add: thread_ok_def new_thread_def)

lemma thread_ok_step: "thread_ok r t \<Longrightarrow> thread_step s t = Some t' \<Longrightarrow> thread_ok r t'"
  by (auto simp: thread_ok_def thread_step_def take_lock_def drop_lock_def split: list.splits lock_op.splits if_splits)

lemma threads_ok_fire: "threads_ok r s \<Longrightarrow> fire i s = Some s' \<Longrightarrow> threads_ok r s'"
  by (auto simp: threads_ok_def fire_def dest!: thread_ok_step [rotated] set_update_subset_insert [THEN subsetD] split: if_splits)

lemma threads_ok_run: "threads_ok r s \<Longrightarrow> run_schedule is s = Some s' \<Longrightarrow> threads_ok r s'"
  by (induction "is" arbitrary: s) (auto simp: bind_eq_Some_conv dest: threads_ok_fire)

section \<open>Someone can step\<close>

text \<open>The lock a thread that cannot step waits for.\<close>

definition waits_for :: "'l thread list \<Rightarrow> 'l thread \<Rightarrow> 'l \<Rightarrow> bool" where
  "waits_for s t l \<longleftrightarrow> thread_step s t = None \<and> (\<exists>ops. todo t = RLock l # ops \<or> todo t = WLock l # ops)"

lemma blocked_waits:
  assumes "thread_ok r t" "thread_step s t = None" "todo t \<noteq> []" obtains l where "waits_for s t l"
  using assms
  by (auto simp: waits_for_def thread_ok_def thread_step_def drop_lock_def neq_Nil_conv split: lock_op.splits if_splits)

text \<open>Who waits for a lock waits for a thread that holds it, or for one that waits for the readers of that lock to leave.\<close>

lemma waited_is_held:
  assumes "waits_for s t l" "threads_ok r s" "\<forall>t \<in> set s. thread_step s t = None"
  obtains u m where "u \<in> set s" "(l, m) \<in> set (held u)"
proof -
  have "write_blocked l s \<or> read_blocked l s"
    using assms(1) by (auto simp: waits_for_def thread_step_def split: if_splits)
  moreover have "\<exists>u \<in> set s. (l, Shared) \<in> set (held u)" if "u \<in> set s" "wants l u" for u
  proof -
    from that have "thread_step s u = None" using assms(3) by blast
    with that(2) show ?thesis by (auto simp: wants_def thread_step_def read_blocked_def split: list.splits lock_op.splits if_splits)
  qed
  ultimately show ?thesis using that unfolding write_blocked_def read_blocked_def by blast
qed

text \<open>A thread that holds a lock and cannot step waits for a lock above it.\<close>

lemma holder_waits_higher:
  assumes "thread_ok r u" "thread_step s u = None" "(l, m) \<in> set (held u)"
  obtains l' where "waits_for s u l'" "r l < r l'"
proof -
  have "todo u \<noteq> []" using assms(1,3) by (auto simp: thread_ok_def)
  with assms(1,2) obtain l' where w: "waits_for s u l'" by (blast elim: blocked_waits)
  then have "\<forall>x \<in> set (held u). r (fst x) < r l'" using assms(1) unfolding waits_for_def thread_ok_def
    by (elim conjE exE disjE) simp_all
  with assms(3) have "r l < r l'" by fastforce
  with w show ?thesis by (rule that)
qed

lemma no_endless_wait:
  assumes "threads_ok r s" "\<forall>t \<in> set s. thread_step s t = None" "t \<in> set s" "waits_for s t l"
  shows "\<exists>u \<in> set s. \<exists>k. waits_for s u k \<and> r l + n < r k"
proof (induction n)
  case 0
  obtain u m where u: "u \<in> set s" "(l, m) \<in> set (held u)" using waited_is_held [OF assms(4,1,2)] .
  with assms(1,2) obtain k where "waits_for s u k" "r l < r k" using holder_waits_higher by (metis threads_ok_def)
  with u show ?case by auto
next
  case (Suc n)
  then obtain u k where k: "u \<in> set s" "waits_for s u k" "r l + n < r k" by blast
  obtain v m where v: "v \<in> set s" "(k, m) \<in> set (held v)" using waited_is_held [OF k(2) assms(1,2)] .
  with assms(1,2) obtain j where "waits_for s v j" "r k < r j" using holder_waits_higher by (metis threads_ok_def)
  with v k show ?case by (intro bexI [of _ v] exI [of _ j]) auto
qed

lemma waited_locks_finite: "finite {k. \<exists>u \<in> set s. waits_for s u k}"
proof -
  have "{k. \<exists>u \<in> set s. waits_for s u k} \<subseteq>
    (\<Union>u \<in> set s. case todo u of RLock k # _ \<Rightarrow> {k} | WLock k # _ \<Rightarrow> {k} | _ \<Rightarrow> {})"
    by (fastforce simp: waits_for_def)
  moreover have "finite (\<Union>u \<in> set s. case todo u of RLock k # _ \<Rightarrow> {k} | WLock k # _ \<Rightarrow> {k} | _ \<Rightarrow> {})"
    by (auto split: list.split lock_op.split)
  ultimately show ?thesis by (rule finite_subset)
qed

lemma not_deadlocked:
  assumes ok: "threads_ok r s" shows "\<not> deadlocked s"
proof
  assume d: "deadlocked s"
  have all: "\<forall>t \<in> set s. thread_step s t = None"
    using d by (auto simp: deadlocked_def fire_def in_set_conv_nth)
  from d obtain t where t: "t \<in> set s" "todo t \<noteq> []" by (auto simp: deadlocked_def all_done_def)
  with ok all obtain l where w: "waits_for s t l" using blocked_waits by (metis threads_ok_def)
  let ?K = "r ` {k. \<exists>u \<in> set s. waits_for s u k}"
  have fin: "finite ?K" using waited_locks_finite [of s] by (rule finite_imageI)
  obtain u k where "u \<in> set s" "waits_for s u k" "r l + Max ?K < r k" using no_endless_wait [OF ok all t(1) w] by blast
  moreover from this have "r k \<le> Max ?K" by (intro Max_ge fin) blast
  ultimately show False by simp
qed

section \<open>Every schedule ends\<close>

definition steps_left :: "'l thread list \<Rightarrow> nat" where
  "steps_left s = (\<Sum>t \<leftarrow> s. 2 * length (todo t) - of_bool (announced t))"

lemma thread_step_less:
  assumes "thread_ok r t" "thread_step s t = Some t'"
  shows "2 * length (todo t') - of_bool (announced t') < 2 * length (todo t) - of_bool (announced t)"
  using assms
  by (auto simp: thread_ok_def thread_step_def take_lock_def drop_lock_def split: list.splits lock_op.splits if_splits)

lemma sum_list_less:
  fixes f :: "'a \<Rightarrow> nat" shows "i < length s \<Longrightarrow> f t < f (s ! i) \<Longrightarrow> (\<Sum>x \<leftarrow> s[i := t]. f x) < (\<Sum>x \<leftarrow> s. f x)"
  by (induction s arbitrary: i) (auto split: nat.split simp: less_Suc_eq_0_disj)

lemma fire_less: "threads_ok r s \<Longrightarrow> fire i s = Some s' \<Longrightarrow> steps_left s' < steps_left s"
  unfolding steps_left_def fire_def
  by (auto simp: threads_ok_def intro!: sum_list_less thread_step_less split: if_splits)

lemma schedule_bound: "threads_ok r s \<Longrightarrow> run_schedule is s = Some s' \<Longrightarrow> length is + steps_left s' \<le> steps_left s"
proof (induction "is" arbitrary: s)
  case (Cons i "is")
  then obtain s1 where f: "fire i s = Some s1" "run_schedule is s1 = Some s'" by (auto simp: bind_eq_Some_conv)
  from fire_less [OF Cons.prems(1) f(1)] Cons.IH [OF threads_ok_fire [OF Cons.prems(1) f(1)] f(2)] show ?case by simp
qed simp

section \<open>Threads that never finish\<close>

definition never_done :: "nat \<Rightarrow> 'l thread list \<Rightarrow> bool" where
  "never_done i s \<longleftrightarrow> (\<forall>more s'. run_schedule more s = Some s' \<longrightarrow> todo (s' ! i) \<noteq> [])"

lemma never_doneI:
  assumes "P s" "\<And>j s s'. P s \<Longrightarrow> fire j s = Some s' \<Longrightarrow> P s'" "\<And>s. P s \<Longrightarrow> todo (s ! i) \<noteq> []" shows "never_done i s"
proof -
  have "P s'" if "run_schedule more s = Some s'" "P s" for more s s'
    using that by (induction more arbitrary: s) (auto simp: bind_eq_Some_conv intro: assms(2))
  with assms(1,3) show ?thesis by (auto simp: never_done_def)
qed

text \<open>
  A reader of \<open>l\<close> that asks for \<open>l\<close> again behind a writer: neither moves any more, and no other thread gets past a
  \<open>RLock\<close> of \<open>l\<close> that it still has to do.
\<close>

definition locked_up :: "'l \<Rightarrow> 'l thread list \<Rightarrow> bool" where
  "locked_up l s \<longleftrightarrow> 2 \<le> length s \<and> (l, Shared) \<in> set (held (s ! 0)) \<and> (\<exists>ops. todo (s ! 0) = RLock l # ops) \<and>
     announced (s ! 1) \<and> (\<exists>ops. todo (s ! 1) = WLock l # ops)"

lemma locked_up_blocks:
  assumes "locked_up l s" shows "write_blocked l s" "read_blocked l s"
proof -
  have "2 \<le> length s" using assms by (simp add: locked_up_def)
  then have "0 < length s" "1 < length s" by linarith+
  then have m: "s ! 0 \<in> set s" "s ! 1 \<in> set s" by (blast intro: nth_mem)+
  have "wants l (s ! 1)" "(l, Shared) \<in> set (held (s ! 0))" using assms by (auto simp: locked_up_def wants_def)
  with m show "write_blocked l s" "read_blocked l s" unfolding write_blocked_def read_blocked_def by blast+
qed

lemma locked_up_stuck:
  assumes "locked_up l s" shows "thread_step s (s ! 0) = None" "thread_step s (s ! 1) = None"
  using assms locked_up_blocks [OF assms] by (auto simp: thread_step_def locked_up_def)

lemma thread_step_keeps_read:
  "thread_step s t = Some t' \<Longrightarrow> write_blocked l s \<Longrightarrow> RLock l \<in> set (todo t) \<Longrightarrow> RLock l \<in> set (todo t')"
  by (auto simp: thread_step_def take_lock_def drop_lock_def split: if_splits list.splits lock_op.splits)

lemma locked_up_fire:
  assumes "locked_up l s" "fire j s = Some s'"
  shows "locked_up l s' \<and> (\<forall>i < length s. RLock l \<in> set (todo (s ! i)) \<longrightarrow> RLock l \<in> set (todo (s' ! i)))"
proof -
  obtain t where t: "j < length s" "thread_step s (s ! j) = Some t" "s' = s[j := t]"
    using assms(2) by (auto simp: fire_def split: if_splits)
  have "j \<noteq> 0" using t(2) locked_up_stuck(1) [OF assms(1)] by (intro notI) simp
  have "j \<noteq> 1" using t(2) locked_up_stuck(2) [OF assms(1)] by (intro notI) simp
  with \<open>j \<noteq> 0\<close> t assms(1) have "locked_up l s'" by (simp add: locked_up_def)
  moreover have "RLock l \<in> set (todo t)" if "RLock l \<in> set (todo (s ! j))"
    using thread_step_keeps_read [OF t(2) locked_up_blocks(1) [OF assms(1)] that] .
  ultimately show ?thesis using t by (auto simp: nth_list_update)
qed

lemma length_fire: "fire j s = Some s' \<Longrightarrow> length s' = length s"
  by (auto simp: fire_def split: if_splits)

lemma locked_up_never_done:
  assumes "locked_up l s" "i < length s" "i < 2 \<or> RLock l \<in> set (todo (s ! i))" shows "never_done i s"
proof (rule never_doneI [where P = "\<lambda>s. locked_up l s \<and> i < length s \<and> (i < 2 \<or> RLock l \<in> set (todo (s ! i)))"])
  show "locked_up l s \<and> i < length s \<and> (i < 2 \<or> RLock l \<in> set (todo (s ! i)))" using assms by blast
next
  fix j s s'
  assume "locked_up l s \<and> i < length s \<and> (i < 2 \<or> RLock l \<in> set (todo (s ! i)))" "fire j s = Some s'"
  then show "locked_up l s' \<and> i < length s' \<and> (i < 2 \<or> RLock l \<in> set (todo (s' ! i)))"
    using locked_up_fire [of l s j s'] length_fire [of j s s'] by auto
next
  fix s assume "locked_up l s \<and> i < length s \<and> (i < 2 \<or> RLock l \<in> set (todo (s ! i)))"
  then show "todo (s ! i) \<noteq> []" by (auto simp: locked_up_def less_2_cases_iff)
qed

section \<open>Operations that share locks\<close>

text \<open>One thread for each list of operations, run one after the other.\<close>

definition threads_of :: "('op \<Rightarrow> 'l lock_op list) \<Rightarrow> 'op list list \<Rightarrow> 'l thread list" where
  "threads_of locks_of ops = map (\<lambda>xs. new_thread (concat (map locks_of xs))) ops"

text \<open>
  What the operations of a component promise to whoever runs them concurrently: there is an order of the locks that every one
  of them respects.
\<close>

locale lock_order =
  fixes rank :: "'l \<Rightarrow> nat" and locks_of :: "'op \<Rightarrow> 'l lock_op list"
  assumes ordered: "from_rank rank 0 (locks_of x)"
begin

lemma threads_start: "threads_ok rank (threads_of locks_of ops)"
  by (auto simp: threads_ok_def threads_of_def intro!: thread_ok_new from_rank_disciplined rank_intros ordered)

lemma never_deadlocks: "run_schedule is (threads_of locks_of ops) = Some s \<Longrightarrow> \<not> deadlocked s"
  by (rule not_deadlocked [OF threads_ok_run [OF threads_start]])

lemma schedules_end: "run_schedule is (threads_of locks_of ops) = Some s \<Longrightarrow> length is \<le> 2 * (\<Sum>x \<leftarrow> concat ops. length (locks_of x))"
proof -
  have "steps_left (threads_of locks_of ops) = 2 * (\<Sum>x \<leftarrow> concat ops. length (locks_of x))"
    by (induction ops) (auto simp: steps_left_def threads_of_def new_thread_def length_concat comp_def)
  then show "run_schedule is (threads_of locks_of ops) = Some s \<Longrightarrow> length is \<le> 2 * (\<Sum>x \<leftarrow> concat ops. length (locks_of x))"
    using schedule_bound [OF threads_start] by fastforce
qed

end

end
