(* ===== verification/ManagerLocks.thy ===== *)
theory ManagerLocks
  imports Locks
begin

text \<open>
  The locks of the state manager: \<open>opMu\<close>, the mutex that serialises its operations, \<open>mu\<close>, which guards its fields, the
  mutexes of the stability tracker, of the history and of the PSI watcher. Each operation is given as the lock operations
  it performs, for every path through its code; what decides the path is an argument. Locks that are taken and given up
  inside one call of the collector, the cgroup manager, the exporter, the configuration or the logger, which never call back,
  are left out, and so are the two wait groups.
\<close>

datatype manager_lock = opMu | trackerMu | stateMu | psiMu | histMu

fun lock_rank :: "manager_lock \<Rightarrow> nat" where
  "lock_rank opMu = 0"
| "lock_rank trackerMu = 1"
| "lock_rank stateMu = 2"
| "lock_rank psiMu = 3"
| "lock_rank histMu = 4"

type_synonym program = "manager_lock lock_op list"

section \<open>Reading and small updates\<close>

definition GetConfig_locks :: program where "GetConfig_locks = shared stateMu []"

definition isUserLimited_locks :: program where "isUserLimited_locks = shared stateMu []"

definition getActiveUsersList_locks :: program where "getActiveUsersList_locks = shared stateMu []"

text \<open>The list of the users is computed while the lock is held for reading.\<close>

definition GetStatus_locks :: program where "GetStatus_locks = shared stateMu getActiveUsersList_locks"

definition UpdateConfig_locks :: program where "UpdateConfig_locks = exclusive stateMu []"

definition GetControlHistory_locks :: program where "GetControlHistory_locks = shared histMu []"

definition AddMonitor_locks :: program where "AddMonitor_locks = exclusive psiMu []"

definition RemoveMonitor_locks :: program where "RemoveMonitor_locks = exclusive psiMu []"

text \<open>One turn of the poll loop: the list of the descriptors, then the monitor of each of \<open>n\<close> ready ones.\<close>

definition poll_locks :: "nat \<Rightarrow> program" where
  "poll_locks n = exclusive psiMu [] @ concat (replicate n (exclusive psiMu []))"

definition StopWatcher_locks :: program where "StopWatcher_locks = exclusive psiMu [] @ exclusive psiMu []"

datatype psi_path = NoUser | NotLimited | WeightFailed | Boosted

definition OnUserPSIEvent_locks :: "psi_path \<Rightarrow> program" where
  "OnUserPSIEvent_locks p =
     exclusive opMu
       (case p of NoUser \<Rightarrow> []
        | NotLimited \<Rightarrow> GetConfig_locks @ shared stateMu []
        | WeightFailed \<Rightarrow> GetConfig_locks @ shared stateMu []
        | Boosted \<Rightarrow> GetConfig_locks @ shared stateMu [] @ exclusive stateMu [])"

definition revertPSIBoosts_locks :: "bool \<Rightarrow> program" where
  "revertPSIBoosts_locks expired =
     GetConfig_locks @ exclusive stateMu [] @ (if expired then exclusive stateMu [] else [])"

section \<open>Limits\<close>

text \<open>\<open>released\<close> users are idle; of the users to add again, \<open>added\<close> tells whose cgroup could be created.\<close>

definition releaseIdleUsers_locks :: "bool \<Rightarrow> nat \<Rightarrow> bool list \<Rightarrow> program" where
  "releaseIdleUsers_locks psi idle added =
     exclusive stateMu (concat (replicate idle (if psi then RemoveMonitor_locks @ RemoveMonitor_locks else []))) @
     concat (map (\<lambda>ok. if ok \<and> psi then AddMonitor_locks @ AddMonitor_locks else []) added) @
     (if True \<in> set added then exclusive stateMu [] else [])"

datatype user_path = AlreadyLimited | SubCgroupFailed | NewlyLimited bool

definition limit_user_locks :: "bool \<Rightarrow> user_path \<Rightarrow> program" where
  "limit_user_locks psi u =
     shared stateMu [] @
     (case u of AlreadyLimited \<Rightarrow> []
      | SubCgroupFailed \<Rightarrow> shared stateMu []
      | NewlyLimited hook \<Rightarrow>
          shared stateMu [] @ (if psi then AddMonitor_locks @ AddMonitor_locks else []) @
          exclusive stateMu [] @ (if hook then shared stateMu [] else []))"

datatype shared_cgroup_path = Present | CreateFailed | QuotaFailed | SharedCreated

definition activateLimits_locks :: "bool \<Rightarrow> nat \<Rightarrow> shared_cgroup_path \<Rightarrow> user_path list \<Rightarrow> program" where
  "activateLimits_locks psi gone sp users =
     (let configured = concat (map (limit_user_locks psi) users) @
            (if gone > 0 \<or> (\<exists>u \<in> set users. case u of NewlyLimited _ \<Rightarrow> True | _ \<Rightarrow> False) then exclusive stateMu [] else [])
      in GetConfig_locks @ shared stateMu [] @ concat (replicate gone (exclusive stateMu [])) @ shared stateMu [] @
         (case sp of Present \<Rightarrow> configured | CreateFailed \<Rightarrow> [] | QuotaFailed \<Rightarrow> exclusive stateMu []
          | SharedCreated \<Rightarrow> exclusive stateMu [] @ configured))"

text \<open>A user whose CPU limit could be restored is asked about twice: its memory and its I/O.\<close>

definition deactivateLimits_locks :: "bool \<Rightarrow> bool list \<Rightarrow> program" where
  "deactivateLimits_locks psi restored =
     GetConfig_locks @ exclusive stateMu [] @
     concat (map (\<lambda>_. if psi then RemoveMonitor_locks @ RemoveMonitor_locks else []) restored) @
     exclusive trackerMu [] @ exclusive stateMu [] @
     concat (map (\<lambda>ok. if ok then GetConfig_locks @ GetConfig_locks else []) restored)"

text \<open>The goroutine that limits one user.\<close>

definition limit_task_locks :: program where "limit_task_locks = GetConfig_locks @ GetConfig_locks"

section \<open>The control cycle\<close>

definition collect_locks :: "nat \<Rightarrow> program" where
  "collect_locks users = concat (replicate users (shared stateMu []))"

definition export_locks :: "bool \<Rightarrow> nat \<Rightarrow> bool \<Rightarrow> program" where
  "export_locks exporting users load =
     (if exporting then concat (replicate users isUserLimited_locks) @ (if load then GetConfig_locks else []) else [])"

definition makeDecision_locks :: "bool \<Rightarrow> program" where
  "makeDecision_locks allBelow = GetConfig_locks @ shared stateMu [] @ (if allBelow then exclusive trackerMu [] else [])"

datatype decision_path =
    Keep bool nat "bool list"
  | Activate nat shared_cgroup_path "user_path list"
  | Deactivate "bool list"

definition executeDecision_locks :: "bool \<Rightarrow> decision_path \<Rightarrow> program" where
  "executeDecision_locks psi d =
     (case d of
        Keep active idle added \<Rightarrow> if active then releaseIdleUsers_locks psi idle added else []
      | Activate gone sp users \<Rightarrow> activateLimits_locks psi gone sp users
      | Deactivate restored \<Rightarrow> deactivateLimits_locks psi restored)"

record cycle_path =
  cp_blackout :: bool
  cp_users :: nat
  cp_exporting :: bool
  cp_load :: bool
  cp_allBelow :: bool
  cp_decision :: decision_path
  cp_failed :: bool
  cp_psi :: bool
  cp_expired :: bool

definition cycle_locks :: "cycle_path \<Rightarrow> program" where
  "cycle_locks p =
     exclusive opMu (GetConfig_locks @
       (if cp_blackout p then []
        else collect_locks (cp_users p) @ export_locks (cp_exporting p) (cp_users p) (cp_load p) @
          makeDecision_locks (cp_allBelow p) @ executeDecision_locks (cp_psi p) (cp_decision p) @
          (if cp_failed p then []
           else shared stateMu [] @ exclusive histMu [] @ (if cp_psi p then revertPSIBoosts_locks (cp_expired p) else []) @
             shared stateMu [])))"

definition refresh_locks :: "bool \<Rightarrow> nat \<Rightarrow> bool \<Rightarrow> program" where
  "refresh_locks exporting users load = exclusive opMu (collect_locks users @ export_locks exporting users load)"

definition ForceActivateLimits_locks :: "bool \<Rightarrow> nat \<Rightarrow> nat \<Rightarrow> shared_cgroup_path \<Rightarrow> user_path list \<Rightarrow> program" where
  "ForceActivateLimits_locks psi n gone sp users = exclusive opMu (collect_locks n @ activateLimits_locks psi gone sp users)"

definition ForceDeactivateLimits_locks :: "bool \<Rightarrow> bool list \<Rightarrow> program" where
  "ForceDeactivateLimits_locks psi restored = exclusive opMu (deactivateLimits_locks psi restored @ exclusive trackerMu [])"

definition Cleanup_locks :: "bool \<Rightarrow> bool \<Rightarrow> bool list \<Rightarrow> program" where
  "Cleanup_locks active psi restored = (if active then deactivateLimits_locks psi restored else [])"

section \<open>All operations but GetStatus\<close>

datatype manager_op =
    OpGetConfig | OpIsUserLimited | OpUpdateConfig | OpGetControlHistory | OpPoll nat | OpStopWatcher
  | OpPSIEvent psi_path | OpTask | OpCycle cycle_path | OpRefresh bool nat bool
  | OpForceActivate bool nat nat shared_cgroup_path "user_path list" | OpForceDeactivate bool "bool list"
  | OpCleanup bool bool "bool list"

fun manager_locks :: "manager_op \<Rightarrow> program" where
  "manager_locks OpGetConfig = GetConfig_locks"
| "manager_locks OpIsUserLimited = isUserLimited_locks"
| "manager_locks OpUpdateConfig = UpdateConfig_locks"
| "manager_locks OpGetControlHistory = GetControlHistory_locks"
| "manager_locks (OpPoll n) = poll_locks n"
| "manager_locks OpStopWatcher = StopWatcher_locks"
| "manager_locks (OpPSIEvent p) = OnUserPSIEvent_locks p"
| "manager_locks OpTask = limit_task_locks"
| "manager_locks (OpCycle p) = cycle_locks p"
| "manager_locks (OpRefresh e n l) = refresh_locks e n l"
| "manager_locks (OpForceActivate psi n g sp us) = ForceActivateLimits_locks psi n g sp us"
| "manager_locks (OpForceDeactivate psi rs) = ForceDeactivateLimits_locks psi rs"
| "manager_locks (OpCleanup a psi rs) = Cleanup_locks a psi rs"

lemmas small_locks_defs =
  GetConfig_locks_def isUserLimited_locks_def UpdateConfig_locks_def GetControlHistory_locks_def AddMonitor_locks_def
  RemoveMonitor_locks_def poll_locks_def StopWatcher_locks_def revertPSIBoosts_locks_def limit_task_locks_def
  collect_locks_def export_locks_def makeDecision_locks_def

lemma from_rank_replicate [rank_intros]: "from_rank r k p \<Longrightarrow> from_rank r k (concat (replicate n p))"
  by (rule from_rank_concat) (simp add: set_replicate_conv_if split: if_splits)

lemma from_rank_map [rank_intros]: "(\<And>x. x \<in> set xs \<Longrightarrow> from_rank r k (f x)) \<Longrightarrow> from_rank r k (concat (map f xs))"
  by (rule from_rank_concat) auto

lemma small_ranks [rank_intros]:
  "k \<le> 2 \<Longrightarrow> from_rank lock_rank k GetConfig_locks"
  "k \<le> 2 \<Longrightarrow> from_rank lock_rank k isUserLimited_locks"
  "k \<le> 2 \<Longrightarrow> from_rank lock_rank k UpdateConfig_locks"
  "k \<le> 4 \<Longrightarrow> from_rank lock_rank k GetControlHistory_locks"
  "k \<le> 3 \<Longrightarrow> from_rank lock_rank k AddMonitor_locks"
  "k \<le> 3 \<Longrightarrow> from_rank lock_rank k RemoveMonitor_locks"
  "k \<le> 3 \<Longrightarrow> from_rank lock_rank k (poll_locks n)"
  "k \<le> 3 \<Longrightarrow> from_rank lock_rank k StopWatcher_locks"
  "k \<le> 2 \<Longrightarrow> from_rank lock_rank k (revertPSIBoosts_locks b)"
  "k \<le> 2 \<Longrightarrow> from_rank lock_rank k limit_task_locks"
  "k \<le> 2 \<Longrightarrow> from_rank lock_rank k (collect_locks n)"
  "k \<le> 2 \<Longrightarrow> from_rank lock_rank k (export_locks e n b)"
  "k \<le> 1 \<Longrightarrow> from_rank lock_rank k (makeDecision_locks b)"
  unfolding small_locks_defs by (auto intro!: rank_intros)

lemma release_rank [rank_intros]: "k \<le> 2 \<Longrightarrow> from_rank lock_rank k (releaseIdleUsers_locks psi n added)"
  unfolding releaseIdleUsers_locks_def by (auto intro!: rank_intros)

lemma limit_user_rank [rank_intros]: "k \<le> 2 \<Longrightarrow> from_rank lock_rank k (limit_user_locks psi u)"
  unfolding limit_user_locks_def by (cases u) (auto intro!: rank_intros)

lemma activate_rank [rank_intros]: "k \<le> 2 \<Longrightarrow> from_rank lock_rank k (activateLimits_locks psi gone sp users)"
  unfolding activateLimits_locks_def Let_def by (cases sp) (auto intro!: rank_intros)

lemma deactivate_rank [rank_intros]: "k \<le> 1 \<Longrightarrow> from_rank lock_rank k (deactivateLimits_locks psi restored)"
  unfolding deactivateLimits_locks_def by (auto intro!: rank_intros)

lemma execute_rank [rank_intros]: "k \<le> 1 \<Longrightarrow> from_rank lock_rank k (executeDecision_locks psi d)"
  unfolding executeDecision_locks_def by (cases d) (auto intro!: rank_intros)

lemma cycle_rank [rank_intros]: "from_rank lock_rank 0 (cycle_locks p)"
  unfolding cycle_locks_def by (auto intro!: rank_intros)

lemma psi_event_rank [rank_intros]: "from_rank lock_rank 0 (OnUserPSIEvent_locks p)"
  unfolding OnUserPSIEvent_locks_def by (cases p) (auto intro!: rank_intros)

interpretation ml: lock_order lock_rank manager_locks
proof
  show "from_rank lock_rank 0 (manager_locks x)" for x
    by (cases x) (auto simp: refresh_locks_def ForceActivateLimits_locks_def ForceDeactivateLimits_locks_def Cleanup_locks_def
        intro!: rank_intros)
qed

section \<open>What follows\<close>

text \<open>C5: the locks of the state manager are taken in one order. Whatever threads run its operations, on whatever
  paths, except GetStatus, no interleaving is stuck before all are done, and every interleaving ends.\<close>

theorem manager_never_deadlocks:
  assumes "run_schedule is (threads_of manager_locks ops) = Some s"
  shows "\<not> deadlocked s \<and> length is \<le> 2 * (\<Sum>x \<leftarrow> concat ops. length (manager_locks x))"
  using assms by (auto dest: ml.never_deadlocks ml.schedules_end)

lemma manager_never_deadlocks_witness:
  "\<not> deadlocked (threads_of manager_locks [[OpUpdateConfig], [OpGetConfig, OpPSIEvent Boosted]])"
  using manager_never_deadlocks [of "[]" "[[OpUpdateConfig], [OpGetConfig, OpPSIEvent Boosted]]"
      "threads_of manager_locks [[OpUpdateConfig], [OpGetConfig, OpPSIEvent Boosted]]"] by simp

text \<open>\<open>GetStatus\<close> does not respect the order: it asks for a lock it holds.\<close>

lemma GetStatus_locks_up:
  "\<exists>is s. run_schedule is (map new_thread (GetStatus_locks # UpdateConfig_locks # others)) = Some s \<and> locked_up stateMu s \<and>
     drop 2 s = map new_thread others"
proof -
  let ?s = "\<lparr>held = [(stateMu, Shared)], announced = False, todo = [RLock stateMu, RUnlock stateMu, RUnlock stateMu]\<rparr> #
    \<lparr>held = [], announced = True, todo = UpdateConfig_locks\<rparr> # map new_thread others"
  have free: "\<not> write_blocked stateMu (xs @ map new_thread others)" if "\<not> write_blocked stateMu xs" for xs
    using that by (auto simp: write_blocked_def new_thread_def wants_def)
  have "run_schedule [0, 1] (map new_thread (GetStatus_locks # UpdateConfig_locks # others)) = Some ?s"
    using free [of "[new_thread GetStatus_locks, new_thread UpdateConfig_locks]"]
      free [of "[\<lparr>held = [(stateMu, Shared)], announced = False, todo = [RLock stateMu, RUnlock stateMu, RUnlock stateMu]\<rparr>,
         new_thread UpdateConfig_locks]"]
    by (simp add: fire_def thread_step_def take_lock_def new_thread_def GetStatus_locks_def getActiveUsersList_locks_def
        UpdateConfig_locks_def shared_def exclusive_def write_blocked_def wants_def)
  moreover have "locked_up stateMu ?s" by (simp add: locked_up_def UpdateConfig_locks_def exclusive_def)
  moreover have "drop 2 ?s = map new_thread others" by simp
  ultimately show ?thesis by (intro exI conjI)
qed

text \<open>C6: GetStatus reads under a lock it then asks for again. When a writer waits in between, GetStatus, the writer
  and every thread that reads the state later wait forever.\<close>

theorem GetStatus_can_hang:
  "\<exists>is s. run_schedule is (map new_thread (GetStatus_locks # UpdateConfig_locks # others)) = Some s \<and>
     never_done 0 s \<and> never_done 1 s \<and> (\<forall>i < length others. RLock stateMu \<in> set (others ! i) \<longrightarrow> never_done (i + 2) s)"
proof -
  obtain "is" s where s: "run_schedule is (map new_thread (GetStatus_locks # UpdateConfig_locks # others)) = Some s"
    "locked_up stateMu s" "drop 2 s = map new_thread others" using GetStatus_locks_up by blast
  have len: "length s = length others + 2"
    using s(2,3) by (metis le_add_diff_inverse2 length_drop length_map locked_up_def)
  have "todo (s ! (i + 2)) = others ! i" if "i < length others" for i
  proof -
    have "drop 2 s ! i = new_thread (others ! i)" using s(3) that by simp
    with len that show ?thesis by (simp add: add.commute new_thread_def)
  qed
  with s(2) len have "never_done 0 s \<and> never_done 1 s \<and>
    (\<forall>i < length others. RLock stateMu \<in> set (others ! i) \<longrightarrow> never_done (i + 2) s)"
    by (auto intro!: locked_up_never_done)
  with s(1) show ?thesis by blast
qed

lemma cycle_reads: "RLock stateMu \<in> set (cycle_locks p)"
  by (simp add: cycle_locks_def exclusive_def GetConfig_locks_def shared_def)

lemma GetStatus_can_hang_witness:
  "\<exists>is s. run_schedule is (map new_thread [GetStatus_locks, UpdateConfig_locks, GetConfig_locks]) = Some s \<and>
     never_done 0 s \<and> never_done 1 s \<and> never_done 2 s"
  using GetStatus_can_hang [of "[GetConfig_locks]"] by (simp add: GetConfig_locks_def shared_def numeral_2_eq_2)

end
