(* ===== verification/Pipeline.thy ===== *)
theory Pipeline
  imports ControlCycle
begin

text \<open>
  The control cycle as \<open>state/control_cycle.go\<close> writes it: a context that the stages fill, the list of the stages, and the
  loop that runs them until one fails or asks to stop. The metrics of the context are a pointer that is nil until a stage
  has set it; a stage that follows a nil pointer panics, which is \<open>None\<close>.
\<close>

section \<open>The context\<close>

record cycle_context =
  run_cfg :: config
  run_trigger :: string
  run_startTime :: time
  run_metrics :: "system_metrics option"
  run_decision :: decision
  run_reason :: reason
  run_duration :: duration
  run_activeLimitedUsers :: int
  run_stopWithoutError :: bool

text \<open>What a stage is given besides the manager and the context: the components the manager calls.\<close>

record 'c stage_env =
  se_ops :: "'c cgroup_ops"
  se_rx :: regexp_lib
  se_clock :: clock
  se_collector :: metrics_collector

type_synonym 'c stage_state = "'c manager \<times> cycle_context"

type_synonym 'c stage = "'c stage_env \<Rightarrow> 'c stage_state \<Rightarrow> (cg_error option \<times> 'c stage_state) option"

definition on_manager :: "('c stage_env \<Rightarrow> cycle_context \<Rightarrow> 'c manager \<Rightarrow> 'c manager) \<Rightarrow> 'c stage" where
  "on_manager f env s = (case s of (m, run) \<Rightarrow> Some (None, f env run m, run))"

definition with_metrics :: "(system_metrics \<Rightarrow> 'c stage) \<Rightarrow> 'c stage" where
  "with_metrics f env s = Option.bind (run_metrics (snd s)) (\<lambda>sm. f sm env s)"

section \<open>The stages\<close>

definition stageCheckBlackout :: "'c stage" where
  "stageCheckBlackout env s =
     (case s of (m, run) \<Rightarrow>
        Some (None, m,
          if IsInBlackout (run_cfg run) (ck_day (se_clock env)) (ck_hour (se_clock env))
          then run\<lparr>run_stopWithoutError := True\<rparr> else run))"

definition stageCollectMetrics :: "'c stage" where
  "stageCollectMetrics env s =
     (case s of (m, run) \<Rightarrow>
        (case collectSystemMetricsWithIOState True (ck_now (se_clock env)) (se_collector env) m of
           (sm, m1) \<Rightarrow> Some (None, m1, run\<lparr>run_metrics := Some sm\<rparr>)))"

definition stageUpdatePrometheus :: "'c stage" where
  "stageUpdatePrometheus = (\<lambda>env s.
     if has_exporter (fst s)
     then with_metrics (\<lambda>sm. on_manager (\<lambda>env _. updatePrometheusMetrics (se_ops env) (se_collector env) sm)) env s
     else Some (None, s))"

definition stageWriteDatabase :: "'c stage" where
  "stageWriteDatabase = with_metrics (\<lambda>sm. on_manager (\<lambda>env _. writeDatabaseMetrics (se_collector env) sm))"

definition stageMakeDecision :: "'c stage" where
  "stageMakeDecision = with_metrics (\<lambda>sm env s.
     (case s of (m, run) \<Rightarrow>
        (case makeDecision (m_cfg m) (ck_now (se_clock env)) (se_collector env) sm m of
           ((d, r), m1) \<Rightarrow> Some (None, m1, run\<lparr>run_decision := d, run_reason := r\<rparr>))))"

definition stageExecuteDecision :: "'c stage" where
  "stageExecuteDecision = with_metrics (\<lambda>sm env s.
     (case s of (m, run) \<Rightarrow>
        (case executeDecision (se_ops env) (se_rx env) (ck_now (se_clock env)) (se_collector env) (run_decision run) sm m of
           (e, m1) \<Rightarrow> Some (e, m1, run))))"

definition stageRecordHistory :: "'c stage" where
  "stageRecordHistory = with_metrics (\<lambda>sm env s.
     (case s of (m, run) \<Rightarrow>
        (let run1 = run\<lparr>run_duration := ck_elapsed (se_clock env)\<rparr>
         in Some (None, recordControlCycle (ck_now (se_clock env)) (run_decision run1) (run_reason run1) sm
                    (run_duration run1) m, run1))))"

definition remediation_stage :: "'c stage" where
  "remediation_stage =
     on_manager (\<lambda>env run. stageIORemediation (se_ops env) (run_cfg run) (ck_now (se_clock env)) (se_collector env))"

definition pattern_stage :: "'c stage" where
  "pattern_stage =
     on_manager (\<lambda>env run. stageWorkloadPatternDetection (se_ops env) (run_cfg run) (ck_now (se_clock env))
       (nat (ck_hour (se_clock env))) (se_collector env))"

definition revert_stage :: "'c stage" where
  "revert_stage = on_manager (\<lambda>env run. stageRevertPSIBoosts (se_ops env) (ck_now (se_clock env)))"

text \<open>Only the number of the limited users is kept; the fields that are logged are read from the metrics.\<close>

definition stageLogCompletion :: "'c stage" where
  "stageLogCompletion = with_metrics (\<lambda>_ _ s.
     (case s of (m, run) \<Rightarrow> Some (None, m, run\<lparr>run_activeLimitedUsers := int (length (activeUsers m))\<rparr>)))"

definition defaultControlCyclePipeline :: "'c stage list" where
  "defaultControlCyclePipeline =
     [stageCheckBlackout, stageCollectMetrics, stageUpdatePrometheus, stageWriteDatabase, stageMakeDecision,
      stageExecuteDecision, stageRecordHistory, remediation_stage, pattern_stage, revert_stage, stageLogCompletion]"

section \<open>The loop\<close>

fun run_stages :: "'c stage list \<Rightarrow> 'c stage_env \<Rightarrow> 'c stage_state \<Rightarrow> (cg_error option \<times> 'c stage_state) option" where
  "run_stages [] env s = Some (None, s)"
| "run_stages (f # fs) env s =
     (case f env s of
        None \<Rightarrow> None
      | Some (Some e, s1) \<Rightarrow> Some (Some e, s1)
      | Some (None, s1) \<Rightarrow> if run_stopWithoutError (snd s1) then Some (None, s1) else run_stages fs env s1)"

text \<open>
  \<open>unset\<close> stands for the empty decision and reason of a new context: what follows holds for every choice of it, so no stage
  reads them before they are made.
\<close>

definition start_context :: "decision \<times> reason \<Rightarrow> 'c stage_env \<Rightarrow> string \<Rightarrow> 'c manager \<Rightarrow> cycle_context" where
  "start_context unset env trigger m =
     \<lparr>run_cfg = m_cfg m, run_trigger = trigger, run_startTime = ck_now (se_clock env), run_metrics = None,
      run_decision = fst unset, run_reason = snd unset, run_duration = 0, run_activeLimitedUsers = 0,
      run_stopWithoutError = False\<rparr>"

definition run_pipeline ::
  "decision \<times> reason \<Rightarrow> 'c stage_env \<Rightarrow> string \<Rightarrow> 'c manager \<Rightarrow> (cg_error option \<times> 'c stage_state) option" where
  "run_pipeline unset env trigger0 m =
     (let trigger = (if trigger0 = [] then ''manual'' else trigger0)
      in run_stages defaultControlCyclePipeline env
           (emit_prom (RecordControlCycleTrigger trigger) m, start_context unset env trigger m))"

section \<open>The loop is the cycle\<close>

lemmas stage_defs =
  stageCheckBlackout_def stageCollectMetrics_def stageWriteDatabase_def stageMakeDecision_def
  stageExecuteDecision_def stageRecordHistory_def remediation_stage_def pattern_stage_def revert_stage_def
  stageLogCompletion_def with_metrics_def on_manager_def

lemma update_stage:
  "run_metrics run = Some sm \<Longrightarrow> stageUpdatePrometheus env (m, run) =
     Some (None, updatePrometheusMetrics (se_ops env) (se_collector env) sm m, run)"
  by (simp add: stageUpdatePrometheus_def with_metrics_def on_manager_def updatePrometheusMetrics_def)

text \<open>The stages that follow a decision.\<close>

lemma late_stages:
  assumes "run_metrics run = Some sm" "\<not> run_stopWithoutError run"
  shows "map_option (\<lambda>(e, m', _). (e, m'))
      (run_stages [stageRecordHistory, remediation_stage, pattern_stage, revert_stage, stageLogCompletion] env (m, run)) =
    Some (None, after_decision (se_ops env) (run_cfg run) (se_clock env) (se_collector env)
      (recordControlCycle (ck_now (se_clock env)) (run_decision run) (run_reason run) sm (ck_elapsed (se_clock env)) m))"
  using assms by (simp add: stage_defs Let_def after_decision_def)

text \<open>C4: the pipeline of stages equals the control cycle as one function, for every manager, trigger and
  environment. In particular no stage meets metrics that are not collected yet.\<close>

theorem pipeline_is_cycle:
  "map_option (\<lambda>(e, m', _). (e, m')) (run_pipeline unset env trigger m) =
     Some (RunControlCycleWithTrigger (se_ops env) (se_rx env) (se_clock env) (se_collector env) trigger m)"
proof -
  let ?now = "ck_now (se_clock env)" and ?mc = "se_collector env" and ?ops = "se_ops env" and ?cfg = "m_cfg m"
  let ?trigger = "if trigger = [] then ''manual'' else trigger"
  let ?m1 = "emit_prom (RecordControlCycleTrigger ?trigger) m" and ?run = "start_context unset env ?trigger m"
  note run = run_pipeline_def defaultControlCyclePipeline_def
  show ?thesis
  proof (cases "IsInBlackout ?cfg (ck_day (se_clock env)) (ck_hour (se_clock env))")
    case True
    then show ?thesis
      by (simp add: run stageCheckBlackout_def start_context_def Let_def RunControlCycleWithTrigger_def)
  next
    case False
    obtain sm m2 where c: "collectSystemMetricsWithIOState True ?now ?mc ?m1 = (sm, m2)" by fastforce
    let ?m4 = "writeDatabaseMetrics ?mc sm (updatePrometheusMetrics ?ops ?mc sm m2)"
    obtain d r m5 where d: "makeDecision (m_cfg ?m4) ?now ?mc sm ?m4 = ((d, r), m5)" by (metis surj_pair)
    obtain e m6 where e: "executeDecision ?ops (se_rx env) ?now ?mc d sm m5 = (e, m6)" by fastforce
    let ?run1 = "?run\<lparr>run_metrics := Some sm\<rparr>" and ?run2 = "?run\<lparr>run_metrics := Some sm, run_decision := d, run_reason := r\<rparr>"
    let ?late = "[stageRecordHistory, remediation_stage, pattern_stage, revert_stage, stageLogCompletion]"
    have on: "\<not> run_stopWithoutError ?run" "\<not> run_stopWithoutError ?run1" "\<not> run_stopWithoutError ?run2"
      by (simp_all add: start_context_def)
    have s1: "stageCheckBlackout env (?m1, ?run) = Some (None, ?m1, ?run)"
      using False by (simp add: stageCheckBlackout_def start_context_def)
    have s2: "stageCollectMetrics env (?m1, ?run) = Some (None, m2, ?run1)" by (simp add: stageCollectMetrics_def c)
    have s3: "stageUpdatePrometheus env (m2, ?run1) = Some (None, updatePrometheusMetrics ?ops ?mc sm m2, ?run1)"
      by (rule update_stage) simp
    have s4: "stageWriteDatabase env (updatePrometheusMetrics ?ops ?mc sm m2, ?run1) = Some (None, ?m4, ?run1)"
      by (simp add: stageWriteDatabase_def with_metrics_def on_manager_def)
    have s5: "stageMakeDecision env (?m4, ?run1) = Some (None, m5, ?run2)"
      by (simp add: stageMakeDecision_def with_metrics_def d)
    have early: "run_pipeline unset env trigger m = run_stages (stageExecuteDecision # ?late) env (m5, ?run2)"
      unfolding run Let_def
      by (simp only: run_stages.simps s1 s2 s3 s4 s5 on option.case prod.case if_False snd_conv)
    have x: "stageExecuteDecision env (m5, ?run2) = Some (e, m6, ?run2)"
      by (simp add: stageExecuteDecision_def with_metrics_def e)
    have l: "map_option (\<lambda>(e, m', _). (e, m')) (run_stages ?late env (m6, ?run2)) =
        Some (None, after_decision ?ops ?cfg (se_clock env) ?mc
          (recordControlCycle ?now d r sm (ck_elapsed (se_clock env)) m6))"
      using late_stages [of ?run2 sm env m6] by (simp add: start_context_def)
    have cycle: "RunControlCycleWithTrigger ?ops (se_rx env) (se_clock env) ?mc trigger m =
        (case e of Some x \<Rightarrow> (Some x, m6) | None \<Rightarrow>
           (None, after_decision ?ops ?cfg (se_clock env) ?mc (recordControlCycle ?now d r sm (ck_elapsed (se_clock env)) m6)))"
      using False by (simp add: RunControlCycleWithTrigger_def Let_def c d e split: option.split)
    show ?thesis
    proof (cases e)
      case None
      have "run_stages (stageExecuteDecision # ?late) env (m5, ?run2) = run_stages ?late env (m6, ?run2)"
        by (simp only: run_stages.simps(2) x None on option.case prod.case if_False snd_conv)
      with l early cycle None show ?thesis by simp
    next
      case (Some err)
      with x early cycle show ?thesis by simp
    qed
  qed
qed

end
