(* ===== verification/PsiPollLoop.thy ===== *)
theory PsiPollLoop
  imports PsiWatcher
begin

text \<open>
  The poll loop of the PSI watcher, \<open>pollLoop\<close> of \<open>cgroup/psi_watcher.go\<close>, as a goroutine among others: between the list it
  polls and the descriptors it then handles, monitors come and go, and the kernel may give the number of a closed
  descriptor to the next file that is opened. The bytes in the wake pipe are counted; the pipe is taken to be large enough.
\<close>

section \<open>State\<close>

text \<open>
  \<open>Polling fds idx\<close>: blocked in \<open>poll\<close> on the wake pipe and \<open>fds\<close>; \<open>Handling idx fs\<close>: the descriptors of \<open>fs\<close> are still to
  be handled; \<open>idx\<close> is \<open>fdIndex\<close>.
\<close>

datatype phase = Top | Polling "int list" "int \<rightharpoonup> nat" | Handling "int \<rightharpoonup> nat" "int list" | Exited

text \<open>How far \<open>Stop\<close> has come: \<open>done\<close> is closed, then a byte is in the pipe, then the loop has gone and all is closed.\<close>

datatype stopping = NotStopped | DoneClosed | StopWoken | Cleared

text \<open>\<open>lfds\<close> holds the descriptors of the monitors, in their order.\<close>

record watch_loop =
  lw :: psi_watcher
  lfds :: "int list"
  lphase :: phase
  lstop :: stopping
  lwake :: nat

definition started_loop :: "psi_watcher \<Rightarrow> watch_loop" where
  "started_loop w = \<lparr>lw = w\<lparr>monitors := []\<rparr>, lfds = [], lphase = Top, lstop = NotStopped, lwake = 0\<rparr>"

text \<open>\<open>wake\<close>: once the pipe is closed nothing is written.\<close>

definition wake :: "watch_loop \<Rightarrow> watch_loop" where
  "wake s = (if lstop s = Cleared then s else s\<lparr>lwake := lwake s + 1\<rparr>)"

definition active_at :: "watch_loop \<Rightarrow> nat \<Rightarrow> bool" where
  "active_at s i \<longleftrightarrow> i < length (monitors (lw s)) \<and> mon_active (monitors (lw s) ! i)"

text \<open>The descriptors of the active monitors, each with the index of its monitor.\<close>

definition active_fds :: "watch_loop \<Rightarrow> (int \<times> nat) list" where
  "active_fds s = map (\<lambda>i. (lfds s ! i, i)) (filter (active_at s) [0..<length (monitors (lw s))])"

section \<open>The other goroutines\<close>

text \<open>\<open>opened\<close> is how the opening of the file ends, \<open>fd\<close> the descriptor the kernel gives for it.\<close>

definition loop_add :: "os_error option \<Rightarrow> int \<Rightarrow> string \<Rightarrow> string \<Rightarrow> int \<Rightarrow> watch_loop \<Rightarrow> watch_loop" where
  "loop_add opened uid typ path fd s =
     (case AddMonitor (\<lambda>_ _ c. (opened, c)) uid typ path (lw s) () of
        (_, w1, _) \<Rightarrow>
          if length (monitors w1) = length (monitors (lw s)) then s\<lparr>lw := w1\<rparr>
          else wake (s\<lparr>lw := w1, lfds := lfds s @ [fd]\<rparr>))"

definition loop_remove :: "int \<Rightarrow> string \<Rightarrow> watch_loop \<Rightarrow> watch_loop" where
  "loop_remove uid typ s = wake (s\<lparr>lw := RemoveMonitor uid typ (lw s)\<rparr>)"

definition loop_clear :: "watch_loop \<Rightarrow> watch_loop" where
  "loop_clear s = s\<lparr>lw := StopWatcher (lw s), lfds := [], lstop := Cleared\<rparr>"

text \<open>An open descriptor is not given out again; after \<open>Stop\<close> the application adds nothing.\<close>

inductive env_step :: "watch_loop \<Rightarrow> watch_loop \<Rightarrow> bool" where
  add: "(\<And>i. active_at s i \<Longrightarrow> lfds s ! i \<noteq> fd) \<Longrightarrow> env_step s (loop_add opened uid t path fd s)"
| remove: "env_step s (loop_remove uid t s)"
| receive: "env_step s (s\<lparr>lw := (lw s)\<lparr>events := tl (events (lw s))\<rparr>\<rparr>)"
| close_done: "lstop s = NotStopped \<Longrightarrow> env_step s (s\<lparr>lstop := DoneClosed\<rparr>)"
| stop_wake: "lstop s = DoneClosed \<Longrightarrow> env_step s (wake (s\<lparr>lstop := StopWoken\<rparr>))"
| stop_clear: "lstop s = StopWoken \<Longrightarrow> lphase s = Exited \<Longrightarrow> env_step s (loop_clear s)"

section \<open>The loop\<close>

text \<open>A ready descriptor: its monitor is looked up in the current list under the index of the polled one.\<close>

definition handle_fd :: "time \<Rightarrow> (int \<rightharpoonup> nat) \<Rightarrow> int \<Rightarrow> os_error + string \<Rightarrow> psi_watcher \<Rightarrow> psi_watcher" where
  "handle_fd now idx f content w = (case idx f of None \<Rightarrow> w | Some i \<Rightarrow> post_event now (int i, content) w)"

definition top_turn :: "watch_loop \<Rightarrow> watch_loop" where
  "top_turn s =
     (if lstop s \<noteq> NotStopped then s\<lparr>lphase := Exited\<rparr>
      else s\<lparr>lphase := Polling (map fst (active_fds s)) (map_of (rev (active_fds s)))\<rparr>)"

text \<open>\<open>poll\<close> came back with an error, or with the descriptors that are ready; the wake pipe gives up to 8 bytes.\<close>

definition poll_failed :: "watch_loop \<Rightarrow> watch_loop" where
  "poll_failed s = s\<lparr>lphase := (if lstop s \<noteq> NotStopped then Exited else Top)\<rparr>"

definition poll_returned :: "(int \<rightharpoonup> nat) \<Rightarrow> int list \<Rightarrow> bool \<Rightarrow> watch_loop \<Rightarrow> watch_loop" where
  "poll_returned idx ready woken s =
     (if woken
      then s\<lparr>lwake := lwake s - min 8 (lwake s),
             lphase := (if lstop s \<noteq> NotStopped then Exited else Handling idx ready)\<rparr>
      else s\<lparr>lphase := Handling idx ready\<rparr>)"

inductive loop_turn :: "watch_loop \<Rightarrow> watch_loop \<Rightarrow> bool" where
  top: "lphase s = Top \<Longrightarrow> loop_turn s (top_turn s)"
| failed: "lphase s = Polling fds idx \<Longrightarrow> loop_turn s (poll_failed s)"
| ready:
    "lphase s = Polling fds idx \<Longrightarrow> set rs \<subseteq> set fds \<Longrightarrow> (woken \<longleftrightarrow> lwake s > 0) \<Longrightarrow> woken \<or> rs \<noteq> [] \<Longrightarrow>
     loop_turn s (poll_returned idx rs woken s)"
| handle: "lphase s = Handling idx (f # fs) \<Longrightarrow>
     loop_turn s (s\<lparr>lw := handle_fd now idx f content (lw s), lphase := Handling idx fs\<rparr>)"
| leave: "lphase s = Handling idx (f # fs) \<Longrightarrow> lstop s \<noteq> NotStopped \<Longrightarrow> loop_turn s (s\<lparr>lphase := Exited\<rparr>)"
| handled: "lphase s = Handling idx [] \<Longrightarrow> loop_turn s (s\<lparr>lphase := Top\<rparr>)"

inductive_cases loop_turn_cases: "loop_turn s s'"

inductive_cases env_step_cases: "env_step s s'"

inductive loop_reachable :: "watch_loop \<Rightarrow> bool" where
  start: "loop_reachable (started_loop w)"
| env: "loop_reachable s \<Longrightarrow> env_step s s' \<Longrightarrow> loop_reachable s'"
| turn: "loop_reachable s \<Longrightarrow> loop_turn s s' \<Longrightarrow> loop_reachable s'"

section \<open>The index of a descriptor stays the index of its monitor\<close>

fun index_of :: "phase \<Rightarrow> (int \<rightharpoonup> nat)" where
  "index_of (Polling _ idx) = idx"
| "index_of (Handling idx _) = idx"
| "index_of _ = Map.empty"

definition watched_by_poll :: "watch_loop \<Rightarrow> bool" where
  "watched_by_poll s \<longleftrightarrow>
     (\<forall>fds idx. lphase s = Polling fds idx \<longrightarrow>
        (\<forall>i. active_at s i \<longrightarrow> lfds s ! i \<in> set fds \<and> idx (lfds s ! i) = Some i))"

definition loop_inv :: "watch_loop \<Rightarrow> bool" where
  "loop_inv s \<longleftrightarrow>
     length (lfds s) = length (monitors (lw s)) \<and>
     (\<forall>i j. active_at s i \<longrightarrow> active_at s j \<longrightarrow> lfds s ! i = lfds s ! j \<longrightarrow> i = j) \<and>
     (\<forall>f i. index_of (lphase s) f = Some i \<longrightarrow> i < length (monitors (lw s)) \<and> lfds s ! i = f) \<and>
     (watched_by_poll s \<or> lwake s > 0) \<and>
     (lstop s = Cleared \<longrightarrow> lphase s = Exited) \<and>
     (lstop s = StopWoken \<longrightarrow> (\<exists>fds idx. lphase s = Polling fds idx) \<longrightarrow> lwake s > 0)"

lemma wake_simps [simp]:
  "lw (wake s) = lw s" "lfds (wake s) = lfds s" "lphase (wake s) = lphase s" "lstop (wake s) = lstop s"
  "lwake (wake s) = (if lstop s = Cleared then lwake s else lwake s + 1)" "active_at (wake s) = active_at s"
  by (simp_all add: wake_def active_at_def fun_eq_iff)

lemma loop_inv_start: "loop_inv (started_loop w)"
  by (simp add: loop_inv_def started_loop_def active_at_def watched_by_poll_def)

lemma AddMonitor_result:
  "fst (snd (AddMonitor opener uid t path w c)) = w \<or>
   (\<exists>m. fst (snd (AddMonitor opener uid t path w c)) = w\<lparr>monitors := monitors w @ [m]\<rparr>)"
  by (auto simp: AddMonitor_def split: option.split prod.split)

lemma loop_inv_add:
  assumes inv: "loop_inv s" and fd: "\<And>i. active_at s i \<Longrightarrow> lfds s ! i \<noteq> fd"
  shows "loop_inv (loop_add opened uid t path fd s)"
  using AddMonitor_result [of "\<lambda>_ _ c. (opened, c)" uid t path "lw s" "()"]
proof (elim disjE exE)
  assume "fst (snd (AddMonitor (\<lambda>_ _ c. (opened, c)) uid t path (lw s) ())) = lw s"
  then have "loop_add opened uid t path fd s = s" by (auto simp: loop_add_def split: prod.split)
  with inv show ?thesis by simp
next
  fix m assume "fst (snd (AddMonitor (\<lambda>_ _ c. (opened, c)) uid t path (lw s) ())) = (lw s)\<lparr>monitors := monitors (lw s) @ [m]\<rparr>"
  then have e: "loop_add opened uid t path fd s =
      wake (s\<lparr>lw := (lw s)\<lparr>monitors := monitors (lw s) @ [m]\<rparr>, lfds := lfds s @ [fd]\<rparr>)" (is "_ = wake ?s")
    by (auto simp: loop_add_def split: prod.split)
  have len: "length (lfds s) = length (monitors (lw s))" using inv by (simp add: loop_inv_def)
  have act: "active_at ?s i \<longleftrightarrow> active_at s i \<or> i = length (monitors (lw s)) \<and> mon_active m" for i
    by (auto simp: active_at_def nth_append less_Suc_eq)
  have old: "active_at s i \<Longrightarrow> i < length (lfds s)" for i using len by (simp add: active_at_def)
  have nth: "lfds ?s ! i = (if i < length (lfds s) then lfds s ! i else fd)" if "i \<le> length (lfds s)" for i
    using that by (auto simp: nth_append)
  have "i = j" if "active_at ?s i" "active_at ?s j" "lfds ?s ! i = lfds ?s ! j" for i j
  proof -
    have "i \<le> length (lfds s)" "j \<le> length (lfds s)" using that(1,2) act old len by force+
    with that(3) have n: "(if i < length (lfds s) then lfds s ! i else fd) = (if j < length (lfds s) then lfds s ! j else fd)"
      using nth by metis
    from inv have "\<And>i j. active_at s i \<Longrightarrow> active_at s j \<Longrightarrow> lfds s ! i = lfds s ! j \<Longrightarrow> i = j" by (auto simp: loop_inv_def)
    with that(1,2) act old fd len n show ?thesis by (metis less_irrefl)
  qed
  moreover have "index_of (lphase s) f = Some i \<Longrightarrow> i < length (monitors (lw ?s)) \<and> lfds ?s ! i = f" for f i
    using inv len by (auto simp: loop_inv_def nth_append less_Suc_eq)
  moreover have "lstop s = Cleared \<Longrightarrow> watched_by_poll ?s" using inv by (simp add: loop_inv_def watched_by_poll_def)
  ultimately show ?thesis
    using inv len unfolding e by (auto simp: loop_inv_def watched_by_poll_def)
qed

lemma active_at_remove: "active_at (loop_remove uid t s) i \<Longrightarrow> active_at s i"
  by (auto simp: loop_remove_def active_at_def RemoveMonitor_def split: if_splits)

lemma loop_inv_remove: "loop_inv s \<Longrightarrow> loop_inv (loop_remove uid t s)"
proof -
  assume inv: "loop_inv s"
  have s: "lfds (loop_remove uid t s) = lfds s" "lphase (loop_remove uid t s) = lphase s"
    "lstop (loop_remove uid t s) = lstop s" "length (monitors (lw (loop_remove uid t s))) = length (monitors (lw s))"
    "lwake (loop_remove uid t s) \<ge> lwake s"
    by (simp_all add: loop_remove_def RemoveMonitor_def)
  have w: "watched_by_poll s \<Longrightarrow> watched_by_poll (loop_remove uid t s)"
    using active_at_remove s by (auto simp: watched_by_poll_def)
  show ?thesis
    using inv s(5) w active_at_remove [of uid t s] unfolding loop_inv_def s by (auto dest: order_less_le_trans)
qed

lemma loop_inv_same:
  "loop_inv s \<Longrightarrow> lfds s' = lfds s \<Longrightarrow> lphase s' = lphase s \<Longrightarrow> lstop s' = lstop s \<Longrightarrow> lwake s' = lwake s \<Longrightarrow>
   monitors (lw s') = monitors (lw s) \<Longrightarrow> loop_inv s'"
  by (simp add: loop_inv_def active_at_def watched_by_poll_def)

lemma loop_inv_env: "env_step s s' \<Longrightarrow> loop_inv s \<Longrightarrow> loop_inv s'"
proof (induction rule: env_step.induct)
  case (add s fd opened uid t path)
  then show ?case by (intro loop_inv_add) blast+
next
  case (remove s uid t)
  then show ?case by (rule loop_inv_remove)
next
  case (receive s)
  then show ?case by (rule loop_inv_same) simp_all
next
  case (close_done s)
  then show ?case by (auto simp: loop_inv_def active_at_def watched_by_poll_def)
next
  case (stop_wake s)
  then show ?case by (auto simp: loop_inv_def active_at_def watched_by_poll_def)
next
  case (stop_clear s)
  then show ?case by (simp add: loop_inv_def loop_clear_def StopWatcher_def active_at_def watched_by_poll_def)
qed

text \<open>The list that is polled names each active monitor by its own index.\<close>

lemma active_fds_index:
  assumes "loop_inv s"
  shows "map_of (rev (active_fds s)) f = Some i \<longleftrightarrow> active_at s i \<and> lfds s ! i = f"
proof -
  have d: "distinct (map fst (active_fds s))"
    using assms by (auto simp: active_fds_def distinct_map inj_on_def loop_inv_def comp_def)
  have m: "(f, i) \<in> set (active_fds s) \<longleftrightarrow> active_at s i \<and> lfds s ! i = f" by (auto simp: active_fds_def active_at_def)
  have "map_of (rev (active_fds s)) f = Some i \<longleftrightarrow> (f, i) \<in> set (rev (active_fds s))"
    using d by (intro map_of_eq_Some_iff) (simp add: rev_map [symmetric])
  with m show ?thesis by simp
qed

lemma post_event_monitors [simp]: "monitors (post_event now r w) = monitors w"
  by (auto simp: post_event_def split: prod.split sum.split)

lemma handle_fd_monitors [simp]: "monitors (handle_fd now idx f content w) = monitors w"
  by (simp add: handle_fd_def split: option.split)

lemma loop_inv_turn: "loop_turn s s' \<Longrightarrow> loop_inv s \<Longrightarrow> loop_inv s'"
proof (induction rule: loop_turn.induct)
  case (top s)
  have "lfds s ! i \<in> set (map fst (active_fds s))" if "active_at s i" for i
    using that by (auto simp: active_fds_def active_at_def)
  with top active_fds_index [OF top(2)] show ?case
    by (auto simp: loop_inv_def top_turn_def active_at_def watched_by_poll_def)
next
  case (ready s fds idx rs woken)
  then show ?case by (auto simp: loop_inv_def poll_returned_def active_at_def watched_by_poll_def)
qed (auto simp: loop_inv_def poll_failed_def active_at_def watched_by_poll_def)

lemma loop_reachable_inv: "loop_reachable s \<Longrightarrow> loop_inv s"
  by (induction rule: loop_reachable.induct) (auto intro: loop_inv_start loop_inv_env loop_inv_turn)

section \<open>Events are those of the monitor that was polled\<close>

lemma post_event_cases:
  "post_event now (int i, content) w = w \<or>
   mon_active (monitors w ! i) \<and>
   (\<exists>avg. post_event now (int i, content) w = w\<lparr>events := events w @
      [\<lparr>ev_UID = mon_uid (monitors w ! i), ev_Type = mon_typ (monitors w ! i), ev_SomeAvg10 = avg, ev_Timestamp = now\<rparr>]\<rparr>)"
  by (auto simp: post_event_def split: sum.split)

text \<open>A descriptor that is handled gives an event of the active monitor that owns it, or none.\<close>


text \<open>Handling one descriptor is a turn of the coarser model \<open>poll_turn\<close>, with the index the descriptor was polled under.\<close>

lemma handle_refines_poll_turn:
  "handle_fd now idx f content w = poll_turn now (case idx f of None \<Rightarrow> [] | Some i \<Rightarrow> [(int i, content)]) w"
  by (simp add: handle_fd_def poll_turn_def split: option.split)

section \<open>No monitor is forgotten, and Stop ends the loop\<close>

lemma no_lost_wakeup:
  assumes "loop_reachable s" "lphase s = Polling fds idx" "active_at s i" "lwake s = 0"
  shows "lfds s ! i \<in> set fds \<and> idx (lfds s ! i) = Some i"
  using loop_reachable_inv [OF assms(1)] assms(2-4) by (auto simp: loop_inv_def watched_by_poll_def)

fun turns_left :: "phase \<Rightarrow> nat" where
  "turns_left Top = 1"
| "turns_left (Polling _ _) = 1"
| "turns_left (Handling _ fs) = length fs + 2"
| "turns_left Exited = 0"

text \<open>C37: Stop ends the poll loop. A blocked loop is woken, and from every state the number of turns it still makes
  goes down with each turn.\<close>

theorem stop_ends_loop:
  assumes "loop_reachable s" "lstop s = StopWoken"
  shows "(\<forall>fds idx. lphase s = Polling fds idx \<longrightarrow> lwake s > 0) \<and>
    (\<forall>s'. loop_turn s s' \<longrightarrow> turns_left (lphase s') < turns_left (lphase s))"
proof -
  have w: "lphase s = Polling fds idx \<Longrightarrow> lwake s > 0" for fds idx
    using loop_reachable_inv [OF assms(1)] assms(2) by (auto simp: loop_inv_def)
  have "turns_left (lphase s') < turns_left (lphase s)" if "loop_turn s s'" for s'
    using that
  proof cases
    case (ready fds idx rs woken)
    with w assms(2) show ?thesis by (auto simp: poll_returned_def)
  qed (simp_all add: top_turn_def poll_failed_def assms(2))
  with w show ?thesis by blast
qed

text \<open>A descriptor whose file can no longer be read changes nothing: it is still polled in the next turn.\<close>

lemma unreadable_monitor_stays:
  "handle_fd now idx f (Inl e) w = w"
  by (simp add: handle_fd_def post_event_def split: option.split)

section \<open>A run\<close>

text \<open>Two monitors are added, the first turn wakes, the second finds the first descriptor ready after its monitor was removed.\<close>

definition sample_watcher :: psi_watcher where
  "sample_watcher = SetThreshold ''cpu'' 100 (NewPSIWatcher 1000000)"

definition sample_added :: watch_loop where
  "sample_added = loop_add None 1000 ''cpu'' ''/a'' 7 (started_loop sample_watcher)"

definition sample_handling :: watch_loop where
  "sample_handling = poll_returned [7 \<mapsto> 0] [7] True (top_turn sample_added)"

lemmas sample_loop_defs =
  sample_watcher_def sample_added_def sample_handling_def loop_add_def started_loop_def AddMonitor_def SetThreshold_def
  NewPSIWatcher_def wake_def top_turn_def poll_returned_def active_fds_def active_at_def watches_def

lemma sample_polling_reachable: "loop_reachable (top_turn sample_added)"
proof -
  have "loop_reachable sample_added" unfolding sample_added_def
    by (rule loop_reachable.env [OF loop_reachable.start env_step.add]) (simp add: active_at_def started_loop_def)
  then show ?thesis by (rule loop_reachable.turn) (rule loop_turn.top, simp add: sample_loop_defs)
qed

lemma sample_handling_reachable: "loop_reachable sample_handling"
  unfolding sample_handling_def
  by (rule loop_reachable.turn [OF sample_polling_reachable]) (rule loop_turn.ready [where fds = "[7]"], simp_all add: sample_loop_defs)


text \<open>The loop is blocked in \<open>poll\<close> when \<open>Stop\<close> comes; the byte in the pipe wakes it, and it leaves.\<close>

definition sample_stopping :: watch_loop where
  "sample_stopping = wake ((top_turn sample_added)\<lparr>lstop := StopWoken\<rparr>)"

lemma sample_stopping_reachable: "loop_reachable sample_stopping"
proof -
  have "loop_reachable ((top_turn sample_added)\<lparr>lstop := DoneClosed\<rparr>)"
    by (rule loop_reachable.env [OF sample_polling_reachable close_done]) (simp add: sample_loop_defs)
  from loop_reachable.env [OF this stop_wake] show ?thesis by (simp add: sample_stopping_def)
qed

lemma stop_ends_loop_witness:
  "lwake sample_stopping > 0 \<and>
   turns_left (lphase (poll_returned [7 \<mapsto> 0] [] True sample_stopping)) < turns_left (lphase sample_stopping)"
proof -
  have s: "lstop sample_stopping = StopWoken" "lphase sample_stopping = Polling [7] [7 \<mapsto> 0]"
    by (simp_all add: sample_stopping_def sample_loop_defs)
  note ends = stop_ends_loop [OF sample_stopping_reachable s(1)]
  from ends s(2) have w: "lwake sample_stopping > 0" by blast
  have "loop_turn sample_stopping (poll_returned [7 \<mapsto> 0] [] True sample_stopping)"
    by (rule loop_turn.ready [OF s(2)]) (simp_all add: w)
  with ends w show ?thesis by blast
qed

end
