(* ===== verification/ProcFallback.thy ===== *)
theory ProcFallback
  imports CollectorUsers CgroupShared
begin

text \<open>
  The scans of /proc that the program falls back to, written as the loops over the directory they are:
  \<open>getUserMemoryUsageFallback\<close> and \<open>getUserProcessCountFallback\<close> of \<open>metrics/collector.go\<close>,
  \<open>moveAllUserProcessesToSharedCgroupFallback\<close> of \<open>cgroup/shared.go\<close> and \<open>moveAllUserProcessesFallback\<close> of
  \<open>cgroup/process.go\<close>. The last two read the owner of a process just before they move it.
\<close>

definition status_path :: "string \<Rightarrow> string" where
  "status_path name = path_join (path_join ''/proc'' name) ''status''"

section \<open>Memory and processes of a user\<close>

definition add_memory :: "'w os \<Rightarrow> 'w \<Rightarrow> int \<Rightarrow> string \<times> bool \<Rightarrow> u64 \<Rightarrow> u64" where
  "add_memory os w uid entry acc =
     (case entry of (name, dir) \<Rightarrow>
        if \<not> dir then acc
        else (case Atoi name of
                None \<Rightarrow> acc
              | Some pid \<Rightarrow>
                  if Collector_getUIDFromStatusFile os w (status_path name) \<noteq> Some uid then acc
                  else acc + getProcessMemoryUsage os w pid))"

definition getUserMemoryUsageFallback :: "'w os \<Rightarrow> 'w \<Rightarrow> int \<Rightarrow> u64" where
  "getUserMemoryUsageFallback os w uid =
     (case ReadDir os ''/proc'' w of Inl _ \<Rightarrow> 0 | Inr entries \<Rightarrow> fold (add_memory os w uid) entries 0)"

definition add_process :: "'w os \<Rightarrow> 'w \<Rightarrow> int \<Rightarrow> string \<times> bool \<Rightarrow> int \<Rightarrow> int" where
  "add_process os w uid entry n =
     (case entry of (name, dir) \<Rightarrow>
        if \<not> dir \<or> Atoi name = None then n
        else if Collector_getUIDFromStatusFile os w (status_path name) = Some uid then n + 1 else n)"

definition getUserProcessCountFallback :: "'w os \<Rightarrow> 'w \<Rightarrow> int \<Rightarrow> int" where
  "getUserProcessCountFallback os w uid =
     (case ReadDir os ''/proc'' w of Inl _ \<Rightarrow> 0 | Inr entries \<Rightarrow> fold (add_process os w uid) entries 0)"

text \<open>The processes of the user, in the order of the directory; both scans add up over them.\<close>

definition pids_of_user :: "'w os \<Rightarrow> 'w \<Rightarrow> int \<Rightarrow> (string \<times> bool) list \<Rightarrow> int list" where
  "pids_of_user os w uid entries =
     List.map_filter (\<lambda>(name, dir).
       if \<not> dir then None
       else (case Atoi name of
               None \<Rightarrow> None
             | Some pid \<Rightarrow> if Collector_getUIDFromStatusFile os w (status_path name) = Some uid then Some pid else None)) entries"

lemma fold_add_process: "fold (add_process os w uid) es n = n + int (length (pids_of_user os w uid es))"
  by (induction es arbitrary: n) (auto simp: pids_of_user_def add_process_def map_filter_simps split: option.splits if_splits)

lemma fold_add_memory:
  "fold (add_memory os w uid) es m = m + sum_list (map (getProcessMemoryUsage os w) (pids_of_user os w uid es))"
  by (induction es arbitrary: m) (auto simp: pids_of_user_def add_memory_def map_filter_simps add.assoc split: option.splits if_splits)

lemma fallback_sums:
  "ReadDir os ''/proc'' w = Inr entries \<Longrightarrow>
   getUserProcessCountFallback os w uid = int (length (pids_of_user os w uid entries)) \<and>
   getUserMemoryUsageFallback os w uid = sum_list (map (getProcessMemoryUsage os w) (pids_of_user os w uid entries))"
  by (simp add: getUserProcessCountFallback_def getUserMemoryUsageFallback_def fold_add_process fold_add_memory)

section \<open>Moving the processes of a user\<close>

fun move_scanned ::
  "regexp_lib \<Rightarrow> 'w os \<Rightarrow> 'w proc_lib \<Rightarrow> (int \<Rightarrow> 'w cgroup \<Rightarrow> cg_error option \<times> 'w cgroup) \<Rightarrow> int \<Rightarrow>
   (string \<times> bool) list \<Rightarrow> 'w cgroup \<Rightarrow> nat \<times> 'w cgroup" where
  "move_scanned rx os pl move uid [] s = (0, s)"
| "move_scanned rx os pl move uid (entry # es) s =
     (case (if snd entry then Atoi (fst entry) else None) of
        None \<Rightarrow> move_scanned rx os pl move uid es s
      | Some pid \<Rightarrow>
          if getUIDFromStatusFile os (status_path (fst entry)) s \<noteq> Inr uid \<or>
             IsProcessExcluded rx (cg_cfg s) (getProcessName os pl pid s)
          then move_scanned rx os pl move uid es s
          else
            (let (e, s1) = move pid s; (n, s2) = move_scanned rx os pl move uid es s1
             in (if e = None then n else Suc n, s2)))"

definition move_fallback ::
  "regexp_lib \<Rightarrow> 'w os \<Rightarrow> 'w proc_lib \<Rightarrow> (int \<Rightarrow> 'w cgroup \<Rightarrow> cg_error option \<times> 'w cgroup) \<Rightarrow> int \<Rightarrow> 'w cgroup \<Rightarrow>
   cg_error option \<times> 'w cgroup" where
  "move_fallback rx os pl move uid s =
     (case ReadDir os ''/proc'' (world s) of
        Inl _ \<Rightarrow> (Some (OSFailed ''failed to read /proc'' OtherError), s)
      | Inr entries \<Rightarrow>
          (case move_scanned rx os pl move uid entries s of (n, s1) \<Rightarrow> (if n > 0 then Some (MoveFailures n) else None, s1)))"

definition moveAllUserProcessesToSharedCgroupFallback ::
  "regexp_lib \<Rightarrow> 'w os \<Rightarrow> 'w proc_lib \<Rightarrow> int \<Rightarrow> string \<Rightarrow> 'w cgroup \<Rightarrow> cg_error option \<times> 'w cgroup" where
  "moveAllUserProcessesToSharedCgroupFallback rx os pl uid sharedPath s =
     move_fallback rx os pl (\<lambda>pid. MoveProcessToSharedCgroup os pid sharedPath uid) uid s"

definition moveAllUserProcessesFallback ::
  "regexp_lib \<Rightarrow> 'w os \<Rightarrow> 'w proc_lib \<Rightarrow> int \<Rightarrow> 'w cgroup \<Rightarrow> cg_error option \<times> 'w cgroup" where
  "moveAllUserProcessesFallback rx os pl uid s = move_fallback rx os pl (\<lambda>pid. MoveProcessToCgroup os pid uid) uid s"

text \<open>
  A system in which a move does not change the owner of a process: reading the owners one by one, between the moves, is
  then the same as reading them first.
\<close>

definition keeps_owners :: "'w os \<Rightarrow> (int \<Rightarrow> 'w cgroup \<Rightarrow> cg_error option \<times> 'w cgroup) \<Rightarrow> bool" where
  "keeps_owners os move \<longleftrightarrow> (\<forall>f pid s. getUIDFromStatusFile os f (snd (move pid s)) = getUIDFromStatusFile os f s)"

definition owned :: "'w os \<Rightarrow> int \<Rightarrow> 'w cgroup \<Rightarrow> (string \<times> bool) list \<Rightarrow> int list" where
  "owned os uid s entries =
     List.map_filter (\<lambda>(name, dir).
       if \<not> dir then None
       else (case Atoi name of
               None \<Rightarrow> None
             | Some pid \<Rightarrow> if getUIDFromStatusFile os (status_path name) s = Inr uid then Some pid else None)) entries"

lemma owned_moved: "keeps_owners os move \<Longrightarrow> owned os uid (snd (move pid s)) es = owned os uid s es"
  unfolding owned_def keeps_owners_def by (simp cong: option.case_cong if_cong)

lemma move_scanned_each:
  assumes "keeps_owners os move"
  shows "move_scanned rx os pl move uid es s = move_each rx os pl move (owned os uid s es) s"
proof (induction es arbitrary: s)
  case (Cons entry es)
  obtain name dir where e: "entry = (name, dir)" by (cases entry)
  show ?case
  proof (cases "dir \<and> Atoi name \<noteq> None \<and> getUIDFromStatusFile os (status_path name) s = Inr uid")
    case False
    then have "owned os uid s (entry # es) = owned os uid s es"
      by (auto simp: owned_def e map_filter_simps split: option.split)
    with False Cons show ?thesis by (auto simp: e split: option.split)
  next
    case True
    then obtain pid where p: "Atoi name = Some pid" by auto
    with True have o: "owned os uid s (entry # es) = pid # owned os uid s es" by (simp add: owned_def e map_filter_simps)
    obtain err s1 where m: "move pid s = (err, s1)" by fastforce
    have "owned os uid s1 es = owned os uid s es" using owned_moved [OF assms, of uid pid s es] by (simp add: m)
    with True p o m Cons show ?thesis by (simp add: e)
  qed
qed (simp add: owned_def map_filter_simps)

lemma move_fallback_all:
  assumes "keeps_owners os move" "Processes pl (world s) = None"
  shows "move_fallback rx os pl move uid s = move_all rx os pl move uid s"
proof -
  have "scan_proc os uid s = map_option (owned os uid s) (case ReadDir os ''/proc'' (world s) of Inl _ \<Rightarrow> None | Inr es \<Rightarrow> Some es)"
    by (simp add: scan_proc_def owned_def status_path_def split: sum.split cong: option.case_cong if_cong)
  then show ?thesis
    by (auto simp: move_fallback_def move_all_def user_pids_def assms(2) move_scanned_each [OF assms(1)] split: sum.split)
qed

lemma shared_fallback_is_move:
  assumes "keeps_owners os (\<lambda>pid. MoveProcessToSharedCgroup os pid sharedPath uid)" "Processes pl (world s) = None"
  shows "moveAllUserProcessesToSharedCgroupFallback rx os pl uid sharedPath s =
    MoveAllUserProcessesToSharedCgroup rx os pl uid sharedPath s"
  unfolding moveAllUserProcessesToSharedCgroupFallback_def MoveAllUserProcessesToSharedCgroup_def
  by (rule move_fallback_all [OF assms])

end
