(* ===== verification/RuntimeSamples.thy ===== *)
theory RuntimeSamples
  imports ComponentSamples ExporterRegistry Lifecycle LimitHook LimitTargets ManagerLocks Pipeline PsiPollLoop ProcFallback
begin

text \<open>
  The theorems on the start and the end of the daemon and on the registered metrics, applied to the machine of
  \<open>AppSamples\<close> and the exporter of \<open>ComponentSamples\<close>.
\<close>

section \<open>A daemon that is told to end\<close>

definition ending_app :: "(mem_fs, mem_db) app" where
  "ending_app = busy_app\<lparr>cancelled := True\<rparr>"

lemma ending_reachable: "app_reachable machine ending_app"
  unfolding ending_app_def by (rule app_reachable.step [OF busy_reachable signal])

definition mcp_on :: config where
  "mcp_on = ram_cfg\<lparr>MCPEnabled := True\<rparr>"


text \<open>The configured time of 10 seconds lets the daemon go on for 20 after the signal.\<close>

lemma termination_signal_bounds_witness:
  "ended_by (1060 * second + kill_delay ram_cfg)
     (process_end None (handle_signal ram_cfg True (1060 * second) SIGTERM started_handler))"
  using termination_signal_bounds [of started_handler SIGTERM "1060 * second" ram_cfg None True]
  by (simp add: started_handler_def)

section \<open>The registered metrics\<close>

lemma exporter_series_typed_witness:
  "\<exists>d. desc_of limitsActivatedTotal = Some d \<and> md_labels d = [] \<and>
     series_of (run_ops mem_os [(prom_fs, ExpActivated), (prom_fs, ExpActivated)] prom_exporter) (limitsActivatedTotal, []) \<noteq> None"
proof -
  let ?e = "run_ops mem_os [(prom_fs, ExpActivated), (prom_fs, ExpActivated)] prom_exporter"
  obtain v where v: "series_of ?e (limitsActivatedTotal, []) = Some v"
    by (simp add: run_ops_def Exporter_IncrementLimitsActivated_def inc_def add_series_def)
  with exporter_series_typed [OF prom_created, where xs = "[(prom_fs, ExpActivated), (prom_fs, ExpActivated)]"]
  show ?thesis by (metis length_0_conv list.size(3) option.distinct(1))
qed

section \<open>Where the limits of a user go\<close>

definition blank_os :: "unit os" where
  "blank_os =
     \<lparr>ReadFile = (\<lambda>p w. Inl NotExist), WriteFile = (\<lambda>f c w. (None, w)), AppendFile = (\<lambda>f c w. (None, w)),
      Stat = (\<lambda>p w. Some NotExist), Chmod = (\<lambda>p w. (None, w)), Mkdir = (\<lambda>p w. (None, w)),
      MkdirAll = (\<lambda>p w. (None, w)), Remove = (\<lambda>p w. (None, w)), RemoveAll = (\<lambda>p w. (None, w)), Rename = (\<lambda>p q w. (None, w)),
      ReadDir = (\<lambda>p w. Inl NotExist)\<rparr>"

definition quota_cfg :: config where
  "quota_cfg = default_cfg\<lparr>RAMEnabled := True, RAMQuotaPerUser := ''2G'', CgroupRoot := ''/r'', CgroupBase := ''b''\<rparr>"

definition recorded_provider :: "(unit \<times> write_log) cgroup" where
  "recorded_provider = \<lparr>cg_cfg = quota_cfg, createdCgroups = [], createdCgroupsFile = ''/t'',
     controllersAvailable = True, cgroupRootWritable = True, world = ((), [])\<rparr>"

definition recorded_procs :: "(unit \<times> write_log) proc_lib" where
  "recorded_procs = \<lparr>Processes = (\<lambda>_. Some [(4242, [1000])]), LookupId = (\<lambda>_. Some ''alice''), in_time = (\<lambda>_ _. True)\<rparr>"

abbreviation recorded_ops :: "(unit \<times> write_log) cgroup cgroup_ops" where
  "recorded_ops \<equiv> real_ops any_regex (recording blank_os) recorded_procs"

text \<open>The limits are activated, and the goroutine of user 1000 runs.\<close>

definition recorded_manager :: "(unit \<times> write_log) cgroup manager" where
  "recorded_manager =
     snd (ForceActivateLimits recorded_ops (10 * second) (collector_at 95) (NewManager quota_cfg False recorded_provider))"

definition recorded_limited :: "(unit \<times> write_log) cgroup manager" where
  "recorded_limited = run_task recorded_ops any_regex (collector_at 95) (hd (pending recorded_manager))
     (recorded_manager\<lparr>pending := tl (pending recorded_manager)\<rparr>)"

lemma recorded_reachable: "reachable recorded_ops any_regex recorded_provider recorded_limited"
proof -
  have r: "reachable recorded_ops any_regex recorded_provider recorded_manager"
    unfolding recorded_manager_def by (rule reachable.step [OF reachable.initial mgr_step.force_on])
  have "length (pending recorded_manager) = 1" by code_simp
  then have "pending recorded_manager = [] @ hd (pending recorded_manager) # tl (pending recorded_manager)"
    by (cases "pending recorded_manager") auto
  from mgr_step.goroutine [OF this, of recorded_ops any_regex "collector_at 95"] show ?thesis
    unfolding recorded_limited_def by (intro reachable.step [OF r]) simp
qed


text \<open>
  The writes of the activation, and of the operations the goroutine calls: the process goes to one cgroup, its limit of 2 GiB to
  another.
\<close>

lemma recorded_writes:
  "snd (world (cgroups recorded_manager)) =
     [(''/r/b/limited/user_1000/cpu.weight'', ''100''), (''/r/b/limited/cpu.max'', ''300000 100000'')]"
  "rev (snd (world (snd (ApplyRAMLimitWithHigh (recording blank_os) 1000 ''2G'' ''1717986918''
       (snd (MoveAllUserProcessesToSharedCgroup any_regex (recording blank_os) recorded_procs 1000 ''/r/b/limited''
          recorded_provider)))))) =
     [(''/r/b/limited/user_1000/cpu.weight'', ''100''),
      (''/r/b/limited/user_1000/cgroup.procs'', ''4242''),
      (''/t'', ''1000:/r/b/user_1000'' @ [newline]),
      (''/r/b/user_1000/memory.high'', ''1717986918''),
      (''/r/b/user_1000/memory.max'', ''2G'')]"
  by code_simp+

end
