(* ===== verification/Logging.thy ===== *)
theory Logging
  imports ConfigUse
begin

text \<open>
  The logger, \<open>logging/logger.go\<close>: levels, the lines it writes, the rotation of its file, and its mutex. \<open>None\<close> is a call
  that waits for the mutex forever: a Go mutex is not reentrant.
\<close>

section \<open>Levels\<close>

datatype log_level = DEBUG | INFO | WARN | ERROR

fun level_number :: "log_level \<Rightarrow> nat" where
  "level_number DEBUG = 0" | "level_number INFO = 1" | "level_number WARN = 2" | "level_number ERROR = 3"

lemma level_number_inj: "level_number a = level_number b \<Longrightarrow> a = b"
  by (cases a; cases b) simp_all

instantiation log_level :: linorder
begin

definition less_eq_log_level :: "log_level \<Rightarrow> log_level \<Rightarrow> bool" where
  "a \<le> b \<longleftrightarrow> level_number a \<le> level_number b"

definition less_log_level :: "log_level \<Rightarrow> log_level \<Rightarrow> bool" where
  "a < b \<longleftrightarrow> level_number a < level_number b"

instance
  by standard (auto simp: less_eq_log_level_def less_log_level_def intro: level_number_inj)

end

definition parseLogLevel :: "string \<Rightarrow> log_level" where
  "parseLogLevel level =
     (if level = ''DEBUG'' then DEBUG else if level = ''WARN'' then WARN else if level = ''ERROR'' then ERROR else INFO)"

fun levelNames :: "log_level \<Rightarrow> string" where
  "levelNames DEBUG = ''DEBUG''" | "levelNames INFO = ''INFO''" | "levelNames WARN = ''WARN''" | "levelNames ERROR = ''ERROR''"

section \<open>The logger\<close>

text \<open>
  What it uses of the system: the time as text, opening a file for appending, writing to the open file, its size, standard
  output, syslog. Errors of writes are ignored. \<open>lg_file\<close> tells whether the logger has its file; \<open>lg_output\<close> is where the
  underlying logger prints; \<open>lg_useSyslog\<close> comes with a connection.
\<close>

record 'w log_lib =
  ll_os :: "'w os"
  ll_time :: "time \<Rightarrow> string"
  ll_open :: "string \<Rightarrow> 'w \<Rightarrow> bool \<times> 'w"
  ll_append :: "string \<Rightarrow> string \<Rightarrow> 'w \<Rightarrow> 'w"
  ll_size :: "string \<Rightarrow> 'w \<Rightarrow> int option"
  ll_stdout :: "string \<Rightarrow> 'w \<Rightarrow> 'w"
  ll_dial :: "'w \<Rightarrow> bool"
  ll_syslog :: "log_level \<Rightarrow> string \<Rightarrow> 'w \<Rightarrow> 'w"

datatype log_output = ToStdout | ToFile | ToSyslog

record logger =
  lg_level :: log_level
  lg_file :: bool
  lg_filePath :: string
  lg_maxSize :: int
  lg_output :: log_output
  lg_lastRotation :: time
  lg_useSyslog :: bool
  lg_fields :: "(string \<times> string) list"

definition createStdoutLogger :: "log_level \<Rightarrow> logger" where
  "createStdoutLogger level =
     \<lparr>lg_level = level, lg_file = False, lg_filePath = '''', lg_maxSize = 0, lg_output = ToStdout, lg_lastRotation = zero_time,
      lg_useSyslog = False, lg_fields = []\<rparr>"

definition shouldLog :: "log_level \<Rightarrow> logger \<Rightarrow> bool" where
  "shouldLog level l \<longleftrightarrow> level \<ge> lg_level l"

section \<open>Lines\<close>

text \<open>The values are rendered already. A key without a value is followed by the equals sign.\<close>

fun keyvals_text :: "string list \<Rightarrow> string" where
  "keyvals_text [] = ''''"
| "keyvals_text [k] = '' '' @ k @ ''=''"
| "keyvals_text (k # v # kvs) = '' '' @ k @ ''='' @ v @ keyvals_text kvs"

definition log_line :: "'w log_lib \<Rightarrow> time \<Rightarrow> log_level \<Rightarrow> string \<Rightarrow> string list \<Rightarrow> logger \<Rightarrow> string" where
  "log_line lib now level msg keyvals l =
     ''['' @ ll_time lib now @ ''] ['' @ levelNames level @ ''] '' @ msg @
     concat (map (\<lambda>(k, v). '' '' @ k @ ''='' @ v) (lg_fields l)) @ keyvals_text keyvals"

section \<open>Rotation\<close>

text \<open>
  \<open>logInternal\<close> called by a caller that holds the mutex: below the level it returns before it locks, otherwise it waits for its
  caller.
\<close>

definition log_while_locked :: "log_level \<Rightarrow> logger \<times> 'w \<Rightarrow> (logger \<times> 'w) option" where
  "log_while_locked level s = (if shouldLog level (fst s) then None else Some s)"

definition rotateLog :: "'w log_lib \<Rightarrow> logger \<times> 'w \<Rightarrow> (logger \<times> 'w) option" where
  "rotateLog lib s =
     (case s of (l, w) \<Rightarrow>
        (let os = ll_os lib; backupPath = lg_filePath l @ ''.1'';
             w1 = (if Stat os backupPath w = None then snd (Remove os backupPath w) else w);
             w2 = snd (Rename os (lg_filePath l) backupPath w1);
             (opened, w3) = ll_open lib (lg_filePath l) w2
         in
         if \<not> opened then Some (l\<lparr>lg_file := False, lg_output := ToStdout\<rparr>, w3)
         else log_while_locked INFO (l\<lparr>lg_file := True, lg_output := ToFile\<rparr>, w3)))"

definition checkAndRotate :: "'w log_lib \<Rightarrow> time \<Rightarrow> logger \<times> 'w \<Rightarrow> (logger \<times> 'w) option" where
  "checkAndRotate lib now s =
     (case s of (l, w) \<Rightarrow>
        (if time_Sub now (lg_lastRotation l) < second then Some s
         else
           (let l1 = l\<lparr>lg_lastRotation := now\<rparr> in
            case ll_size lib (lg_filePath l) w of
              None \<Rightarrow> Some (l1, w)
            | Some n \<Rightarrow> if n > lg_maxSize l then rotateLog lib (l1, w) else Some (l1, w))))"

definition print_line :: "'w log_lib \<Rightarrow> string \<Rightarrow> logger \<Rightarrow> 'w \<Rightarrow> 'w" where
  "print_line lib line l w =
     (case lg_output l of
        ToFile \<Rightarrow> ll_append lib (lg_filePath l) (line @ [newline]) w
      | ToStdout \<Rightarrow> ll_stdout lib (line @ [newline]) w
      | ToSyslog \<Rightarrow> ll_syslog lib INFO (line @ [newline]) w)"

text \<open>A call by somebody who does not hold the mutex.\<close>

definition logInternal ::
  "'w log_lib \<Rightarrow> time \<Rightarrow> log_level \<Rightarrow> string \<Rightarrow> string list \<Rightarrow> logger \<times> 'w \<Rightarrow> (logger \<times> 'w) option" where
  "logInternal lib now level msg keyvals s =
     (case s of (l, w) \<Rightarrow>
        (let line = log_line lib now level msg keyvals l in
         if \<not> shouldLog level l then Some s
         else if lg_useSyslog l then Some (l, ll_syslog lib level line w)
         else
           (let w1 = print_line lib line l w in
            if lg_file l then checkAndRotate lib now (l, w1) else Some (l, w1))))"

section \<open>The global logger\<close>

text \<open>\<open>once\<close>: only the first call does anything. The second component is the global logger.\<close>

definition path_dir :: "string \<Rightarrow> string" where
  "path_dir p = Clean (rev (dropWhile (\<lambda>c. c \<noteq> CHR ''/'') (rev p)))"

definition new_logger ::
  "'w log_lib \<Rightarrow> time \<Rightarrow> string \<Rightarrow> string \<Rightarrow> int \<Rightarrow> bool \<Rightarrow> 'w \<Rightarrow> (logger \<times> 'w) option" where
  "new_logger lib now level filePath maxSize useSyslog w =
     (let logLevel = parseLogLevel level in
      if useSyslog then
        (if \<not> ll_dial lib w then Some (createStdoutLogger logLevel, w)
         else logInternal lib now INFO ''Logger initialized (syslog)'' [''level'', levelNames logLevel, ''syslog'', ''true'']
                ((createStdoutLogger logLevel)\<lparr>lg_output := ToSyslog, lg_useSyslog := True\<rparr>, w))
      else
        (case MkdirAll (ll_os lib) (path_dir filePath) w of
           (Some _, w1) \<Rightarrow> Some (createStdoutLogger logLevel, w1)
         | (None, w1) \<Rightarrow>
             (case ll_open lib filePath w1 of
                (False, w2) \<Rightarrow> Some (createStdoutLogger logLevel, w2)
              | (True, w2) \<Rightarrow>
                  logInternal lib now INFO ''Logger initialized''
                    [''level'', levelNames logLevel, ''file'', filePath, ''max_size'', Itoa maxSize @ '' bytes'']
                    (\<lparr>lg_level = logLevel, lg_file = True, lg_filePath = filePath, lg_maxSize = maxSize, lg_output = ToFile,
                      lg_lastRotation = now, lg_useSyslog = False, lg_fields = []\<rparr>, w2))))"

definition InitLogger ::
  "'w log_lib \<Rightarrow> time \<Rightarrow> string \<Rightarrow> string \<Rightarrow> int \<Rightarrow> bool \<Rightarrow> logger option \<times> 'w \<Rightarrow> (logger option \<times> 'w) option" where
  "InitLogger lib now level filePath maxSize useSyslog s =
     (case s of
        (Some l, w) \<Rightarrow> Some s
      | (None, w) \<Rightarrow>
          map_option (\<lambda>(l, w1). (Some l, w1)) (new_logger lib now level filePath maxSize useSyslog w))"

definition GetLogger :: "'w log_lib \<Rightarrow> time \<Rightarrow> logger option \<times> 'w \<Rightarrow> (logger option \<times> 'w) option" where
  "GetLogger lib now s =
     (if fst s = None then InitLogger lib now ''INFO'' ''/var/log/resman.log'' (10 * 1024 * 1024) False s else Some s)"

definition WithField :: "string \<Rightarrow> string \<Rightarrow> logger \<Rightarrow> logger" where
  "WithField key val l = l\<lparr>lg_fields := al_update key val (lg_fields l)\<rparr>"

definition SetLevel :: "string \<Rightarrow> logger \<Rightarrow> logger" where
  "SetLevel level l = l\<lparr>lg_level := parseLogLevel level\<rparr>"

end
