(* ===== verification/LoggingProps.thy ===== *)
theory LoggingProps
  imports Logging
begin

text \<open>
  When a call of the logger returns: with a level of INFO or below, the message about the rotation is logged while the mutex is
  held, so the rotation never ends.
\<close>

section \<open>Runs of messages\<close>

record log_msg =
  lm_now :: time
  lm_level :: log_level
  lm_text :: string
  lm_keyvals :: "string list"

fun log_all :: "'w log_lib \<Rightarrow> log_msg list \<Rightarrow> logger \<times> 'w \<Rightarrow> (logger \<times> 'w) option" where
  "log_all lib [] s = Some s"
| "log_all lib (m # ms) s =
     Option.bind (logInternal lib (lm_now m) (lm_level m) (lm_text m) (lm_keyvals m) s) (log_all lib ms)"

definition msg_size :: "'w log_lib \<Rightarrow> logger \<Rightarrow> log_msg \<Rightarrow> int" where
  "msg_size lib l m = int (length (log_line lib (lm_now m) (lm_level m) (lm_text m) (lm_keyvals m) l)) + 1"

definition file_logger :: "'w log_lib \<Rightarrow> logger \<Rightarrow> 'w \<Rightarrow> int \<Rightarrow> bool" where
  "file_logger lib l w n \<longleftrightarrow>
     lg_file l \<and> lg_output l = ToFile \<and> \<not> lg_useSyslog l \<and> ll_size lib (lg_filePath l) w = Some n"

text \<open>Every message is logged, and comes at least a second after the one before it.\<close>

definition steady :: "logger \<Rightarrow> log_msg list \<Rightarrow> bool" where
  "steady l ms \<longleftrightarrow> list_all (\<lambda>m. lg_level l \<le> lm_level m) ms \<and>
     successively (\<lambda>t u. second \<le> time_Sub u t) (lg_lastRotation l # map lm_now ms)"

lemma line_of_rotated [simp]: "log_line lib now lv msg kvs (l\<lparr>lg_lastRotation := t\<rparr>) = log_line lib now lv msg kvs l"
  by (simp add: log_line_def)

lemma msg_size_rotated [simp]: "msg_size lib (l\<lparr>lg_lastRotation := t\<rparr>) m = msg_size lib l m"
  by (simp add: msg_size_def)

lemma msg_sizes: "0 < msg_size lib l m" "0 \<le> (\<Sum>m\<leftarrow>ms. msg_size lib l m)"
  by (auto simp: msg_size_def intro!: sum_list_nonneg)

section \<open>Above INFO\<close>

lemma quiet_returns:
  assumes "\<not> lg_level l \<le> INFO"
  shows "\<exists>l' w'. logInternal lib now lv msg kvs (l, w) = Some (l', w') \<and> lg_level l' = lg_level l"
  using assms
  by (auto simp: logInternal_def checkAndRotate_def rotateLog_def log_while_locked_def shouldLog_def Let_def less_eq_log_level_def
      split: option.split prod.split)

lemma quiet_run_returns: "\<not> lg_level l \<le> INFO \<Longrightarrow> log_all lib ms (l, w) \<noteq> None"
proof (induction ms arbitrary: l w)
  case (Cons m ms)
  obtain l' w' where "logInternal lib (lm_now m) (lm_level m) (lm_text m) (lm_keyvals m) (l, w) = Some (l', w')"
    "lg_level l' = lg_level l"
    using quiet_returns [OF Cons.prems, of lib "lm_now m" "lm_level m" "lm_text m" "lm_keyvals m" w] by auto
  with Cons show ?case by simp
qed simp

section \<open>At INFO and below\<close>

text \<open>What the code expects of its file: a write appends, and the file can be opened again.\<close>

locale log_files =
  fixes lib :: "'w log_lib"
  assumes appended: "ll_size lib p w = Some n \<Longrightarrow> ll_size lib p (ll_append lib p c w) = Some (n + int (length c))"
    and reopened: "fst (ll_open lib p w)"
begin

lemma rotation_waits: "lg_level l \<le> INFO \<Longrightarrow> rotateLog lib (l, w) = None"
  by (simp add: rotateLog_def log_while_locked_def shouldLog_def Let_def split_beta reopened)

lemma one_message:
  assumes "file_logger lib l w n" "lg_level l \<le> INFO" "steady l (m # ms)"
  shows "case logInternal lib (lm_now m) (lm_level m) (lm_text m) (lm_keyvals m) (l, w) of
      None \<Rightarrow> n + msg_size lib l m > lg_maxSize l
    | Some (l', w') \<Rightarrow> n + msg_size lib l m \<le> lg_maxSize l \<and> l' = l\<lparr>lg_lastRotation := lm_now m\<rparr> \<and>
        file_logger lib l' w' (n + msg_size lib l m) \<and> steady l' ms"
proof -
  let ?line = "log_line lib (lm_now m) (lm_level m) (lm_text m) (lm_keyvals m) l"
  let ?w = "ll_append lib (lg_filePath l) (?line @ [newline]) w"
  have len: "ll_size lib (lg_filePath l) ?w = Some (n + msg_size lib l m)"
    using appended [of "lg_filePath l" w n "?line @ [newline]"] assms(1) by (simp add: file_logger_def msg_size_def)
  have "logInternal lib (lm_now m) (lm_level m) (lm_text m) (lm_keyvals m) (l, w) =
     (if n + msg_size lib l m > lg_maxSize l then rotateLog lib (l\<lparr>lg_lastRotation := lm_now m\<rparr>, ?w)
      else Some (l\<lparr>lg_lastRotation := lm_now m\<rparr>, ?w))"
    using assms by (simp add: logInternal_def file_logger_def steady_def shouldLog_def print_line_def checkAndRotate_def Let_def len)
  then show ?thesis
    using assms len by (simp add: rotation_waits file_logger_def steady_def)
qed

lemma run_blocks:
  assumes "file_logger lib l w n" "lg_level l \<le> INFO" "steady l ms"
  shows "log_all lib ms (l, w) = None \<longleftrightarrow> ms \<noteq> [] \<and> n + (\<Sum>m\<leftarrow>ms. msg_size lib l m) > lg_maxSize l"
  using assms
proof (induction ms arbitrary: l w n)
  case (Cons m ms)
  note one = one_message [OF Cons.prems]
  show ?case
  proof (cases "logInternal lib (lm_now m) (lm_level m) (lm_text m) (lm_keyvals m) (l, w)")
    case None
    with one msg_sizes(2) [of lib l ms] show ?thesis by simp
  next
    case (Some s)
    obtain l' w' where s: "s = (l', w')" by (cases s)
    from one Some s have f: "n + msg_size lib l m \<le> lg_maxSize l" "l' = l\<lparr>lg_lastRotation := lm_now m\<rparr>"
      "file_logger lib l' w' (n + msg_size lib l m)" "steady l' ms"
      by auto
    have "lg_level l' \<le> INFO" using f(2) Cons.prems(2) by simp
    from Cons.IH [OF f(3) this f(4)] show ?thesis using Some s f(1,2) by (auto simp: add.assoc)
  qed
qed simp

end

section \<open>When the logger stops\<close>

text \<open>C23: when logging returns. At the level INFO or below, the message that makes the file exceed its maximum size
  never returns: the rotation it starts logs a message of its own and waits for the mutex its caller holds. At
  WARN and ERROR every message returns.\<close>

theorem logger_blocks:
  assumes "log_files lib" "file_logger lib l w n" "steady l ms"
  shows "log_all lib ms (l, w) = None \<longleftrightarrow>
    lg_level l \<le> INFO \<and> ms \<noteq> [] \<and> n + (\<Sum>m\<leftarrow>ms. msg_size lib l m) > lg_maxSize l"
  using log_files.run_blocks [OF assms(1,2) _ assms(3)] quiet_run_returns [of l lib ms w] by (cases "lg_level l \<le> INFO") auto

section \<open>In memory\<close>

definition mem_log :: "mem_fs log_lib" where
  "mem_log = \<lparr>ll_os = mem_os, ll_time = (\<lambda>t. ''2026-01-01 00:00:00''),
     ll_open = (\<lambda>p w. (True, case files w p of None \<Rightarrow> w\<lparr>files := (files w)(p \<mapsto> '''')\<rparr> | Some _ \<Rightarrow> w)),
     ll_append = (\<lambda>p c w. case files w p of None \<Rightarrow> w | Some old \<Rightarrow> w\<lparr>files := (files w)(p \<mapsto> old @ c)\<rparr>),
     ll_size = (\<lambda>p w. map_option (\<lambda>c. int (length c)) (files w p)), ll_stdout = (\<lambda>c w. w), ll_dial = (\<lambda>w. False),
     ll_syslog = (\<lambda>lv c w. w)\<rparr>"

interpretation mem_log_files: log_files mem_log
  by unfold_locales (auto simp: mem_log_def)

definition full_logger :: "log_level \<Rightarrow> logger" where
  "full_logger lv = \<lparr>lg_level = lv, lg_file = True, lg_filePath = ''/var/log/resman.log'', lg_maxSize = 100, lg_output = ToFile,
     lg_lastRotation = 0, lg_useSyslog = False, lg_fields = []\<rparr>"

definition three_messages :: "log_msg list" where
  "three_messages = map (\<lambda>k. \<lparr>lm_now = k * 30 * second, lm_level = WARN, lm_text = ''No users'', lm_keyvals = []\<rparr>) [1, 2, 3]"

lemma logger_blocks_witness:
  "log_all mem_log three_messages (full_logger INFO, \<lparr>files = [''/var/log/resman.log'' \<mapsto> ''''], dirs = []\<rparr>) = None \<and>
   log_all mem_log three_messages (full_logger WARN, \<lparr>files = [''/var/log/resman.log'' \<mapsto> ''''], dirs = []\<rparr>) \<noteq> None"
proof -
  let ?w = "\<lparr>files = [''/var/log/resman.log'' \<mapsto> ''''], dirs = []\<rparr>"
  have f: "file_logger mem_log (full_logger lv) ?w 0" for lv by (simp add: file_logger_def full_logger_def mem_log_def)
  have s: "steady (full_logger INFO) three_messages" "steady (full_logger WARN) three_messages" by code_simp+
  have n: "(\<Sum>m\<leftarrow>three_messages. msg_size mem_log (full_logger INFO) m) > 100" by code_simp
  have m: "lg_maxSize (full_logger lv) = 100" "lg_level (full_logger lv) = lv" "three_messages \<noteq> []" for lv
    by (simp_all add: full_logger_def three_messages_def)
  have "\<not> WARN \<le> INFO" by (simp add: less_eq_log_level_def)
  then show ?thesis
    using logger_blocks [OF mem_log_files.log_files_axioms f s(1)] logger_blocks [OF mem_log_files.log_files_axioms f s(2)] m n
    by simp
qed

end
