(* ===== verification/Spec2Isabelle.thy ===== *)
theory Spec2Isabelle
  imports RuntimeSamples LoggingProps
begin

text \<open>
  ResMan (\<open>src/\<close>) is a daemon that watches the resource usage of the users of a Linux machine and, when it is too high, moves
  their processes into a shared cgroup v2 with quotas, until the machine is quiet again. This library models the daemon as it
  is written and proves what its parts guarantee.

  \<^bold>\<open>The parts and their theories.\<close> Each component is a group of theories: the record of its state and one definition per
  function of the source, under the name of the function, in the order of the file, and then its properties.

  \<^item> \<open>Prelude\<close>, \<open>GoLib\<close>, \<open>Float64\<close>, \<open>OS\<close>: association lists for Go maps, 64-bit integers with their wrap-around, the string
    functions, \<open>strconv\<close>, IEEE 754 doubles as exact rationals rounded to nearest even, with infinities and NaN; the operating
    system as a record of operations on an abstract world (files, directories, their errors), and the locale \<open>regular_files\<close> of
    what the code expects of plain files, interpreted on an in-memory file system.
  \<^item> \<open>ConfigTypes\<close>, \<open>ConfigLoad\<close>, \<open>ConfigUse\<close> (\<open>config/config.go\<close>): the record of about 120 settings, loading from file and
    environment, validation, quotas, time frames, the user filters with their regex cache, and the writing back of the user
    lists. \<open>ConfigLoadProps\<close>, \<open>ConfigUseProps\<close>: what a loaded configuration satisfies, the arithmetic of the quotas, hours of
    blackout, the round trip of a saved list.
  \<^item> \<open>MetricsTypes\<close>, \<open>Decision\<close> (\<open>state/decision_engine.go\<close>): when the limits come into force and when they go.
    \<open>DecisionProps\<close>: the exact conditions, hysteresis, the duration windows, the stability counters over runs of decisions.
  \<^item> \<open>Cgroup\<close>, \<open>CgroupLimits\<close>, \<open>CgroupShared\<close> (package \<open>cgroup\<close>): creation of cgroups, moves of processes, CPU, memory and IO
    limits, PSI readings, the tracking file, clean-up, the shared cgroup. \<open>CgroupOps\<close>: the interface \<open>CgroupManager\<close> the state
    manager calls, as a record of operations; the locale \<open>cgroup_provider\<close> holds what every operation keeps, and the
    interpretation \<open>real\<close> proves it for the model of the package. \<open>TrackingFile\<close>, \<open>CgroupProps\<close>: the tracking file implements a
    map, the sums of \<open>io.stat\<close>, the agreement of two parsers, which processes a move places, and why a release fails.
    \<open>ProcFallback\<close>: the scans of /proc, here and in the collector, as the loops they are.
    \<open>LimitTargets\<close>: the provider on a system that remembers every write, a second interpretation (\<open>rec\<close>) of the contract, and
    what it shows of every reachable manager: no limit is ever written to the cgroups that hold the limited processes.
  \<^item> \<open>PsiWatcher\<close> (\<open>cgroup/psi_watcher.go\<close>): monitors and events; \<open>PsiPollLoop\<close>: its poll loop as a goroutine, step by step, beside
    those that add and remove monitors while it handles the descriptors it polled, with the wake pipe and \<open>Stop\<close>: an event names
    the one monitor its descriptor belongs to, no wake-up is lost, \<open>Stop\<close> ends the loop. \<open>IORemediation\<close> (\<open>state/io_remediation.go\<close>), \<open>Policy\<close>
    (\<open>state/pattern_detector.go\<close>, \<open>state/policy_engine.go\<close>), with \<open>StageProps\<close>.
  \<^item> \<open>StateManager\<close> (\<open>state/manager.go\<close>, \<open>limits_applier.go\<close>), \<open>ControlCycle\<close> (\<open>state/control_cycle.go\<close>): the
    manager, polymorphic in the provider. \<open>Pipeline\<close>: the same cycle as the list of stages over their context, and that both
    are one. \<open>LimitHook\<close> (\<open>limit_hook.go\<close>): the script and the request of the hook and the deadline they share. \<open>ManagerInv\<close>, \<open>ManagerProps\<close>: its step relation \<open>mgr_step\<close>, the reachable states and
    their invariant. \<open>ManagerSpec\<close>: the abstract manager that knows only on whom limits are in force (\<open>spec_cycle\<close>), its order,
    and the refinement. \<open>Locks\<close>, \<open>ManagerLocks\<close>: threads over read-write mutexes and the locks each operation takes on every
    path; the locale \<open>lock_order\<close> says when no interleaving deadlocks, its interpretation \<open>ml\<close> covers every operation of the
    manager but \<open>GetStatus\<close>, which is shown to hang.
  \<^item> \<open>Collector\<close>, \<open>CollectorUsers\<close> (\<open>metrics/collector.go\<close>): the caches with their times to live, the sampling of processes, the
    scan of the users, the readings of /proc that replace gopsutil. \<open>CollectorProps\<close>, \<open>CollectorSums\<close>, \<open>CollectorBounds\<close>: type
    safety of the untyped cache, the scan against a direct definition over the process table, percentages within bounds.
  \<^item> \<open>Exporter\<close> (\<open>metrics/prometheus.go\<close>), \<open>ExporterProps\<close>: authentication, the series, what the counters count exactly.
    \<open>ExporterRegistry\<close>: the registered metrics, the routes, the pages, and that every series is addressed with the labels it
    was registered with.
  \<^item> \<open>Database\<close> (\<open>database/manager.go\<close>, \<open>time_parser.go\<close>, \<open>metrics/db_writer.go\<close>), \<open>DatabaseProps\<close>: the locale \<open>sqlite_store\<close> is
    what SQLite documents of the statements the code uses; retention, spacing of writes, time ranges.
  \<^item> \<open>Reload\<close> (\<open>config/watcher.go\<close>, \<open>reloader/reloader.go\<close>), \<open>ReloadProps\<close>: the outcomes of a reload, its repetition, debouncing.
  \<^item> \<open>App\<close> (\<open>main.go\<close>, \<open>internal/app\<close>): the start, the control loop, pressure events, shutdown. Here the answers the manager
    gets are computed by the collector, and the calls it emits are carried out on the exporter and the database.
  \<^item> \<open>MCP\<close>, \<open>MCPTools\<close>, \<open>MCPServer\<close> (package \<open>mcp\<close>): configuration, authentication, every tool, prompt and resource, and
    \<open>serve\<close>, their dispatch. \<open>MCPProps\<close>: what a request may change, who gets in, which figures are reported.
  \<^item> \<open>AppFrames\<close>, \<open>AppInv\<close>, \<open>AppProps\<close>: the whole program as a state machine (\<open>app_step\<close>, \<open>app_reachable\<close>), its invariant, the
    absence of panics, whom it may limit, what a shutdown leaves.
  \<^item> \<open>Lifecycle\<close> (\<open>mcp/server.go\<close>, \<open>internal/app/app_bootstrap.go\<close>, \<open>app_shutdown.go\<close>): the start and the stop of the MCP server,
    the signals, and the shutdown phase by phase, with requests that arrive in between; it ends with the \<open>shutdown\<close> of \<open>App\<close>.
  \<^item> \<open>Logging\<close> (\<open>logging/logger.go\<close>), \<open>LoggingProps\<close>: levels as a linear order, lines, rotation and the mutex of the logger; when
    a run of messages never returns. The other components' models leave their log calls out, so a daemon that waits in the
    logger is outside \<open>app_step\<close>.
  \<^item> \<open>Samples\<close>, \<open>AppSamples\<close>, \<open>ComponentSamples\<close>, \<open>RuntimeSamples\<close>: in-memory machines and concrete runs to which the theorems are applied.

  \<^bold>\<open>How the code is rendered.\<close> A function that changes an object gets its state as the last argument and returns it changed; an
  error is a value of an error type (\<open>None\<close> for nil), a panic of the program or a call that never returns is \<open>None\<close> at the
  outside of the result. Go maps are association lists with distinct keys where the code ranges over them, and partial
  functions where it only looks up; the order of a range is the order of the list, and the theorems hold for every order.
  \<open>int\<close> is unbounded where the code cannot reach the limits and wrapped (\<open>wrap64\<close>) where it can; \<open>uint64\<close> is a 64-bit word;
  a \<open>time.Duration\<close> is an integer of nanoseconds, an instant the nanoseconds since the zero time. A goroutine is a pending
  task of the manager, run by a step of its own at any later moment. Calls of the manager on the exporter and the database
  are emitted and carried out by the application at the end of the cycle, in order.

  \<^bold>\<open>Bounds and fuel.\<close> No definition runs on fuel: every loop of the code is over a finite list, or is a step relation
  (\<open>watch_turn\<close>, \<open>loop_turn\<close>, \<open>app_step\<close>, schedules of threads) whose runs the theorems quantify over. The bounds of the caches (10000, 5000, 10000
  entries) and of the history (100) are the code's.

  \<^bold>\<open>Parameters.\<close> The kernel's files, gopsutil (\<open>gopsutil\<close>), the regex library (\<open>regexp_lib\<close>), the URL parser, SQLite (\<open>sqlite\<close>),
  the JWT library, the calendar, the parsing and the formatting of instants, and the program and the endpoint of the limit hook
  (\<open>hook_lib\<close>) are arguments. Hypotheses on them are the locales named above (\<open>regular_files\<close>, \<open>sqlite_store\<close>, \<open>log_files\<close>),
  \<open>moves_pids\<close> and \<open>one_pid_per_write\<close> (what the cgroup v2 interface documents of \<open>cgroup.procs\<close>). The instants SQLite compares
  are texts; that their order is the order of the instants holds within one time zone.

  \<^bold>\<open>Not modelled.\<close> In the models of the components each operation is one step; the mutexes are modelled on their own, those of
  the manager in \<open>ManagerLocks\<close>, those that the reloader and the logger take twice as a call that never returns. The mutexes taken
  and given up inside one call of the collector, the cgroup manager, the exporter and the configuration, and the wait groups,
  are left out; so are sleeps, the log calls of the components, flags and printed hints, the text layout of the reports of the
  MCP server, HTTP and TLS themselves, the buckets of the histograms, the check of label values for valid UTF-8, the capacity
  of the wake pipe, \<open>HealthCheck\<close> and \<open>Close\<close> of the database, and the getters of the configuration that take its lock and return
  a field. The two MCP requests that set a user list are modelled but left out of \<open>app_step\<close>: they change the
  filters under the collector, whose cached verdicts then outlive the change until their time to live has passed.
\<close>

section \<open>Properties of the whole manager\<close>


text \<open>C2: the control cycle, from collection to the last stage, refines an abstract manager that knows only whether
  limits are in force and on whom. It holds for every reachable state, every answer of the collector and every
  behaviour of the operating system.\<close>

theorem cycle_refines_spec:
  assumes "reachable (real_ops rx os pl) rx c m" "tracked_ok c" "al_wf (GetAllUserMetrics mc)"
  shows "spec_cycle (m_cfg m) ck (limitsAppliedTime m) mc (abs_manager m)
     (abs_manager (snd (RunControlCycleWithTrigger (real_ops rx os pl) rx ck mc trigger m)))"
  using cycle_refines [OF real.reachable_ok [OF assms(1,2)] assms(3)] .

text \<open>A provider started without a tracking file meets the hypothesis.\<close>

definition same_store :: "'w cgroup \<Rightarrow> 'w cgroup \<Rightarrow> bool" where
  "same_store s t \<longleftrightarrow> same_tracking s t \<and> createdCgroupsFile t = createdCgroupsFile s"

lemma same_store_blocks [simp]:
  "same_store s (snd (cg_write os p v t)) = same_store s t" "same_store s (snd (cg_do f t)) = same_store s t"
  "same_store s (t\<lparr>controllersAvailable := b\<rparr>) = same_store s t" "same_store s (t\<lparr>cgroupRootWritable := b\<rparr>) = same_store s t"
  "same_store s s"
  by (simp_all add: same_store_def same_tracking_def cg_write_def cg_do_def split_beta)

lemma same_store_controller [simp]: "same_store s (snd (writeControllerIfMissing os f c t)) = same_store s t"
  by (simp add: writeControllerIfMissing_def split: sum.split)

lemma same_store_setup_blocks [simp]:
  "same_store s (snd (enableCPUControllers os t)) = same_store s t" "same_store s (snd (make_base os t)) = same_store s t"
  "same_store s (snd (enable_in_base os cs t)) = same_store s t"
  by (simp_all add: enableCPUControllers_def make_base_def enable_in_base_def Let_def split_beta split: option.split)

lemma same_store_setup: "same_store s (snd (verifyCgroupSetup os t)) = same_store s t"
  by (simp add: verifyCgroupSetup_def Let_def split_beta split: option.split sum.split)

lemma fresh_provider_tracked:
  assumes "NewCgroupManager os cfg w = (e, c)" "\<And>w. Stat os (CreatedCgroupsFile cfg) w = Some NotExist"
  shows "tracked_ok c"
proof -
  let ?s = "\<lparr>cg_cfg = cfg, createdCgroups = [], createdCgroupsFile = CreatedCgroupsFile cfg,
     controllersAvailable = False, cgroupRootWritable = False, world = w\<rparr>"
  have "same_store ?s (snd (verifyCgroupSetup os ?s))" by (simp add: same_store_setup)
  then have "same_store ?s c"
    using assms by (auto simp: NewCgroupManager_def Let_def loadExistingCgroups_def cg_stat_def IsNotExist_def same_store_def
        split: prod.splits option.splits)
  then show ?thesis by (simp add: same_store_def same_tracking_def tracked_ok_def)
qed

text \<open>C9: deactivation always completes in memory. Whatever the provider answers, afterwards nobody is limited and
  nothing is remembered of the released users.\<close>

theorem deactivation_forgets:
  "case deactivateLimits ops rx mc m of (err, m') \<Rightarrow>
     \<not> limitsActive m' \<and> activeUsers m' = [] \<and> sharedCgroupPath m' = [] \<and> limitsAppliedTime m' = zero_time \<and>
     pending m' = [] \<and> list_all (forgotten m') (activeUsers m)"
  by (rule deactivateLimits_spec)

text \<open>C15: what a successful activation limits. Nobody eligible is left out, users without metrics leave, and every
  newly limited user has its goroutine.\<close>

theorem activation_limits_all:
  assumes "activateLimits ops now mc s m = (None, m')"
  shows "set (activeUsers m') = set (activeUsers m) \<inter> set (keys (UserCPUUsage s)) \<union> set (EligibleUsers s) \<and>
    list_all (\<lambda>uid. uid \<in> set (activeUsers m) \<or> LimitTask (m_cfg m) uid (sharedCgroupPath m') \<in> set (pending m'))
      (EligibleUsers s)"
  using activation_reaches_eligible [OF assms] by (auto simp: list_all_iff)

text \<open>C17: what one pass over the users of the collector aggregates, and which byte counters it remembers for the
  next cycle.\<close>

theorem collected_metrics:
  assumes "al_wf (GetAllUserMetrics mc)" "collectSystemMetricsWithIOState True now mc m = (s, m')"
  shows "UserCPUUsage s = map (\<lambda>(uid, um). (uid, CPUUsage um)) (GetAllUserMetrics mc) \<and>
    EligibleUsers s = keys (limited_of (GetAllUserMetrics mc)) \<and>
    LimitedUsersCount s = int (length (limited_of (GetAllUserMetrics mc))) \<and>
    LimitedUsersCPUUsage s = fold (\<lambda>(uid, um) a. f64_add a (CPUUsage um)) (limited_of (GetAllUserMetrics mc)) (Fin 0) \<and>
    LimitedUsersRAMUsageBytes s = sum_list (map (\<lambda>(uid, um). MemoryUsage um) (limited_of (GetAllUserMetrics mc))) \<and>
    LimitedUsersIOWriteBytes s = sum_list (map (\<lambda>(uid, um). io_rate now (prevIOTime m) (prevIOBytes m uid) (IOWriteBytes um))
       (limited_of (GetAllUserMetrics mc))) \<and>
    prevIOBytes m' = (\<lambda>uid. case map_of (limited_of (GetAllUserMetrics mc)) uid of
       Some um \<Rightarrow> Some (IOWriteBytes um)
     | None \<Rightarrow> if uid \<in> set (keys (GetAllUserMetrics mc)) then prevIOBytes m uid else None)"
proof -
  obtain s1 prev1 where f: "fold (collect_user True now (prevIOTime m) (activeUsers m)) (GetAllUserMetrics mc)
      (new_metrics now mc, prevIOBytes m) = (s1, prev1)" by (metis surj_pair)
  have c: "s = s1\<lparr>LimitedUsersCount := int (length (EligibleUsers s1))\<rparr>"
    "m' = m\<lparr>prevIOTime := now, prevIOBytes := (\<lambda>uid. if uid \<in> set (keys (GetAllUserMetrics mc)) then prev1 uid else None)\<rparr>"
    using assms(2) by (simp_all add: collectSystemMetricsWithIOState_def f)
  have "distinct (keys (GetAllUserMetrics mc))" using assms(1) by (simp add: al_wf_def)
  note cf = collect_fold [OF f this]
  have k: "map_of (limited_of (GetAllUserMetrics mc)) uid = Some um \<Longrightarrow> uid \<in> set (keys (GetAllUserMetrics mc))" for uid um
    by (auto dest!: map_of_SomeD simp: rev_image_eqI)
  show ?thesis using cf by (auto simp: c new_metrics_def fun_eq_iff dest: k split: option.split)
qed


section \<open>The properties at work\<close>


lemma cycle_refines_spec_witness:
  "spec_cycle default_cfg noon zero_time (collector_at 95) Off
     (abs_manager (snd (RunControlCycleWithTrigger sample_ops any_regex noon (collector_at 95) ''timer'' fresh_manager)))"
proof -
  have "reachable sample_ops any_regex sample_provider fresh_manager" unfolding fresh_manager_def by (rule reachable.initial)
  from cycle_refines_spec [OF this sample_tracked sample_wf, of noon 95 "''timer''"] show ?thesis
    by (simp add: fresh_manager_def NewManager_def abs_manager_def)
qed

lemma activation_limits_all_witness:
  "\<exists>m'. activateLimits sample_ops (10 * second) (collector_at 95) busy_metrics fresh_manager = (None, m') \<and>
     set (activeUsers m') = {1000}"
proof -
  have "fst (activateLimits sample_ops (10 * second) (collector_at 95) busy_metrics fresh_manager) = None" by code_simp
  then obtain m' where m': "activateLimits sample_ops (10 * second) (collector_at 95) busy_metrics fresh_manager = (None, m')"
    by (metis prod.collapse)
  have "activeUsers fresh_manager = []" "EligibleUsers busy_metrics = [1000]"
    by (simp_all add: fresh_manager_def NewManager_def busy_metrics_def idle_metrics_def)
  with activation_limits_all [OF m'] m' show ?thesis by simp
qed

lemma collected_metrics_witness:
  "\<exists>s m'. collectSystemMetricsWithIOState True (10 * second) (collector_at 95) fresh_manager = (s, m') \<and>
     EligibleUsers s = [1000] \<and> LimitedUsersCount s = 1 \<and> LimitedUsersIOWriteBytes s = 0"
proof -
  obtain s m' where c: "collectSystemMetricsWithIOState True (10 * second) (collector_at 95) fresh_manager = (s, m')"
    by (metis surj_pair)
  from collected_metrics [OF sample_wf c] have "EligibleUsers s = [1000]" "LimitedUsersCount s = 1" "LimitedUsersIOWriteBytes s = 0"
    by (simp_all add: collector_at_def user_at_def fresh_manager_def NewManager_def io_rate_def)
  with c show ?thesis by blast
qed


end
